(* ===== verification/Prelude.thy ===== *)
theory Prelude
  imports Main "HOL-Library.Word" "HOL-Library.Char_ord" "HOL-Library.List_Lexorder"
    "HOL-Library.Monad_Syntax"
begin

text \<open>
  What every component of the model shares: Go's evaluation model (run-time panics, the
  \<open>(value, error)\<close> convention), Go maps, decimal printing, and the string functions of
  Go's standard library that the operator calls.
\<close>

named_theorems gomap_simps \<open>lookup in an updated Go map\<close>
named_theorems go_string_simps \<open>evaluation of the string helpers\<close>

section \<open>Go values\<close>

text \<open>
  A Go \<open>int\<close> is 64 bits wide on the operator's platforms, an \<open>int32\<close> 32 bits.
  A pure Go expression that can panic at run time (a nil dereference, a write to a nil map,
  an explicit \<open>panic\<close>) has type \<open>'a option\<close>: \<open>None\<close> is the panic. A nilable
  pointer is an \<open>option\<close> too; where both occur the pointer is inside.
\<close>

type_synonym goint = "64 word"
type_synonym goint32 = "32 word"

text \<open>The conversion \<open>int32(x)\<close> keeps the low 32 bits.\<close>

definition int32_of_int :: "goint \<Rightarrow> goint32" where
  "int32_of_int x = ucast x"

lemma int32_of_int_wraps:
  "sint (int32_of_int x) = (sint x + 2 ^ 31) mod 2 ^ 32 - 2 ^ 31"
  "sint (int32_of_int x) = sint x \<longleftrightarrow> - (2 ^ 31) \<le> sint x \<and> sint x < 2 ^ 31"
proof -
  have "sint (int32_of_int x) = signed_take_bit 31 (sint x)"
    by (simp add: int32_of_int_def, transfer)
      (simp add: signed_take_bit_signed_take_bit min_def signed_take_bit_take_bit)
  also have "\<dots> = (sint x + 2 ^ 31) mod 2 ^ 32 - 2 ^ 31"
    by (simp add: signed_take_bit_eq_take_bit_shift take_bit_eq_mod)
  finally show wrap: "sint (int32_of_int x) = (sint x + 2 ^ 31) mod 2 ^ 32 - 2 ^ 31" .
  show "sint (int32_of_int x) = sint x \<longleftrightarrow> - (2 ^ 31) \<le> sint x \<and> sint x < 2 ^ 31"
    using mod_pos_pos_trivial [of "sint x + 2 ^ 31" "2 ^ 32"] pos_mod_bound [of "2 ^ 32" "sint x + 2 ^ 31"]
      pos_mod_sign [of "2 ^ 32" "sint x + 2 ^ 31"]
    unfolding wrap by auto
qed

section \<open>Go maps\<close>

text \<open>
  A Go map is a nilable reference to a finite set of entries. The entries are kept as an
  association list in strictly increasing key order, so that equal maps are equal values;
  Go leaves the order in which \<open>range\<close> visits them open, and the components prove
  that the result of their loops does not depend on it. \<open>None\<close> is the nil map:
  reading it finds nothing, writing to it panics, deleting from it does nothing.
\<close>

type_synonym ('k, 'v) gomap = "('k \<times> 'v) list option"

fun ins :: "'k::linorder \<Rightarrow> 'v \<Rightarrow> ('k \<times> 'v) list \<Rightarrow> ('k \<times> 'v) list" where
  "ins k v [] = [(k, v)]"
| "ins k v ((k', v') # m) =
     (if k = k' then (k, v) # m
      else if k < k' then (k, v) # (k', v') # m
      else (k', v') # ins k v m)"

definition sorted_keys :: "('k::linorder \<times> 'v) list \<Rightarrow> bool" where
  "sorted_keys m \<longleftrightarrow> sorted_wrt (<) (map fst m)"

definition entries :: "('k, 'v) gomap \<Rightarrow> ('k \<times> 'v) list" where
  "entries m = (case m of None \<Rightarrow> [] | Some xs \<Rightarrow> xs)"

definition mlookup :: "('k, 'v) gomap \<Rightarrow> 'k \<Rightarrow> 'v option" where
  "mlookup m k = map_of (entries m) k"

text \<open>\<open>m[k]\<close> used as a value: the zero value of the type for a missing key.\<close>

definition mget :: "(string, string) gomap \<Rightarrow> string \<Rightarrow> string" where
  "mget m k = (case mlookup m k of None \<Rightarrow> '''' | Some v \<Rightarrow> v)"

definition mset :: "'k::linorder \<Rightarrow> 'v \<Rightarrow> ('k, 'v) gomap \<Rightarrow> ('k, 'v) gomap option" where
  "mset k v m = (case m of None \<Rightarrow> None | Some xs \<Rightarrow> Some (Some (ins k v xs)))"

definition mdelete :: "'k \<Rightarrow> ('k, 'v) gomap \<Rightarrow> ('k, 'v) gomap" where
  "mdelete k m = map_option (filter (\<lambda>(k', _). k' \<noteq> k)) m"

definition mlen :: "('k, 'v) gomap \<Rightarrow> nat" where
  "mlen m = length (entries m)"

text \<open>A map literal: the entries are written one after the other.\<close>

definition mlit :: "('k::linorder \<times> 'v) list \<Rightarrow> ('k, 'v) gomap" where
  "mlit kvs = Some (fold (\<lambda>(k, v). ins k v) kvs [])"

definition wf_map :: "('k::linorder, 'v) gomap \<Rightarrow> bool" where
  "wf_map m \<longleftrightarrow> sorted_keys (entries m)"

lemma map_of_ins [simp]: "map_of (ins k v m) = (map_of m)(k \<mapsto> v)"
  by (induction m) (auto simp: fun_eq_iff)

lemma dom_entries: "fst ` set m = dom (map_of m)"
  by (simp add: dom_map_of_conv_image_fst)

lemma fst_set_ins: "fst ` set (ins k v m) = insert k (fst ` set m)"
  by (simp add: dom_entries)

lemma set_ins: "e \<in> set (ins k v m) \<Longrightarrow> e = (k, v) \<or> e \<in> set m"
  by (induction m) (auto split: if_splits)

lemma sorted_keys_Nil [simp]: "sorted_keys []"
  by (simp add: sorted_keys_def)

lemma sorted_keys_Cons:
  "sorted_keys ((k, v) # m) \<longleftrightarrow> (\<forall>k' \<in> fst ` set m. k < k') \<and> sorted_keys m"
  by (auto simp: sorted_keys_def)

lemma sorted_keys_ins: "sorted_keys m \<Longrightarrow> sorted_keys (ins k v m)"
proof (induction m)
  case (Cons e m)
  obtain k' v' where e: "e = (k', v')" by (cases e)
  consider "k = k'" | "k < k'" | "k' < k" by fastforce
  then show ?case
  proof cases
    case 2
    then show ?thesis using Cons.prems e by (fastforce simp: sorted_keys_Cons)
  next
    case 3
    then show ?thesis
      using Cons e by (auto simp: sorted_keys_Cons fst_set_ins simp del: image_iff)
  qed (use Cons e in \<open>simp add: sorted_keys_Cons\<close>)
qed (simp add: sorted_keys_Cons)

lemma sorted_keys_filter: "sorted_keys m \<Longrightarrow> sorted_keys (filter P m)"
  by (induction m) (auto simp: sorted_keys_Cons)

lemma sorted_keys_distinct: "sorted_keys m \<Longrightarrow> distinct (map fst m)"
  by (induction m) (force simp: sorted_keys_Cons)+

lemma map_of_filter_key: "map_of (filter (\<lambda>(k', _). k' \<noteq> k) m) = (map_of m)(k := None)"
  by (induction m) (auto simp: fun_eq_iff)

text \<open>Canonical form: maps with sorted keys are equal when they look up equal.\<close>

lemma map_of_least_key:
  assumes "sorted_keys ((k, v) # m)"
  shows "map_of m k = None"
  using assms by (auto simp: sorted_keys_Cons map_of_eq_None_iff)

lemma sorted_keys_head:
  assumes "sorted_keys ((k, v) # m)" "sorted_keys ((k', v') # m')"
    and "map_of ((k, v) # m) = map_of ((k', v') # m')"
  shows "k = k' \<and> v = v'"
proof -
  have "dom (map_of ((k, v) # m)) = dom (map_of ((k', v') # m'))"
    using assms(3) by (rule arg_cong)
  then have "insert k (fst ` set m) = insert k' (fst ` set m')"
    by (simp only: dom_entries [symmetric]) simp
  moreover have "\<forall>x \<in> fst ` set m. k < x" "\<forall>x \<in> fst ` set m'. k' < x"
    using assms(1,2) by (simp_all add: sorted_keys_Cons)
  ultimately have kk: "k = k'" by (metis insertCI insertE less_asym)
  then show ?thesis using fun_cong [OF assms(3), of k] by simp
qed

lemma sorted_keys_ext:
  "sorted_keys m \<Longrightarrow> sorted_keys n \<Longrightarrow> map_of m = map_of n \<Longrightarrow> m = n"
proof (induction m arbitrary: n)
  case Nil
  then show ?case by simp
next
  case (Cons e m)
  obtain k v where e: "e = (k, v)" by (cases e)
  have "map_of n k = Some v" unfolding Cons.prems(3) [symmetric] e by simp
  then obtain k' v' n' where n: "n = (k', v') # n'" by (cases n) auto
  have kv: "k' = k" "v' = v"
    using sorted_keys_head [OF Cons.prems [unfolded e n]] by blast+
  have "map_of m = map_of n'"
  proof
    fix x
    have "map_of m k = None" "map_of n' k = None"
      using map_of_least_key [OF Cons.prems(1) [unfolded e]]
        map_of_least_key [OF Cons.prems(2) [unfolded n]] kv by simp_all
    moreover have "x \<noteq> k \<Longrightarrow> map_of m x = map_of n' x"
      using fun_cong [OF Cons.prems(3) [unfolded e n kv], of x] by simp
    ultimately show "map_of m x = map_of n' x" by (cases "x = k") simp_all
  qed
  moreover have "sorted_keys m" "sorted_keys n'"
    using Cons.prems(1,2) e n by (simp_all add: sorted_keys_Cons)
  ultimately have "m = n'" using Cons.IH [of n'] by blast
  then show ?case using e n kv by simp
qed

lemma ins_same:
  "sorted_keys m \<Longrightarrow> map_of m k = Some v \<Longrightarrow> ins k v m = m"
  by (rule sorted_keys_ext) (auto simp: sorted_keys_ins fun_eq_iff)

lemma ins_commute:
  assumes "sorted_keys m" "k \<noteq> k'"
  shows "ins k v (ins k' v' m) = ins k' v' (ins k v m)"
  using assms by (intro sorted_keys_ext) (auto simp: sorted_keys_ins fun_eq_iff)

lemma ins_not_Nil [simp]: "ins k v m \<noteq> []"
  by (cases m rule: list.exhaust) (auto split: if_splits)

lemma mlookup_None [gomap_simps, simp]: "mlookup None k = None"
  by (simp add: mlookup_def entries_def)

lemma mlookup_Some [gomap_simps]: "mlookup (Some xs) k = map_of xs k"
  by (simp add: mlookup_def entries_def)

lemma entries_simps [simp]: "entries None = []" "entries (Some xs) = xs"
  by (simp_all add: entries_def)

lemma mset_simps [simp]: "mset k v None = None" "mset k v (Some xs) = Some (Some (ins k v xs))"
  by (simp_all add: mset_def)

lemma mset_eq_None [simp]: "mset k v m = None \<longleftrightarrow> m = None"
  by (cases m) auto

lemma mset_eq_Some: "mset k v m = Some m' \<longleftrightarrow> (\<exists>xs. m = Some xs \<and> m' = Some (ins k v xs))"
  by (cases m) auto

lemma mlookup_mset:
  "mset k v m = Some m' \<Longrightarrow> mlookup m' = (mlookup m)(k \<mapsto> v)"
  by (cases m) (auto simp: mlookup_def fun_eq_iff)

lemma mlookup_mdelete [gomap_simps]: "mlookup (mdelete k m) = (mlookup m)(k := None)"
  by (cases m) (auto simp: mdelete_def mlookup_def fun_eq_iff map_of_filter_key)

lemma wf_map_simps [simp]: "wf_map None" "wf_map (Some xs) \<longleftrightarrow> sorted_keys xs"
  by (simp_all add: wf_map_def)

lemma wf_map_mset: "wf_map m \<Longrightarrow> mset k v m = Some m' \<Longrightarrow> wf_map m'"
  by (cases m) (auto simp: sorted_keys_ins)

lemma wf_map_mdelete: "wf_map m \<Longrightarrow> wf_map (mdelete k m)"
  by (cases m) (auto simp: mdelete_def sorted_keys_filter)

lemma mset_same: "wf_map m \<Longrightarrow> mlookup m k = Some v \<Longrightarrow> mset k v m = Some m"
  by (cases m) (auto simp: mlookup_def ins_same)

lemma mset_sameD: "wf_map m \<Longrightarrow> mlookup m k = Some v \<Longrightarrow> mset k v m = Some m' \<Longrightarrow> m' = m"
  by (simp add: mset_same)

lemma sorted_keys_fold_ins:
  "sorted_keys m \<Longrightarrow> sorted_keys (fold (\<lambda>(k, v). ins k v) kvs m)"
  by (induction kvs arbitrary: m) (auto simp: sorted_keys_ins)

lemma wf_map_mlit [simp]: "wf_map (mlit kvs)"
  by (simp add: mlit_def sorted_keys_fold_ins)

lemma mlit_not_nil [simp]: "mlit kvs \<noteq> None" "mlit kvs = Some xs \<longleftrightarrow> xs = fold (\<lambda>(k, v). ins k v) kvs []"
  by (auto simp: mlit_def)

lemma map_of_fold_ins: "map_of (fold (\<lambda>(k, v). ins k v) kvs m) = map_of m ++ map_of (rev kvs)"
  by (induction kvs arbitrary: m) (auto simp: fun_eq_iff map_add_def split: option.splits)

lemma mlookup_mlit [gomap_simps]: "mlookup (mlit kvs) = map_of (rev kvs)"
  by (simp add: mlit_def mlookup_def map_of_fold_ins fun_eq_iff)

section \<open>Decimal printing: \<open>strconv.Itoa\<close> and \<open>%d\<close>\<close>

definition digit_char :: "nat \<Rightarrow> char" where
  "digit_char d = char_of (48 + d)"

fun digits :: "nat \<Rightarrow> string" where
  "digits n = (if n < 10 then [digit_char n] else digits (n div 10) @ [digit_char (n mod 10)])"

declare digits.simps [simp del]

definition itoa :: "int \<Rightarrow> string" where
  "itoa i = (if i < 0 then CHR ''-'' # digits (nat (- i)) else digits (nat i))"

definition char_digit :: "char \<Rightarrow> nat" where
  "char_digit c = of_char c - 48"

definition undigits :: "string \<Rightarrow> nat" where
  "undigits s = foldl (\<lambda>n c. 10 * n + char_digit c) 0 s"

lemma of_char_digit: "d < 10 \<Longrightarrow> of_char (digit_char d) = 48 + d"
  by (simp add: digit_char_def)

lemma char_digit_digit: "d < 10 \<Longrightarrow> char_digit (digit_char d) = d"
  by (simp add: char_digit_def of_char_digit)

lemma undigits_digits [simp]: "undigits (digits n) = n"
proof (induction n rule: digits.induct)
  case (1 n)
  then show ?case
    by (subst digits.simps) (auto simp: undigits_def char_digit_digit)
qed

lemma digits_inj: "digits m = digits n \<longleftrightarrow> m = n"
  by (metis undigits_digits)

lemma digits_not_Nil [simp]: "digits n \<noteq> []"
  by (subst digits.simps) simp

lemma digits_are_digits: "c \<in> set (digits n) \<Longrightarrow> \<exists>d < 10. c = digit_char d"
proof (induction n arbitrary: c rule: digits.induct)
  case (1 n)
  show ?case
  proof (cases "n < 10")
    case True
    with "1.prems" show ?thesis by (auto simp: digits.simps [of n])
  next
    case False
    with "1.prems" consider "c \<in> set (digits (n div 10))" | "c = digit_char (n mod 10)"
      by (auto simp: digits.simps [of n])
    then show ?thesis
    proof cases
      case 1
      with "1.IH" False show ?thesis by blast
    next
      case 2
      then show ?thesis by (intro exI [of _ "n mod 10"]) simp
    qed
  qed
qed

lemma digit_char_neq: "d < 10 \<Longrightarrow> of_char c < (48::nat) \<or> 57 < (of_char c :: nat) \<Longrightarrow> digit_char d \<noteq> c"
  using of_char_digit by fastforce

lemma itoa_nonneg: "0 \<le> i \<Longrightarrow> itoa i = digits (nat i)"
  by (simp add: itoa_def)

lemma minus_not_digit: "CHR ''-'' \<notin> set (digits n)"
  using digits_are_digits digit_char_neq [of _ "CHR ''-''"] by fastforce

lemma itoa_inj: "itoa i = itoa j \<longleftrightarrow> i = j"
proof -
  have "hd (digits n) \<noteq> CHR ''-''" for n
    using minus_not_digit [of n] hd_in_set [of "digits n"] by (metis digits_not_Nil)
  then show ?thesis
    by (auto simp: itoa_def digits_inj) (metis list.sel(1))+
qed

section \<open>Strings\<close>

text \<open>
  A Go string is its bytes. \<open>strings.ToUpper\<close> and \<open>strings.ToLower\<close> are modelled on
  ASCII, which leaves the other bytes alone; the operator applies them to DNS realm names
  and to a mode word.
\<close>

definition upper_char :: "char \<Rightarrow> char" where
  "upper_char c = (let n = of_char c :: nat in if 97 \<le> n \<and> n \<le> 122 then char_of (n - 32) else c)"

text \<open>The same on the bits of a character, for evaluation.\<close>

lemma upper_char_code [code]:
  "upper_char (Char b0 b1 b2 b3 b4 b5 b6 b7) =
     (if b5 \<and> b6 \<and> \<not> b7 \<and> (b0 \<or> b1 \<or> b2 \<or> b3 \<or> b4) \<and> \<not> (b3 \<and> b4 \<and> (b2 \<or> b0 \<and> b1))
      then Char b0 b1 b2 b3 b4 False b6 b7 else Char b0 b1 b2 b3 b4 b5 b6 b7)"
  by (cases b0; cases b1; cases b2; cases b3; cases b4; cases b5; cases b6; cases b7)
    (simp_all add: upper_char_def char_of_def bit_simps)

definition lower_char :: "char \<Rightarrow> char" where
  "lower_char c = (let n = of_char c :: nat in if 65 \<le> n \<and> n \<le> 90 then char_of (n + 32) else c)"

definition toUpper :: "string \<Rightarrow> string" where
  "toUpper s = map upper_char s"

definition toLower :: "string \<Rightarrow> string" where
  "toLower s = map lower_char s"

lemma upper_char_idem [simp]: "upper_char (upper_char c) = upper_char c"
  by (simp add: upper_char_def Let_def) (auto simp: of_char_of)

lemma toUpper_idem [simp]: "toUpper (toUpper s) = toUpper s"
  by (simp add: toUpper_def)

lemma upper_char_range: "\<not> (97 \<le> (of_char (upper_char c) :: nat) \<and> (of_char (upper_char c) :: nat) \<le> 122)"
  by (auto simp: upper_char_def Let_def of_char_of)

lemma toUpper_no_lower: "c \<in> set (toUpper s) \<Longrightarrow> \<not> (97 \<le> (of_char c :: nat) \<and> of_char c \<le> (122::nat))"
  using upper_char_range by (auto simp: toUpper_def)

fun join :: "string \<Rightarrow> string list \<Rightarrow> string" where
  "join sep [] = []"
| "join sep [s] = s"
| "join sep (s # ss) = s @ sep @ join sep ss"

text \<open>\<open>strings.SplitN(s, c, 2)\<close> for a one-byte separator.\<close>

definition splitN2 :: "char \<Rightarrow> string \<Rightarrow> string list" where
  "splitN2 c s = (case dropWhile (\<lambda>x. x \<noteq> c) s of
       [] \<Rightarrow> [s]
     | _ # rest \<Rightarrow> [takeWhile (\<lambda>x. x \<noteq> c) s, rest])"

fun hasPrefix :: "string \<Rightarrow> string \<Rightarrow> bool" where
  "hasPrefix s [] = True"
| "hasPrefix [] (_ # _) = False"
| "hasPrefix (c # s) (p # ps) = (c = p \<and> hasPrefix s ps)"

fun contains :: "string \<Rightarrow> string \<Rightarrow> bool" where
  "contains [] p = (p = [])"
| "contains (c # s) p = (hasPrefix (c # s) p \<or> contains s p)"

lemma hasPrefix_iff: "hasPrefix s p \<longleftrightarrow> (\<exists>t. s = p @ t)"
  by (induction s p rule: hasPrefix.induct) auto

lemma contains_iff: "contains s p \<longleftrightarrow> (\<exists>u t. s = u @ p @ t)"
proof (induction s)
  case (Cons c s)
  have "(\<exists>u t. c # s = u @ p @ t) \<longleftrightarrow> (\<exists>t. c # s = p @ t) \<or> (\<exists>u t. s = u @ p @ t)"
    by (metis append_Cons append_Nil list.exhaust list.inject)
  then show ?case using Cons by (simp add: hasPrefix_iff)
qed auto

lemma splitN2_hd: "hd (splitN2 c s) = takeWhile (\<lambda>x. x \<noteq> c) s"
  by (auto simp: splitN2_def dropWhile_eq_Nil_conv takeWhile_eq_all_conv [THEN iffD2] split: list.splits)

end
