(* ===== verification/Api.thy ===== *)
theory Api
  imports Prelude
begin

text \<open>
  The custom resources of \<open>api/v1alpha1\<close> and the parts of the Kubernetes object header
  that the operator reads or writes. Every struct is a record with the fields of the Go
  struct, each prefixed by the struct's initials; a Go pointer is an \<open>option\<close>. Of
  corev1's \<open>Affinity\<close> and \<open>PersistentVolumeClaimSpec\<close>, which the operator passes on,
  the parts it never looks at are kept as one opaque text each.
\<close>

section \<open>Object metadata\<close>

record OwnerReference =
  or_APIVersion :: string
  or_Kind :: string
  or_Name :: string
  or_UID :: string
  or_Controller :: "bool option"
  or_BlockOwnerDeletion :: "bool option"

record NamespacedName =
  nn_Namespace :: string
  nn_Name :: string

text \<open>
  \<open>TypeMeta\<close> and \<open>ObjectMeta\<close> together. Of the deletion timestamp only its presence is
  ever read.
\<close>

record ObjectMeta =
  m_APIVersion :: string
  m_Kind :: string
  m_Name :: string
  m_Namespace :: string
  m_UID :: string
  m_Labels :: "(string, string) gomap"
  m_Annotations :: "(string, string) gomap"
  m_OwnerReferences :: "OwnerReference list"
  m_Finalizers :: "string list"
  m_DeletionTimestamp :: "nat option"

text \<open>An object literal sets the name and the namespace; the rest has its zero value.\<close>

definition new_meta :: "string \<Rightarrow> string \<Rightarrow> ObjectMeta" where
  "new_meta name ns =
     \<lparr>m_APIVersion = '''', m_Kind = '''', m_Name = name, m_Namespace = ns, m_UID = '''',
      m_Labels = None, m_Annotations = None, m_OwnerReferences = [], m_Finalizers = [],
      m_DeletionTimestamp = None\<rparr>"

definition nsname_of :: "ObjectMeta \<Rightarrow> NamespacedName" where
  "nsname_of m = \<lparr>nn_Namespace = m_Namespace m, nn_Name = m_Name m\<rparr>"

lemma new_meta_simps [simp]:
  "m_Name (new_meta n ns) = n" "m_Namespace (new_meta n ns) = ns"
  "m_OwnerReferences (new_meta n ns) = []" "m_Finalizers (new_meta n ns) = []"
  "m_DeletionTimestamp (new_meta n ns) = None" "m_UID (new_meta n ns) = ''''"
  "m_Labels (new_meta n ns) = None" "m_Annotations (new_meta n ns) = None"
  by (simp_all add: new_meta_def)

section \<open>Embedded corev1 specs\<close>

record PodAffinityTerm =
  pat_TopologyKey :: string
  pat_Key :: string
  pat_Operator :: string
  pat_Values :: "string list"

record PodAntiAffinity =
  paa_Required :: "PodAffinityTerm list"
  paa_other :: string

record Affinity =
  aff_PodAntiAffinity :: "PodAntiAffinity option"
  aff_other :: string

record PersistentVolumeClaimSpec =
  pvcs_AccessModes :: "string list"
  pvcs_Requests :: "(string, string) gomap"
  pvcs_other :: string

section \<open>\<open>SmbCommonConfig\<close>\<close>

record SmbCommonNetworkSpec =
  cn_Publish :: string

record SmbCommonConfigPodSettings =
  ps_NodeSelector :: "(string, string) gomap"
  ps_Affinity :: "Affinity option"

record SmbCommonConfigGlobalConfig =
  cg_UseUnsafeCustomConfig :: bool
  cg_Configs :: "(string, string) gomap"

record SmbCommonConfigSpec =
  cc_Network :: SmbCommonNetworkSpec
  cc_PodSettings :: "SmbCommonConfigPodSettings option"
  cc_CustomGlobalConfig :: "SmbCommonConfigGlobalConfig option"

record SmbCommonConfig =
  scc_meta :: ObjectMeta
  scc_Spec :: SmbCommonConfigSpec

section \<open>\<open>SmbSecurityConfig\<close>\<close>

record SmbSecurityUsersSpec =
  su_Secret :: string
  su_Key :: string

record SmbSecurityUserJoinSpec =
  uj_Secret :: string
  uj_Key :: string

record SmbSecurityJoinSpec =
  sj_UserJoin :: "SmbSecurityUserJoinSpec option"

record SmbSecurityDomainSpec =
  sd_Name :: string
  sd_Backend :: string

record SmbSecurityDNSSpec =
  dns_Register :: string

record SmbSecurityConfigSpec =
  sec_Mode :: string
  sec_Users :: "SmbSecurityUsersSpec option"
  sec_Realm :: string
  sec_JoinSources :: "SmbSecurityJoinSpec list"
  sec_Domains :: "SmbSecurityDomainSpec list"
  sec_DNS :: "SmbSecurityDNSSpec option"

record SmbSecurityConfig =
  ssc_meta :: ObjectMeta
  ssc_Spec :: SmbSecurityConfigSpec

section \<open>\<open>SmbShare\<close>\<close>

record SmbSharePvcSpec =
  pvc_Name :: string
  pvc_Spec :: "PersistentVolumeClaimSpec option"
  pvc_Path :: string

record SmbShareStorageSpec =
  st_Pvc :: "SmbSharePvcSpec option"

record SmbShareConfig =
  shc_UseUnsafeCustomConfig :: bool
  shc_Configs :: "(string, string) gomap"

record SmbShareScalingSpec =
  scal_AvailabilityMode :: string
  scal_MinClusterSize :: goint
  scal_Group :: string
  scal_GroupMode :: string

record SmbShareSpec =
  sp_ShareName :: string
  sp_Storage :: SmbShareStorageSpec
  sp_ReadOnly :: bool
  sp_Browseable :: bool
  sp_SecurityConfig :: string
  sp_CommonConfig :: string
  sp_CustomShareConfig :: "SmbShareConfig option"
  sp_Scaling :: "SmbShareScalingSpec option"

record SmbShareStatus =
  sst_ServerGroup :: string

record SmbShare =
  sh_meta :: ObjectMeta
  sh_Spec :: SmbShareSpec
  sh_Status :: SmbShareStatus

section \<open>The API group\<close>

record GroupVersion =
  gv_Group :: string
  gv_Version :: string

record GroupVersionKind =
  gvk_Group :: string
  gvk_Version :: string
  gvk_Kind :: string

definition api_GroupVersion :: GroupVersion where
  "api_GroupVersion = \<lparr>gv_Group = ''samba-operator.samba.org'', gv_Version = ''v1alpha1''\<rparr>"

end
