(* ===== verification/Conf.thy ===== *)
theory Conf
  imports Prelude
begin

text \<open>
  The operator's own configuration, \<open>internal/conf\<close>: the struct, its defaults and the
  validation that \<open>main\<close> runs on the loaded configuration. How it is read is in
  \<open>ConfSource\<close>.
\<close>

definition ClusterTypeDefault :: string where
  "ClusterTypeDefault = ''default''"

definition ClusterTypeOpenShift :: string where
  "ClusterTypeOpenShift = ''openshift''"

record OperatorConfig =
  oc_SmbdContainerImage :: string
  oc_SmbdMetricsContainerImage :: string
  oc_SvcWatchContainerImage :: string
  oc_SmbdContainerName :: string
  oc_WinbindContainerName :: string
  oc_WorkingNamespace :: string
  oc_SambaDebugLevel :: string
  oc_StatePVCSize :: string
  oc_ClusterSupport :: string
  oc_SmbServicePort :: goint
  oc_SmbdPort :: goint
  oc_ServiceAccountName :: string
  oc_MetricsExporterMode :: string
  oc_PodName :: string
  oc_PodNamespace :: string
  oc_PodIP :: string
  oc_ImagePullPolicy :: string
  oc_DefaultNodeSelector :: string
  oc_ClusterType :: string

definition DefaultOperatorConfig :: OperatorConfig where
  "DefaultOperatorConfig =
     \<lparr>oc_SmbdContainerImage = ''quay.io/samba.org/samba-server:latest'',
      oc_SmbdMetricsContainerImage = ''quay.io/samba.org/samba-metrics:latest'',
      oc_SvcWatchContainerImage = ''quay.io/samba.org/svcwatch:latest'',
      oc_SmbdContainerName = ''samba'',
      oc_WinbindContainerName = ''wb'',
      oc_WorkingNamespace = '''',
      oc_SambaDebugLevel = '''',
      oc_StatePVCSize = ''1Gi'',
      oc_ClusterSupport = '''',
      oc_SmbServicePort = 445,
      oc_SmbdPort = 445,
      oc_ServiceAccountName = '''',
      oc_MetricsExporterMode = ''disabled'',
      oc_PodName = '''',
      oc_PodNamespace = '''',
      oc_PodIP = '''',
      oc_ImagePullPolicy = ''IfNotPresent'',
      oc_DefaultNodeSelector = '''',
      oc_ClusterType = ''''\<rparr>"

datatype conf_error =
    WorkingNamespaceInvalid string
  | SmbPortInvalid goint

text \<open>\<open>Validate\<close>: the first failing check decides; \<open>None\<close> is the nil error.\<close>

definition Validate :: "OperatorConfig \<Rightarrow> conf_error option" where
  "Validate oc =
     (if oc_WorkingNamespace oc = '''' then
        Some (WorkingNamespaceInvalid (oc_WorkingNamespace oc))
      else if sint (oc_SmbServicePort oc) \<le> 0 then
        Some (SmbPortInvalid (oc_SmbServicePort oc))
      else if sint (oc_SmbdPort oc) \<le> 0 then
        Some (SmbPortInvalid (oc_SmbdPort oc))
      else None)"

lemma Validate_ok:
  "Validate oc = None \<longleftrightarrow>
     oc_WorkingNamespace oc \<noteq> '''' \<and> 0 < sint (oc_SmbServicePort oc) \<and> 0 < sint (oc_SmbdPort oc)"
  by (auto simp: Validate_def)

text \<open>The defaults alone do not validate: the working namespace must be passed in.\<close>

lemma Validate_default:
  "Validate DefaultOperatorConfig = Some (WorkingNamespaceInvalid '''')"
  "ns \<noteq> '''' \<Longrightarrow> Validate (DefaultOperatorConfig\<lparr>oc_WorkingNamespace := ns\<rparr>) = None"
  by (simp_all add: Validate_def DefaultOperatorConfig_def)

end
