(* ===== verification/SmbCC.thy ===== *)
theory SmbCC
  imports Prelude
begin

text \<open>
  The configuration document that the samba containers read, \<open>internal/smbcc\<close>: its
  structs and the constructors of their default values. \<open>uint\<close> fields are 64-bit words.
  A slice is a list; where a nil slice is told from an empty one (the values of the users
  and groups maps, which JSON writes as \<open>null\<close>) it is an \<open>option\<close> of a list.
\<close>

type_synonym smb_key = string
type_synonym SmbOptions = "(string, string) gomap"

definition DefaultSmbPort :: goint where
  "DefaultSmbPort = 445"

definition CTDB_feature :: string where
  "CTDB_feature = ''ctdb''"

definition Globals_key :: smb_key where
  "Globals_key = ''globals''"

definition AllEntriesKey :: smb_key where
  "AllEntriesKey = ''all_entries''"

definition BrowseableParam :: string where
  "BrowseableParam = ''browseable''"

definition ReadOnlyParam :: string where
  "ReadOnlyParam = ''read only''"

definition Yes :: string where
  "Yes = ''yes''"

definition No :: string where
  "No = ''no''"

definition version0 :: string where
  "version0 = ''v0''"

record GlobalOptions =
  go_AddVFSFileid :: bool
  go_SmbPort :: goint

record PermissionsConfig =
  pc_Method :: string
  pc_StatusXAttr :: string
  pc_Mode :: string

record ConfigSection =
  cs_Shares :: "smb_key list"
  cs_Globals :: "smb_key list"
  cs_InstanceName :: string
  cs_InstanceFeatures :: "string list"
  cs_Permissions :: PermissionsConfig

record ShareConfig =
  sc_Options :: SmbOptions

record GlobalConfig =
  gc_Options :: SmbOptions

record UserEntry =
  ue_Name :: string
  ue_Uid :: goint
  ue_Gid :: goint
  ue_NTHash :: string
  ue_Password :: string

record GroupEntry =
  ge_Name :: string
  ge_Gid :: goint

record SambaContainerConfig =
  c_SCCVersion :: string
  c_Configs :: "(smb_key, ConfigSection) gomap"
  c_Shares :: "(smb_key, ShareConfig) gomap"
  c_Globals :: "(smb_key, GlobalConfig) gomap"
  c_Users :: "(smb_key, UserEntry list option) gomap"
  c_Groups :: "(smb_key, GroupEntry list option) gomap"

definition NewGlobalOptions :: GlobalOptions where
  "NewGlobalOptions = \<lparr>go_AddVFSFileid = True, go_SmbPort = DefaultSmbPort\<rparr>"

definition smbcc_New :: SambaContainerConfig where
  "smbcc_New = \<lparr>c_SCCVersion = version0, c_Configs = mlit [], c_Shares = mlit [],
     c_Globals = mlit [], c_Users = None, c_Groups = None\<rparr>"

text \<open>
  \<open>NewGlobals\<close>: the map literal never has the key \<open>vfs objects\<close>, but the code asks,
  and so does the model.
\<close>

definition NewGlobals :: "GlobalOptions \<Rightarrow> GlobalConfig" where
  "NewGlobals opts =
     (let base = [(''load printers'', No), (''printing'', ''bsd''),
                  (''printcap name'', ''/dev/null''), (''disable spoolss'', Yes),
                  (''dos charset'', ''ascii''), (''smb ports'', itoa (sint (go_SmbPort opts)))];
          cfg = fold (\<lambda>(k, v). ins k v) base [];
          cfg' = (if go_AddVFSFileid opts then
                    ins ''fileid:algorithm'' ''fsid''
                      (case map_of cfg ''vfs objects'' of
                         Some v \<Rightarrow> ins ''vfs objects'' (v @ '' fileid'') cfg
                       | None \<Rightarrow> ins ''vfs objects'' ''fileid'' cfg)
                  else cfg)
      in \<lparr>gc_Options = Some cfg'\<rparr>)"

definition NewSimpleShare :: "string \<Rightarrow> ShareConfig" where
  "NewSimpleShare path = \<lparr>sc_Options = mlit [(''path'', path), (''read only'', No)]\<rparr>"

definition NewPermissionsConfig :: PermissionsConfig where
  "NewPermissionsConfig = \<lparr>pc_Method = ''initialize-share-perms'',
     pc_StatusXAttr = ''user.share-perms-status'', pc_Mode = ''0777''\<rparr>"

definition NewConfigSection :: "string \<Rightarrow> ConfigSection" where
  "NewConfigSection name = \<lparr>cs_Shares = [], cs_Globals = [], cs_InstanceName = name,
     cs_InstanceFeatures = [], cs_Permissions = \<lparr>pc_Method = '''', pc_StatusXAttr = '''', pc_Mode = ''''\<rparr>\<rparr>"

definition NewDefaultUsers :: "(smb_key, UserEntry list option) gomap" where
  "NewDefaultUsers = mlit [(AllEntriesKey,
     Some [\<lparr>ue_Name = ''sambauser'', ue_Uid = 0, ue_Gid = 0, ue_NTHash = '''', ue_Password = ''samba''\<rparr>])]"

section \<open>Well-formed documents\<close>

text \<open>
  What every document the operator builds satisfies: the three maps that the planner
  writes to are there, the option maps of every share and of every globals section are
  there, and all maps are in canonical form.
\<close>

definition wf_opts :: "SmbOptions \<Rightarrow> bool" where
  "wf_opts m \<longleftrightarrow> m \<noteq> None \<and> wf_map m"

definition wf_scc :: "SambaContainerConfig \<Rightarrow> bool" where
  "wf_scc c \<longleftrightarrow>
     c_Configs c \<noteq> None \<and> wf_map (c_Configs c) \<and>
     c_Shares c \<noteq> None \<and> wf_map (c_Shares c) \<and>
     c_Globals c \<noteq> None \<and> wf_map (c_Globals c) \<and>
     wf_map (c_Users c) \<and> wf_map (c_Groups c) \<and>
     (\<forall>(k, s) \<in> set (entries (c_Shares c)). wf_opts (sc_Options s)) \<and>
     (\<forall>(k, g) \<in> set (entries (c_Globals c)). wf_opts (gc_Options g))"

lemma wf_scc_New [simp]: "wf_scc smbcc_New"
  by (simp add: wf_scc_def smbcc_New_def mlit_def)

lemma wf_scc_parts:
  assumes "wf_scc c"
  obtains cs ss gs where
    "c_Configs c = Some cs" "sorted_keys cs" "c_Shares c = Some ss" "sorted_keys ss"
    "c_Globals c = Some gs" "sorted_keys gs" "wf_map (c_Users c)" "wf_map (c_Groups c)"
    "\<And>k s. (k, s) \<in> set ss \<Longrightarrow> wf_opts (sc_Options s)"
    "\<And>k g. (k, g) \<in> set gs \<Longrightarrow> wf_opts (gc_Options g)"
  using assms unfolding wf_scc_def by (cases "c_Configs c"; cases "c_Shares c"; cases "c_Globals c") (auto intro!: that)

lemma wf_scc_share:
  assumes "wf_scc c" "mlookup (c_Shares c) k = Some s"
  obtains xs where "sc_Options s = Some xs" "sorted_keys xs"
  using assms
  by (elim wf_scc_parts) (fastforce simp: mlookup_Some wf_opts_def dest!: map_of_SomeD)

lemma wf_scc_global:
  assumes "wf_scc c" "mlookup (c_Globals c) k = Some g"
  obtains xs where "gc_Options g = Some xs" "sorted_keys xs"
  using assms
  by (elim wf_scc_parts) (fastforce simp: mlookup_Some wf_opts_def dest!: map_of_SomeD)

lemma wf_scc_set_share:
  "wf_scc c \<Longrightarrow> mset k s (c_Shares c) = Some m \<Longrightarrow> wf_opts (sc_Options s) \<Longrightarrow> wf_scc (c\<lparr>c_Shares := m\<rparr>)"
  by (fastforce simp: wf_scc_def sorted_keys_ins dest!: set_ins)

lemma wf_scc_set_global:
  "wf_scc c \<Longrightarrow> mset k g (c_Globals c) = Some m \<Longrightarrow> wf_opts (gc_Options g) \<Longrightarrow> wf_scc (c\<lparr>c_Globals := m\<rparr>)"
  by (fastforce simp: wf_scc_def sorted_keys_ins dest!: set_ins)

lemma wf_scc_set_config:
  "wf_scc c \<Longrightarrow> mset k cfg (c_Configs c) = Some m \<Longrightarrow> wf_scc (c\<lparr>c_Configs := m\<rparr>)"
  by (fastforce simp: wf_scc_def sorted_keys_ins)

lemma wf_scc_delete_share: "wf_scc c \<Longrightarrow> wf_scc (c\<lparr>c_Shares := mdelete k (c_Shares c)\<rparr>)"
  by (auto simp: wf_scc_def mdelete_def sorted_keys_filter)

lemma wf_opts_NewSimpleShare [simp]: "wf_opts (sc_Options (NewSimpleShare p))"
  by (simp add: wf_opts_def NewSimpleShare_def)

lemma wf_opts_NewGlobals [simp]: "wf_opts (gc_Options (NewGlobals opts))"
  by (simp add: wf_opts_def NewGlobals_def Let_def sorted_keys_Cons)

lemma NewSimpleShare_lookup [gomap_simps]:
  "mlookup (sc_Options (NewSimpleShare p)) = [''read only'' \<mapsto> No, ''path'' \<mapsto> p]"
  by (simp add: NewSimpleShare_def mlookup_mlit fun_eq_iff)

lemma NewDefaultUsers_len: "mlen NewDefaultUsers = 1"
  by (simp add: NewDefaultUsers_def mlen_def mlit_def)

end
