(* ===== verification/GoPath.thy ===== *)
theory GoPath
  imports Prelude
begin

text \<open>
  The functions \<open>Clean\<close> and \<open>Join\<close> of Go's package \<open>path\<close>, which the planner uses for
  every path inside a container. A path is cut at its slashes; empty elements and
  \<open>.\<close> are dropped; \<open>..\<close> removes the element before it, and is itself dropped at the
  root of a rooted path.
\<close>

fun split_on :: "char \<Rightarrow> string \<Rightarrow> string list" where
  "split_on c [] = [[]]"
| "split_on c (x # s) =
     (if x = c then [] # split_on c s
      else case split_on c s of [] \<Rightarrow> [[x]] | y # ys \<Rightarrow> (x # y) # ys)"

text \<open>The elements kept so far are in reverse order.\<close>

fun clean_segs :: "bool \<Rightarrow> string list \<Rightarrow> string list \<Rightarrow> string list" where
  "clean_segs rooted acc [] = rev acc"
| "clean_segs rooted acc (s # ss) =
     (if s = '''' \<or> s = ''.'' then clean_segs rooted acc ss
      else if s = ''..'' then
        (case acc of
           [] \<Rightarrow> clean_segs rooted (if rooted then [] else [s]) ss
         | a # acc' \<Rightarrow> if a = ''..'' then clean_segs rooted (s # acc) ss
                      else clean_segs rooted acc' ss)
      else clean_segs rooted (s # acc) ss)"

definition path_Clean :: "string \<Rightarrow> string" where
  "path_Clean p =
     (case p of
        [] \<Rightarrow> ''.''
      | c # _ \<Rightarrow>
          let rooted = (c = CHR ''/'');
              body = join ''/'' (clean_segs rooted [] (split_on (CHR ''/'') p))
          in if rooted then CHR ''/'' # body else if body = '''' then ''.'' else body)"

fun join_elems :: "string \<Rightarrow> string list \<Rightarrow> string" where
  "join_elems buf [] = buf"
| "join_elems buf (e # es) =
     (if buf \<noteq> '''' \<or> e \<noteq> ''''
      then join_elems (if buf \<noteq> '''' then buf @ ''/'' @ e else e) es
      else join_elems buf es)"

definition path_Join :: "string list \<Rightarrow> string" where
  "path_Join es = (if concat es = '''' then '''' else path_Clean (join_elems '''' es))"

text \<open>One element of a path, as the operator means it: not empty, no slash, no dots.\<close>

definition plain_elem :: "string \<Rightarrow> bool" where
  "plain_elem s \<longleftrightarrow> s \<noteq> '''' \<and> s \<noteq> ''.'' \<and> s \<noteq> ''..'' \<and> CHR ''/'' \<notin> set s"

section \<open>Splitting and cleaning\<close>

lemma split_on_not_Nil [simp]: "split_on c s \<noteq> []"
  by (induction s) (auto split: list.splits)

lemma split_on_no_sep: "c \<notin> set s \<Longrightarrow> split_on c s = [s]"
  by (induction s) auto

lemma split_on_append: "split_on c (s @ c # t) = split_on c s @ split_on c t"
proof (induction s)
  case (Cons x s)
  obtain y ys where "split_on c s = y # ys" by (cases "split_on c s") auto
  with Cons show ?case by simp
qed simp

lemma split_on_pieces: "p \<in> set (split_on c s) \<Longrightarrow> c \<notin> set p"
  by (induction s arbitrary: p) (fastforce split: list.splits if_splits)+

lemma clean_segs_plain:
  "(\<forall>s \<in> set ss. plain_elem s) \<Longrightarrow> clean_segs rooted acc ss = rev acc @ ss"
  by (induction ss arbitrary: acc) (auto simp: plain_elem_def)

lemma clean_segs_append_plain:
  "(\<forall>s \<in> set ss. plain_elem s) \<Longrightarrow> clean_segs rooted acc (ss @ ts) = clean_segs rooted (rev ss @ acc) ts"
  by (induction ss arbitrary: acc) (auto simp: plain_elem_def)

lemma clean_segs_rooted_plain:
  assumes "\<forall>a \<in> set acc. plain_elem a" "\<forall>s \<in> set ss. CHR ''/'' \<notin> set s"
  shows "\<forall>s \<in> set (clean_segs True acc ss). plain_elem s"
  using assms
proof (induction ss arbitrary: acc)
  case (Cons s ss)
  show ?case
  proof (cases "s = '''' \<or> s = ''.''")
    case False
    note kept = this
    show ?thesis
    proof (cases "s = ''..''")
      case True
      have "\<forall>a \<in> set (tl acc). plain_elem a" using Cons.prems(1) by (cases acc) simp_all
      moreover have "clean_segs True acc (s # ss) = clean_segs True (tl acc) ss"
        using True Cons.prems(1) by (cases acc) (simp_all add: plain_elem_def)
      ultimately show ?thesis using Cons by simp
    next
      case False
      with kept Cons.prems have "\<forall>a \<in> set (s # acc). plain_elem a" by (simp add: plain_elem_def)
      with Cons.IH [of "s # acc"] Cons.prems(2) False kept show ?thesis by simp
    qed
  qed (use Cons in simp)
qed simp

lemma split_slash_root: "split_on (CHR ''/'') (CHR ''/'' # s) = '''' # split_on (CHR ''/'') s"
  by simp

text \<open>A rooted path keeps no \<open>..\<close>: cleaning cannot leave the root.\<close>

lemma path_Clean_rooted:
  "path_Clean (CHR ''/'' # s) =
     CHR ''/'' # join ''/'' (clean_segs True [] (split_on (CHR ''/'') s))"
  by (simp add: path_Clean_def)

lemma path_Clean_rooted_elems:
  "\<exists>es. path_Clean (CHR ''/'' # s) = CHR ''/'' # join ''/'' es \<and> (\<forall>e \<in> set es. plain_elem e)"
  unfolding path_Clean_rooted
  using clean_segs_rooted_plain [of "[]" "split_on (CHR ''/'') s"] split_on_pieces
  by auto

lemma path_Join_rooted_plain:
  assumes "plain_elem a" "plain_elem b"
  shows "path_Join [CHR ''/'' # a, b] = CHR ''/'' # a @ ''/'' @ b"
proof -
  have "split_on (CHR ''/'') (a @ CHR ''/'' # b) = [a, b]"
    using assms by (simp add: split_on_append split_on_no_sep plain_elem_def)
  then show ?thesis
    using assms by (simp add: path_Join_def path_Clean_rooted clean_segs_plain plain_elem_def)
qed

text \<open>The share path joins a cleaned mount path, a slash and the configured directory.\<close>

lemma path_Join_below:
  assumes "plain_elem a" "plain_elem b" "plain_elem c"
  shows "path_Join [CHR ''/'' # a @ ''/'' @ b, ''/'', c] = CHR ''/'' # a @ ''/'' @ b @ ''/'' @ c"
proof -
  have "split_on (CHR ''/'') (a @ CHR ''/'' # b @ CHR ''/'' # CHR ''/'' # CHR ''/'' # c) = [a, b, '''', '''', c]"
    using assms by (simp add: split_on_append split_on_no_sep plain_elem_def)
  then show ?thesis
    using assms by (simp add: path_Join_def path_Clean_rooted plain_elem_def)
qed

lemma path_Join_dotdot:
  assumes "plain_elem a" "plain_elem b"
  shows "path_Join [CHR ''/'' # a @ ''/'' @ b, ''/'', ''..''] = CHR ''/'' # a"
proof -
  have "split_on (CHR ''/'') (a @ CHR ''/'' # b @ CHR ''/'' # CHR ''/'' # CHR ''/'' # ''..'') = [a, b, '''', '''', ''..'']"
    using assms by (simp add: split_on_append split_on_no_sep plain_elem_def)
  then show ?thesis
    using assms by (simp add: path_Join_def path_Clean_rooted plain_elem_def)
qed


text \<open>Without \<open>..\<close> cleaning only drops what is empty or a single dot.\<close>

lemma clean_segs_no_dotdot:
  "''..'' \<notin> set ss \<Longrightarrow> clean_segs rooted acc ss = rev acc @ filter (\<lambda>s. s \<noteq> [] \<and> s \<noteq> ''.'') ss"
  by (induction ss arbitrary: acc) auto

lemma path_Join_relative:
  assumes "plain_elem a" "plain_elem b" "p \<noteq> []" "''..'' \<notin> set (split_on (CHR ''/'') p)"
  shows "path_Join [CHR ''/'' # a @ ''/'' @ b, ''/'', p] =
    CHR ''/'' # join ''/'' ([a, b] @ filter (\<lambda>s. s \<noteq> [] \<and> s \<noteq> ''.'') (split_on (CHR ''/'') p))"
proof -
  have "split_on (CHR ''/'') (a @ CHR ''/'' # b @ CHR ''/'' # CHR ''/'' # CHR ''/'' # p) = [a, b, [], []] @ split_on (CHR ''/'') p"
    using assms by (simp add: split_on_append split_on_no_sep plain_elem_def)
  then show ?thesis
    using assms clean_segs_no_dotdot [of "split_on (CHR ''/'') p" True "[b, a]"]
    by (simp add: path_Join_def path_Clean_rooted plain_elem_def)
qed

end
