(* ===== verification/Json.thy ===== *)
theory Json
  imports Prelude
begin

text \<open>
  What the operator uses of Go's \<open>encoding/json\<close>: a document as a tree, the printer
  \<open>MarshalIndent(v, "", "  ")\<close> with its HTML-safe escaping, and the parser behind
  \<open>Unmarshal\<close>. Strings are UTF-8 bytes; both directions replace an invalid byte by
  U+FFFD as the library does. Not modelled: the parser's limit of 10000 nested values.
\<close>

datatype json =
    JNull
  | JBool bool
  | JNum string
  | JStr string
  | JArr "json list"
  | JObj "(string \<times> json) list"

section \<open>UTF-8\<close>

definition byte :: "char \<Rightarrow> nat" where
  "byte c = of_char c"

definition cont :: "char \<Rightarrow> bool" where
  "cont c \<longleftrightarrow> 128 \<le> byte c \<and> byte c \<le> 191"

text \<open>The length of the well-formed multi-byte sequence a string starts with; 0 if none.\<close>

definition utf8_len :: "string \<Rightarrow> nat" where
  "utf8_len s =
     (case s of
        a # b # rest \<Rightarrow>
          if 194 \<le> byte a \<and> byte a \<le> 223 \<and> cont b then 2
          else (case rest of
            c # rest' \<Rightarrow>
              if cont c \<and> cont b \<and> 224 \<le> byte a \<and> byte a \<le> 239 \<and>
                 (byte a = 224 \<longrightarrow> 160 \<le> byte b) \<and> (byte a = 237 \<longrightarrow> byte b \<le> 159) then 3
              else (case rest' of
                d # _ \<Rightarrow>
                  if cont d \<and> cont c \<and> cont b \<and> 240 \<le> byte a \<and> byte a \<le> 244 \<and>
                     (byte a = 240 \<longrightarrow> 144 \<le> byte b) \<and> (byte a = 244 \<longrightarrow> byte b \<le> 143) then 4
                  else 0
              | [] \<Rightarrow> 0)
          | [] \<Rightarrow> 0)
      | _ \<Rightarrow> 0)"

definition utf8_encode :: "nat \<Rightarrow> string" where
  "utf8_encode r =
     (if r < 128 then [char_of r]
      else if r < 2048 then [char_of (192 + r div 64), char_of (128 + r mod 64)]
      else if r < 65536 then
        [char_of (224 + r div 4096), char_of (128 + r div 64 mod 64), char_of (128 + r mod 64)]
      else
        [char_of (240 + r div 262144), char_of (128 + r div 4096 mod 64),
         char_of (128 + r div 64 mod 64), char_of (128 + r mod 64)])"

definition replacement :: string where
  "replacement = utf8_encode 65533"

function valid_utf8 :: "string \<Rightarrow> bool" where
  "valid_utf8 [] = True"
| "valid_utf8 (c # s) =
     (if byte c < 128 then valid_utf8 s
      else if utf8_len (c # s) = 0 then False
      else valid_utf8 (drop (utf8_len (c # s)) (c # s)))"
  by pat_completeness auto
termination
  by (relation "measure length") (auto simp: not_le)

section \<open>Printing\<close>

definition hex_digit :: "nat \<Rightarrow> char" where
  "hex_digit d = (if d < 10 then char_of (48 + d) else char_of (87 + d))"

definition bs :: char where
  "bs = CHR 0x5C"

definition dq :: char where
  "dq = CHR 0x22"

text \<open>The escape of one byte below 128, with \<open>SetEscapeHTML\<close> on, as it is by default.\<close>

definition escape_ascii :: "char \<Rightarrow> string" where
  "escape_ascii c =
     (if c = dq \<or> c = bs then [bs, c]
      else if byte c = 8 then [bs, CHR ''b'']
      else if byte c = 12 then [bs, CHR ''f'']
      else if byte c = 10 then [bs, CHR ''n'']
      else if byte c = 13 then [bs, CHR ''r'']
      else if byte c = 9 then [bs, CHR ''t'']
      else if byte c < 32 \<or> c = CHR ''<'' \<or> c = CHR ''>'' \<or> c = CHR ''&'' then
        [bs, CHR ''u'', CHR ''0'', CHR ''0'', hex_digit (byte c div 16), hex_digit (byte c mod 16)]
      else [c])"

definition escape_multi :: "string \<Rightarrow> string" where
  "escape_multi p =
     (if p = utf8_encode 8232 then bs # ''u2028''
      else if p = utf8_encode 8233 then bs # ''u2029''
      else p)"

function escape :: "string \<Rightarrow> string" where
  "escape [] = []"
| "escape (c # s) =
     (if byte c < 128 then escape_ascii c @ escape s
      else if utf8_len (c # s) = 0 then bs # ''ufffd'' @ escape s
      else escape_multi (take (utf8_len (c # s)) (c # s)) @ escape (drop (utf8_len (c # s)) (c # s)))"
  by pat_completeness auto
termination
  by (relation "measure length") auto

definition print_string :: "string \<Rightarrow> string" where
  "print_string s = dq # escape s @ [dq]"

definition newline :: "nat \<Rightarrow> string" where
  "newline d = CHR 0x0A # replicate (2 * d) (CHR '' '')"

fun print :: "nat \<Rightarrow> json \<Rightarrow> string"
  and print_elems :: "nat \<Rightarrow> json list \<Rightarrow> string"
  and print_members :: "nat \<Rightarrow> (string \<times> json) list \<Rightarrow> string" where
  "print d JNull = ''null''"
| "print d (JBool b) = (if b then ''true'' else ''false'')"
| "print d (JNum n) = n"
| "print d (JStr s) = print_string s"
| "print d (JArr []) = ''[]''"
| "print d (JArr (j # js)) = ''['' @ print_elems (Suc d) (j # js) @ newline d @ '']''"
| "print d (JObj []) = ''{}''"
| "print d (JObj (m # ms)) = CHR ''{'' # print_members (Suc d) (m # ms) @ newline d @ ''}''"
| "print_elems d [] = ''''"
| "print_elems d [j] = newline d @ print d j"
| "print_elems d (j # js) = newline d @ print d j @ '','' @ print_elems d js"
| "print_members d [] = ''''"
| "print_members d [(k, j)] = newline d @ print_string k @ '': '' @ print d j"
| "print_members d ((k, j) # ms) = newline d @ print_string k @ '': '' @ print d j @ '','' @ print_members d ms"

definition MarshalIndent :: "json \<Rightarrow> string" where
  "MarshalIndent j = print 0 j"

section \<open>Parsing\<close>

definition is_ws :: "char \<Rightarrow> bool" where
  "is_ws c \<longleftrightarrow> c = CHR '' '' \<or> byte c = 9 \<or> byte c = 10 \<or> byte c = 13"

definition skip_ws :: "string \<Rightarrow> string" where
  "skip_ws s = dropWhile is_ws s"

definition hex_value :: "char \<Rightarrow> nat option" where
  "hex_value c =
     (let n = byte c in
      if 48 \<le> n \<and> n \<le> 57 then Some (n - 48)
      else if 97 \<le> n \<and> n \<le> 102 then Some (n - 87)
      else if 65 \<le> n \<and> n \<le> 70 then Some (n - 55)
      else None)"

definition getu4 :: "string \<Rightarrow> (nat \<times> string) option" where
  "getu4 s = (case s of
      a # b # c # d # rest \<Rightarrow> do {
        h3 \<leftarrow> hex_value a; h2 \<leftarrow> hex_value b; h1 \<leftarrow> hex_value c; h0 \<leftarrow> hex_value d;
        Some (4096 * h3 + 256 * h2 + 16 * h1 + h0, rest) }
    | _ \<Rightarrow> None)"

definition escape_value :: "char \<Rightarrow> char option" where
  "escape_value c =
     (if c = dq \<or> c = bs \<or> c = CHR ''/'' then Some c
      else if c = CHR ''b'' then Some (CHR 0x08)
      else if c = CHR ''f'' then Some (CHR 0x0C)
      else if c = CHR ''n'' then Some (CHR 0x0A)
      else if c = CHR ''r'' then Some (CHR 0x0D)
      else if c = CHR ''t'' then Some (CHR 0x09)
      else None)"

text \<open>
  The bytes one \<open>u\<close> escape stands for, and what follows it: a surrogate pair is one rune,
  a lone surrogate is U+FFFD.
\<close>

definition decode_u :: "string \<Rightarrow> (string \<times> string) option" where
  "decode_u s = do {
     (r, rest) \<leftarrow> getu4 s;
     if 55296 \<le> r \<and> r < 57344 then
       (case rest of
          b # u # rest' \<Rightarrow>
            (if b = bs \<and> u = CHR ''u'' then
              (case getu4 rest' of
                 Some (r2, rest2) \<Rightarrow>
                   if r < 56320 \<and> 56320 \<le> r2 \<and> r2 < 57344
                   then Some (utf8_encode ((r - 55296) * 1024 + (r2 - 56320) + 65536), rest2)
                   else Some (replacement, rest)
               | None \<Rightarrow> Some (replacement, rest))
             else Some (replacement, rest))
        | _ \<Rightarrow> Some (replacement, rest))
     else Some (utf8_encode r, rest) }"

lemma getu4_length: "getu4 s = Some (r, rest) \<Longrightarrow> length s = length rest + 4"
  by (auto simp: getu4_def split: list.splits Option.bind_splits)

lemma decode_u_length: "decode_u s = Some (bs', rest) \<Longrightarrow> length rest < length s"
  by (auto simp: decode_u_def split: list.splits Option.bind_splits if_splits option.splits
      dest!: getu4_length)

text \<open>The rest of a string after its opening quote: its bytes and what follows it.\<close>

function parse_chars :: "string \<Rightarrow> (string \<times> string) option" where
  "parse_chars [] = None"
| "parse_chars (c # s) =
     (if c = dq then Some ([], s)
      else if c = bs then
        (case s of
           [] \<Rightarrow> None
         | e # s' \<Rightarrow>
             if e = CHR ''u'' then
               (case decode_u s' of
                  None \<Rightarrow> None
                | Some (p, s2) \<Rightarrow> map_option (\<lambda>(t, r). (p @ t, r)) (parse_chars s2))
             else
               (case escape_value e of
                  None \<Rightarrow> None
                | Some x \<Rightarrow> map_option (\<lambda>(t, r). (x # t, r)) (parse_chars s')))
      else if byte c < 32 then None
      else if byte c < 128 then map_option (\<lambda>(t, r). (c # t, r)) (parse_chars s)
      else if utf8_len (c # s) = 0 then
        map_option (\<lambda>(t, r). (replacement @ t, r)) (parse_chars s)
      else
        map_option (\<lambda>(t, r). (take (utf8_len (c # s)) (c # s) @ t, r))
          (parse_chars (drop (utf8_len (c # s)) (c # s))))"
  by pat_completeness auto
termination
  by (relation "measure length") (auto dest!: decode_u_length)

definition parse_string :: "string \<Rightarrow> (string \<times> string) option" where
  "parse_string s = (case s of [] \<Rightarrow> None | c # s' \<Rightarrow> if c = dq then parse_chars s' else None)"

definition is_digit :: "char \<Rightarrow> bool" where
  "is_digit c \<longleftrightarrow> 48 \<le> byte c \<and> byte c \<le> 57"

text \<open>The number grammar: sign, integer part without leading zeros, fraction, exponent.\<close>

definition digits1 :: "string \<Rightarrow> (string \<times> string) option" where
  "digits1 s = (let ds = takeWhile is_digit s in if ds = [] then None else Some (ds, dropWhile is_digit s))"

definition parse_int_part :: "string \<Rightarrow> (string \<times> string) option" where
  "parse_int_part s =
     (case s of
        [] \<Rightarrow> None
      | c # s' \<Rightarrow> if c = CHR ''0'' then Some ([c], s') else digits1 s)"

definition parse_frac :: "string \<Rightarrow> (string \<times> string) option" where
  "parse_frac s =
     (case s of
        c # s' \<Rightarrow> if c = CHR ''.'' then map_option (\<lambda>(ds, r). (c # ds, r)) (digits1 s') else Some ([], s)
      | [] \<Rightarrow> Some ([], []))"

definition parse_exp :: "string \<Rightarrow> (string \<times> string) option" where
  "parse_exp s =
     (case s of
        c # s' \<Rightarrow>
          if c = CHR ''e'' \<or> c = CHR ''E'' then
            (case s' of
               x # s2 \<Rightarrow>
                 if x = CHR ''+'' \<or> x = CHR ''-''
                 then map_option (\<lambda>(ds, r). (c # x # ds, r)) (digits1 s2)
                 else map_option (\<lambda>(ds, r). (c # ds, r)) (digits1 s')
             | [] \<Rightarrow> None)
          else Some ([], s)
      | [] \<Rightarrow> Some ([], []))"

definition parse_number :: "string \<Rightarrow> (string \<times> string) option" where
  "parse_number s = do {
     let (sign, s1) = (case s of c # s' \<Rightarrow> if c = CHR ''-'' then ([c], s') else ([], s) | [] \<Rightarrow> ([], []));
     (i, s2) \<leftarrow> parse_int_part s1;
     (f, s3) \<leftarrow> parse_frac s2;
     (e, s4) \<leftarrow> parse_exp s3;
     Some (sign @ i @ f @ e, s4) }"

definition expect :: "char \<Rightarrow> string \<Rightarrow> string option" where
  "expect c s = (case s of [] \<Rightarrow> None | x # s' \<Rightarrow> if x = c then Some s' else None)"

fun strip_prefix :: "string \<Rightarrow> string \<Rightarrow> string option" where
  "strip_prefix [] s = Some s"
| "strip_prefix (p # ps) [] = None"
| "strip_prefix (p # ps) (c # s) = (if p = c then strip_prefix ps s else None)"

text \<open>
  A value, the elements of an array and the members of an object. Every call spends one
  unit of fuel and consumes at least one byte before the next call of its kind, so the
  length of the text plus one is always enough for \<open>parse_json\<close>.
\<close>

fun parse_value :: "nat \<Rightarrow> string \<Rightarrow> (json \<times> string) option"
  and parse_elems :: "nat \<Rightarrow> string \<Rightarrow> (json list \<times> string) option"
  and parse_members :: "nat \<Rightarrow> string \<Rightarrow> ((string \<times> json) list \<times> string) option" where
  "parse_value 0 s = None"
| "parse_value (Suc n) s0 =
     (let s = skip_ws s0 in
      case s of
        [] \<Rightarrow> None
      | c # r \<Rightarrow>
          if c = CHR ''{'' then
            (case skip_ws r of
               [] \<Rightarrow> None
             | x # r' \<Rightarrow> if x = CHR ''}'' then Some (JObj [], r')
                        else map_option (\<lambda>(ms, t). (JObj ms, t)) (parse_members n r))
          else if c = CHR ''['' then
            (case skip_ws r of
               [] \<Rightarrow> None
             | x # r' \<Rightarrow> if x = CHR '']'' then Some (JArr [], r')
                        else map_option (\<lambda>(js, t). (JArr js, t)) (parse_elems n r))
          else if c = dq then map_option (\<lambda>(x, t). (JStr x, t)) (parse_chars r)
          else if c = CHR ''n'' then map_option (\<lambda>t. (JNull, t)) (strip_prefix ''null'' s)
          else if c = CHR ''t'' then map_option (\<lambda>t. (JBool True, t)) (strip_prefix ''true'' s)
          else if c = CHR ''f'' then map_option (\<lambda>t. (JBool False, t)) (strip_prefix ''false'' s)
          else map_option (\<lambda>(x, t). (JNum x, t)) (parse_number s))"
| "parse_elems 0 s = None"
| "parse_elems (Suc n) s =
     (case parse_value n s of
        None \<Rightarrow> None
      | Some (j, t) \<Rightarrow>
          (case skip_ws t of
             [] \<Rightarrow> None
           | x # r \<Rightarrow> if x = CHR '','' then map_option (\<lambda>(js, u). (j # js, u)) (parse_elems n r)
                     else if x = CHR '']'' then Some ([j], r)
                     else None))"
| "parse_members 0 s = None"
| "parse_members (Suc n) s =
     (case parse_string (skip_ws s) of
        None \<Rightarrow> None
      | Some (k, t) \<Rightarrow>
          (case expect (CHR '':'') (skip_ws t) of
             None \<Rightarrow> None
           | Some t' \<Rightarrow>
               (case parse_value n t' of
                  None \<Rightarrow> None
                | Some (j, u) \<Rightarrow>
                    (case skip_ws u of
                       [] \<Rightarrow> None
                     | x # r \<Rightarrow>
                         if x = CHR '','' then map_option (\<lambda>(ms, v). ((k, j) # ms, v)) (parse_members n r)
                         else if x = CHR ''}'' then Some ([(k, j)], r)
                         else None))))"

text \<open>A whole document: one value and nothing after it but white space.\<close>

definition parse_json :: "string \<Rightarrow> json option" where
  "parse_json s =
     (case parse_value (Suc (2 * length s)) s of
        None \<Rightarrow> None
      | Some (j, t) \<Rightarrow> if skip_ws t = [] then Some j else None)"

section \<open>Decoding into Go values\<close>

text \<open>
  Decoding into a string, a slice or a map of strings. \<open>None\<close> is the error that
  \<open>Unmarshal\<close> returns in the end; \<open>null\<close> leaves a string as it is (the zero value
  here, since the target is fresh) and makes a slice or a map nil.
\<close>

fun decode_string :: "string \<Rightarrow> json \<Rightarrow> string option" where
  "decode_string old JNull = Some old"
| "decode_string old (JStr s) = Some s"
| "decode_string old _ = None"

fun decode_list :: "(json \<Rightarrow> 'a option) \<Rightarrow> json list \<Rightarrow> 'a list option" where
  "decode_list f [] = Some []"
| "decode_list f (j # js) = do { x \<leftarrow> f j; xs \<leftarrow> decode_list f js; Some (x # xs) }"

fun decode_slice :: "(json \<Rightarrow> 'a option) \<Rightarrow> json \<Rightarrow> 'a list option option" where
  "decode_slice f JNull = Some None"
| "decode_slice f (JArr js) = map_option Some (decode_list f js)"
| "decode_slice f _ = None"

fun decode_entries :: "(json \<Rightarrow> 'a option) \<Rightarrow> (string \<times> json) list \<Rightarrow> (string \<times> 'a) list \<Rightarrow> (string \<times> 'a) list option" where
  "decode_entries f [] m = Some m"
| "decode_entries f ((k, j) # ms) m = do { x \<leftarrow> f j; decode_entries f ms (ins k x m) }"

text \<open>An object is stored into the map that is there, or into a new one if it is nil.\<close>

fun decode_map :: "(json \<Rightarrow> 'a option) \<Rightarrow> (string, 'a) gomap \<Rightarrow> json \<Rightarrow> (string, 'a) gomap option" where
  "decode_map f old JNull = Some None"
| "decode_map f old (JObj ms) = map_option Some (decode_entries f ms (entries old))"
| "decode_map f old _ = None"

text \<open>\<open>json.Unmarshal\<close> of a text into a nil \<open>map[string]string\<close>.\<close>

definition unmarshal_string_map :: "string \<Rightarrow> (string, string) gomap option" where
  "unmarshal_string_map s = do { j \<leftarrow> parse_json s; decode_map (decode_string '''') None j }"

end
