(* ===== verification/Planner.thy ===== *)
theory Planner
  imports Api Conf SmbCC GoPath Json
begin

text \<open>
  The planner of \<open>internal/planner\<close>: the bundle of inputs of one server group instance
  (\<open>instance.go\<close>), the properties derived from it (\<open>properties.go\<close>, \<open>misc.go\<close>,
  \<open>selector.go\<close>), the paths inside the containers (\<open>paths.go\<close>) and the arguments the
  containers are started with (\<open>args.go\<close>).
\<close>

section \<open>Instances\<close>

record InstanceConfiguration =
  ic_SmbShare :: "SmbShare option"
  ic_SecurityConfig :: "SmbSecurityConfig option"
  ic_CommonConfig :: "SmbCommonConfig option"
  ic_GlobalConfig :: OperatorConfig

text \<open>
  A planner embeds an instance configuration. Every method but \<open>NodeSelector\<close>
  dereferences the share, so a planner of the model holds the share itself, and making one
  from a configuration without a share is the panic that its first use would be.
\<close>

record Planner =
  pl_SmbShare :: SmbShare
  pl_SecurityConfig :: "SmbSecurityConfig option"
  pl_CommonConfig :: "SmbCommonConfig option"
  pl_GlobalConfig :: OperatorConfig
  pl_ConfigState :: "SambaContainerConfig option"

definition New :: "InstanceConfiguration \<Rightarrow> SambaContainerConfig option \<Rightarrow> Planner option" where
  "New ic state = (case ic_SmbShare ic of
       None \<Rightarrow> None
     | Some s \<Rightarrow> Some \<lparr>pl_SmbShare = s, pl_SecurityConfig = ic_SecurityConfig ic,
         pl_CommonConfig = ic_CommonConfig ic, pl_GlobalConfig = ic_GlobalConfig ic,
         pl_ConfigState = state\<rparr>)"

section \<open>Core properties\<close>

definition UserMode :: string where
  "UserMode = ''user''"

definition ADMode :: string where
  "ADMode = ''active-directory''"

definition GroupModeNever :: string where
  "GroupModeNever = ''never''"

definition GroupModeExplicit :: string where
  "GroupModeExplicit = ''explicit''"

definition GroupModeUnset :: string where
  "GroupModeUnset = ''''"

definition InstanceName :: "Planner \<Rightarrow> string" where
  "InstanceName pl = sst_ServerGroup (sh_Status (pl_SmbShare pl))"

definition SecurityMode :: "Planner \<Rightarrow> string" where
  "SecurityMode pl =
     (case pl_SecurityConfig pl of
        None \<Rightarrow> UserMode
      | Some sc \<Rightarrow>
          let m = sec_Mode (ssc_Spec sc)
          in if m \<noteq> UserMode \<and> m \<noteq> ADMode then UserMode else m)"

text \<open>\<open>Realm\<close> and \<open>Workgroup\<close> dereference the security configuration.\<close>

definition Realm :: "Planner \<Rightarrow> string option" where
  "Realm pl = do { sc \<leftarrow> pl_SecurityConfig pl; Some (toUpper (sec_Realm (ssc_Spec sc))) }"

definition Workgroup :: "Planner \<Rightarrow> string option" where
  "Workgroup pl = do { r \<leftarrow> Realm pl; Some (hd (splitN2 (CHR ''.'') r)) }"

definition IsClustered :: "Planner \<Rightarrow> bool" where
  "IsClustered pl =
     (case sp_Scaling (sh_Spec (pl_SmbShare pl)) of
        None \<Rightarrow> False
      | Some sc \<Rightarrow> scal_AvailabilityMode sc = ''clustered'')"

definition ClusterSize :: "Planner \<Rightarrow> goint32" where
  "ClusterSize pl =
     (case sp_Scaling (sh_Spec (pl_SmbShare pl)) of
        None \<Rightarrow> 1
      | Some sc \<Rightarrow> int32_of_int (scal_MinClusterSize sc))"

definition Grouping :: "Planner \<Rightarrow> string \<times> string" where
  "Grouping pl =
     (let (mode, groupName) =
        (case sp_Scaling (sh_Spec (pl_SmbShare pl)) of
           None \<Rightarrow> (GroupModeUnset, '''')
         | Some sc \<Rightarrow> (scal_GroupMode sc, scal_Group sc))
      in if mode = GroupModeExplicit then (mode, groupName) else (GroupModeNever, ''''))"

section \<open>Miscellaneous properties\<close>

record UserSecuritySource =
  us_Configured :: bool
  us_Namespace :: string
  us_Secret :: string
  us_Key :: string

definition user_security_source :: "Planner \<Rightarrow> UserSecuritySource" where
  "user_security_source pl =
     (let s = \<lparr>us_Configured = False, us_Namespace = '''', us_Secret = '''', us_Key = ''''\<rparr> in
      if SecurityMode pl \<noteq> UserMode then s
      else case pl_SecurityConfig pl of
        None \<Rightarrow> s
      | Some sc \<Rightarrow>
          (case sec_Users (ssc_Spec sc) of
             None \<Rightarrow> s
           | Some u \<Rightarrow> \<lparr>us_Configured = True, us_Namespace = m_Namespace (ssc_meta sc),
                          us_Secret = su_Secret u, us_Key = su_Key u\<rparr>))"

definition DNSRegisterNever :: string where
  "DNSRegisterNever = ''never''"

definition DNSRegisterExternalIP :: string where
  "DNSRegisterExternalIP = ''external-ip''"

definition DNSRegisterClusterIP :: string where
  "DNSRegisterClusterIP = ''cluster-ip''"

text \<open>
  The code reads \<open>SecurityConfig.Spec.DNS\<close> only in AD mode, where the security
  configuration is never nil.
\<close>

definition DNSRegister :: "Planner \<Rightarrow> string" where
  "DNSRegister pl =
     (let reg =
        (if SecurityMode pl = ADMode then
           (case pl_SecurityConfig pl of
              None \<Rightarrow> DNSRegisterNever
            | Some sc \<Rightarrow>
                (case sec_DNS (ssc_Spec sc) of
                   None \<Rightarrow> DNSRegisterNever
                 | Some d \<Rightarrow> dns_Register d))
         else DNSRegisterNever)
      in if reg = DNSRegisterExternalIP \<or> reg = DNSRegisterClusterIP then reg
         else DNSRegisterNever)"

definition ServiceType :: "Planner \<Rightarrow> string" where
  "ServiceType pl =
     (case pl_CommonConfig pl of
        Some cc \<Rightarrow> if cn_Publish (cc_Network (scc_Spec cc)) = ''external'' then ''LoadBalancer''
                   else ''ClusterIP''
      | None \<Rightarrow> ''ClusterIP'')"

definition SambaContainerDebugLevel :: "Planner \<Rightarrow> string" where
  "SambaContainerDebugLevel pl = oc_SambaDebugLevel (pl_GlobalConfig pl)"

definition MayCluster :: "Planner \<Rightarrow> bool" where
  "MayCluster pl = (oc_ClusterSupport (pl_GlobalConfig pl) = ''ctdb-is-experimental'')"

definition nodeSpreadKey :: string where
  "nodeSpreadKey = ''samba-operator.samba.org/node-spread''"

definition nodeSpreadDisable :: string where
  "nodeSpreadDisable = ''false''"

definition NodeSpread :: "Planner \<Rightarrow> bool" where
  "NodeSpread pl = (mget (m_Annotations (sh_meta (pl_SmbShare pl))) nodeSpreadKey \<noteq> nodeSpreadDisable)"

section \<open>Node selection\<close>

definition builtinDefaultNodeSelector :: "(string, string) gomap" where
  "builtinDefaultNodeSelector =
     mlit [(''kubernetes.io/os'', ''linux''), (''kubernetes.io/arch'', ''amd64'')]"

text \<open>
  The method needs the common and the operator configuration only; \<open>main\<close> calls it on a
  planner with nothing else. The flag says whether an error came with the map.
\<close>

definition node_selector :: "SmbCommonConfig option \<Rightarrow> OperatorConfig \<Rightarrow> (string, string) gomap \<times> bool" where
  "node_selector common cfg =
     (let from_operator =
        (if oc_DefaultNodeSelector cfg = '''' then (builtinDefaultNodeSelector, False)
         else case unmarshal_string_map (oc_DefaultNodeSelector cfg) of
           None \<Rightarrow> (builtinDefaultNodeSelector, True)
         | Some nsel \<Rightarrow> (nsel, False))
      in case common of
        None \<Rightarrow> from_operator
      | Some cc \<Rightarrow>
          (case cc_PodSettings (scc_Spec cc) of
             None \<Rightarrow> from_operator
           | Some ps \<Rightarrow> if 0 < mlen (ps_NodeSelector ps) then (ps_NodeSelector ps, False)
                        else from_operator))"

definition NodeSelector :: "Planner \<Rightarrow> (string, string) gomap \<times> bool" where
  "NodeSelector pl = node_selector (pl_CommonConfig pl) (pl_GlobalConfig pl)"

section \<open>Paths\<close>

definition ShareMountPath :: "Planner \<Rightarrow> string" where
  "ShareMountPath pl =
     (let (gmode, gname) = Grouping pl
      in if gmode = GroupModeNever then path_Join [''/mnt'', m_UID (sh_meta (pl_SmbShare pl))]
         else path_Join [''/mnt'', gname])"

text \<open>The path of the share dereferences the optional \<open>storage.pvc\<close>.\<close>

definition Share_path :: "Planner \<Rightarrow> string option" where
  "Share_path pl = do {
     pvc \<leftarrow> st_Pvc (sp_Storage (sh_Spec (pl_SmbShare pl)));
     if pvc_Path pvc \<noteq> '''' then Some (path_Join [ShareMountPath pl, ''/'', pvc_Path pvc])
     else Some (ShareMountPath pl) }"

definition ContainerConfigDir :: string where
  "ContainerConfigDir = ''/etc/container-config''"

definition UsersConfigBaseName :: string where
  "UsersConfigBaseName = ''users.json''"

definition UsersConfigDir :: string where
  "UsersConfigDir = ''/etc/container-users''"

definition containerConfig :: string where
  "containerConfig = path_Join [ContainerConfigDir, ''config.json'']"

definition usersConfig :: "Planner \<Rightarrow> string" where
  "usersConfig pl =
     (if \<not> us_Configured (user_security_source pl) then ''''
      else path_Join [UsersConfigDir, UsersConfigBaseName])"

definition ContainerConfigs :: "Planner \<Rightarrow> string list" where
  "ContainerConfigs pl =
     (let paths = [containerConfig]; uc = usersConfig pl
      in if uc \<noteq> '''' then paths @ [uc] else paths)"

definition WinbindSocketsDir :: string where
  "WinbindSocketsDir = ''/run/samba/winbindd''"

definition SambaStateDir :: string where
  "SambaStateDir = ''/var/lib/samba''"

definition OSRunDir :: string where
  "OSRunDir = ''/run''"

definition JoinJSONSourceDir :: "nat \<Rightarrow> string" where
  "JoinJSONSourceDir index = ''/var/tmp/join/'' @ itoa (int index)"

definition JoinJSONBaseName :: string where
  "JoinJSONBaseName = ''join.json''"

definition JoinJSONSource :: "nat \<Rightarrow> string" where
  "JoinJSONSource index = path_Join [JoinJSONSourceDir index, JoinJSONBaseName]"

definition ServiceWatchStateDir :: string where
  "ServiceWatchStateDir = ''/var/lib/svcwatch''"

definition ServiceWatchJSON :: string where
  "ServiceWatchJSON = path_Join [ServiceWatchStateDir, ''status.json'']"

section \<open>Container arguments\<close>

definition args_Initializer :: "Planner \<Rightarrow> string \<Rightarrow> string list" where
  "args_Initializer pl cmd =
     (if IsClustered pl then [''--skip-if-file=/var/lib/ctdb/shared/nodes''] else []) @ [cmd]"

definition args_DNSRegister :: "Planner \<Rightarrow> string list" where
  "args_DNSRegister pl =
     [''dns-register'', ''--watch''] @
     (if DNSRegister pl = DNSRegisterClusterIP then [''--target=internal''] else []) @
     [ServiceWatchJSON]"

definition args_Run :: "Planner \<Rightarrow> string \<Rightarrow> string list" where
  "args_Run pl name =
     [''run'', name] @
     (if IsClustered pl then
        (if SecurityMode pl = ADMode then [''--setup=nsswitch'', ''--setup=smb_ctdb'']
         else if name = ''smbd'' then [''--setup=users'', ''--setup=smb_ctdb'']
         else [])
      else [])"

definition args_CTDBDaemon :: "string list" where
  "args_CTDBDaemon = [''run'', ''ctdbd'', ''--setup=smb_ctdb'', ''--setup=ctdb_config'',
     ''--setup=ctdb_etc'', ''--setup=ctdb_nodes'']"

definition args_CTDBManageNodes :: "string list" where
  "args_CTDBManageNodes = [''ctdb-manage-nodes'', ''--hostname=$(HOSTNAME)'',
     ''--take-node-number-from-hostname=after-last-dash'']"

definition args_CTDBMigrate :: "string list" where
  "args_CTDBMigrate = [''ctdb-migrate'', ''--dest-dir=/var/lib/ctdb/persistent'']"

definition args_CTDBSetNode :: "string list" where
  "args_CTDBSetNode = [''ctdb-set-node'', ''--hostname=$(HOSTNAME)'',
     ''--take-node-number-from-hostname=after-last-dash'']"

definition args_CTDBMustHaveNode :: "string list" where
  "args_CTDBMustHaveNode = [''ctdb-must-have-node'', ''--hostname=$(HOSTNAME)'',
     ''--take-node-number-from-hostname=after-last-dash'']"

definition args_CTDBNodeStatus :: "string list" where
  "args_CTDBNodeStatus = [''samba-container'', ''check'', ''ctdb-nodestatus'']"

definition args_EnsureSharePaths :: "string list" where
  "args_EnsureSharePaths = [''ensure-share-paths'']"

definition args_UpdateConfigWatch :: "string list" where
  "args_UpdateConfigWatch = [''update-config'', ''--watch'']"

end
