(* ===== verification/Configuration.thy ===== *)
theory Configuration
  imports Planner
begin

text \<open>
  \<open>internal/planner/configuration.go\<close>: how the planner brings the shared configuration
  document in line with one share (\<open>Update\<close>) and takes a share out of it (\<open>Prune\<close>).
  The code mutates the document through the pointer \<open>ConfigState\<close> and the option maps it
  holds; the model returns the new document. Each block of \<open>Update\<close> is one step on the
  pair of the flag \<open>changed\<close> and the document; \<open>None\<close> is a run-time panic.
\<close>

section \<open>Names\<close>

definition instanceID :: "Planner \<Rightarrow> smb_key" where
  "instanceID pl = InstanceName pl"

definition shareName :: "Planner \<Rightarrow> string" where
  "shareName pl =
     (if sp_ShareName (sh_Spec (pl_SmbShare pl)) \<noteq> '''' then sp_ShareName (sh_Spec (pl_SmbShare pl))
      else m_Name (sh_meta (pl_SmbShare pl)))"

section \<open>ID mapping options\<close>

definition idmap_prefix :: "string \<Rightarrow> string" where
  "idmap_prefix name = ''idmap config '' @ name @ '' : ''"

definition idmap_start :: "nat \<Rightarrow> nat" where
  "idmap_start i = i * 10000 + 2000"

definition idmap_range :: "nat \<Rightarrow> string" where
  "idmap_range i = itoa (int (idmap_start i)) @ ''-'' @ itoa (int (idmap_start i + 10000 - 1))"

definition idmap_domain :: "nat \<Rightarrow> SmbSecurityDomainSpec \<Rightarrow> (string \<times> string) list \<Rightarrow> (string \<times> string) list" where
  "idmap_domain i d m =
     (let pfx = idmap_prefix (sd_Name d);
          m1 = (if sd_Backend d = ''autorid'' then ins (pfx @ ''backend'') ''autorid'' m
                else ins (pfx @ ''schema_mode'') ''rfc2307'' (ins (pfx @ ''backend'') ''ad'' m))
      in ins (pfx @ ''range'') (idmap_range i) m1)"

fun idmap_loop :: "nat \<Rightarrow> SmbSecurityDomainSpec list \<Rightarrow> (string \<times> string) list \<Rightarrow> (string \<times> string) list" where
  "idmap_loop i [] m = m"
| "idmap_loop i (d # ds) m = idmap_loop (Suc i) ds (idmap_domain i d m)"

definition all_domains :: "SmbSecurityDomainSpec list \<Rightarrow> SmbSecurityDomainSpec list" where
  "all_domains ds =
     (if \<exists>d \<in> set ds. sd_Name d = ''*'' then ds
      else ds @ [\<lparr>sd_Name = ''*'', sd_Backend = ''autorid''\<rparr>])"

definition idmapOptions :: "Planner \<Rightarrow> SmbOptions" where
  "idmapOptions pl =
     (case pl_SecurityConfig pl of
        None \<Rightarrow> mlit [(''idmap config * : backend'', ''autorid''),
                      (''idmap config * : range'', ''2000-9999999'')]
      | Some sc \<Rightarrow>
          if sec_Domains (ssc_Spec sc) = []
          then mlit [(''idmap config * : backend'', ''autorid''),
                     (''idmap config * : range'', ''2000-9999999'')]
          else Some (idmap_loop 0 (all_domains (sec_Domains (ssc_Spec sc))) []))"

section \<open>Option values of a share\<close>

text \<open>The loop over the custom options; the flag says whether an option was written.\<close>

fun apply_configs :: "(string \<times> string) list \<Rightarrow> SmbOptions \<Rightarrow> bool \<Rightarrow> (SmbOptions \<times> bool) option" where
  "apply_configs [] opts changed = Some (opts, changed)"
| "apply_configs ((k, v) # kvs) opts changed =
     (case mlookup opts k of
        None \<Rightarrow> do { o' \<leftarrow> mset k v opts; apply_configs kvs o' True }
      | Some oriValue \<Rightarrow>
          if oriValue \<noteq> v then do { o' \<leftarrow> mset k v opts; apply_configs kvs o' True }
          else apply_configs kvs opts changed)"

definition applyCustomGlobal :: "GlobalConfig \<Rightarrow> SmbCommonConfigSpec \<Rightarrow> (GlobalConfig \<times> bool) option" where
  "applyCustomGlobal g spec =
     (case cc_CustomGlobalConfig spec of
        None \<Rightarrow> Some (g, False)
      | Some c \<Rightarrow>
          if \<not> cg_UseUnsafeCustomConfig c then Some (g, False)
          else do { (m, ch) \<leftarrow> apply_configs (entries (cg_Configs c)) (gc_Options g) False;
                    Some (g\<lparr>gc_Options := m\<rparr>, ch) })"

definition applyCustomShare :: "ShareConfig \<Rightarrow> SmbShareSpec \<Rightarrow> (ShareConfig \<times> bool) option" where
  "applyCustomShare s spec =
     (case sp_CustomShareConfig spec of
        None \<Rightarrow> Some (s, False)
      | Some c \<Rightarrow>
          if \<not> shc_UseUnsafeCustomConfig c then Some (s, False)
          else do { (m, ch) \<leftarrow> apply_configs (entries (shc_Configs c)) (sc_Options s) False;
                    Some (s\<lparr>sc_Options := m\<rparr>, ch) })"

text \<open>Writing one parameter when it has another value, or none.\<close>

definition set_param :: "string \<Rightarrow> string \<Rightarrow> SmbOptions \<Rightarrow> (SmbOptions \<times> bool) option" where
  "set_param k v opts =
     (if mget opts k \<noteq> v then do { o' \<leftarrow> mset k v opts; Some (o', True) } else Some (opts, False))"

definition browseable_value :: "SmbShareSpec \<Rightarrow> string" where
  "browseable_value spec = (if sp_Browseable spec then Yes else No)"

definition read_only_value :: "SmbShareSpec \<Rightarrow> string" where
  "read_only_value spec = (if sp_ReadOnly spec then Yes else No)"

definition applyShareValues :: "ShareConfig \<Rightarrow> SmbShareSpec \<Rightarrow> (ShareConfig \<times> bool) option" where
  "applyShareValues s spec = do {
     (m1, c1) \<leftarrow> set_param BrowseableParam (browseable_value spec) (sc_Options s);
     (m2, c2) \<leftarrow> set_param ReadOnlyParam (read_only_value spec) m1;
     Some (s\<lparr>sc_Options := m2\<rparr>, c1 \<or> c2) }"

section \<open>Config sections\<close>

definition hasShare :: "ConfigSection \<Rightarrow> smb_key \<Rightarrow> bool" where
  "hasShare cfg k = (k \<in> set (cs_Shares cfg))"

definition removeShare :: "ConfigSection \<Rightarrow> smb_key \<Rightarrow> ConfigSection \<times> bool" where
  "removeShare cfg k =
     (if k \<in> set (cs_Shares cfg) then (cfg\<lparr>cs_Shares := remove1 k (cs_Shares cfg)\<rparr>, True)
      else (cfg, False))"

section \<open>\<open>Update\<close>\<close>

type_synonym upd_state = "bool \<times> SambaContainerConfig"

definition ensure_globals :: "Planner \<Rightarrow> upd_state \<Rightarrow> upd_state option" where
  "ensure_globals pl = (\<lambda>(ch, st).
     case mlookup (c_Globals st) Globals_key of
       Some _ \<Rightarrow> Some (ch, st)
     | None \<Rightarrow> do {
         m \<leftarrow> mset Globals_key
               (NewGlobals (NewGlobalOptions\<lparr>go_SmbPort := oc_SmbdPort (pl_GlobalConfig pl)\<rparr>))
               (c_Globals st);
         Some (True, st\<lparr>c_Globals := m\<rparr>) })"

definition ensure_share :: "Planner \<Rightarrow> upd_state \<Rightarrow> upd_state option" where
  "ensure_share pl = (\<lambda>(ch, st).
     case mlookup (c_Shares st) (shareName pl) of
       Some _ \<Rightarrow> Some (ch, st)
     | None \<Rightarrow> do {
         path \<leftarrow> Share_path pl;
         m \<leftarrow> mset (shareName pl) (NewSimpleShare path) (c_Shares st);
         Some (True, st\<lparr>c_Shares := m\<rparr>) })"

definition custom_globals :: "Planner \<Rightarrow> upd_state \<Rightarrow> upd_state option" where
  "custom_globals pl = (\<lambda>(ch, st).
     case pl_CommonConfig pl of
       None \<Rightarrow> Some (ch, st)
     | Some cc \<Rightarrow> do {
         g \<leftarrow> mlookup (c_Globals st) Globals_key;
         (g', c) \<leftarrow> applyCustomGlobal g (scc_Spec cc);
         m \<leftarrow> mset Globals_key g' (c_Globals st);
         Some (ch \<or> c, st\<lparr>c_Globals := m\<rparr>) })"

definition share_values :: "Planner \<Rightarrow> upd_state \<Rightarrow> upd_state option" where
  "share_values pl = (\<lambda>(ch, st). do {
     s \<leftarrow> mlookup (c_Shares st) (shareName pl);
     (s1, c1) \<leftarrow> applyCustomShare s (sh_Spec (pl_SmbShare pl));
     (s2, c2) \<leftarrow> applyShareValues s1 (sh_Spec (pl_SmbShare pl));
     m \<leftarrow> mset (shareName pl) s2 (c_Shares st);
     Some (ch \<or> c1 \<or> c2, st\<lparr>c_Shares := m\<rparr>) })"

definition new_section :: "Planner \<Rightarrow> ConfigSection option" where
  "new_section pl = do {
     let cfg = \<lparr>cs_Shares = [shareName pl], cs_Globals = [Globals_key],
                cs_InstanceName = InstanceName pl, cs_InstanceFeatures = [],
                cs_Permissions = NewPermissionsConfig\<rparr>;
     cfg' \<leftarrow> (if SecurityMode pl = ADMode then do {
                 realm \<leftarrow> Realm pl;
                 Some (cfg\<lparr>cs_Globals := cs_Globals cfg @ [realm]\<rparr>) }
               else Some cfg);
     Some (if IsClustered pl then cfg'\<lparr>cs_InstanceFeatures := [CTDB_feature]\<rparr> else cfg') }"

definition ensure_section :: "Planner \<Rightarrow> upd_state \<Rightarrow> upd_state option" where
  "ensure_section pl = (\<lambda>(ch, st). do {
     (cfg, ch1) \<leftarrow> (case mlookup (c_Configs st) (instanceID pl) of
         Some cfg \<Rightarrow> Some (cfg, ch)
       | None \<Rightarrow> do { cfg \<leftarrow> new_section pl; Some (cfg, True) });
     let (cfg2, ch2) = (if \<not> hasShare cfg (shareName pl)
                        then (cfg\<lparr>cs_Shares := cs_Shares cfg @ [shareName pl]\<rparr>, True)
                        else (cfg, ch1));
     if ch2 then do { m \<leftarrow> mset (instanceID pl) cfg2 (c_Configs st);
                      Some (True, st\<lparr>c_Configs := m\<rparr>) }
     else Some (ch2, st) })"

definition ensure_users :: "upd_state \<Rightarrow> upd_state option" where
  "ensure_users = (\<lambda>(ch, st).
     if mlen (c_Users st) = 0 then Some (True, st\<lparr>c_Users := NewDefaultUsers\<rparr>) else Some (ch, st))"

definition realm_options :: "Planner \<Rightarrow> SmbOptions option" where
  "realm_options pl = do {
     o1 \<leftarrow> mset ''security'' ''ads'' (idmapOptions pl);
     wg \<leftarrow> Workgroup pl;
     o2 \<leftarrow> mset ''workgroup'' wg o1;
     realm \<leftarrow> Realm pl;
     mset ''realm'' realm o2 }"

definition ensure_realm :: "Planner \<Rightarrow> upd_state \<Rightarrow> upd_state option" where
  "ensure_realm pl = (\<lambda>(ch, st).
     if SecurityMode pl = ADMode then do {
       realm \<leftarrow> Realm pl;
       (case mlookup (c_Globals st) realm of
          Some _ \<Rightarrow> Some (ch, st)
        | None \<Rightarrow> do {
            opts \<leftarrow> realm_options pl;
            m \<leftarrow> mset realm \<lparr>gc_Options = opts\<rparr> (c_Globals st);
            Some (True, st\<lparr>c_Globals := m\<rparr>) }) }
     else Some (ch, st))"

text \<open>
  The whole method on the document the planner holds; the error result is always nil. The
  share options are written before the config section in the code as here; the two
  assignments to the globals map and the share map are those of the loops above, made
  visible because the code mutates the option maps in place.
\<close>

definition Update :: "Planner \<Rightarrow> upd_state option" where
  "Update pl = do {
     st \<leftarrow> pl_ConfigState pl;
     s1 \<leftarrow> ensure_globals pl (False, st);
     s2 \<leftarrow> ensure_share pl s1;
     s3 \<leftarrow> custom_globals pl s2;
     s4 \<leftarrow> share_values pl s3;
     s5 \<leftarrow> ensure_section pl s4;
     s6 \<leftarrow> ensure_users s5;
     ensure_realm pl s6 }"

section \<open>\<open>Prune\<close>\<close>

definition prune_section :: "Planner \<Rightarrow> upd_state \<Rightarrow> upd_state option" where
  "prune_section pl = (\<lambda>(ch, st).
     case mlookup (c_Configs st) (instanceID pl) of
       None \<Rightarrow> Some (ch, st)
     | Some cfg \<Rightarrow>
         (case removeShare cfg (shareName pl) of
            (cfg', True) \<Rightarrow> do {
              m \<leftarrow> mset (instanceID pl) cfg' (c_Configs st);
              Some (True, st\<lparr>c_Configs := m\<rparr>) }
          | (_, False) \<Rightarrow> Some (ch, st)))"

definition prune_share :: "Planner \<Rightarrow> upd_state \<Rightarrow> upd_state option" where
  "prune_share pl = (\<lambda>(ch, st).
     case mlookup (c_Shares st) (shareName pl) of
       None \<Rightarrow> Some (ch, st)
     | Some _ \<Rightarrow> Some (True, st\<lparr>c_Shares := mdelete (shareName pl) (c_Shares st)\<rparr>))"

definition Prune :: "Planner \<Rightarrow> upd_state option" where
  "Prune pl = do {
     st \<leftarrow> pl_ConfigState pl;
     s1 \<leftarrow> prune_section pl (False, st);
     prune_share pl s1 }"

end
