(* ===== verification/ConfigurationProps.thy ===== *)
theory ConfigurationProps
  imports Configuration
begin

text \<open>
  What \<open>Update\<close> and \<open>Prune\<close> guarantee. Every block of them keeps one contract, stated
  once as a locale: the flag never goes back, a block that reports no change has made none,
  and well-formed documents stay well-formed.
\<close>

section \<open>The option loops\<close>

lemma apply_configs_ins:
  "sorted_keys xs \<Longrightarrow>
   \<exists>c. apply_configs kvs (Some xs) ch = Some (Some (fold (\<lambda>(k, v). ins k v) kvs xs), ch \<or> c)"
proof (induction kvs arbitrary: xs ch)
  case (Cons e kvs)
  obtain k v where e: "e = (k, v)" by (cases e)
  show ?case
  proof (cases "map_of xs k = Some v")
    case True
    then show ?thesis using Cons e by (simp add: mlookup_Some ins_same)
  next
    case False
    have "\<exists>c. apply_configs kvs (Some (ins k v xs)) True =
      Some (Some (fold (\<lambda>(k, v). ins k v) kvs (ins k v xs)), True \<or> c)"
      using Cons.IH [of "ins k v xs" True] Cons.prems by (simp add: sorted_keys_ins)
    then show ?thesis using False e
      by (auto simp: mlookup_Some split: option.splits intro: exI [of _ True])
  qed
qed auto

lemma apply_configs_flag:
  "sorted_keys xs \<Longrightarrow> distinct (map fst kvs) \<Longrightarrow>
   apply_configs kvs (Some xs) ch =
     Some (Some (fold (\<lambda>(k, v). ins k v) kvs xs),
           ch \<or> (\<exists>(k, v) \<in> set kvs. map_of xs k \<noteq> Some v))"
proof (induction kvs arbitrary: xs ch)
  case (Cons e kvs)
  obtain k v where e: "e = (k, v)" by (cases e)
  show ?case
  proof (cases "map_of xs k = Some v")
    case True
    then show ?thesis using Cons e by (simp add: mlookup_Some ins_same)
  next
    case False
    have "apply_configs kvs (Some (ins k v xs)) True =
      Some (Some (fold (\<lambda>(k, v). ins k v) kvs (ins k v xs)), True)"
      using Cons.IH [of "ins k v xs" True] Cons.prems e by (simp add: sorted_keys_ins)
    then show ?thesis using False e by (auto simp: mlookup_Some split: option.splits)
  qed
qed auto

lemma apply_configs_None: "apply_configs kvs None ch = (if kvs = [] then Some (None, ch) else None)"
  by (cases kvs) auto

lemma fold_ins_unchanged:
  "sorted_keys xs \<Longrightarrow> \<forall>(k, v) \<in> set kvs. map_of xs k = Some v \<Longrightarrow> fold (\<lambda>(k, v). ins k v) kvs xs = xs"
  by (induction kvs) (auto simp: ins_same)

lemma map_of_rev_distinct:
  "distinct (map fst kvs) \<Longrightarrow> (k, v) \<in> set kvs \<Longrightarrow> map_of (rev kvs) k = Some v"
  by (intro map_of_is_SomeI) (simp_all flip: rev_map)

lemma map_of_fold_ins_distinct:
  "distinct (map fst kvs) \<Longrightarrow> (k, v) \<in> set kvs \<Longrightarrow> map_of (fold (\<lambda>(k, v). ins k v) kvs xs) k = Some v"
  by (simp add: map_of_fold_ins map_add_def map_of_rev_distinct)

lemma set_param_ins:
  assumes "sorted_keys xs" "v \<noteq> ''''"
  shows "set_param k v (Some xs) = Some (Some (ins k v xs), map_of xs k \<noteq> Some v)"
  using assms by (auto simp: set_param_def mget_def mlookup_Some ins_same split: option.splits)

lemma value_not_empty [simp]: "browseable_value spec \<noteq> ''''" "read_only_value spec \<noteq> ''''"
  by (simp_all add: browseable_value_def read_only_value_def Yes_def No_def)

lemma params_differ [simp]: "BrowseableParam \<noteq> ReadOnlyParam" "ReadOnlyParam \<noteq> BrowseableParam"
  by (simp_all add: BrowseableParam_def ReadOnlyParam_def)

text \<open>The custom options in force for a share or for the globals.\<close>

definition share_customs :: "SmbShareSpec \<Rightarrow> (string \<times> string) list" where
  "share_customs spec = (case sp_CustomShareConfig spec of
     None \<Rightarrow> [] | Some c \<Rightarrow> if shc_UseUnsafeCustomConfig c then entries (shc_Configs c) else [])"

definition global_customs :: "Planner \<Rightarrow> (string \<times> string) list" where
  "global_customs pl = (case pl_CommonConfig pl of
     None \<Rightarrow> []
   | Some cc \<Rightarrow> (case cc_CustomGlobalConfig (scc_Spec cc) of
       None \<Rightarrow> [] | Some c \<Rightarrow> if cg_UseUnsafeCustomConfig c then entries (cg_Configs c) else []))"

definition share_target :: "SmbShareSpec \<Rightarrow> (string \<times> string) list \<Rightarrow> (string \<times> string) list" where
  "share_target spec xs =
     ins ReadOnlyParam (read_only_value spec)
       (ins BrowseableParam (browseable_value spec)
         (fold (\<lambda>(k, v). ins k v) (share_customs spec) xs))"

definition customs_done :: "(string \<times> string) list \<Rightarrow> (string \<times> string) list \<Rightarrow> bool" where
  "customs_done kvs xs \<longleftrightarrow> (\<forall>(k, v) \<in> set kvs. map_of xs k = Some v)"

lemma applyCustomShare_eq:
  assumes "sc_Options s = Some xs" "sorted_keys xs" "distinct (map fst (share_customs spec))"
  shows "applyCustomShare s spec =
    Some (s\<lparr>sc_Options := Some (fold (\<lambda>(k, v). ins k v) (share_customs spec) xs)\<rparr>,
          \<not> customs_done (share_customs spec) xs)"
  using assms
  by (auto simp: applyCustomShare_def share_customs_def apply_configs_flag customs_done_def
      split: option.splits if_splits)

lemma applyShareValues_eq:
  assumes "sc_Options s = Some xs" "sorted_keys xs"
  shows "applyShareValues s spec =
    Some (s\<lparr>sc_Options := Some (ins ReadOnlyParam (read_only_value spec)
                                (ins BrowseableParam (browseable_value spec) xs))\<rparr>,
      map_of xs BrowseableParam \<noteq> Some (browseable_value spec) \<or>
      map_of xs ReadOnlyParam \<noteq> Some (read_only_value spec))"
  using assms by (simp add: applyShareValues_def set_param_ins sorted_keys_ins)

lemma sorted_share_target: "sorted_keys xs \<Longrightarrow> sorted_keys (share_target spec xs)"
  by (simp add: share_target_def sorted_keys_ins sorted_keys_fold_ins)

section \<open>One contract for every block\<close>

locale config_step =
  fixes step :: "upd_state \<Rightarrow> upd_state option"
  assumes step_flag: "step (ch, st) = Some (ch', st') \<Longrightarrow> ch \<Longrightarrow> ch'"
    and step_same: "wf_scc st \<Longrightarrow> step (ch, st) = Some (False, st') \<Longrightarrow> st' = st"
    and step_wf: "wf_scc st \<Longrightarrow> step (ch, st) = Some (ch', st') \<Longrightarrow> wf_scc st'"
begin

lemma unchanged_run: "wf_scc st \<Longrightarrow> step (ch, st) = Some (False, st') \<Longrightarrow> \<not> ch \<and> st' = st"
  using step_flag step_same by blast

end

text \<open>Running one block after another keeps the contract.\<close>

lemma config_step_compose:
  assumes "config_step f" "config_step g"
  shows "config_step (\<lambda>s. do { s1 \<leftarrow> f s; g s1 })"
proof -
  have f: "f (ch, st) = Some (c1, s1) \<Longrightarrow> (ch \<longrightarrow> c1) \<and> (wf_scc st \<longrightarrow> wf_scc s1 \<and> (\<not> c1 \<longrightarrow> s1 = st))"
    for ch st c1 s1
    using config_step.step_flag [OF assms(1), of ch st c1 s1] config_step.step_same [OF assms(1), of st ch s1]
      config_step.step_wf [OF assms(1), of st ch c1 s1] by (cases c1) auto
  have g: "g (ch, st) = Some (c1, s1) \<Longrightarrow> (ch \<longrightarrow> c1) \<and> (wf_scc st \<longrightarrow> wf_scc s1 \<and> (\<not> c1 \<longrightarrow> s1 = st))"
    for ch st c1 s1
    using config_step.step_flag [OF assms(2), of ch st c1 s1] config_step.step_same [OF assms(2), of st ch s1]
      config_step.step_wf [OF assms(2), of st ch c1 s1] by (cases c1) auto
  show ?thesis
    by unfold_locales (fastforce simp: bind_eq_Some_conv dest!: f g)+
qed

lemma idmap_domain_sorted: "sorted_keys m \<Longrightarrow> sorted_keys (idmap_domain i d m)"
  by (simp add: idmap_domain_def Let_def sorted_keys_ins)

lemma idmap_loop_sorted: "sorted_keys m \<Longrightarrow> sorted_keys (idmap_loop i ds m)"
  by (induction ds arbitrary: i m) (simp_all add: idmap_domain_sorted)

lemma wf_opts_idmap [simp]: "wf_opts (idmapOptions pl)"
  by (auto simp: wf_opts_def idmapOptions_def idmap_loop_sorted split: option.splits)

lemma wf_opts_mset: "wf_opts m \<Longrightarrow> mset k v m = Some m' \<Longrightarrow> wf_opts m'"
  by (auto simp: wf_opts_def sorted_keys_ins)

lemma wf_realm_options: "realm_options pl = Some m \<Longrightarrow> wf_opts m"
  by (auto simp: realm_options_def bind_eq_Some_conv dest!: wf_opts_mset [OF wf_opts_idmap]
      intro: wf_opts_mset)

lemma apply_configs_wf: "apply_configs kvs opts ch = Some (m, c) \<Longrightarrow> wf_opts opts \<Longrightarrow> wf_opts m"
  by (induction kvs opts ch rule: apply_configs.induct)
    (auto split: option.splits if_splits Option.bind_splits dest: wf_opts_mset)

lemma apply_configs_mono: "apply_configs kvs opts ch = Some (m, c) \<Longrightarrow> ch \<Longrightarrow> c"
  by (induction kvs opts ch rule: apply_configs.induct)
    (auto split: option.splits if_splits Option.bind_splits)

lemma apply_configs_same: "apply_configs kvs opts ch = Some (m, False) \<Longrightarrow> m = opts"
  by (induction kvs opts ch rule: apply_configs.induct)
    (auto split: option.splits if_splits Option.bind_splits dest: apply_configs_mono)

lemma set_param_wf: "set_param k v opts = Some (m, c) \<Longrightarrow> wf_opts opts \<Longrightarrow> wf_opts m"
  by (auto simp: set_param_def split: if_splits Option.bind_splits dest: wf_opts_mset)

lemma set_param_same: "set_param k v opts = Some (m, False) \<Longrightarrow> m = opts"
  by (auto simp: set_param_def split: if_splits Option.bind_splits)

lemma set_options_same [simp]:
  "sc_Options s = m \<Longrightarrow> s\<lparr>sc_Options := m\<rparr> = s"
  "gc_Options g = m' \<Longrightarrow> g\<lparr>gc_Options := m'\<rparr> = g"
  by auto

lemma set_maps_same:
  "m = c_Shares st \<Longrightarrow> st\<lparr>c_Shares := m\<rparr> = st"
  "m' = c_Globals st \<Longrightarrow> st\<lparr>c_Globals := m'\<rparr> = st"
  by auto

lemma applyCustomGlobal_wf:
  "applyCustomGlobal g spec = Some (g', c) \<Longrightarrow> wf_opts (gc_Options g) \<Longrightarrow>
   wf_opts (gc_Options g') \<and> (\<not> c \<longrightarrow> g' = g)"
  by (auto simp: applyCustomGlobal_def split: option.splits if_splits Option.bind_splits
      dest: apply_configs_wf dest!: apply_configs_same)

lemma applyCustomShare_wf:
  "applyCustomShare s spec = Some (s', c) \<Longrightarrow> wf_opts (sc_Options s) \<Longrightarrow>
   wf_opts (sc_Options s') \<and> (\<not> c \<longrightarrow> s' = s)"
  by (auto simp: applyCustomShare_def split: option.splits if_splits Option.bind_splits
      dest: apply_configs_wf dest!: apply_configs_same)

lemma applyShareValues_wf:
  assumes "applyShareValues s spec = Some (s', c)" "wf_opts (sc_Options s)"
  shows "wf_opts (sc_Options s') \<and> (\<not> c \<longrightarrow> s' = s)"
proof -
  from assms(1) obtain m1 c1 m2 c2 where
    "set_param BrowseableParam (browseable_value spec) (sc_Options s) = Some (m1, c1)"
    "set_param ReadOnlyParam (read_only_value spec) m1 = Some (m2, c2)"
    "s' = s\<lparr>sc_Options := m2\<rparr>" "c = (c1 \<or> c2)"
    by (auto simp: applyShareValues_def bind_eq_Some_conv)
  moreover from this have "wf_opts m2" using assms(2) set_param_wf by blast
  ultimately show ?thesis by (auto dest!: set_param_same)
qed

lemma wf_scc_lookup_wf:
  "wf_scc c \<Longrightarrow> mlookup (c_Shares c) k = Some s \<Longrightarrow> wf_opts (sc_Options s)"
  "wf_scc c \<Longrightarrow> mlookup (c_Globals c) k = Some g \<Longrightarrow> wf_opts (gc_Options g)"
  by (auto elim: wf_scc_share wf_scc_global simp: wf_opts_def)

lemma wf_scc_maps:
  "wf_scc c \<Longrightarrow> wf_map (c_Shares c)" "wf_scc c \<Longrightarrow> wf_map (c_Globals c)"
  "wf_scc c \<Longrightarrow> wf_map (c_Configs c)"
  by (simp_all add: wf_scc_def)

lemma ensure_globals_step: "config_step (ensure_globals pl)"
  by unfold_locales
    (auto simp: ensure_globals_def split: option.splits Option.bind_splits intro: wf_scc_set_global)

lemma ensure_share_step: "config_step (ensure_share pl)"
  by unfold_locales
    (auto simp: ensure_share_def split: option.splits Option.bind_splits intro: wf_scc_set_share)

lemma custom_globals_step: "config_step (custom_globals pl)"
proof unfold_locales
  fix ch st ch' st'
  assume run: "custom_globals pl (ch, st) = Some (ch', st')"
  show "ch \<Longrightarrow> ch'"
    using run by (auto simp: custom_globals_def split: option.splits Option.bind_splits)
  show "wf_scc st \<Longrightarrow> wf_scc st'"
    using run by (auto simp: custom_globals_def split: option.splits Option.bind_splits
        dest!: applyCustomGlobal_wf intro: wf_scc_set_global wf_scc_lookup_wf)
next
  fix ch st st'
  assume "wf_scc st" "custom_globals pl (ch, st) = Some (False, st')"
  then show "st' = st"
    by (auto simp: custom_globals_def split: option.splits Option.bind_splits
        dest!: applyCustomGlobal_wf dest: wf_scc_lookup_wf
        intro!: set_maps_same mset_sameD [of _ Globals_key] wf_scc_maps)
qed

lemma share_values_step: "config_step (share_values pl)"
proof unfold_locales
  fix ch st ch' st'
  assume run: "share_values pl (ch, st) = Some (ch', st')"
  show "ch \<Longrightarrow> ch'"
    using run by (auto simp: share_values_def split: option.splits Option.bind_splits)
  show "wf_scc st \<Longrightarrow> wf_scc st'"
    using run by (auto simp: share_values_def split: option.splits Option.bind_splits
        intro!: wf_scc_set_share dest!: applyCustomShare_wf applyShareValues_wf dest: wf_scc_lookup_wf)
next
  fix ch st st'
  assume "wf_scc st" "share_values pl (ch, st) = Some (False, st')"
  then show "st' = st"
    by (auto simp: share_values_def split: option.splits Option.bind_splits
        dest!: applyCustomShare_wf applyShareValues_wf
        dest: wf_scc_lookup_wf intro!: set_maps_same mset_sameD [of _ "shareName pl"] wf_scc_maps)
qed

lemma ensure_section_step: "config_step (ensure_section pl)"
  by unfold_locales
    (auto simp: ensure_section_def Let_def split: option.splits Option.bind_splits if_splits
      intro: wf_scc_set_config)

lemma ensure_users_step: "config_step ensure_users"
  by unfold_locales
    (auto simp: ensure_users_def wf_scc_def NewDefaultUsers_def split: if_splits)

lemma ensure_realm_step: "config_step (ensure_realm pl)"
  by unfold_locales
    (auto simp: ensure_realm_def split: option.splits Option.bind_splits if_splits
      intro!: wf_scc_set_global intro: wf_realm_options)

lemma prune_section_step: "config_step (prune_section pl)"
  by unfold_locales
    (auto simp: prune_section_def removeShare_def split: option.splits Option.bind_splits if_splits
      intro: wf_scc_set_config)

lemma prune_share_step: "config_step (prune_share pl)"
  by unfold_locales
    (auto simp: prune_share_def split: option.splits intro: wf_scc_delete_share)

definition update_steps :: "Planner \<Rightarrow> upd_state \<Rightarrow> upd_state option" where
  "update_steps pl = (\<lambda>s. do {
     s1 \<leftarrow> ensure_globals pl s;
     s2 \<leftarrow> ensure_share pl s1;
     s3 \<leftarrow> custom_globals pl s2;
     s4 \<leftarrow> share_values pl s3;
     s5 \<leftarrow> ensure_section pl s4;
     s6 \<leftarrow> ensure_users s5;
     ensure_realm pl s6 })"

definition prune_steps :: "Planner \<Rightarrow> upd_state \<Rightarrow> upd_state option" where
  "prune_steps pl = (\<lambda>s. do { s1 \<leftarrow> prune_section pl s; prune_share pl s1 })"

interpretation upd: config_step "update_steps pl" for pl
  unfolding update_steps_def
  by (rule config_step_compose [OF ensure_globals_step config_step_compose [OF ensure_share_step
        config_step_compose [OF custom_globals_step config_step_compose [OF share_values_step
        config_step_compose [OF ensure_section_step config_step_compose [OF ensure_users_step
        ensure_realm_step]]]]]])

interpretation prn: config_step "prune_steps pl" for pl
  unfolding prune_steps_def
  by (rule config_step_compose [OF prune_section_step prune_share_step])

lemma Update_steps: "pl_ConfigState pl = Some st \<Longrightarrow> Update pl = update_steps pl (False, st)"
  by (simp add: Update_def update_steps_def)

lemma Prune_steps: "pl_ConfigState pl = Some st \<Longrightarrow> Prune pl = prune_steps pl (False, st)"
  by (simp add: Prune_def prune_steps_def)

section \<open>What each block leaves behind\<close>

text \<open>
  Go maps have one entry per key; for the maps of the custom resources this is the only
  assumption made about them.
\<close>

definition wf_customs :: "Planner \<Rightarrow> bool" where
  "wf_customs pl \<longleftrightarrow> distinct (map fst (share_customs (sh_Spec (pl_SmbShare pl)))) \<and>
     distinct (map fst (global_customs pl))"

definition has_pvc :: "SmbShare \<Rightarrow> bool" where
  "has_pvc s \<longleftrightarrow> st_Pvc (sp_Storage (sh_Spec s)) \<noteq> None"

text \<open>A custom option that contradicts a field of the share's own specification.\<close>

definition conflicting :: "SmbShareSpec \<Rightarrow> bool" where
  "conflicting spec \<longleftrightarrow>
     (\<exists>(k, v) \<in> set (share_customs spec).
        k = BrowseableParam \<and> v \<noteq> browseable_value spec \<or>
        k = ReadOnlyParam \<and> v \<noteq> read_only_value spec)"

lemma map_of_share_target:
  "map_of (share_target spec xs) = (map_of xs ++ map_of (rev (share_customs spec)))
     (BrowseableParam \<mapsto> browseable_value spec, ReadOnlyParam \<mapsto> read_only_value spec)"
  by (simp add: share_target_def map_of_fold_ins)

lemma share_target_idem:
  assumes "sorted_keys xs"
  shows "share_target spec (share_target spec xs) = share_target spec xs"
proof (rule sorted_keys_ext)
  show "map_of (share_target spec (share_target spec xs)) = map_of (share_target spec xs)"
  proof
    fix k
    show "map_of (share_target spec (share_target spec xs)) k = map_of (share_target spec xs) k"
      by (cases "map_of (rev (share_customs spec)) k")
        (simp_all only: map_of_share_target fun_upd_apply map_add_def option.case split: if_split, simp)
  qed
qed (use assms in \<open>simp_all add: sorted_share_target\<close>)

lemma share_target_customs:
  assumes "sorted_keys xs" "distinct (map fst (share_customs spec))" "share_target spec xs = xs"
  shows "customs_done (share_customs spec) xs \<longleftrightarrow> \<not> conflicting spec"
proof -
  have val: "map_of xs k = map_of (share_target spec xs) k" for k using assms(3) by simp
  have cust: "(k, v) \<in> set (share_customs spec) \<Longrightarrow>
      map_of xs k = (if k = ReadOnlyParam then Some (read_only_value spec)
        else if k = BrowseableParam then Some (browseable_value spec) else Some v)" for k v
    by (rule trans [OF val]) (simp add: map_of_share_target map_add_def map_of_rev_distinct [OF assms(2)])
  show ?thesis
  proof
    assume finished: "customs_done (share_customs spec) xs"
    show "\<not> conflicting spec"
    proof
      assume "conflicting spec"
      then obtain k v where "(k, v) \<in> set (share_customs spec)"
        "k = BrowseableParam \<and> v \<noteq> browseable_value spec \<or> k = ReadOnlyParam \<and> v \<noteq> read_only_value spec"
        by (auto simp: conflicting_def)
      with cust [OF this(1)] finished show False by (auto simp: customs_done_def split: if_splits)
    qed
  next
    assume fine: "\<not> conflicting spec"
    show "customs_done (share_customs spec) xs"
      unfolding customs_done_def
    proof clarify
      fix k v
      assume kv: "(k, v) \<in> set (share_customs spec)"
      from kv fine have "k = BrowseableParam \<longrightarrow> v = browseable_value spec"
        "k = ReadOnlyParam \<longrightarrow> v = read_only_value spec"
        by (auto simp: conflicting_def)
      with cust [OF kv] show "map_of xs k = Some v" by (simp split: if_splits)
    qed
  qed
qed

lemma ensure_globals_run:
  assumes "wf_scc st"
  shows "\<exists>c m. ensure_globals pl (ch, st) = Some (c, st\<lparr>c_Globals := m\<rparr>) \<and> mlookup m Globals_key \<noteq> None"
proof (cases "mlookup (c_Globals st) Globals_key")
  case None
  obtain gs where "c_Globals st = Some gs" using assms by (auto elim: wf_scc_parts)
  with None show ?thesis by (auto simp: ensure_globals_def mlookup_Some)
next
  case (Some g)
  then show ?thesis by (intro exI [of _ ch] exI [of _ "c_Globals st"]) (simp add: ensure_globals_def)
qed

lemma ensure_share_run:
  assumes "wf_scc st" "has_pvc (pl_SmbShare pl)"
  shows "\<exists>c m. ensure_share pl (ch, st) = Some (c, st\<lparr>c_Shares := m\<rparr>) \<and> mlookup m (shareName pl) \<noteq> None"
proof (cases "mlookup (c_Shares st) (shareName pl)")
  case None
  obtain path where "Share_path pl = Some path"
    using assms(2) by (cases "Share_path pl") (auto simp: has_pvc_def Share_path_def split: if_splits)
  moreover obtain ss where "c_Shares st = Some ss" using assms(1) by (auto elim: wf_scc_parts)
  ultimately show ?thesis using None by (auto simp: ensure_share_def mlookup_Some)
next
  case (Some s)
  then show ?thesis by (intro exI [of _ ch] exI [of _ "c_Shares st"]) (simp add: ensure_share_def)
qed

lemma applyCustomGlobal_run:
  assumes "gc_Options g = Some xs" "sorted_keys xs" "pl_CommonConfig pl = Some cc"
    and "distinct (map fst (global_customs pl))"
  shows "\<exists>c ys. applyCustomGlobal g (scc_Spec cc) = Some (g\<lparr>gc_Options := Some ys\<rparr>, c) \<and>
    customs_done (global_customs pl) ys"
proof -
  have "customs_done (global_customs pl) (fold (\<lambda>(k, v). ins k v) (global_customs pl) xs)"
    using map_of_fold_ins_distinct [OF assms(4)] by (auto simp: customs_done_def)
  moreover have "distinct (map fst (global_customs pl)) \<Longrightarrow>
    \<exists>c. applyCustomGlobal g (scc_Spec cc) =
      Some (g\<lparr>gc_Options := Some (fold (\<lambda>(k, v). ins k v) (global_customs pl) xs)\<rparr>, c)"
    using assms(1-3)
    by (auto simp: applyCustomGlobal_def global_customs_def apply_configs_flag split: option.splits)
  ultimately show ?thesis using assms(4) by blast
qed

lemma custom_globals_run:
  assumes "wf_scc st" "mlookup (c_Globals st) Globals_key \<noteq> None" "wf_customs pl"
  shows "\<exists>c m g. custom_globals pl (ch, st) = Some (c, st\<lparr>c_Globals := m\<rparr>) \<and>
    mlookup m Globals_key = Some g \<and> customs_done (global_customs pl) (entries (gc_Options g))"
proof -
  obtain g where g: "mlookup (c_Globals st) Globals_key = Some g" using assms(2) by blast
  obtain xs where xs: "gc_Options g = Some xs" "sorted_keys xs"
    using wf_scc_global [OF assms(1) g] by blast
  obtain gs where gs: "c_Globals st = Some gs" using assms(1) by (auto elim: wf_scc_parts)
  show ?thesis
  proof (cases "pl_CommonConfig pl")
    case None
    then show ?thesis using g
      by (auto simp: custom_globals_def global_customs_def customs_done_def set_maps_same
          intro!: exI [of _ "c_Globals st"])
  next
    case (Some cc)
    obtain c ys where "applyCustomGlobal g (scc_Spec cc) = Some (g\<lparr>gc_Options := Some ys\<rparr>, c)"
      "customs_done (global_customs pl) ys"
      using applyCustomGlobal_run [OF xs Some] assms(3) by (auto simp: wf_customs_def)
    then show ?thesis using Some g gs by (auto simp: custom_globals_def mlookup_Some)
  qed
qed

lemma share_values_run:
  assumes "wf_scc st" "mlookup (c_Shares st) (shareName pl) = Some s" "sc_Options s = Some xs"
    and "wf_customs pl"
  defines "spec \<equiv> sh_Spec (pl_SmbShare pl)"
  shows "\<exists>c m. share_values pl (ch, st) = Some (ch \<or> c, st\<lparr>c_Shares := m\<rparr>) \<and>
    mset (shareName pl) (s\<lparr>sc_Options := Some (share_target spec xs)\<rparr>) (c_Shares st) = Some m \<and>
    (share_target spec xs = xs \<longrightarrow> c = conflicting spec) \<and>
    (conflicting spec \<longrightarrow> c)"
proof -
  let ?F = "fold (\<lambda>(k, v). ins k v) (share_customs spec) xs"
  have srt: "sorted_keys xs"
    using assms(1-3) by (metis option.inject wf_scc_share)
  have dst: "distinct (map fst (share_customs spec))" using assms(4) by (simp add: wf_customs_def spec_def)
  obtain m where m: "mset (shareName pl) (s\<lparr>sc_Options := Some (share_target spec xs)\<rparr>) (c_Shares st) = Some m"
    using assms(1) by (auto elim: wf_scc_parts)
  let ?c1 = "\<not> customs_done (share_customs spec) xs"
  let ?c2 = "map_of ?F BrowseableParam \<noteq> Some (browseable_value spec) \<or>
             map_of ?F ReadOnlyParam \<noteq> Some (read_only_value spec)"
  have run: "share_values pl (ch, st) = Some (ch \<or> ?c1 \<or> ?c2, st\<lparr>c_Shares := m\<rparr>)"
    using assms(2) applyCustomShare_eq [OF assms(3) srt dst]
      applyShareValues_eq [of "s\<lparr>sc_Options := Some ?F\<rparr>" ?F spec] m
    by (simp add: share_values_def spec_def [symmetric] sorted_keys_fold_ins srt share_target_def)
  have "?c1 \<or> ?c2" if "conflicting spec"
  proof -
    from that obtain k v where "(k, v) \<in> set (share_customs spec)"
      "k = BrowseableParam \<and> v \<noteq> browseable_value spec \<or> k = ReadOnlyParam \<and> v \<noteq> read_only_value spec"
      by (auto simp: conflicting_def)
    with map_of_fold_ins_distinct [OF dst this(1), of xs] show ?thesis by auto
  qed
  moreover have "(?c1 \<or> ?c2) = conflicting spec" if "share_target spec xs = xs"
  proof (cases "conflicting spec")
    case True
    with calculation show ?thesis by blast
  next
    case False
    with share_target_customs [OF srt dst that] have "\<not> ?c1" by blast
    then have "?F = xs" using fold_ins_unchanged [OF srt] by (simp add: customs_done_def)
    moreover have "\<not> ?c2"
      unfolding \<open>?F = xs\<close>
      using fun_cong [OF arg_cong [OF that, of map_of], of BrowseableParam]
        fun_cong [OF arg_cong [OF that, of map_of], of ReadOnlyParam]
      by (simp add: map_of_share_target)
    ultimately show ?thesis using False \<open>\<not> ?c1\<close> by blast
  qed
  ultimately show ?thesis using run m by blast
qed


lemma realm_not_globals: "Realm pl = Some r \<Longrightarrow> r \<noteq> Globals_key"
proof
  assume "Realm pl = Some r" "r = Globals_key"
  then obtain x where "toUpper x = ''globals''"
    by (auto simp: Realm_def Globals_key_def bind_eq_Some_conv)
  then have "CHR ''g'' \<in> set (toUpper x)" by simp
  from toUpper_no_lower [OF this] show False by simp
qed

lemma ADMode_realm: "SecurityMode pl = ADMode \<Longrightarrow> \<exists>r w. Realm pl = Some r \<and> Workgroup pl = Some w"
  by (cases "pl_SecurityConfig pl")
    (simp_all add: SecurityMode_def Realm_def Workgroup_def UserMode_def ADMode_def)

lemma new_section_run:
  "\<exists>cfg. new_section pl = Some cfg \<and> cs_Shares cfg = [shareName pl] \<and> cs_InstanceName cfg = InstanceName pl"
  using ADMode_realm [of pl] by (auto simp: new_section_def Let_def)

lemma ensure_section_run:
  assumes "wf_scc st"
  shows "\<exists>c m cfg. ensure_section pl (ch, st) = Some (c, st\<lparr>c_Configs := m\<rparr>) \<and>
    mlookup m (instanceID pl) = Some cfg \<and> hasShare cfg (shareName pl)"
proof -
  obtain cs where cs: "c_Configs st = Some cs" "sorted_keys cs" using assms by (auto elim: wf_scc_parts)
  obtain new where new: "new_section pl = Some new" "cs_Shares new = [shareName pl]"
    using new_section_run by blast
  show ?thesis
  proof (cases "map_of cs (instanceID pl)")
    case None
    with cs new show ?thesis by (auto simp: ensure_section_def mlookup_Some hasShare_def)
  next
    case (Some cfg)
    show ?thesis
    proof (cases "hasShare cfg (shareName pl)")
      case True
      with cs Some show ?thesis
        by (intro exI [of _ ch] exI [of _ "c_Configs st"])
          (simp add: ensure_section_def mlookup_Some ins_same)
    next
      case False
      with cs Some show ?thesis by (auto simp: ensure_section_def mlookup_Some hasShare_def)
    qed
  qed
qed

lemma ensure_users_run:
  "\<exists>c m. ensure_users (ch, st) = Some (c, st\<lparr>c_Users := m\<rparr>) \<and> mlen m \<noteq> 0"
  using NewDefaultUsers_len by (cases "mlen (c_Users st) = 0") (auto simp: ensure_users_def intro: exI [of _ "c_Users st"])

lemma realm_options_run: "SecurityMode pl = ADMode \<Longrightarrow> \<exists>opts. realm_options pl = Some opts"
  using ADMode_realm [of pl] wf_opts_idmap [of pl] by (auto simp: realm_options_def wf_opts_def)

lemma ensure_realm_run:
  assumes "wf_scc st"
  shows "\<exists>c m. ensure_realm pl (ch, st) = Some (c, st\<lparr>c_Globals := m\<rparr>) \<and>
    mlookup m Globals_key = mlookup (c_Globals st) Globals_key \<and>
    (SecurityMode pl = ADMode \<longrightarrow> (\<exists>r g. Realm pl = Some r \<and> mlookup m r = Some g))"
proof (cases "SecurityMode pl = ADMode")
  case True
  obtain gs where gs: "c_Globals st = Some gs" using assms by (auto elim: wf_scc_parts)
  obtain r where r: "Realm pl = Some r" using ADMode_realm [OF True] by blast
  obtain opts where opts: "realm_options pl = Some opts" using realm_options_run [OF True] by blast
  show ?thesis
  proof (cases "map_of gs r")
    case None
    with True gs r opts realm_not_globals [OF r] show ?thesis
      by (auto simp: ensure_realm_def mlookup_Some)
  next
    case (Some g)
    with True gs r show ?thesis
      by (intro exI [of _ ch] exI [of _ "c_Globals st"]) (simp add: ensure_realm_def mlookup_Some)
  qed
next
  case False
  then show ?thesis
    by (intro exI [of _ ch] exI [of _ "c_Globals st"]) (simp add: ensure_realm_def)
qed

section \<open>The whole of \<open>Update\<close>\<close>

text \<open>A document in which nothing that \<open>Update\<close> looks for is missing.\<close>

definition settled :: "Planner \<Rightarrow> SambaContainerConfig \<Rightarrow> bool" where
  "settled pl st \<longleftrightarrow>
     (\<exists>g. mlookup (c_Globals st) Globals_key = Some g \<and>
        customs_done (global_customs pl) (entries (gc_Options g))) \<and>
     (\<exists>s xs. mlookup (c_Shares st) (shareName pl) = Some s \<and> sc_Options s = Some xs \<and>
        share_target (sh_Spec (pl_SmbShare pl)) xs = xs) \<and>
     (\<exists>cfg. mlookup (c_Configs st) (instanceID pl) = Some cfg \<and> hasShare cfg (shareName pl)) \<and>
     mlen (c_Users st) \<noteq> 0 \<and>
     (SecurityMode pl = ADMode \<longrightarrow> (\<exists>r g. Realm pl = Some r \<and> mlookup (c_Globals st) r = Some g))"

lemma update_steps_run:
  assumes wf: "wf_scc st" and pvc: "has_pvc (pl_SmbShare pl)" and cu: "wf_customs pl"
  shows "\<exists>c st'. update_steps pl (ch, st) = Some (c, st') \<and> wf_scc st' \<and> settled pl st'"
proof -
  let ?spec = "sh_Spec (pl_SmbShare pl)"
  obtain c1 m1 where 1: "ensure_globals pl (ch, st) = Some (c1, st\<lparr>c_Globals := m1\<rparr>)"
    "mlookup m1 Globals_key \<noteq> None" using ensure_globals_run [OF wf] by blast
  define s1 where "s1 = st\<lparr>c_Globals := m1\<rparr>"
  have w1: "wf_scc s1" using config_step.step_wf [OF ensure_globals_step wf 1(1)] by (simp add: s1_def)
  obtain c2 m2 where 2: "ensure_share pl (c1, s1) = Some (c2, s1\<lparr>c_Shares := m2\<rparr>)"
    "mlookup m2 (shareName pl) \<noteq> None" using ensure_share_run [OF w1 pvc] by blast
  define s2 where "s2 = s1\<lparr>c_Shares := m2\<rparr>"
  have w2: "wf_scc s2" using config_step.step_wf [OF ensure_share_step w1 2(1)] by (simp add: s2_def)
  have "mlookup (c_Globals s2) Globals_key \<noteq> None" using 1 by (simp add: s2_def s1_def)
  from custom_globals_run [OF w2 this cu]
  obtain c3 m3 g where 3: "custom_globals pl (c2, s2) = Some (c3, s2\<lparr>c_Globals := m3\<rparr>)"
    "mlookup m3 Globals_key = Some g" "customs_done (global_customs pl) (entries (gc_Options g))" by blast
  define s3 where "s3 = s2\<lparr>c_Globals := m3\<rparr>"
  have w3: "wf_scc s3" using config_step.step_wf [OF custom_globals_step w2 3(1)] by (simp add: s3_def)
  obtain s where s: "mlookup (c_Shares s3) (shareName pl) = Some s" using 2 by (auto simp: s3_def s2_def)
  obtain xs where xs: "sc_Options s = Some xs" "sorted_keys xs" using wf_scc_share [OF w3 s] by blast
  obtain c4 m4 where 4: "share_values pl (c3, s3) = Some (c4, s3\<lparr>c_Shares := m4\<rparr>)"
    "mset (shareName pl) (s\<lparr>sc_Options := Some (share_target ?spec xs)\<rparr>) (c_Shares s3) = Some m4"
    using share_values_run [OF w3 s xs(1) cu] by blast
  define s4 where "s4 = s3\<lparr>c_Shares := m4\<rparr>"
  have w4: "wf_scc s4" using config_step.step_wf [OF share_values_step w3 4(1)] by (simp add: s4_def)
  obtain c5 m5 cfg where 5: "ensure_section pl (c4, s4) = Some (c5, s4\<lparr>c_Configs := m5\<rparr>)"
    "mlookup m5 (instanceID pl) = Some cfg" "hasShare cfg (shareName pl)"
    using ensure_section_run [OF w4] by blast
  define s5 where "s5 = s4\<lparr>c_Configs := m5\<rparr>"
  have w5: "wf_scc s5" using config_step.step_wf [OF ensure_section_step w4 5(1)] by (simp add: s5_def)
  obtain c6 m6 where 6: "ensure_users (c5, s5) = Some (c6, s5\<lparr>c_Users := m6\<rparr>)" "mlen m6 \<noteq> 0"
    using ensure_users_run by blast
  define s6 where "s6 = s5\<lparr>c_Users := m6\<rparr>"
  have w6: "wf_scc s6" using config_step.step_wf [OF ensure_users_step w5 6(1)] by (simp add: s6_def)
  obtain c7 m7 where 7: "ensure_realm pl (c6, s6) = Some (c7, s6\<lparr>c_Globals := m7\<rparr>)"
    "mlookup m7 Globals_key = mlookup (c_Globals s6) Globals_key"
    "SecurityMode pl = ADMode \<longrightarrow> (\<exists>r g. Realm pl = Some r \<and> mlookup m7 r = Some g)"
    using ensure_realm_run [OF w6, of pl c6] by blast
  define s7 where "s7 = s6\<lparr>c_Globals := m7\<rparr>"
  have w7: "wf_scc s7" using config_step.step_wf [OF ensure_realm_step w6 7(1)] by (simp add: s7_def)
  have "update_steps pl (ch, st) = Some (c7, s7)"
    using 1(1) 2(1) 3(1) 4(1) 5(1) 6(1) 7(1)
    by (simp add: update_steps_def s1_def [symmetric] s2_def [symmetric] s3_def [symmetric]
        s4_def [symmetric] s5_def [symmetric] s6_def [symmetric] s7_def [symmetric])
  moreover have "settled pl s7"
    unfolding settled_def
    using 3(2,3) mlookup_mset [OF 4(2)] 5(2,3) 6(2) 7(2,3) share_target_idem [OF xs(2)]
    by (simp add: s7_def s6_def s5_def s4_def s3_def)
  ultimately show ?thesis using w7 by blast
qed

lemma ensure_section_present:
  assumes "wf_scc st" "mlookup (c_Configs st) (instanceID pl) = Some cfg" "hasShare cfg (shareName pl)"
  shows "ensure_section pl (ch, st) = Some (ch, st)"
  using assms by (cases ch) (simp_all add: ensure_section_def mset_same wf_scc_maps)

lemma custom_globals_present:
  assumes wf: "wf_scc st" and g: "mlookup (c_Globals st) Globals_key = Some g"
    and fin: "customs_done (global_customs pl) (entries (gc_Options g))" and cu: "wf_customs pl"
  shows "custom_globals pl (ch, st) = Some (ch, st)"
proof (cases "pl_CommonConfig pl")
  case None
  then show ?thesis by (simp add: custom_globals_def)
next
  case (Some cc)
  obtain xs where xs: "gc_Options g = Some xs" "sorted_keys xs" using wf_scc_global [OF wf g] by blast
  have dst: "distinct (map fst (global_customs pl))" using cu by (simp add: wf_customs_def)
  have cd: "\<forall>(k, v) \<in> set (global_customs pl). map_of xs k = Some v"
    using fin xs by (simp add: customs_done_def)
  have "applyCustomGlobal g (scc_Spec cc) = Some (g, False)"
  proof (cases "cc_CustomGlobalConfig (scc_Spec cc)")
    case N: None
    then show ?thesis by (simp add: applyCustomGlobal_def)
  next
    case S: (Some c)
    show ?thesis
    proof (cases "cg_UseUnsafeCustomConfig c")
      case True
      then have gc: "global_customs pl = entries (cg_Configs c)" using S Some by (simp add: global_customs_def)
      have "apply_configs (entries (cg_Configs c)) (Some xs) False = Some (Some xs, False)"
        using apply_configs_flag [OF xs(2) dst, of False] fold_ins_unchanged [OF xs(2) cd] cd
        by (auto simp: gc)
      then show ?thesis using S True xs(1) by (simp add: applyCustomGlobal_def)
    qed (use S in \<open>simp add: applyCustomGlobal_def\<close>)
  qed
  then show ?thesis using Some g mset_same [OF wf_scc_maps(2) [OF wf] g]
    by (simp add: custom_globals_def)
qed

lemma share_values_present:
  assumes wf: "wf_scc st" and s: "mlookup (c_Shares st) (shareName pl) = Some s"
    and xs: "sc_Options s = Some xs" "share_target (sh_Spec (pl_SmbShare pl)) xs = xs"
    and cu: "wf_customs pl"
  shows "share_values pl (ch, st) = Some (ch \<or> conflicting (sh_Spec (pl_SmbShare pl)), st)"
proof -
  obtain c m where run: "share_values pl (ch, st) = Some (ch \<or> c, st\<lparr>c_Shares := m\<rparr>)"
    and m: "mset (shareName pl) (s\<lparr>sc_Options := Some xs\<rparr>) (c_Shares st) = Some m"
    and c: "c = conflicting (sh_Spec (pl_SmbShare pl))"
    using share_values_run [OF wf s xs(1) cu, of ch] xs(2) by auto
  have "s\<lparr>sc_Options := Some xs\<rparr> = s" using xs(1) by simp
  then have "m = c_Shares st" using m mset_sameD [OF wf_scc_maps(1) [OF wf] s] by simp
  with run c show ?thesis by simp
qed

lemma update_steps_settled:
  assumes "wf_scc st" "settled pl st" "wf_customs pl"
  shows "update_steps pl (ch, st) = Some (ch \<or> conflicting (sh_Spec (pl_SmbShare pl)), st)"
proof -
  obtain g s xs cfg where
    g: "mlookup (c_Globals st) Globals_key = Some g" "customs_done (global_customs pl) (entries (gc_Options g))"
    and s: "mlookup (c_Shares st) (shareName pl) = Some s" "sc_Options s = Some xs"
      "share_target (sh_Spec (pl_SmbShare pl)) xs = xs"
    and cfg: "mlookup (c_Configs st) (instanceID pl) = Some cfg" "hasShare cfg (shareName pl)"
    and us: "mlen (c_Users st) \<noteq> 0"
    and realm: "SecurityMode pl = ADMode \<longrightarrow> (\<exists>r g. Realm pl = Some r \<and> mlookup (c_Globals st) r = Some g)"
    using assms(2) unfolding settled_def by blast
  have "ensure_globals pl (ch, st) = Some (ch, st)" using g by (simp add: ensure_globals_def)
  moreover have "ensure_share pl (ch, st) = Some (ch, st)" using s by (simp add: ensure_share_def)
  moreover note custom_globals_present [OF assms(1) g assms(3), of ch]
    share_values_present [OF assms(1) s assms(3), of ch]
    ensure_section_present [OF assms(1) cfg, of "ch \<or> conflicting (sh_Spec (pl_SmbShare pl))"]
  moreover have "ensure_users (c, st) = Some (c, st)" for c using us by (simp add: ensure_users_def)
  moreover have "ensure_realm pl (c, st) = Some (c, st)" for c
    using realm by (auto simp: ensure_realm_def)
  ultimately show ?thesis by (simp add: update_steps_def)
qed

text \<open>The document a planner works on does not enter the names and values it writes.\<close>

lemma planner_ConfigState_simps [simp]:
  "shareName (pl\<lparr>pl_ConfigState := x\<rparr>) = shareName pl"
  "instanceID (pl\<lparr>pl_ConfigState := x\<rparr>) = instanceID pl"
  "InstanceName (pl\<lparr>pl_ConfigState := x\<rparr>) = InstanceName pl"
  "SecurityMode (pl\<lparr>pl_ConfigState := x\<rparr>) = SecurityMode pl"
  "Realm (pl\<lparr>pl_ConfigState := x\<rparr>) = Realm pl"
  "Workgroup (pl\<lparr>pl_ConfigState := x\<rparr>) = Workgroup pl"
  "IsClustered (pl\<lparr>pl_ConfigState := x\<rparr>) = IsClustered pl"
  "Grouping (pl\<lparr>pl_ConfigState := x\<rparr>) = Grouping pl"
  "Share_path (pl\<lparr>pl_ConfigState := x\<rparr>) = Share_path pl"
  "idmapOptions (pl\<lparr>pl_ConfigState := x\<rparr>) = idmapOptions pl"
  "new_section (pl\<lparr>pl_ConfigState := x\<rparr>) = new_section pl"
  "realm_options (pl\<lparr>pl_ConfigState := x\<rparr>) = realm_options pl"
  by (simp_all add: shareName_def instanceID_def InstanceName_def SecurityMode_def Realm_def
      Workgroup_def IsClustered_def Grouping_def Share_path_def ShareMountPath_def idmapOptions_def
      new_section_def realm_options_def cong: if_cong option.case_cong)

lemma steps_ConfigState [simp]:
  "update_steps (pl\<lparr>pl_ConfigState := x\<rparr>) = update_steps pl"
  "prune_steps (pl\<lparr>pl_ConfigState := x\<rparr>) = prune_steps pl"
  by (simp_all add: update_steps_def prune_steps_def ensure_globals_def ensure_share_def
      custom_globals_def share_values_def ensure_section_def ensure_realm_def prune_section_def
      prune_share_def cong: if_cong option.case_cong prod.case_cong bool.case_cong)

lemma Update_again: "Update (pl\<lparr>pl_ConfigState := Some st\<rparr>) = update_steps pl (False, st)"
  using Update_steps [of "pl\<lparr>pl_ConfigState := Some st\<rparr>" st] by simp

lemma Prune_again: "Prune (pl\<lparr>pl_ConfigState := Some st\<rparr>) = prune_steps pl (False, st)"
  using Prune_steps [of "pl\<lparr>pl_ConfigState := Some st\<rparr>" st] by simp

section \<open>What the blocks leave alone\<close>

text \<open>Everything in the document that does not belong to the planner's share or instance.\<close>

definition others_kept :: "Planner \<Rightarrow> SambaContainerConfig \<Rightarrow> SambaContainerConfig \<Rightarrow> bool" where
  "others_kept pl st st' \<longleftrightarrow>
     (\<forall>k. k \<noteq> shareName pl \<longrightarrow> mlookup (c_Shares st') k = mlookup (c_Shares st) k) \<and>
     (\<forall>k. k \<noteq> instanceID pl \<longrightarrow> mlookup (c_Configs st') k = mlookup (c_Configs st) k) \<and>
     (\<forall>k g. k \<noteq> Globals_key \<longrightarrow> mlookup (c_Globals st) k = Some g \<longrightarrow> mlookup (c_Globals st') k = Some g) \<and>
     (mlen (c_Users st) \<noteq> 0 \<longrightarrow> c_Users st' = c_Users st) \<and>
     c_Groups st' = c_Groups st \<and> c_SCCVersion st' = c_SCCVersion st"

lemma others_kept_refl [simp]: "others_kept pl st st"
  by (simp add: others_kept_def)

lemma others_kept_trans: "others_kept pl st st1 \<Longrightarrow> others_kept pl st1 st2 \<Longrightarrow> others_kept pl st st2"
  by (simp add: others_kept_def)

lemma keep_compose:
  assumes "\<And>ch st ch' st'. f (ch, st) = Some (ch', st') \<Longrightarrow> others_kept pl st st'"
    and "\<And>ch st ch' st'. g (ch, st) = Some (ch', st') \<Longrightarrow> others_kept pl st st'"
    and "do { s1 \<leftarrow> f (ch, st); g s1 } = Some (ch', st')"
  shows "others_kept pl st st'"
  using assms(3) by (auto simp: bind_eq_Some_conv dest!: assms(1,2) intro: others_kept_trans)

lemmas block_defs = ensure_globals_def ensure_share_def custom_globals_def share_values_def
  ensure_section_def ensure_users_def ensure_realm_def prune_section_def prune_share_def

lemma keep_ensure_globals: "ensure_globals pl (ch, st) = Some (ch', st') \<Longrightarrow> others_kept pl st st'"
  by (auto simp: ensure_globals_def others_kept_def bind_eq_Some_conv dest!: mlookup_mset split: option.splits)

lemma keep_ensure_share: "ensure_share pl (ch, st) = Some (ch', st') \<Longrightarrow> others_kept pl st st'"
  by (auto simp: ensure_share_def others_kept_def bind_eq_Some_conv dest!: mlookup_mset split: option.splits)

lemma keep_custom_globals: "custom_globals pl (ch, st) = Some (ch', st') \<Longrightarrow> others_kept pl st st'"
  by (auto simp: custom_globals_def others_kept_def bind_eq_Some_conv dest!: mlookup_mset split: option.splits)

lemma keep_share_values: "share_values pl (ch, st) = Some (ch', st') \<Longrightarrow> others_kept pl st st'"
  by (auto simp: share_values_def others_kept_def bind_eq_Some_conv dest!: mlookup_mset split: option.splits)

lemma keep_ensure_section: "ensure_section pl (ch, st) = Some (ch', st') \<Longrightarrow> others_kept pl st st'"
  by (auto simp: ensure_section_def others_kept_def bind_eq_Some_conv Let_def
      dest!: mlookup_mset split: option.splits if_splits)

lemma keep_ensure_users: "ensure_users (ch, st) = Some (ch', st') \<Longrightarrow> others_kept pl st st'"
  by (auto simp: ensure_users_def others_kept_def split: if_splits)

lemma keep_ensure_realm: "ensure_realm pl (ch, st) = Some (ch', st') \<Longrightarrow> others_kept pl st st'"
  by (auto simp: ensure_realm_def others_kept_def bind_eq_Some_conv dest!: mlookup_mset
      split: option.splits if_splits)

lemma keep_prune_section: "prune_section pl (ch, st) = Some (ch', st') \<Longrightarrow> others_kept pl st st'"
  by (auto simp: prune_section_def removeShare_def others_kept_def bind_eq_Some_conv
      dest!: mlookup_mset split: option.splits if_splits)

lemma keep_prune_share: "prune_share pl (ch, st) = Some (ch', st') \<Longrightarrow> others_kept pl st st'"
  by (auto simp: prune_share_def others_kept_def mlookup_mdelete split: option.splits)

lemma update_steps_keep: "update_steps pl (ch, st) = Some (ch', st') \<Longrightarrow> others_kept pl st st'"
  unfolding update_steps_def
  by (elim keep_compose [rotated 2] keep_ensure_globals keep_ensure_share keep_custom_globals
      keep_share_values keep_ensure_section keep_ensure_users keep_ensure_realm)

lemma prune_steps_keep: "prune_steps pl (ch, st) = Some (ch', st') \<Longrightarrow> others_kept pl st st'"
  unfolding prune_steps_def
  by (elim keep_compose [rotated 2] keep_prune_section keep_prune_share)

section \<open>The share and the section after \<open>Update\<close>\<close>

lemma same_Shares:
  "ensure_globals pl (ch, st) = Some (ch', st') \<Longrightarrow> c_Shares st' = c_Shares st"
  "custom_globals pl (ch, st) = Some (ch', st') \<Longrightarrow> c_Shares st' = c_Shares st"
  "ensure_section pl (ch, st) = Some (ch', st') \<Longrightarrow> c_Shares st' = c_Shares st"
  "ensure_users (ch, st) = Some (ch', st') \<Longrightarrow> c_Shares st' = c_Shares st"
  "ensure_realm pl (ch, st) = Some (ch', st') \<Longrightarrow> c_Shares st' = c_Shares st"
  "prune_section pl (ch, st) = Some (ch', st') \<Longrightarrow> c_Shares st' = c_Shares st"
  by (auto simp: block_defs bind_eq_Some_conv Let_def removeShare_def split: option.splits if_splits)

lemma same_Configs:
  "ensure_globals pl (ch, st) = Some (ch', st') \<Longrightarrow> c_Configs st' = c_Configs st"
  "ensure_share pl (ch, st) = Some (ch', st') \<Longrightarrow> c_Configs st' = c_Configs st"
  "custom_globals pl (ch, st) = Some (ch', st') \<Longrightarrow> c_Configs st' = c_Configs st"
  "share_values pl (ch, st) = Some (ch', st') \<Longrightarrow> c_Configs st' = c_Configs st"
  "ensure_users (ch, st) = Some (ch', st') \<Longrightarrow> c_Configs st' = c_Configs st"
  "ensure_realm pl (ch, st) = Some (ch', st') \<Longrightarrow> c_Configs st' = c_Configs st"
  "prune_share pl (ch, st) = Some (ch', st') \<Longrightarrow> c_Configs st' = c_Configs st"
  by (auto simp: block_defs bind_eq_Some_conv Let_def split: option.splits if_splits)

text \<open>The share the options are written to: the one on record, or a new one.\<close>

definition base_share :: "Planner \<Rightarrow> SambaContainerConfig \<Rightarrow> ShareConfig option" where
  "base_share pl st = (case mlookup (c_Shares st) (shareName pl) of
     Some s \<Rightarrow> Some s | None \<Rightarrow> map_option NewSimpleShare (Share_path pl))"

lemma ensure_share_base:
  "ensure_share pl (ch, st) = Some (ch', st') \<Longrightarrow>
   mlookup (c_Shares st') (shareName pl) = base_share pl st \<and> base_share pl st \<noteq> None"
  by (auto simp: ensure_share_def base_share_def bind_eq_Some_conv dest!: mlookup_mset split: option.splits)

lemma share_values_result:
  assumes "wf_scc st" "wf_customs pl" "share_values pl (ch, st) = Some (ch', st')"
  shows "\<exists>s. mlookup (c_Shares st) (shareName pl) = Some s \<and>
    mlookup (c_Shares st') (shareName pl) =
      Some (s\<lparr>sc_Options := Some (share_target (sh_Spec (pl_SmbShare pl)) (entries (sc_Options s)))\<rparr>)"
proof -
  obtain s where s: "mlookup (c_Shares st) (shareName pl) = Some s"
    using assms(3) by (auto simp: share_values_def bind_eq_Some_conv)
  obtain xs where xs: "sc_Options s = Some xs" using wf_scc_share [OF assms(1) s] by blast
  obtain m where "mset (shareName pl) (s\<lparr>sc_Options := Some (share_target (sh_Spec (pl_SmbShare pl)) xs)\<rparr>)
      (c_Shares st) = Some m" "st' = st\<lparr>c_Shares := m\<rparr>"
    using share_values_run [OF assms(1) s xs assms(2), of ch] assms(3) by auto
  then show ?thesis using s xs by (auto dest: mlookup_mset)
qed

lemma update_steps_share:
  assumes wf: "wf_scc st" and cu: "wf_customs pl" and run: "update_steps pl (ch, st) = Some (ch', st')"
  shows "\<exists>s. base_share pl st = Some s \<and> mlookup (c_Shares st') (shareName pl) =
      Some (s\<lparr>sc_Options := Some (share_target (sh_Spec (pl_SmbShare pl)) (entries (sc_Options s)))\<rparr>)"
proof -
  obtain c1 s1 c2 s2 c3 s3 c4 s4 c5 s5 c6 s6 where
    1: "ensure_globals pl (ch, st) = Some (c1, s1)" and 2: "ensure_share pl (c1, s1) = Some (c2, s2)" and
    3: "custom_globals pl (c2, s2) = Some (c3, s3)" and 4: "share_values pl (c3, s3) = Some (c4, s4)" and
    5: "ensure_section pl (c4, s4) = Some (c5, s5)" and 6: "ensure_users (c5, s5) = Some (c6, s6)" and
    7: "ensure_realm pl (c6, s6) = Some (ch', st')"
    using run by (auto simp: update_steps_def bind_eq_Some_conv)
  have "base_share pl s1 = base_share pl st" using same_Shares(1) [OF 1] by (simp add: base_share_def)
  moreover have "wf_scc s3"
    using config_step.step_wf [OF ensure_globals_step wf 1] config_step.step_wf [OF ensure_share_step _ 2]
      config_step.step_wf [OF custom_globals_step _ 3] by blast
  moreover note ensure_share_base [OF 2] same_Shares(2) [OF 3] same_Shares(3) [OF 5]
    same_Shares(4) [OF 6] same_Shares(5) [OF 7]
  ultimately show ?thesis using share_values_result [OF _ cu 4] by auto
qed

text \<open>The config section of the instance, and a new one in its place when there is none.\<close>

definition base_section :: "Planner \<Rightarrow> SambaContainerConfig \<Rightarrow> ConfigSection option" where
  "base_section pl st = (case mlookup (c_Configs st) (instanceID pl) of
     Some cfg \<Rightarrow> Some cfg | None \<Rightarrow> new_section pl)"

definition with_share :: "string \<Rightarrow> ConfigSection \<Rightarrow> ConfigSection" where
  "with_share k cfg = (if k \<in> set (cs_Shares cfg) then cfg else cfg\<lparr>cs_Shares := cs_Shares cfg @ [k]\<rparr>)"

lemma ensure_section_result:
  assumes "ensure_section pl (ch, st) = Some (ch', st')"
  shows "\<exists>cfg. base_section pl st = Some cfg \<and>
    mlookup (c_Configs st') (instanceID pl) = Some (with_share (shareName pl) cfg)"
proof -
  obtain cfg ch1 where base: "(case mlookup (c_Configs st) (instanceID pl) of Some cfg \<Rightarrow> Some (cfg, ch)
      | None \<Rightarrow> do { cfg \<leftarrow> new_section pl; Some (cfg, True) }) = Some (cfg, ch1)"
    using assms by (auto simp: ensure_section_def bind_eq_Some_conv)
  have "mlookup (c_Configs st') (instanceID pl) = Some (with_share (shareName pl) cfg)"
  proof (cases "hasShare cfg (shareName pl)")
    case True
    with base assms show ?thesis
      by (auto simp: ensure_section_def with_share_def hasShare_def bind_eq_Some_conv
          dest!: mlookup_mset split: if_splits option.splits)
  next
    case False
    with base assms show ?thesis
      by (auto simp: ensure_section_def with_share_def hasShare_def bind_eq_Some_conv dest!: mlookup_mset)
  qed
  moreover have "base_section pl st = Some cfg"
    using base by (auto simp: base_section_def bind_eq_Some_conv split: option.splits)
  ultimately show ?thesis by blast
qed

lemma update_steps_section:
  assumes "update_steps pl (ch, st) = Some (ch', st')"
  shows "\<exists>cfg. base_section pl st = Some cfg \<and>
    mlookup (c_Configs st') (instanceID pl) = Some (with_share (shareName pl) cfg)"
proof -
  obtain c1 s1 c2 s2 c3 s3 c4 s4 c5 s5 c6 s6 where
    steps: "ensure_globals pl (ch, st) = Some (c1, s1)" "ensure_share pl (c1, s1) = Some (c2, s2)"
      "custom_globals pl (c2, s2) = Some (c3, s3)" "share_values pl (c3, s3) = Some (c4, s4)" and
    5: "ensure_section pl (c4, s4) = Some (c5, s5)" and
    later: "ensure_users (c5, s5) = Some (c6, s6)" "ensure_realm pl (c6, s6) = Some (ch', st')"
    using assms by (auto simp: update_steps_def bind_eq_Some_conv)
  have "base_section pl s4 = base_section pl st"
    using same_Configs(1) [OF steps(1)] same_Configs(2) [OF steps(2)] same_Configs(3) [OF steps(3)]
      same_Configs(4) [OF steps(4)] by (simp add: base_section_def)
  moreover have "c_Configs st' = c_Configs s5"
    using same_Configs(5) [OF later(1)] same_Configs(6) [OF later(2)] by simp
  ultimately show ?thesis using ensure_section_result [OF 5] by auto
qed

end
