(* ===== verification/ConfigurationTheorems.thy ===== *)
theory ConfigurationTheorems
  imports ConfigurationProps
begin

text \<open>
  The properties of \<open>internal/planner/configuration.go\<close>: \<open>Update\<close> runs to its end and
  reaches a fixed point unless the share contradicts itself, \<open>Prune\<close> takes exactly the
  planner's share away, the two leave every other share, section and globals entry alone,
  and neither depends on the order in which Go visits a map.
\<close>

section \<open>\<open>Prune\<close>\<close>

lemma prune_section_result:
  assumes "prune_section pl (ch, st) = Some (ch', st')"
  shows "mlookup (c_Configs st') (instanceID pl) =
      map_option (\<lambda>cfg. fst (removeShare cfg (shareName pl))) (mlookup (c_Configs st) (instanceID pl))"
  using assms
  by (auto simp: prune_section_def removeShare_def bind_eq_Some_conv
      dest!: mlookup_mset split: option.splits if_splits)

lemma prune_section_run: "wf_scc st \<Longrightarrow> \<exists>c m. prune_section pl (ch, st) = Some (c, st\<lparr>c_Configs := m\<rparr>)"
  by (elim wf_scc_parts)
    (auto simp: prune_section_def removeShare_def split: option.splits intro: exI [of _ ch] exI [of _ "c_Configs st"])

lemma prune_share_run: "\<exists>c m. prune_share pl (ch, st) = Some (c, st\<lparr>c_Shares := m\<rparr>)"
  by (auto simp: prune_share_def split: option.splits intro: exI [of _ ch] exI [of _ "c_Shares st"])

lemma prune_steps_run: "wf_scc st \<Longrightarrow> \<exists>c st'. prune_steps pl (ch, st) = Some (c, st')"
  using prune_section_run [of st pl ch] prune_share_run [of pl] by (fastforce simp: prune_steps_def)

lemma prune_share_gone: "prune_share pl (ch, st) = Some (ch', st') \<Longrightarrow> mlookup (c_Shares st') (shareName pl) = None"
  by (auto simp: prune_share_def mlookup_mdelete split: option.splits)

lemma prune_steps_result:
  assumes "prune_steps pl (ch, st) = Some (ch', st')"
  shows "mlookup (c_Shares st') (shareName pl) = None"
    and "mlookup (c_Configs st') (instanceID pl) =
      map_option (\<lambda>cfg. fst (removeShare cfg (shareName pl))) (mlookup (c_Configs st) (instanceID pl))"
proof -
  obtain c1 s1 where 1: "prune_section pl (ch, st) = Some (c1, s1)" and 2: "prune_share pl (c1, s1) = Some (ch', st')"
    using assms by (auto simp: prune_steps_def bind_eq_Some_conv)
  show "mlookup (c_Shares st') (shareName pl) = None" using prune_share_gone [OF 2] .
  show "mlookup (c_Configs st') (instanceID pl) =
      map_option (\<lambda>cfg. fst (removeShare cfg (shareName pl))) (mlookup (c_Configs st) (instanceID pl))"
    using prune_section_result [OF 1] same_Configs(7) [OF 2] by simp
qed

lemma prune_steps_total: "\<exists>c st'. prune_steps pl (ch, st) = Some (c, st')"
  by (cases "c_Configs st")
    (auto simp: prune_steps_def prune_section_def prune_share_def removeShare_def mset_def mlookup_def split: option.splits)

text \<open>The whole result: one share fewer, one section with it struck out, and the rest as it was.\<close>

lemma prune_steps_exact:
  assumes "prune_steps pl (ch, st) = Some (ch', st')"
  shows "mlookup (c_Shares st') k = (if k = shareName pl then None else mlookup (c_Shares st) k)"
    and "mlookup (c_Configs st') i = (if i = instanceID pl
      then map_option (\<lambda>cfg. fst (removeShare cfg (shareName pl))) (mlookup (c_Configs st) i) else mlookup (c_Configs st) i)"
    and "c_Globals st' = c_Globals st" "c_Users st' = c_Users st" "c_Groups st' = c_Groups st" "c_SCCVersion st' = c_SCCVersion st"
    and "ch' \<longleftrightarrow> ch \<or> mlookup (c_Shares st) (shareName pl) \<noteq> None \<or>
      (case mlookup (c_Configs st) (instanceID pl) of None \<Rightarrow> False | Some cfg \<Rightarrow> hasShare cfg (shareName pl))"
proof -
  note kept = prune_steps_keep [OF assms, unfolded others_kept_def]
  show "mlookup (c_Shares st') k = (if k = shareName pl then None else mlookup (c_Shares st) k)"
    using kept prune_steps_result(1) [OF assms] by simp
  show "mlookup (c_Configs st') i = (if i = instanceID pl
      then map_option (\<lambda>cfg. fst (removeShare cfg (shareName pl))) (mlookup (c_Configs st) i) else mlookup (c_Configs st) i)"
    using kept prune_steps_result(2) [OF assms] by simp
  show "c_Globals st' = c_Globals st" "c_Users st' = c_Users st" "c_Groups st' = c_Groups st" "c_SCCVersion st' = c_SCCVersion st"
    "ch' \<longleftrightarrow> ch \<or> mlookup (c_Shares st) (shareName pl) \<noteq> None \<or>
      (case mlookup (c_Configs st) (instanceID pl) of None \<Rightarrow> False | Some cfg \<Rightarrow> hasShare cfg (shareName pl))"
    using assms by (auto simp: prune_steps_def prune_section_def prune_share_def removeShare_def hasShare_def bind_eq_Some_conv
        split: option.splits if_splits)
qed

lemma removeShare_distinct:
  "distinct (cs_Shares cfg) \<Longrightarrow> fst (removeShare cfg k) = cfg\<lparr>cs_Shares := filter (\<lambda>x. x \<noteq> k) (cs_Shares cfg)\<rparr>"
proof -
  assume "distinct (cs_Shares cfg)"
  then have "remove1 k (cs_Shares cfg) = filter (\<lambda>x. x \<noteq> k) (cs_Shares cfg)"
    by (auto simp: distinct_remove1_removeAll removeAll_filter_not_eq intro: filter_cong)
  moreover have "filter (\<lambda>x. x \<noteq> k) (cs_Shares cfg) = cs_Shares cfg" if "k \<notin> set (cs_Shares cfg)"
    using that by (intro filter_True) auto
  ultimately show ?thesis by (simp add: removeShare_def)
qed

lemma prune_steps_absent:
  assumes "mlookup (c_Shares st) (shareName pl) = None"
    and "\<And>cfg. mlookup (c_Configs st) (instanceID pl) = Some cfg \<Longrightarrow> shareName pl \<notin> set (cs_Shares cfg)"
  shows "prune_steps pl (ch, st) = Some (ch, st)"
  using assms
  by (cases "mlookup (c_Configs st) (instanceID pl)")
    (simp_all add: prune_steps_def prune_section_def prune_share_def removeShare_def)

section \<open>Sections list a share once\<close>

definition sections_distinct :: "SambaContainerConfig \<Rightarrow> bool" where
  "sections_distinct st \<longleftrightarrow> (\<forall>k cfg. mlookup (c_Configs st) k = Some cfg \<longrightarrow> distinct (cs_Shares cfg))"

lemma new_section_distinct: "new_section pl = Some cfg \<Longrightarrow> distinct (cs_Shares cfg)"
  using new_section_run [of pl] by auto

lemma sections_distinctI:
  assumes "others_kept pl st st'" "sections_distinct st"
    and "\<And>cfg. mlookup (c_Configs st') (instanceID pl) = Some cfg \<Longrightarrow> distinct (cs_Shares cfg)"
  shows "sections_distinct st'"
  using assms by (simp add: sections_distinct_def others_kept_def) metis

lemma update_steps_distinct:
  assumes "update_steps pl (ch, st) = Some (ch', st')" "sections_distinct st"
  shows "sections_distinct st'"
proof (rule sections_distinctI [OF update_steps_keep [OF assms(1)] assms(2)])
  fix cfg'
  assume "mlookup (c_Configs st') (instanceID pl) = Some cfg'"
  then obtain cfg where cfg: "base_section pl st = Some cfg" "cfg' = with_share (shareName pl) cfg"
    using update_steps_section [OF assms(1)] by auto
  then have "distinct (cs_Shares cfg)"
    using assms(2) new_section_distinct
    by (auto simp: base_section_def sections_distinct_def split: option.splits)
  then show "distinct (cs_Shares cfg')" using cfg(2) by (simp add: with_share_def)
qed

lemma prune_steps_distinct:
  assumes "prune_steps pl (ch, st) = Some (ch', st')" "sections_distinct st"
  shows "sections_distinct st'"
proof (rule sections_distinctI [OF prune_steps_keep [OF assms(1)] assms(2)])
  fix cfg'
  assume "mlookup (c_Configs st') (instanceID pl) = Some cfg'"
  then show "distinct (cs_Shares cfg')"
    using prune_steps_result(2) [OF assms(1)] assms(2)
    by (auto simp: sections_distinct_def removeShare_def)
qed

section \<open>A share to evaluate the properties on\<close>

definition demo_spec :: SmbShareSpec where
  "demo_spec = \<lparr>sp_ShareName = ''docs'', sp_Storage = \<lparr>st_Pvc = Some \<lparr>pvc_Name = ''vol'',
       pvc_Spec = None, pvc_Path = ''sub''\<rparr>\<rparr>, sp_ReadOnly = True, sp_Browseable = True,
     sp_SecurityConfig = '''', sp_CommonConfig = '''',
     sp_CustomShareConfig = Some \<lparr>shc_UseUnsafeCustomConfig = True, shc_Configs = mlit [(''guest ok'', ''yes'')]\<rparr>,
     sp_Scaling = None\<rparr>"

definition demo_share :: SmbShare where
  "demo_share = \<lparr>sh_meta = (new_meta ''share1'' ''ns1'')\<lparr>m_UID := ''u1''\<rparr>, sh_Spec = demo_spec,
     sh_Status = \<lparr>sst_ServerGroup = ''share1''\<rparr>\<rparr>"

definition demo_security :: SmbSecurityConfig where
  "demo_security = \<lparr>ssc_meta = new_meta ''sec'' ''ns1'', ssc_Spec = \<lparr>sec_Mode = ''active-directory'',
     sec_Users = None, sec_Realm = ''dom.example.org'', sec_JoinSources = [],
     sec_Domains = [\<lparr>sd_Name = ''DOM'', sd_Backend = ''ad''\<rparr>], sec_DNS = None\<rparr>\<rparr>"

definition demo_planner :: "SmbShare \<Rightarrow> SambaContainerConfig \<Rightarrow> Planner" where
  "demo_planner s st = \<lparr>pl_SmbShare = s, pl_SecurityConfig = Some demo_security,
     pl_CommonConfig = None, pl_GlobalConfig = DefaultOperatorConfig, pl_ConfigState = Some st\<rparr>"

lemma demo_facts [simp]:
  "has_pvc demo_share" "wf_customs (demo_planner demo_share st)"
  "pl_ConfigState (demo_planner s st) = Some st" "pl_SmbShare (demo_planner s st) = s"
  "sections_distinct smbcc_New" "sh_Spec demo_share = demo_spec"
  by (simp_all add: has_pvc_def demo_share_def demo_spec_def wf_customs_def share_customs_def
      global_customs_def demo_planner_def mlit_def sections_distinct_def smbcc_New_def mlookup_Some)

section \<open>Properties of \<open>Update\<close>\<close>

text \<open>
  C1. On every well-formed document and for every share with a PVC, \<open>Update\<close> returns (no
  map write or nil dereference in it panics), leaves a well-formed document, and a second
  \<open>Update\<close> on that document changes nothing in it. The second call reports a change
  exactly when a custom option of the share contradicts the share's own \<open>browseable\<close> or
  \<open>readOnly\<close> field: the two loops then overwrite each other for ever.
\<close>

theorem Update_reaches_fixpoint:
  assumes "pl_ConfigState pl = Some st" "wf_scc st" "has_pvc (pl_SmbShare pl)" "wf_customs pl"
  shows "\<exists>ch st'. Update pl = Some (ch, st') \<and> wf_scc st' \<and>
    Update (pl\<lparr>pl_ConfigState := Some st'\<rparr>) = Some (conflicting (sh_Spec (pl_SmbShare pl)), st')"
proof -
  obtain ch st' where run: "update_steps pl (False, st) = Some (ch, st')" "wf_scc st'" "settled pl st'"
    using update_steps_run [OF assms(2-4)] by blast
  from update_steps_settled [OF run(2,3) assms(4), of False] run show ?thesis
    by (simp add: Update_steps [OF assms(1)] Update_again)
qed

lemma Update_reaches_fixpoint_witness:
  "\<exists>ch st'. Update (demo_planner demo_share smbcc_New) = Some (ch, st') \<and> wf_scc st' \<and>
    Update ((demo_planner demo_share smbcc_New)\<lparr>pl_ConfigState := Some st'\<rparr>) =
      Some (conflicting demo_spec, st')"
  using Update_reaches_fixpoint [of "demo_planner demo_share smbcc_New" smbcc_New]
  by simp

text \<open>
  C14. The flag \<open>changed\<close> of \<open>Update\<close> is honest: when it is false the document is what it
  was, so skipping the write of the config map loses nothing, and no custom option
  contradicts the share's fields.
\<close>

theorem Update_flag_honest:
  assumes "pl_ConfigState pl = Some st" "wf_scc st" "wf_customs pl" "Update pl = Some (False, st')"
  shows "st' = st \<and> \<not> conflicting (sh_Spec (pl_SmbShare pl))"
proof -
  have run: "update_steps pl (False, st) = Some (False, st')" using assms by (simp add: Update_steps)
  then have same: "st' = st" using upd.step_same [OF assms(2)] by blast
  obtain c1 s1 c2 s2 c3 s3 c4 s4 where
    1: "ensure_globals pl (False, st) = Some (c1, s1)" and 2: "ensure_share pl (c1, s1) = Some (c2, s2)" and
    3: "custom_globals pl (c2, s2) = Some (c3, s3)" and 4: "share_values pl (c3, s3) = Some (c4, s4)" and
    rest: "do { s5 \<leftarrow> ensure_section pl (c4, s4); s6 \<leftarrow> ensure_users s5; ensure_realm pl s6 } = Some (False, st')"
    using run by (auto simp: update_steps_def bind_eq_Some_conv)
  have "\<not> c4"
    using config_step.step_flag [OF config_step_compose [OF ensure_section_step
          config_step_compose [OF ensure_users_step ensure_realm_step]] rest] by blast
  have wf: "wf_scc s3"
    using config_step.step_wf [OF ensure_globals_step assms(2) 1] config_step.step_wf [OF ensure_share_step _ 2]
      config_step.step_wf [OF custom_globals_step _ 3] by blast
  obtain s where s: "mlookup (c_Shares s3) (shareName pl) = Some s"
    using 4 by (auto simp: share_values_def bind_eq_Some_conv)
  obtain xs where "sc_Options s = Some xs" using wf_scc_share [OF wf s] by blast
  from share_values_run [OF wf s this assms(3), of c3] 4 \<open>\<not> c4\<close> same show ?thesis by auto
qed

definition demo_settled :: SambaContainerConfig where
  "demo_settled = snd (the (Update (demo_planner demo_share smbcc_New)))"

lemma demo_no_conflict [simp]: "\<not> conflicting demo_spec"
  by (simp add: conflicting_def demo_spec_def share_customs_def mlit_def BrowseableParam_def ReadOnlyParam_def)

lemma Update_demo: "Update (demo_planner s st) = update_steps (demo_planner s st) (False, st)"
  by (simp add: Update_steps)

lemma steps_demo: "update_steps (demo_planner s st) = update_steps (demo_planner s st')"
proof -
  have "demo_planner s st = (demo_planner s st')\<lparr>pl_ConfigState := Some st\<rparr>"
    by (simp add: demo_planner_def)
  then show ?thesis by (simp only: steps_ConfigState)
qed

lemma demo_settled_facts [simp]:
  "wf_scc demo_settled" "Update (demo_planner demo_share demo_settled) = Some (False, demo_settled)"
  "Update (demo_planner demo_share smbcc_New) = Some (True, demo_settled)"
proof -
  obtain c st' where run: "update_steps (demo_planner demo_share smbcc_New) (False, smbcc_New) = Some (c, st')"
    "wf_scc st'" "settled (demo_planner demo_share smbcc_New) st'"
    using update_steps_run [of smbcc_New "demo_planner demo_share smbcc_New" False] by auto
  then have eq: "demo_settled = st'" by (simp add: demo_settled_def Update_demo)
  show "wf_scc demo_settled" using run eq by simp
  show "Update (demo_planner demo_share demo_settled) = Some (False, demo_settled)"
    using update_steps_settled [OF run(2,3), of False]
    by (simp add: eq Update_demo steps_demo [of _ st' smbcc_New])
  have "c"
  proof (rule ccontr)
    assume "\<not> c"
    then have "st' = smbcc_New" using run(1) upd.step_same [of smbcc_New] by auto
    then show False using run(3) by (simp add: settled_def smbcc_New_def mlookup_Some mlit_def)
  qed
  then show "Update (demo_planner demo_share smbcc_New) = Some (True, demo_settled)"
    using run(1) eq by (simp add: Update_demo)
qed

lemma Update_flag_honest_witness:
  "demo_settled = demo_settled \<and> \<not> conflicting demo_spec"
  using Update_flag_honest [of "demo_planner demo_share demo_settled" demo_settled demo_settled]
  by (simp only: demo_settled_facts demo_facts) simp

lemma share_target_lookup:
  assumes "distinct (map fst (share_customs spec))"
  shows "map_of (share_target spec xs) k =
    (if k = ReadOnlyParam then Some (read_only_value spec)
     else if k = BrowseableParam then Some (browseable_value spec)
     else case map_of (share_customs spec) k of Some v \<Rightarrow> Some v | None \<Rightarrow> map_of xs k)"
proof -
  have "map_of (rev (share_customs spec)) = map_of (share_customs spec)"
    using assms by (intro map_of_inject_set [THEN iffD2]) (simp_all add: rev_map [symmetric])
  then show ?thesis by (simp add: map_of_share_target map_add_def)
qed

text \<open>
  C15. What \<open>Update\<close> writes for the share: on top of the options on record (or of a new
  share with the planner's path) its \<open>read only\<close> and \<open>browseable\<close> options are those of the
  spec, every other custom option has the custom value, every further option is as it was;
  and the instance's section lists the share.
\<close>

theorem Update_share_options:
  assumes "pl_ConfigState pl = Some st" "wf_scc st" "wf_customs pl" "Update pl = Some (ch, st')"
  defines "spec \<equiv> sh_Spec (pl_SmbShare pl)"
  shows "\<exists>s s' cfg. base_share pl st = Some s \<and>
    mlookup (c_Shares st') (shareName pl) = Some s' \<and>
    mlookup (c_Configs st') (instanceID pl) = Some cfg \<and> hasShare cfg (shareName pl) \<and>
    (\<forall>k. mlookup (sc_Options s') k =
      (if k = ReadOnlyParam then Some (if sp_ReadOnly spec then Yes else No)
       else if k = BrowseableParam then Some (if sp_Browseable spec then Yes else No)
       else case map_of (share_customs spec) k of
         Some v \<Rightarrow> Some v | None \<Rightarrow> mlookup (sc_Options s) k))"
proof -
  have run: "update_steps pl (False, st) = Some (ch, st')" using assms(1,4) by (simp add: Update_steps)
  obtain s where s: "base_share pl st = Some s" "mlookup (c_Shares st') (shareName pl) =
      Some (s\<lparr>sc_Options := Some (share_target spec (entries (sc_Options s)))\<rparr>)"
    using update_steps_share [OF assms(2,3) run] by (auto simp: spec_def)
  obtain cfg where cfg: "mlookup (c_Configs st') (instanceID pl) = Some (with_share (shareName pl) cfg)"
    using update_steps_section [OF run] by blast
  have "hasShare (with_share (shareName pl) cfg) (shareName pl)" by (simp add: with_share_def hasShare_def)
  moreover have "map_of (share_target spec (entries (sc_Options s))) k =
    (if k = ReadOnlyParam then Some (if sp_ReadOnly spec then Yes else No)
     else if k = BrowseableParam then Some (if sp_Browseable spec then Yes else No)
     else case map_of (share_customs spec) k of
       Some v \<Rightarrow> Some v | None \<Rightarrow> mlookup (sc_Options s) k)" for k
    using share_target_lookup [of spec "entries (sc_Options s)" k] assms(3)
    by (simp add: wf_customs_def spec_def read_only_value_def browseable_value_def mlookup_def
        cong: if_cong option.case_cong)
  ultimately show ?thesis using s cfg by (auto simp: mlookup_Some)
qed

lemma Update_share_options_witness:
  "\<exists>s s' cfg. base_share (demo_planner demo_share smbcc_New) smbcc_New = Some s \<and>
    mlookup (c_Shares demo_settled) (shareName (demo_planner demo_share smbcc_New)) = Some s' \<and>
    mlookup (c_Configs demo_settled) (instanceID (demo_planner demo_share smbcc_New)) = Some cfg \<and>
    hasShare cfg (shareName (demo_planner demo_share smbcc_New)) \<and>
    (\<forall>k. mlookup (sc_Options s') k =
      (if k = ReadOnlyParam then Some (if sp_ReadOnly demo_spec then Yes else No)
       else if k = BrowseableParam then Some (if sp_Browseable demo_spec then Yes else No)
       else case map_of (share_customs demo_spec) k of
         Some v \<Rightarrow> Some v | None \<Rightarrow> mlookup (sc_Options s) k))"
  using Update_share_options [of "demo_planner demo_share smbcc_New" smbcc_New True demo_settled]
  by (simp only: demo_settled_facts demo_facts simp_thms wf_scc_New)

text \<open>
  C16. \<open>Update\<close> and \<open>Prune\<close> are framed: shares of other names, config sections of other
  instances, globals entries other than the common one, users once there are any, groups
  and the version are the same before and after.
\<close>

theorem Update_Prune_keep_others:
  assumes "pl_ConfigState pl = Some st" "Update pl = Some (ch, st') \<or> Prune pl = Some (ch, st')"
  shows "(\<forall>k. k \<noteq> shareName pl \<longrightarrow> mlookup (c_Shares st') k = mlookup (c_Shares st) k) \<and>
    (\<forall>k. k \<noteq> instanceID pl \<longrightarrow> mlookup (c_Configs st') k = mlookup (c_Configs st) k) \<and>
    (\<forall>k g. k \<noteq> Globals_key \<longrightarrow> mlookup (c_Globals st) k = Some g \<longrightarrow> mlookup (c_Globals st') k = Some g) \<and>
    (mlen (c_Users st) \<noteq> 0 \<longrightarrow> c_Users st' = c_Users st) \<and>
    c_Groups st' = c_Groups st \<and> c_SCCVersion st' = c_SCCVersion st"
  using assms update_steps_keep [of pl False st ch st'] prune_steps_keep [of pl False st ch st']
  by (auto simp: Update_steps Prune_steps others_kept_def)

lemma Update_Prune_keep_others_witness:
  "mlookup (c_Shares demo_settled) ''other'' = mlookup (c_Shares smbcc_New) ''other'' \<and>
   c_Groups demo_settled = c_Groups smbcc_New"
proof -
  have "''other'' \<noteq> shareName (demo_planner demo_share smbcc_New)"
    by (simp add: shareName_def demo_spec_def)
  then show ?thesis
    using Update_Prune_keep_others [OF demo_facts(3) disjI1 [OF demo_settled_facts(3)]] by blast
qed

section \<open>Properties of \<open>Prune\<close>\<close>

text \<open>
  C17. What \<open>Prune\<close> does, exactly, to a document whose sections list no share twice, nil maps or
  not: it returns; the share map loses the entry of the planner's share and no other; the
  section of the instance has the share struck from its list, whose other members keep their
  order, and is otherwise as it was, like every other section; globals, users, groups and
  version stay; a change is reported if and only if there was something to remove; and a
  second \<open>Prune\<close> reports none.
\<close>

theorem Prune_removes_share:
  assumes "pl_ConfigState pl = Some st" "sections_distinct st"
  shows "\<exists>ch st'. Prune pl = Some (ch, st') \<and>
    (\<forall>k. mlookup (c_Shares st') k = (if k = shareName pl then None else mlookup (c_Shares st) k)) \<and>
    (\<forall>i. mlookup (c_Configs st') i = (if i = instanceID pl
      then map_option (\<lambda>cfg. cfg\<lparr>cs_Shares := filter (\<lambda>k. k \<noteq> shareName pl) (cs_Shares cfg)\<rparr>) (mlookup (c_Configs st) i)
      else mlookup (c_Configs st) i)) \<and>
    c_Globals st' = c_Globals st \<and> c_Users st' = c_Users st \<and> c_Groups st' = c_Groups st \<and> c_SCCVersion st' = c_SCCVersion st \<and>
    (ch \<longleftrightarrow> mlookup (c_Shares st) (shareName pl) \<noteq> None \<or>
      (case mlookup (c_Configs st) (instanceID pl) of None \<Rightarrow> False | Some cfg \<Rightarrow> hasShare cfg (shareName pl))) \<and>
    Prune (pl\<lparr>pl_ConfigState := Some st'\<rparr>) = Some (False, st')"
proof -
  obtain ch st' where run: "prune_steps pl (False, st) = Some (ch, st')"
    using prune_steps_total by blast
  note exact = prune_steps_exact [OF run]
  have sec: "mlookup (c_Configs st') i = (if i = instanceID pl
      then map_option (\<lambda>cfg. cfg\<lparr>cs_Shares := filter (\<lambda>k. k \<noteq> shareName pl) (cs_Shares cfg)\<rparr>) (mlookup (c_Configs st) i)
      else mlookup (c_Configs st) i)" for i
    using exact(2) [of i] assms(2) by (cases "mlookup (c_Configs st) i") (auto simp: sections_distinct_def removeShare_distinct)
  have "shareName pl \<notin> set (cs_Shares cfg)" if "mlookup (c_Configs st') (instanceID pl) = Some cfg" for cfg
    using that sec [of "instanceID pl"] by auto
  from prune_steps_absent [OF prune_steps_result(1) [OF run] this] have "prune_steps pl (False, st') = Some (False, st')" .
  then show ?thesis using run exact sec by (auto simp: Prune_steps [OF assms(1)] Prune_again)
qed

lemma Prune_removes_share_witness:
  "\<exists>st'. Prune (demo_planner demo_share demo_settled) = Some (True, st') \<and> mlookup (c_Shares st') ''docs'' = None \<and>
    c_Users st' = c_Users demo_settled"
proof -
  have run: "update_steps (demo_planner demo_share smbcc_New) (False, smbcc_New) = Some (True, demo_settled)"
    using demo_settled_facts(3) by (simp add: Update_demo)
  from update_steps_distinct [OF this] have dist: "sections_distinct demo_settled" by simp
  have there: "mlookup (c_Shares demo_settled) (shareName (demo_planner demo_share smbcc_New)) \<noteq> None"
    using update_steps_share [OF wf_scc_New demo_facts(2) run] by auto
  have name: "shareName (demo_planner demo_share st) = ''docs''" for st by (simp add: shareName_def demo_spec_def)
  note result = Prune_removes_share [OF demo_facts(3), of demo_settled demo_share, OF dist]
  obtain ch st' where "Prune (demo_planner demo_share demo_settled) = Some (ch, st')"
      "\<forall>k. mlookup (c_Shares st') k = (if k = ''docs'' then None else mlookup (c_Shares demo_settled) k)"
      "c_Users st' = c_Users demo_settled" "ch"
    using result there unfolding name by blast
  then show ?thesis by auto
qed

text \<open>
  C26. Adding a share and taking it away again restores the document: for a share that is
  not on record, \<open>Prune\<close> after \<open>Update\<close> gives back the share map, and the share lists of
  all config sections that were there.
\<close>

theorem Prune_after_Update:
  assumes "pl_ConfigState pl = Some st" "wf_scc st"
    and "mlookup (c_Shares st) (shareName pl) = None"
    and "\<And>cfg. mlookup (c_Configs st) (instanceID pl) = Some cfg \<Longrightarrow> \<not> hasShare cfg (shareName pl)"
    and "Update pl = Some (ch, st1)" "Prune (pl\<lparr>pl_ConfigState := Some st1\<rparr>) = Some (ch', st2)"
  shows "c_Shares st2 = c_Shares st \<and>
    (\<forall>k cfg. mlookup (c_Configs st) k = Some cfg \<longrightarrow> mlookup (c_Configs st2) k = Some cfg)"
proof -
  have up: "update_steps pl (False, st) = Some (ch, st1)" using assms(1,5) by (simp add: Update_steps)
  have pr: "prune_steps pl (False, st1) = Some (ch', st2)" using assms(6) by (simp add: Prune_again)
  have wf: "wf_scc st2" using upd.step_wf [OF assms(2) up] prn.step_wf [OF _ pr] by blast
  have kept: "others_kept pl st st2"
    using update_steps_keep [OF up] prune_steps_keep [OF pr] by (rule others_kept_trans)
  have "mlookup (c_Shares st2) k = mlookup (c_Shares st) k" for k
    using kept prune_steps_result(1) [OF pr] assms(3) by (cases "k = shareName pl") (auto simp: others_kept_def)
  then have "entries (c_Shares st2) = entries (c_Shares st)"
    using wf_scc_maps(1) [OF wf] wf_scc_maps(1) [OF assms(2)]
    by (intro sorted_keys_ext) (auto simp: wf_map_def mlookup_def)
  then have shares: "c_Shares st2 = c_Shares st"
    using wf assms(2) by (auto simp: wf_scc_def)
  have "mlookup (c_Configs st2) k = Some cfg" if k: "mlookup (c_Configs st) k = Some cfg" for k cfg
  proof (cases "k = instanceID pl")
    case True
    have "\<not> hasShare cfg (shareName pl)" using assms(4) k True by blast
    moreover from this have "mlookup (c_Configs st1) (instanceID pl) =
        Some (cfg\<lparr>cs_Shares := cs_Shares cfg @ [shareName pl]\<rparr>)"
      using update_steps_section [OF up] k True by (auto simp: base_section_def with_share_def hasShare_def)
    ultimately show ?thesis using prune_steps_result(2) [OF pr] True
      by (simp add: removeShare_def hasShare_def remove1_append)
  next
    case False
    then show ?thesis using kept k by (simp add: others_kept_def)
  qed
  with shares show ?thesis by blast
qed

lemma Prune_after_Update_witness:
  "\<exists>ch' st2. Prune ((demo_planner demo_share smbcc_New)\<lparr>pl_ConfigState := Some demo_settled\<rparr>) = Some (ch', st2) \<and>
    c_Shares st2 = c_Shares smbcc_New"
proof -
  obtain ch' st2 where pr: "Prune ((demo_planner demo_share smbcc_New)\<lparr>pl_ConfigState := Some demo_settled\<rparr>) = Some (ch', st2)"
    using prune_steps_run [OF demo_settled_facts(1)] unfolding Prune_again by blast
  have "mlookup (c_Shares smbcc_New) k = None" "mlookup (c_Configs smbcc_New) k = None" for k
    by (simp_all add: smbcc_New_def mlookup_Some mlit_def)
  then show ?thesis
    using Prune_after_Update [OF demo_facts(3) wf_scc_New _ _ demo_settled_facts(3) pr] pr by auto
qed

text \<open>
  No config section ever lists a share twice: \<open>Update\<close> and \<open>Prune\<close> both keep the
  section lists free of duplicates, for the planner's own instance and all others.
\<close>

theorem sections_stay_distinct:
  assumes "pl_ConfigState pl = Some st" "sections_distinct st"
    and "Update pl = Some (ch, st') \<or> Prune pl = Some (ch, st')"
  shows "sections_distinct st'"
  using assms update_steps_distinct prune_steps_distinct by (auto simp: Update_steps Prune_steps)

lemma sections_stay_distinct_witness: "sections_distinct demo_settled"
  using sections_stay_distinct [OF demo_facts(3) demo_facts(5) disjI1 [OF demo_settled_facts(3)]] .

section \<open>Map order and ID ranges\<close>

text \<open>
  C27. The result of the loop over a map of custom options does not depend on the order in
  which Go visits the map, neither the options written nor the flag.
\<close>

theorem apply_configs_order:
  assumes "distinct (map fst kvs)" "distinct (map fst kvs')" "set kvs = set kvs'" "wf_map opts"
  shows "apply_configs kvs opts ch = apply_configs kvs' opts ch"
proof (cases opts)
  case None
  have "kvs = [] \<longleftrightarrow> kvs' = []" using assms(3) by (metis set_empty)
  then show ?thesis by (simp add: None apply_configs_None)
next
  case (Some xs)
  then have srt: "sorted_keys xs" using assms(4) by simp
  have "map_of (rev kvs) = map_of (rev kvs')"
    using assms(1-3) by (intro map_of_inject_set [THEN iffD2]) (simp_all add: rev_map [symmetric])
  then have "fold (\<lambda>(k, v). ins k v) kvs xs = fold (\<lambda>(k, v). ins k v) kvs' xs"
    by (intro sorted_keys_ext) (simp_all add: sorted_keys_fold_ins srt map_of_fold_ins)
  then show ?thesis by (simp add: Some apply_configs_flag [OF srt] assms(1-3))
qed

lemma apply_configs_order_witness:
  "apply_configs [(''a'', ''1''), (''b'', ''2'')] (mlit [(''a'', ''0'')]) False =
   apply_configs [(''b'', ''2''), (''a'', ''1'')] (mlit [(''a'', ''0'')]) False"
  by (rule apply_configs_order) auto

definition idmap_suffixes :: "string set" where
  "idmap_suffixes = {''backend'', ''schema_mode'', ''range''}"

lemma suffix_no_colon: "s \<in> idmap_suffixes \<Longrightarrow> CHR '':'' \<notin> set s"
  by (auto simp: idmap_suffixes_def)

lemma after_colon:
  assumes "u @ CHR '':'' # s = u' @ CHR '':'' # s'" "CHR '':'' \<notin> set s" "CHR '':'' \<notin> set s'"
  shows "u = u' \<and> s = s'"
proof -
  have "takeWhile (\<lambda>c. c \<noteq> CHR '':'') (rev (u @ CHR '':'' # s)) = rev s"
    if "CHR '':'' \<notin> set s" for u s :: string
    using that by (auto simp: takeWhile_append)
  from this [OF assms(2), of u] this [OF assms(3), of u'] assms(1) have "s = s'" by simp
  then show ?thesis using assms(1) by simp
qed

lemma idmap_key_inj:
  assumes "idmap_prefix n @ s = idmap_prefix n' @ s'" "s \<in> idmap_suffixes" "s' \<in> idmap_suffixes"
  shows "n = n' \<and> s = s'"
proof -
  have "(''idmap config '' @ n @ '' '') @ CHR '':'' # CHR '' '' # s =
        (''idmap config '' @ n' @ '' '') @ CHR '':'' # CHR '' '' # s'"
    using assms(1) by (simp add: idmap_prefix_def)
  from after_colon [OF this] suffix_no_colon [OF assms(2)] suffix_no_colon [OF assms(3)]
  show ?thesis by simp
qed

lemma suffixes [simp]: "''backend'' \<in> idmap_suffixes" "''schema_mode'' \<in> idmap_suffixes" "''range'' \<in> idmap_suffixes"
  by (simp_all add: idmap_suffixes_def)

lemma idmap_domain_other:
  assumes "n \<noteq> sd_Name d" "s \<in> idmap_suffixes"
  shows "map_of (idmap_domain i d m) (idmap_prefix n @ s) = map_of m (idmap_prefix n @ s)"
  using assms idmap_key_inj [of n s "sd_Name d"] by (auto simp: idmap_domain_def Let_def)

lemma idmap_loop_other:
  "n \<notin> sd_Name ` set ds \<Longrightarrow> s \<in> idmap_suffixes \<Longrightarrow>
   map_of (idmap_loop i ds m) (idmap_prefix n @ s) = map_of m (idmap_prefix n @ s)"
  by (induction ds arbitrary: i m) (auto simp: idmap_domain_other)

lemma idmap_domain_own:
  "map_of (idmap_domain i d m) (idmap_prefix (sd_Name d) @ ''range'') = Some (idmap_range i)"
  "map_of (idmap_domain i d m) (idmap_prefix (sd_Name d) @ ''backend'') =
     Some (if sd_Backend d = ''autorid'' then ''autorid'' else ''ad'')"
  by (simp_all add: idmap_domain_def Let_def)

lemma idmap_loop_own:
  "distinct (map sd_Name ds) \<Longrightarrow> j < length ds \<Longrightarrow> s \<in> idmap_suffixes \<Longrightarrow>
   \<exists>m'. map_of (idmap_loop i ds m) (idmap_prefix (sd_Name (ds ! j)) @ s) =
     map_of (idmap_domain (i + j) (ds ! j) m') (idmap_prefix (sd_Name (ds ! j)) @ s)"
proof (induction ds arbitrary: i j m)
  case (Cons d ds)
  show ?case
  proof (cases j)
    case 0
    then show ?thesis using Cons.prems idmap_loop_other [of "sd_Name d" ds s] by auto
  next
    case (Suc j')
    then show ?thesis using Cons.prems Cons.IH [of j' "Suc i" "idmap_domain i d m"] by auto
  qed
qed simp

text \<open>
  C28. With differently named domains every domain of the security configuration gets its
  own backend and ID range, range \<open>i\<close> being [10000 i + 2000, 10000 i + 11999], so that no
  two ranges overlap; and the default domain \<open>*\<close> is always among them.
\<close>

theorem idmap_ranges:
  assumes "pl_SecurityConfig pl = Some sc" "sec_Domains (ssc_Spec sc) \<noteq> []"
    and "distinct (map sd_Name (sec_Domains (ssc_Spec sc)))"
  defines "ds \<equiv> all_domains (sec_Domains (ssc_Spec sc))"
  shows "''*'' \<in> set (map sd_Name ds) \<and>
    (\<forall>i < length ds.
      mlookup (idmapOptions pl) (''idmap config '' @ sd_Name (ds ! i) @ '' : range'') =
        Some (itoa (10000 * int i + 2000) @ ''-'' @ itoa (10000 * int i + 11999)) \<and>
      mlookup (idmapOptions pl) (''idmap config '' @ sd_Name (ds ! i) @ '' : backend'') =
        Some (if sd_Backend (ds ! i) = ''autorid'' then ''autorid'' else ''ad''))"
proof -
  have dst: "distinct (map sd_Name ds)" using assms(3) by (auto simp: ds_def all_domains_def)
  have star: "''*'' \<in> set (map sd_Name ds)" by (force simp: ds_def all_domains_def)
  have opts: "mlookup (idmapOptions pl) k = map_of (idmap_loop 0 ds []) k" for k
    using assms(1,2) by (simp add: idmapOptions_def ds_def mlookup_Some)
  have key: "idmap_prefix n @ s = ''idmap config '' @ n @ '' : '' @ s" for n s
    by (simp add: idmap_prefix_def)
  show ?thesis
  proof (intro conjI allI impI star)
    fix i
    assume i: "i < length ds"
    show "mlookup (idmapOptions pl) (''idmap config '' @ sd_Name (ds ! i) @ '' : range'') =
        Some (itoa (10000 * int i + 2000) @ ''-'' @ itoa (10000 * int i + 11999))"
      using idmap_loop_own [OF dst i suffixes(3), of 0 "[]"] idmap_domain_own(1)
      by (auto simp: opts key idmap_range_def idmap_start_def algebra_simps)
    show "mlookup (idmapOptions pl) (''idmap config '' @ sd_Name (ds ! i) @ '' : backend'') =
        Some (if sd_Backend (ds ! i) = ''autorid'' then ''autorid'' else ''ad'')"
      using idmap_loop_own [OF dst i suffixes(1), of 0 "[]"] idmap_domain_own(2)
      by (auto simp: opts key)
  qed
qed

lemma idmap_ranges_witness:
  "''*'' \<in> set (map sd_Name (all_domains (sec_Domains (ssc_Spec demo_security)))) \<and>
   mlookup (idmapOptions (demo_planner demo_share smbcc_New)) ''idmap config DOM : backend'' = Some ''ad''"
proof -
  have "all_domains (sec_Domains (ssc_Spec demo_security)) =
    [\<lparr>sd_Name = ''DOM'', sd_Backend = ''ad''\<rparr>, \<lparr>sd_Name = ''*'', sd_Backend = ''autorid''\<rparr>]"
    by (simp add: all_domains_def demo_security_def)
  then show ?thesis
    using idmap_ranges [of "demo_planner demo_share smbcc_New" demo_security]
    by (force simp: demo_planner_def demo_security_def)
qed

end
