(* ===== verification/KubeObjects.thy ===== *)
theory KubeObjects
  imports Api
begin

text \<open>
  The Kubernetes objects that the operator builds, reads and writes: the fields of the
  corev1, appsv1, rbacv1 and monitoringv1 structs that its code sets or looks at, one record
  per struct; and their union \<open>kobj\<close>, on which the client interface works.
\<close>

section \<open>Pods\<close>

record KeyToPath =
  kp_Key :: string
  kp_Path :: string

datatype VolumeSource =
    PersistentVolumeClaimSource string
  | ConfigMapSource string
  | SecretSource string "KeyToPath list"
  | EmptyDirSource string

record Volume =
  v_Name :: string
  v_Source :: VolumeSource

record VolumeMount =
  vm_Name :: string
  vm_MountPath :: string

record EnvVar =
  ev_Name :: string
  ev_Value :: string
  ev_FieldPath :: "string option"

record ContainerPort =
  cp_Name :: string
  cp_ContainerPort :: goint32

datatype Probe =
    TCPSocket goint32
  | Exec "string list"

record SecurityContext =
  sctx_Privileged :: "bool option"
  sctx_RunAsNonRoot :: "bool option"

record Container =
  ct_Image :: string
  ct_ImagePullPolicy :: string
  ct_Name :: string
  ct_Command :: "string list"
  ct_Args :: "string list"
  ct_Env :: "EnvVar list"
  ct_Ports :: "ContainerPort list"
  ct_VolumeMounts :: "VolumeMount list"
  ct_ReadinessProbe :: "Probe option"
  ct_LivenessProbe :: "Probe option"
  ct_SecurityContext :: "SecurityContext option"

definition zero_Container :: Container where
  "zero_Container = \<lparr>ct_Image = '''', ct_ImagePullPolicy = '''', ct_Name = '''', ct_Command = [],
     ct_Args = [], ct_Env = [], ct_Ports = [], ct_VolumeMounts = [], ct_ReadinessProbe = None,
     ct_LivenessProbe = None, ct_SecurityContext = None\<rparr>"

record PodSpec =
  pd_ServiceAccountName :: string
  pd_AutomountServiceAccountToken :: "bool option"
  pd_ShareProcessNamespace :: "bool option"
  pd_Volumes :: "Volume list"
  pd_InitContainers :: "Container list"
  pd_Containers :: "Container list"
  pd_NodeSelector :: "(string, string) gomap"
  pd_Affinity :: "Affinity option"

record PodTemplateSpec =
  pt_Labels :: "(string, string) gomap"
  pt_Annotations :: "(string, string) gomap"
  pt_Spec :: PodSpec

section \<open>Objects\<close>

record Deployment =
  dep_meta :: ObjectMeta
  dep_Replicas :: "goint32 option"
  dep_MatchLabels :: "(string, string) gomap"
  dep_Template :: PodTemplateSpec

record StatefulSet =
  ss_meta :: ObjectMeta
  ss_Replicas :: "goint32 option"
  ss_MatchLabels :: "(string, string) gomap"
  ss_Template :: PodTemplateSpec

record ServicePort =
  svp_Name :: string
  svp_Protocol :: string
  svp_Port :: goint32
  svp_TargetPort :: goint32

record Service =
  svc_meta :: ObjectMeta
  svc_Type :: string
  svc_Ports :: "ServicePort list"
  svc_Selector :: "(string, string) gomap"

record ConfigMap =
  cm_meta :: ObjectMeta
  cm_Data :: "(string, string) gomap"

record PersistentVolumeClaim =
  pvclaim_meta :: ObjectMeta
  pvclaim_Spec :: PersistentVolumeClaimSpec

record Namespace =
  ns_meta :: ObjectMeta
  ns_Finalizers :: "string list"

record ServiceAccount =
  sa_meta :: ObjectMeta
  sa_AutomountServiceAccountToken :: "bool option"

record PolicyRule =
  pr_APIGroups :: "string list"
  pr_Resources :: "string list"
  pr_ResourceNames :: "string list"
  pr_Verbs :: "string list"

record Role =
  role_meta :: ObjectMeta
  role_Rules :: "PolicyRule list"

record Subject =
  sub_Kind :: string
  sub_Name :: string
  sub_Namespace :: string

record RoleRef =
  rr_Kind :: string
  rr_Name :: string

record RoleBinding =
  rb_meta :: ObjectMeta
  rb_Subjects :: "Subject list"
  rb_RoleRef :: RoleRef

record Endpoint =
  ep_Port :: string
  ep_Path :: string
  ep_Interval :: string

record ServiceMonitor =
  sm_meta :: ObjectMeta
  sm_NamespaceSelector :: "string list"
  sm_MatchLabels :: "(string, string) gomap"
  sm_Endpoints :: "Endpoint list"

record Pod =
  pod_meta :: ObjectMeta

section \<open>The union of the object types\<close>

datatype kobj =
    OShare SmbShare
  | OSecurity SmbSecurityConfig
  | OCommon SmbCommonConfig
  | ODeployment Deployment
  | OStatefulSet StatefulSet
  | OService Service
  | OConfigMap ConfigMap
  | OPVC PersistentVolumeClaim
  | ONamespace Namespace
  | OServiceAccount ServiceAccount
  | ORole Role
  | ORoleBinding RoleBinding
  | OServiceMonitor ServiceMonitor
  | OPod Pod

datatype okind = KShare | KSecurity | KCommon | KDeployment | KStatefulSet | KService | KConfigMap
  | KPVC | KNamespace | KServiceAccount | KRole | KRoleBinding | KServiceMonitor | KPod

fun kind_of :: "kobj \<Rightarrow> okind" where
  "kind_of (OShare _) = KShare"
| "kind_of (OSecurity _) = KSecurity"
| "kind_of (OCommon _) = KCommon"
| "kind_of (ODeployment _) = KDeployment"
| "kind_of (OStatefulSet _) = KStatefulSet"
| "kind_of (OService _) = KService"
| "kind_of (OConfigMap _) = KConfigMap"
| "kind_of (OPVC _) = KPVC"
| "kind_of (ONamespace _) = KNamespace"
| "kind_of (OServiceAccount _) = KServiceAccount"
| "kind_of (ORole _) = KRole"
| "kind_of (ORoleBinding _) = KRoleBinding"
| "kind_of (OServiceMonitor _) = KServiceMonitor"
| "kind_of (OPod _) = KPod"

text \<open>\<open>rtclient.Object\<close>: the accessors every object has.\<close>

fun kmeta :: "kobj \<Rightarrow> ObjectMeta" where
  "kmeta (OShare x) = sh_meta x"
| "kmeta (OSecurity x) = ssc_meta x"
| "kmeta (OCommon x) = scc_meta x"
| "kmeta (ODeployment x) = dep_meta x"
| "kmeta (OStatefulSet x) = ss_meta x"
| "kmeta (OService x) = svc_meta x"
| "kmeta (OConfigMap x) = cm_meta x"
| "kmeta (OPVC x) = pvclaim_meta x"
| "kmeta (ONamespace x) = ns_meta x"
| "kmeta (OServiceAccount x) = sa_meta x"
| "kmeta (ORole x) = role_meta x"
| "kmeta (ORoleBinding x) = rb_meta x"
| "kmeta (OServiceMonitor x) = sm_meta x"
| "kmeta (OPod x) = pod_meta x"

fun set_kmeta :: "ObjectMeta \<Rightarrow> kobj \<Rightarrow> kobj" where
  "set_kmeta m (OShare x) = OShare (x\<lparr>sh_meta := m\<rparr>)"
| "set_kmeta m (OSecurity x) = OSecurity (x\<lparr>ssc_meta := m\<rparr>)"
| "set_kmeta m (OCommon x) = OCommon (x\<lparr>scc_meta := m\<rparr>)"
| "set_kmeta m (ODeployment x) = ODeployment (x\<lparr>dep_meta := m\<rparr>)"
| "set_kmeta m (OStatefulSet x) = OStatefulSet (x\<lparr>ss_meta := m\<rparr>)"
| "set_kmeta m (OService x) = OService (x\<lparr>svc_meta := m\<rparr>)"
| "set_kmeta m (OConfigMap x) = OConfigMap (x\<lparr>cm_meta := m\<rparr>)"
| "set_kmeta m (OPVC x) = OPVC (x\<lparr>pvclaim_meta := m\<rparr>)"
| "set_kmeta m (ONamespace x) = ONamespace (x\<lparr>ns_meta := m\<rparr>)"
| "set_kmeta m (OServiceAccount x) = OServiceAccount (x\<lparr>sa_meta := m\<rparr>)"
| "set_kmeta m (ORole x) = ORole (x\<lparr>role_meta := m\<rparr>)"
| "set_kmeta m (ORoleBinding x) = ORoleBinding (x\<lparr>rb_meta := m\<rparr>)"
| "set_kmeta m (OServiceMonitor x) = OServiceMonitor (x\<lparr>sm_meta := m\<rparr>)"
| "set_kmeta m (OPod x) = OPod (x\<lparr>pod_meta := m\<rparr>)"

definition map_kmeta :: "(ObjectMeta \<Rightarrow> ObjectMeta) \<Rightarrow> kobj \<Rightarrow> kobj" where
  "map_kmeta f x = set_kmeta (f (kmeta x)) x"

lemma kmeta_set_kmeta [simp]: "kmeta (set_kmeta m x) = m"
  by (cases x) simp_all

lemma kind_of_set_kmeta [simp]: "kind_of (set_kmeta m x) = kind_of x"
  by (cases x) simp_all

lemma set_kmeta_kmeta [simp]: "set_kmeta (kmeta x) x = x"
  by (cases x) simp_all

lemma kmeta_map_kmeta [simp]: "kmeta (map_kmeta f x) = f (kmeta x)"
  by (simp add: map_kmeta_def)

end
