(* ===== verification/Compatible.thy ===== *)
theory Compatible
  imports Planner
begin

text \<open>
  \<open>internal/planner/compatible.go\<close>: the check that two shares may be hosted by one server.
  The nil error is \<open>Inr ()\<close>; the check dereferences the optional \<open>storage.pvc\<close> of both
  shares, which panics (\<open>None\<close>) when either is nil and the namespaces agree.
\<close>

record IncompatibleInstanceError =
  iie_current :: string
  iie_existing :: string
  iie_reason :: string

definition iie_Error :: "IncompatibleInstanceError \<Rightarrow> string" where
  "iie_Error e = ''Share resource '' @ iie_current e @ '' is incompatible with '' @ iie_existing e @
     '': '' @ iie_reason e"

definition incompatible :: "SmbShare \<Rightarrow> SmbShare \<Rightarrow> string \<Rightarrow> IncompatibleInstanceError" where
  "incompatible current existing reason =
     \<lparr>iie_current = m_Name (sh_meta current), iie_existing = m_Name (sh_meta existing),
      iie_reason = reason\<rparr>"

definition share_name_or_invalid :: "SmbShare option \<Rightarrow> string" where
  "share_name_or_invalid s = (case s of None \<Rightarrow> ''<invalid>'' | Some s \<Rightarrow> m_Name (sh_meta s))"

definition security_uid :: "InstanceConfiguration \<Rightarrow> string" where
  "security_uid ic = (case ic_SecurityConfig ic of None \<Rightarrow> '''' | Some c \<Rightarrow> m_UID (ssc_meta c))"

definition common_uid :: "InstanceConfiguration \<Rightarrow> string" where
  "common_uid ic = (case ic_CommonConfig ic of None \<Rightarrow> '''' | Some c \<Rightarrow> m_UID (scc_meta c))"

definition CheckCompatible ::
  "InstanceConfiguration \<Rightarrow> InstanceConfiguration \<Rightarrow> (IncompatibleInstanceError + unit) option" where
  "CheckCompatible current existing =
     (case (ic_SmbShare current, ic_SmbShare existing) of
        (Some s1, Some s2) \<Rightarrow>
          if m_Namespace (sh_meta s1) \<noteq> m_Namespace (sh_meta s2)
          then Some (Inl (incompatible s1 s2 ''namespaces differ''))
          else do {
            p1 \<leftarrow> st_Pvc (sp_Storage (sh_Spec s1));
            p2 \<leftarrow> st_Pvc (sp_Storage (sh_Spec s2));
            if pvc_Name p1 \<noteq> pvc_Name p2
            then Some (Inl (incompatible s1 s2 ''PersistentVolumeClaim name mismatch''))
            else if sp_SecurityConfig (sh_Spec s1) \<noteq> sp_SecurityConfig (sh_Spec s2)
            then Some (Inl (incompatible s1 s2 ''security config name mismatch''))
            else if sp_CommonConfig (sh_Spec s1) \<noteq> sp_CommonConfig (sh_Spec s2)
            then Some (Inl (incompatible s1 s2 ''common config name mismatch''))
            else if security_uid current \<noteq> security_uid existing
            then Some (Inl (incompatible s1 s2 ''security configuration resources differ''))
            else if common_uid current \<noteq> common_uid existing
            then Some (Inl (incompatible s1 s2 ''common configuration resources differ''))
            else Some (Inr ()) }
      | (s1, s2) \<Rightarrow> Some (Inl \<lparr>iie_current = share_name_or_invalid s1,
            iie_existing = share_name_or_invalid s2,
            iie_reason = ''instance configuration missing SmbShare''\<rparr>))"

section \<open>What compatibility means\<close>

text \<open>The configuration a server is built from, as far as the check looks at it.\<close>

definition server_inputs ::
  "InstanceConfiguration \<Rightarrow> (string \<times> string \<times> string \<times> string \<times> string \<times> string) option" where
  "server_inputs ic = do {
     s \<leftarrow> ic_SmbShare ic;
     p \<leftarrow> st_Pvc (sp_Storage (sh_Spec s));
     Some (m_Namespace (sh_meta s), pvc_Name p, sp_SecurityConfig (sh_Spec s),
           sp_CommonConfig (sh_Spec s), security_uid ic, common_uid ic) }"

lemma CheckCompatible_iff:
  "CheckCompatible a b = Some (Inr ()) \<longleftrightarrow> server_inputs a \<noteq> None \<and> server_inputs a = server_inputs b"
  by (cases "ic_SmbShare a"; cases "ic_SmbShare b")
    (auto simp: CheckCompatible_def server_inputs_def bind_eq_Some_conv split: if_splits option.splits
      Option.bind_splits)

text \<open>
  C24. \<open>CheckCompatible\<close> accepts two instances exactly when both have a share with a PVC and
  agree on namespace, PVC name and on name and UID of the security and common configuration.
  The check is symmetric, and being an equality of six values also transitive, so that it
  is enough to check a new share against any one share of its group.
\<close>

theorem CheckCompatible_equivalence:
  "(CheckCompatible a b = Some (Inr ()) \<longleftrightarrow>
      server_inputs a \<noteq> None \<and> server_inputs a = server_inputs b) \<and>
   (CheckCompatible a b = Some (Inr ()) \<longleftrightarrow> CheckCompatible b a = Some (Inr ()))"
  unfolding CheckCompatible_iff by metis

text \<open>
  C29. The check panics exactly when two shares of one namespace are compared of which one has
  no \<open>storage.pvc\<close>, which the resource definition allows.
\<close>

theorem CheckCompatible_panics:
  "CheckCompatible a b = None \<longleftrightarrow>
     (\<exists>s1 s2. ic_SmbShare a = Some s1 \<and> ic_SmbShare b = Some s2 \<and>
        m_Namespace (sh_meta s1) = m_Namespace (sh_meta s2) \<and>
        (st_Pvc (sp_Storage (sh_Spec s1)) = None \<or> st_Pvc (sp_Storage (sh_Spec s2)) = None))"
  by (cases "ic_SmbShare a"; cases "ic_SmbShare b")
    (auto simp: CheckCompatible_def split: if_splits Option.bind_splits)

end
