(* ===== verification/Effects.thy ===== *)
theory Effects
  imports KubeObjects Compatible
begin

text \<open>
  How the code under \<open>internal/resources\<close> acts on the cluster. A method that takes a context
  is a program: it asks the API client for one call after another and goes on with what the
  server answers. The server is no part of the operator, so a program is a tree that
  branches over every possible answer; \<open>replay\<close> runs it against a list of answers,
  \<open>run_prog\<close> against a server given as a function. Log lines have no effect and are left
  out; events are calls without an answer. The Kubernetes library functions the code calls
  are the fields of the parameter \<open>kube_lib\<close>.
\<close>

section \<open>Errors\<close>

text \<open>
  The errors the operator tells apart: the two API statuses it tests for, any other API
  error, its own messages, an incompatible share, and errors of the libraries.
\<close>

datatype gerror =
    NotFoundError
  | AlreadyExistsError
  | ApiError string
  | ErrorMsg string
  | IncompatibleError IncompatibleInstanceError
  | DecodeError
  | LibError string

definition IsNotFound :: "gerror \<Rightarrow> bool" where
  "IsNotFound e = (e = NotFoundError)"

definition IsAlreadyExists :: "gerror \<Rightarrow> bool" where
  "IsAlreadyExists e = (e = AlreadyExistsError)"

section \<open>\<open>result.go\<close>\<close>

record Result =
  r_err :: "gerror option"
  r_requeue :: bool

definition Done :: Result where
  "Done = \<lparr>r_err = None, r_requeue = False\<rparr>"

definition Requeue :: Result where
  "Requeue = \<lparr>r_err = None, r_requeue = True\<rparr>"

definition ErrResult :: "gerror \<Rightarrow> Result" where
  "ErrResult e = \<lparr>r_err = Some e, r_requeue = False\<rparr>"

definition Yield :: "Result \<Rightarrow> bool" where
  "Yield r = (r_requeue r \<or> r_err r \<noteq> None)"

lemma Yield_simps [simp]: "\<not> Yield Done" "Yield Requeue" "Yield (ErrResult e)"
  by (simp_all add: Yield_def Done_def Requeue_def ErrResult_def)

lemma Result_distinct [simp]: "Done \<noteq> Requeue" "Requeue \<noteq> Done" "Done \<noteq> ErrResult e" "ErrResult e \<noteq> Done"
  "Requeue \<noteq> ErrResult e" "ErrResult e \<noteq> Requeue" "ErrResult e = ErrResult e' \<longleftrightarrow> e = e'"
  by (simp_all add: Done_def Requeue_def ErrResult_def)

section \<open>Events\<close>

definition EventNormal :: string where
  "EventNormal = ''Normal''"

definition EventWarning :: string where
  "EventWarning = ''Warning''"

definition ReasonCreatedPersistentVolumeClaim :: string where
  "ReasonCreatedPersistentVolumeClaim = ''CreatedPersistentVolumeClaim''"

definition ReasonCreatedDeployment :: string where
  "ReasonCreatedDeployment = ''CreatedDeployment''"

definition ReasonCreatedStatefulSet :: string where
  "ReasonCreatedStatefulSet = ''CreatedStatefulSet''"

definition ReasonInvalidConfiguration :: string where
  "ReasonInvalidConfiguration = ''InvalidConfiguration''"

section \<open>Programs\<close>

datatype call =
    CGet okind NamespacedName
  | CCreate kobj
  | CUpdate kobj
  | CStatusUpdate kobj
  | CDelete kobj
  | CEvent NamespacedName string string string

type_synonym resp = "gerror + kobj"

datatype 'a prog =
    Ret 'a
  | Panic
  | Do call "resp \<Rightarrow> 'a prog"

primrec andthen :: "'a prog \<Rightarrow> ('a \<Rightarrow> 'b prog) \<Rightarrow> 'b prog" where
  "andthen (Ret x) f = f x"
| "andthen Panic f = Panic"
| "andthen (Do c k) f = Do c (\<lambda>r. andthen (k r) f)"

text \<open>A pure expression that may panic, inside a program.\<close>

definition eval :: "'a option \<Rightarrow> ('a \<Rightarrow> 'b prog) \<Rightarrow> 'b prog" where
  "eval x f = (case x of None \<Rightarrow> Panic | Some v \<Rightarrow> f v)"

text \<open>\<open>if err != nil\<close> after a call that returns a value and an error.\<close>

definition on_ok :: "(gerror + 'a) prog \<Rightarrow> (gerror \<Rightarrow> 'b prog) \<Rightarrow> ('a \<Rightarrow> 'b prog) \<Rightarrow> 'b prog" where
  "on_ok p e f = andthen p (\<lambda>r. case r of Inl err \<Rightarrow> e err | Inr x \<Rightarrow> f x)"

definition api_get :: "okind \<Rightarrow> NamespacedName \<Rightarrow> resp prog" where
  "api_get k nn = Do (CGet k nn) Ret"

definition api_write :: "call \<Rightarrow> resp prog" where
  "api_write c = Do c Ret"

definition emit :: "NamespacedName \<Rightarrow> string \<Rightarrow> string \<Rightarrow> string \<Rightarrow> unit prog" where
  "emit about type reason msg = Do (CEvent about type reason msg) (\<lambda>_. Ret ())"

text \<open>
  A typed \<open>Get\<close> decodes the answer into the struct it is given; an answer of another kind
  is an error of the client.
\<close>

definition typed :: "(kobj \<Rightarrow> 'a option) \<Rightarrow> resp \<Rightarrow> gerror + 'a" where
  "typed proj r = (case r of Inl e \<Rightarrow> Inl e
     | Inr x \<Rightarrow> (case proj x of None \<Rightarrow> Inl (ApiError ''unexpected object'') | Some y \<Rightarrow> Inr y))"

fun is_write :: "call \<Rightarrow> bool" where
  "is_write (CGet _ _) = False"
| "is_write (CEvent _ _ _ _) = False"
| "is_write _ = True"

fun is_event :: "call \<Rightarrow> bool" where
  "is_event (CEvent _ _ _ _) = True"
| "is_event _ = False"

section \<open>Running a program\<close>

datatype 'a outcome = Returned 'a | Panicked | Waiting

text \<open>Against a list of answers: the calls made with their answers, and how it ended.\<close>

primrec replay :: "'a prog \<Rightarrow> resp list \<Rightarrow> (call \<times> resp) list \<times> 'a outcome" where
  "replay (Ret x) = (\<lambda>rs. ([], Returned x))"
| "replay Panic = (\<lambda>rs. ([], Panicked))"
| "replay (Do c k) = (\<lambda>rs. case rs of
     [] \<Rightarrow> ([], Waiting)
   | r # rs' \<Rightarrow> (let (tr, out) = replay (k r) rs' in ((c, r) # tr, out)))"

text \<open>Against a server: a function from its state and a call to an answer and a new state.\<close>

primrec run_prog :: "('w \<Rightarrow> call \<Rightarrow> resp \<times> 'w) \<Rightarrow> 'a prog \<Rightarrow> 'w \<Rightarrow> (call \<times> resp) list \<times> 'a option \<times> 'w" where
  "run_prog api (Ret x) = (\<lambda>w. ([], Some x, w))"
| "run_prog api Panic = (\<lambda>w. ([], None, w))"
| "run_prog api (Do c k) = (\<lambda>w. let (r, w1) = api w c; (tr, out, w2) = run_prog api (k r) w1 in ((c, r) # tr, out, w2))"

lemma run_replay:
  "run_prog api p w = (tr, out, w') \<Longrightarrow>
   replay p (map snd tr) = (tr, case out of None \<Rightarrow> Panicked | Some x \<Rightarrow> Returned x)"
  by (induction p arbitrary: w tr) (auto simp: Let_def split: prod.splits)

lemma andthen_Ret [simp]: "andthen p Ret = p"
  by (induction p) auto

lemma andthen_assoc: "andthen (andthen p f) g = andthen p (\<lambda>x. andthen (f x) g)"
  by (induction p) auto

lemma replay_andthen:
  "replay (andthen p f) rs = (case replay p rs of
     (tr, Returned x) \<Rightarrow> (let (tr', out) = replay (f x) (drop (length tr) rs) in (tr @ tr', out))
   | (tr, Panicked) \<Rightarrow> (tr, Panicked)
   | (tr, Waiting) \<Rightarrow> (tr, Waiting))"
proof (induction p arbitrary: rs)
  case (Do c k)
  show ?case
  proof (cases rs)
    case (Cons r rs')
    have "replay (andthen (k r) f) rs' = (case replay (k r) rs' of
       (tr, Returned x) \<Rightarrow> (let (tr', out) = replay (f x) (drop (length tr) rs') in (tr @ tr', out))
     | (tr, Panicked) \<Rightarrow> (tr, Panicked)
     | (tr, Waiting) \<Rightarrow> (tr, Waiting))"
      by (rule Do.IH) simp
    then show ?thesis by (auto simp: Cons Let_def split: prod.splits outcome.splits)
  qed simp
qed (auto simp: Let_def split: prod.splits)

lemma run_andthen:
  "run_prog api (andthen p f) w = (case run_prog api p w of
     (tr, Some x, w1) \<Rightarrow> (let (tr', out, w2) = run_prog api (f x) w1 in (tr @ tr', out, w2))
   | (tr, None, w1) \<Rightarrow> (tr, None, w1))"
  by (induction p arbitrary: w) (auto simp: Let_def split: prod.splits option.splits)

end
