(* ===== verification/Stages.thy ===== *)
theory Stages
  imports Effects
begin

text \<open>
  The contract of a reconciliation stage, for every way the API server may answer: among its
  calls at most one write succeeds, nothing but events follows a successful write, and a
  stage that does not tell its caller to stop has not written. The rules \<open>stage_intros\<close>
  follow the shape of a program, so that a stage is checked by unfolding its definition.
\<close>

named_theorems stage_intros \<open>rules that check the stage contract along a program\<close>

definition ok_write :: "call \<times> resp \<Rightarrow> bool" where
  "ok_write e = (is_write (fst e) \<and> \<not> isl (snd e))"

definition quiet :: "(call \<times> resp) list \<Rightarrow> bool" where
  "quiet tr = (\<forall>e \<in> set tr. \<not> ok_write e)"

fun one_shot :: "(call \<times> resp) list \<Rightarrow> bool" where
  "one_shot [] = True"
| "one_shot (e # tr) = (if ok_write e then (\<forall>x \<in> set tr. is_event (fst x)) else one_shot tr)"

lemma quiet_simps [simp]: "quiet []" "quiet (e # tr) \<longleftrightarrow> \<not> ok_write e \<and> quiet tr"
  "quiet (tr @ tr') \<longleftrightarrow> quiet tr \<and> quiet tr'"
  by (auto simp: quiet_def)

lemma one_shot_quiet: "quiet tr \<Longrightarrow> one_shot (tr @ tr') \<longleftrightarrow> one_shot tr'"
  by (induction tr) auto

lemma event_not_write: "is_event c \<Longrightarrow> \<not> is_write c"
  by (cases c) auto

lemma events_quiet: "\<forall>e \<in> set tr. is_event (fst e) \<Longrightarrow> quiet tr"
  using event_not_write by (auto simp: quiet_def ok_write_def)

lemma one_shot_events: "one_shot tr \<Longrightarrow> \<forall>e \<in> set tr'. is_event (fst e) \<Longrightarrow> one_shot (tr @ tr')"
proof (induction tr)
  case Nil
  then show ?case using one_shot_quiet [OF events_quiet, of tr' "[]"] by simp
qed (auto split: if_splits)

lemma one_shot_count: "one_shot tr \<Longrightarrow> length (filter ok_write tr) \<le> 1"
proof (induction tr)
  case (Cons e tr)
  show ?case
  proof (cases "ok_write e")
    case True
    with Cons.prems have "\<forall>x \<in> set tr. \<not> ok_write x" using event_not_write by (auto simp: ok_write_def)
    then have "filter ok_write tr = []" by (simp add: filter_empty_conv)
    then show ?thesis using True by simp
  qed (use Cons in simp)
qed simp

section \<open>The contract\<close>

locale stage =
  fixes stop :: "'a \<Rightarrow> bool" and p :: "'a prog"
  assumes once: "replay p rs = (tr, out) \<Longrightarrow> one_shot tr"
    and still: "replay p rs = (tr, Returned x) \<Longrightarrow> \<not> stop x \<Longrightarrow> quiet tr"
begin

lemma at_most_one_write: "replay p rs = (tr, out) \<Longrightarrow> length (filter ok_write tr) \<le> 1"
  using once one_shot_count by blast

lemma write_stops: "replay p rs = (tr, Returned x) \<Longrightarrow> e \<in> set tr \<Longrightarrow> ok_write e \<Longrightarrow> stop x"
  using still by (auto simp: quiet_def)

lemma write_is_last:
  assumes "replay p rs = (tr1 @ e # tr2, out)" "ok_write e" "e' \<in> set tr2"
  shows "is_event (fst e')"
proof -
  have "one_shot (tr1 @ e # tr2)" using once [OF assms(1)] .
  then show ?thesis using assms(2,3) by (induction tr1) (auto split: if_splits)
qed

lemma run_once: "run_prog api p w = (tr, out, w') \<Longrightarrow> one_shot tr"
  using run_replay once by metis

lemma run_still: "run_prog api p w = (tr, Some x, w') \<Longrightarrow> \<not> stop x \<Longrightarrow> quiet tr"
  using run_replay [of api p w tr "Some x"] still by simp

end

text \<open>What may follow a successful write: events, and telling the caller to stop.\<close>

definition silent :: "('a \<Rightarrow> bool) \<Rightarrow> 'a prog \<Rightarrow> bool" where
  "silent stop p \<longleftrightarrow> (\<forall>rs tr out. replay p rs = (tr, out) \<longrightarrow>
     (\<forall>e \<in> set tr. is_event (fst e)) \<and> (\<forall>x. out = Returned x \<longrightarrow> stop x))"

lemma silentI:
  assumes "\<And>rs tr out. replay p rs = (tr, out) \<Longrightarrow>
    (\<forall>e \<in> set tr. is_event (fst e)) \<and> (\<forall>x. out = Returned x \<longrightarrow> stop x)"
  shows "silent stop p"
  using assms by (simp add: silent_def)

lemma silent_Ret [stage_intros]: "stop x \<Longrightarrow> silent stop (Ret x)"
  by (simp add: silent_def)

lemma silent_Panic [stage_intros]: "silent stop Panic"
  by (simp add: silent_def)

lemma silent_Event [stage_intros]:
  assumes "\<And>r. silent stop (k r)"
  shows "silent stop (Do (CEvent a t r m) k)"
proof (rule silentI)
  fix rs tr out
  assume run: "replay (Do (CEvent a t r m) k) rs = (tr, out)"
  show "(\<forall>e \<in> set tr. is_event (fst e)) \<and> (\<forall>x. out = Returned x \<longrightarrow> stop x)"
  proof (cases rs)
    case (Cons x rs')
    obtain tr1 out1 where "replay (k x) rs' = (tr1, out1)" by fastforce
    then show ?thesis using run Cons assms [of x] by (fastforce simp: silent_def)
  qed (use run in auto)
qed

lemma silent_emit [stage_intros]: "(\<And>u. silent stop (f u)) \<Longrightarrow> silent stop (andthen (emit a t r m) f)"
  by (simp add: emit_def silent_Event)

lemma stage_Ret [stage_intros]: "stage stop (Ret x)"
  by unfold_locales auto

lemma stage_Panic [stage_intros]: "stage stop Panic"
  by unfold_locales auto

lemma stage_Do:
  assumes "\<not> is_write c" "\<And>r. stage stop (k r)"
  shows "stage stop (Do c k)"
proof
  fix rs tr out
  assume "replay (Do c k) rs = (tr, out)"
  then show "one_shot tr" using assms(1) stage.once [OF assms(2)]
    by (fastforce simp: Let_def ok_write_def split: list.splits prod.splits)
next
  fix rs tr x
  assume "replay (Do c k) rs = (tr, Returned x)" "\<not> stop x"
  then show "quiet tr" using assms(1) stage.still [OF assms(2)]
    by (fastforce simp: Let_def ok_write_def split: list.splits prod.splits)
qed

lemma stage_Get [stage_intros]: "(\<And>r. stage stop (k r)) \<Longrightarrow> stage stop (Do (CGet a nn) k)"
  by (rule stage_Do) simp_all

lemma stage_Event [stage_intros]: "(\<And>r. stage stop (k r)) \<Longrightarrow> stage stop (Do (CEvent a t r' m) k)"
  by (rule stage_Do) simp_all

lemma stage_Write:
  assumes "\<And>e. stage stop (k (Inl e))" "\<And>x. silent stop (k (Inr x))"
  shows "stage stop (Do c k)"
proof (cases "is_write c")
  case False
  have "stage stop (k r)" for r
  proof (cases r)
    case (Inr x)
    show ?thesis
    proof
      fix rs tr out
      assume "replay (k r) rs = (tr, out)"
      then have "\<forall>e \<in> set tr. is_event (fst e)" using assms(2) Inr by (auto simp: silent_def)
      then show "one_shot tr" using one_shot_events [of "[]" tr] by simp
    next
      fix rs tr x'
      assume "replay (k r) rs = (tr, Returned x')"
      then have "\<forall>e \<in> set tr. is_event (fst e)" using assms(2) Inr unfolding silent_def by blast
      then show "quiet tr" by (rule events_quiet)
    qed
  qed (use assms(1) in simp)
  then show ?thesis using False by (rule stage_Do [rotated])
next
  case True
  show ?thesis
  proof
    fix rs tr out
    assume run: "replay (Do c k) rs = (tr, out)"
    then show "one_shot tr"
    proof (cases rs)
      case (Cons r rs')
      obtain tr1 out1 where 1: "replay (k r) rs' = (tr1, out1)" by fastforce
      show ?thesis
      proof (cases r)
        case (Inl e)
        then show ?thesis using run Cons 1 stage.once [OF assms(1) [of e]] by (auto simp: ok_write_def)
      next
        case (Inr x)
        then show ?thesis using run Cons 1 assms(2) [of x] True by (fastforce simp: silent_def ok_write_def)
      qed
    qed auto
  next
    fix rs tr x'
    assume run: "replay (Do c k) rs = (tr, Returned x')" "\<not> stop x'"
    then show "quiet tr"
    proof (cases rs)
      case (Cons r rs')
      obtain tr1 out1 where 1: "replay (k r) rs' = (tr1, out1)" by fastforce
      show ?thesis
      proof (cases r)
        case (Inl e)
        then show ?thesis using run Cons 1 stage.still [OF assms(1) [of e]] by (auto simp: ok_write_def)
      next
        case (Inr x)
        then show ?thesis using run Cons 1 assms(2) [of x] by (fastforce simp: silent_def)
      qed
    qed auto
  qed
qed

text \<open>One program after another: after a stop only what is silent may follow.\<close>

lemma stage_andthen:
  assumes p: "stage sp p" and go: "\<And>x. \<not> sp x \<Longrightarrow> stage sq (f x)" and halt: "\<And>x. sp x \<Longrightarrow> silent sq (f x) \<and> stage sq (f x)"
  shows "stage sq (andthen p f)"
proof
  fix rs tr out
  assume run: "replay (andthen p f) rs = (tr, out)"
  obtain tr1 out1 where 1: "replay p rs = (tr1, out1)" by fastforce
  show "one_shot tr"
  proof (cases out1)
    case (Returned x)
    obtain tr2 out2 where 2: "replay (f x) (drop (length tr1) rs) = (tr2, out2)" by fastforce
    have tr: "tr = tr1 @ tr2" using run 1 2 Returned by (simp add: replay_andthen)
    show ?thesis
    proof (cases "sp x")
      case True
      then have "\<forall>e \<in> set tr2. is_event (fst e)" using halt 2 unfolding silent_def by blast
      then show ?thesis using stage.once [OF p 1] tr one_shot_events by simp
    next
      case False
      then have "quiet tr1" using stage.still [OF p] 1 Returned by blast
      then show ?thesis using stage.once [OF go [OF False] 2] tr by (simp add: one_shot_quiet)
    qed
  qed (use run 1 stage.once [OF p 1] in \<open>auto simp: replay_andthen\<close>)
next
  fix rs tr y
  assume run: "replay (andthen p f) rs = (tr, Returned y)" "\<not> sq y"
  obtain tr1 out1 where 1: "replay p rs = (tr1, out1)" by fastforce
  show "quiet tr"
  proof (cases out1)
    case (Returned x)
    obtain tr2 out2 where 2: "replay (f x) (drop (length tr1) rs) = (tr2, out2)" by fastforce
    have tr: "tr = tr1 @ tr2" "out2 = Returned y" using run(1) 1 2 Returned by (simp_all add: replay_andthen)
    have "\<not> sp x" using halt [of x] 2 tr(2) run(2) unfolding silent_def by blast
    then show ?thesis
      using stage.still [OF p] stage.still [OF go] 1 2 tr Returned run(2) by (metis quiet_simps(3))
  qed (use run 1 in \<open>auto simp: replay_andthen\<close>)
qed

lemma stage_eval [stage_intros]: "(\<And>v. x = Some v \<Longrightarrow> stage stop (f v)) \<Longrightarrow> stage stop (eval x f)"
  by (cases x) (simp_all add: eval_def stage_Panic)

lemma stage_emit [stage_intros]: "(\<And>u. stage stop (f u)) \<Longrightarrow> stage stop (andthen (emit a t r m) f)"
  by (simp add: emit_def stage_Event)

end
