(* ===== verification/KubeLib.thy ===== *)
theory KubeLib
  imports Effects
begin

text \<open>
  The functions of the Kubernetes Go libraries that the operator calls and whose code is not
  in the repository: a record that every definition using them takes as an argument. What
  the properties rely on is the locale \<open>kube_laws\<close>, the documented behaviour; it is shown
  to be satisfiable by a concrete library, which the witnesses use.
\<close>

record kube_lib =
  kl_SetControllerReference :: "ObjectMeta \<Rightarrow> ObjectMeta \<Rightarrow> gerror + ObjectMeta"
  kl_GVKForObject :: "okind \<Rightarrow> gerror + GroupVersionKind"
  kl_GroupVersionString :: "GroupVersionKind \<Rightarrow> string"
  kl_ParseGroupVersion :: "string \<Rightarrow> gerror + GroupVersion"
  kl_ParseQuantity :: "string \<Rightarrow> gerror + string"
  kl_ContainsFinalizer :: "string list \<Rightarrow> string \<Rightarrow> bool"
  kl_AddFinalizer :: "string list \<Rightarrow> string \<Rightarrow> string list"
  kl_RemoveFinalizer :: "string list \<Rightarrow> string \<Rightarrow> string list"

definition share_gvk :: GroupVersionKind where
  "share_gvk = \<lparr>gvk_Group = gv_Group api_GroupVersion, gvk_Version = gv_Version api_GroupVersion,
     gvk_Kind = ''SmbShare''\<rparr>"

locale kube_laws =
  fixes lib :: kube_lib
  assumes gvk_share: "kl_GVKForObject lib KShare = Inr share_gvk"
    and parse_string: "kl_ParseGroupVersion lib (kl_GroupVersionString lib share_gvk) =
      Inr \<lparr>gv_Group = gvk_Group share_gvk, gv_Version = gvk_Version share_gvk\<rparr>"
    and contains_add: "kl_ContainsFinalizer lib (kl_AddFinalizer lib fs f) f"
    and contains_remove: "\<not> kl_ContainsFinalizer lib (kl_RemoveFinalizer lib fs f) f"
    and remove_subset: "set (kl_RemoveFinalizer lib fs f) \<subseteq> set fs"
    and contains_remove_other:
      "f \<noteq> g \<Longrightarrow> kl_ContainsFinalizer lib (kl_RemoveFinalizer lib fs f) g = kl_ContainsFinalizer lib fs g"
    and controller_keeps: "kl_SetControllerReference lib owner m = Inr m' \<Longrightarrow>
      m_Name m' = m_Name m \<and> m_Namespace m' = m_Namespace m \<and> m_Labels m' = m_Labels m"
    and controller_set: "kl_SetControllerReference lib owner m = Inr m' \<Longrightarrow>
      \<exists>ref \<in> set (m_OwnerReferences m'). or_UID ref = m_UID owner \<and> or_Name ref = m_Name owner \<and>
        or_Controller ref = Some True"
    and controller_fresh: "m_Namespace m = m_Namespace owner \<Longrightarrow> m_OwnerReferences m = [] \<Longrightarrow>
      \<exists>ref. kl_SetControllerReference lib owner m = Inr (m\<lparr>m_OwnerReferences := [ref]\<rparr>) \<and>
        or_Name ref = m_Name owner \<and> or_UID ref = m_UID owner \<and> or_Controller ref = Some True \<and>
        or_APIVersion ref = kl_GroupVersionString lib share_gvk \<and> or_Kind ref = gvk_Kind share_gvk"

section \<open>A concrete library\<close>

definition std_parse_gv :: "string \<Rightarrow> gerror + GroupVersion" where
  "std_parse_gv s =
     (if s = '''' \<or> s = ''/'' then Inr \<lparr>gv_Group = '''', gv_Version = ''''\<rparr>
      else case split_on (CHR ''/'') s of
        [v] \<Rightarrow> Inr \<lparr>gv_Group = '''', gv_Version = v\<rparr>
      | [g, v] \<Rightarrow> Inr \<lparr>gv_Group = g, gv_Version = v\<rparr>
      | _ \<Rightarrow> Inl (LibError ''unexpected GroupVersion string''))"

definition std_controller_ref :: "ObjectMeta \<Rightarrow> OwnerReference" where
  "std_controller_ref owner = \<lparr>or_APIVersion = ''samba-operator.samba.org/v1alpha1'',
     or_Kind = ''SmbShare'', or_Name = m_Name owner, or_UID = m_UID owner,
     or_Controller = Some True, or_BlockOwnerDeletion = Some True\<rparr>"

definition std_set_controller :: "ObjectMeta \<Rightarrow> ObjectMeta \<Rightarrow> gerror + ObjectMeta" where
  "std_set_controller owner m =
     (if m_Namespace owner \<noteq> m_Namespace m then Inl (LibError ''cross-namespace owner references are disallowed'')
      else if \<exists>r \<in> set (m_OwnerReferences m). or_Controller r = Some True \<and> or_Name r \<noteq> m_Name owner
      then Inl (LibError ''already owned by another controller'')
      else Inr (m\<lparr>m_OwnerReferences :=
        filter (\<lambda>r. or_Name r \<noteq> m_Name owner) (m_OwnerReferences m) @ [std_controller_ref owner]\<rparr>))"

definition std_lib :: kube_lib where
  "std_lib = \<lparr>kl_SetControllerReference = std_set_controller,
     kl_GVKForObject = (\<lambda>k. if k = KShare then Inr share_gvk else Inl (LibError ''no kind registered'')),
     kl_GroupVersionString = (\<lambda>g. if gvk_Group g = '''' then gvk_Version g else gvk_Group g @ ''/'' @ gvk_Version g),
     kl_ParseGroupVersion = std_parse_gv,
     kl_ParseQuantity = (\<lambda>s. if s = '''' then Inl (LibError ''empty quantity'') else Inr s),
     kl_ContainsFinalizer = (\<lambda>fs f. f \<in> set fs),
     kl_AddFinalizer = (\<lambda>fs f. if f \<in> set fs then fs else fs @ [f]),
     kl_RemoveFinalizer = (\<lambda>fs f. filter (\<lambda>x. x \<noteq> f) fs)\<rparr>"

interpretation std: kube_laws std_lib
  by unfold_locales
    (auto simp: std_lib_def share_gvk_def api_GroupVersion_def std_parse_gv_def std_set_controller_def
      std_controller_ref_def split: if_splits)

end
