(* ===== verification/Volumes.thy ===== *)
theory Volumes
  imports Planner KubeObjects
begin

unbundle bit_operations_syntax

text \<open>
  \<open>internal/resources/volumes.go\<close>: the volumes of a server pod with their mounts and tags,
  and the keeper that collects them. The code mutates a keeper through its pointer and
  copies it with \<open>clone\<close>; keepers are values here, so \<open>clone\<close> is the identity.
  \<open>mustValidate\<close> panics (\<open>None\<close>) on a mismatched or duplicate name.
\<close>

definition configMapName :: string where
  "configMapName = ''samba-container-config''"

definition userSecretVolName :: string where
  "userSecretVolName = ''users-config''"

definition wbSocketsVolName :: string where
  "wbSocketsVolName = ''samba-wb-sockets-dir''"

definition stateVolName :: string where
  "stateVolName = ''samba-state-dir''"

definition osRunVolName :: string where
  "osRunVolName = ''run''"

definition joinJSONVolName :: string where
  "joinJSONVolName = ''join-data''"

type_synonym volMountTag = goint

definition tagData :: volMountTag where
  "tagData = 0x1"

definition tagConfig :: volMountTag where
  "tagConfig = 0x2"

definition tagMeta :: volMountTag where
  "tagMeta = 0x4"

definition tagCTDB :: volMountTag where
  "tagCTDB = 0x8"

definition tagCTDBConfig :: volMountTag where
  "tagCTDBConfig = tagCTDB OR tagConfig"

definition tagCTDBMeta :: volMountTag where
  "tagCTDBMeta = tagCTDB OR tagMeta"

record volMount =
  vmt_volume :: Volume
  vmt_mount :: VolumeMount
  vmt_tag :: volMountTag

definition getVolumes :: "volMount list \<Rightarrow> Volume list" where
  "getVolumes vols = map vmt_volume vols"

definition getMounts :: "volMount list \<Rightarrow> VolumeMount list" where
  "getMounts vols = map vmt_mount vols"

section \<open>The keeper\<close>

type_synonym volKeeper = "volMount list"

definition newVolKeeper :: volKeeper where
  "newVolKeeper = []"

definition vk_add :: "volMount \<Rightarrow> volKeeper \<Rightarrow> volKeeper" where
  "vk_add v vk = vk @ [v]"

definition vk_extend :: "volMount list \<Rightarrow> volKeeper \<Rightarrow> volKeeper" where
  "vk_extend vs vk = vk @ vs"

datatype vol_error =
    NameMismatch string string
  | DuplicateName string

fun validate_loop :: "string set \<Rightarrow> volMount list \<Rightarrow> vol_error option" where
  "validate_loop vnames [] = None"
| "validate_loop vnames (v # vs) =
     (if v_Name (vmt_volume v) \<noteq> vm_Name (vmt_mount v)
      then Some (NameMismatch (v_Name (vmt_volume v)) (vm_Name (vmt_mount v)))
      else if v_Name (vmt_volume v) \<in> vnames then Some (DuplicateName (v_Name (vmt_volume v)))
      else validate_loop (insert (v_Name (vmt_volume v)) vnames) vs)"

definition vk_validate :: "volKeeper \<Rightarrow> vol_error option" where
  "vk_validate vk = validate_loop {} vk"

definition vk_mustValidate :: "volKeeper \<Rightarrow> volKeeper option" where
  "vk_mustValidate vk = (case vk_validate vk of Some _ \<Rightarrow> None | None \<Rightarrow> Some vk)"

definition vk_all :: "volKeeper \<Rightarrow> volMount list option" where
  "vk_all vk = vk_mustValidate vk"

definition vk_clone :: "volKeeper \<Rightarrow> volKeeper" where
  "vk_clone vk = vk"

fun vk_exclude :: "volMountTag \<Rightarrow> volKeeper \<Rightarrow> volKeeper" where
  "vk_exclude t [] = []"
| "vk_exclude t (v # vk) = (if vmt_tag v AND t = t then vk_exclude t vk else v # vk_exclude t vk)"

section \<open>The volumes\<close>

definition vol :: "string \<Rightarrow> VolumeSource \<Rightarrow> string \<Rightarrow> volMountTag \<Rightarrow> volMount" where
  "vol name src path tag = \<lparr>vmt_volume = \<lparr>v_Name = name, v_Source = src\<rparr>,
     vmt_mount = \<lparr>vm_Name = name, vm_MountPath = path\<rparr>, vmt_tag = tag\<rparr>"

definition StorageMediumDefault :: string where
  "StorageMediumDefault = ''''"

definition StorageMediumMemory :: string where
  "StorageMediumMemory = ''Memory''"

definition shareVolumeAndMount :: "Planner \<Rightarrow> string \<Rightarrow> volMount" where
  "shareVolumeAndMount pl pvcName =
     vol (pvcName @ ''-smb'') (PersistentVolumeClaimSource pvcName) (ShareMountPath pl) tagData"

definition configVolumeAndMount :: "Planner \<Rightarrow> volMount" where
  "configVolumeAndMount pl =
     vol configMapName (ConfigMapSource (InstanceName pl)) ContainerConfigDir tagConfig"

definition userConfigVolumeAndMount :: "Planner \<Rightarrow> volMount" where
  "userConfigVolumeAndMount pl =
     (let uss = user_security_source pl
      in vol userSecretVolName
           (SecretSource (us_Secret uss) [\<lparr>kp_Key = us_Key uss, kp_Path = UsersConfigBaseName\<rparr>])
           UsersConfigDir tagConfig)"

definition sambaStateVolumeAndMount :: volMount where
  "sambaStateVolumeAndMount = vol stateVolName (EmptyDirSource StorageMediumDefault) SambaStateDir tagMeta"

definition osRunVolumeAndMount :: volMount where
  "osRunVolumeAndMount = vol osRunVolName (EmptyDirSource StorageMediumMemory) OSRunDir tagMeta"

definition wbSocketsVolumeAndMount :: volMount where
  "wbSocketsVolumeAndMount = vol wbSocketsVolName (EmptyDirSource StorageMediumMemory) WinbindSocketsDir tagMeta"

definition joinJSONVolumeSuffix :: "string \<Rightarrow> nat \<Rightarrow> string" where
  "joinJSONVolumeSuffix v index = v @ ''-'' @ itoa (int index)"

text \<open>
  Indexing \<open>JoinSources\<close> out of range, a nil security configuration and a nil \<open>UserJoin\<close>
  panic.
\<close>

definition joinJSONFileVolumeAndMount :: "Planner \<Rightarrow> nat \<Rightarrow> volMount option" where
  "joinJSONFileVolumeAndMount pl index = do {
     sc \<leftarrow> pl_SecurityConfig pl;
     j \<leftarrow> (if index < length (sec_JoinSources (ssc_Spec sc))
          then Some (sec_JoinSources (ssc_Spec sc) ! index) else None);
     uj \<leftarrow> sj_UserJoin j;
     Some (vol (joinJSONVolumeSuffix joinJSONVolName index)
       (SecretSource (uj_Secret uj) [\<lparr>kp_Key = uj_Key uj, kp_Path = JoinJSONBaseName\<rparr>])
       (JoinJSONSourceDir index) tagConfig) }"

definition svcWatchVolumeAndMount :: "string \<Rightarrow> volMount" where
  "svcWatchVolumeAndMount dir = vol ''svcwatch'' (EmptyDirSource StorageMediumMemory) dir tagMeta"

definition ctdbConfigVolumeAndMount :: volMount where
  "ctdbConfigVolumeAndMount =
     vol ''ctdb-config'' (EmptyDirSource StorageMediumMemory) ''/etc/ctdb'' tagCTDBConfig"

definition ctdbPersistentVolumeAndMount :: volMount where
  "ctdbPersistentVolumeAndMount =
     vol ''ctdb-persistent'' (EmptyDirSource StorageMediumMemory) ''/var/lib/ctdb/persistent'' tagCTDBMeta"

definition ctdbVolatileVolumeAndMount :: volMount where
  "ctdbVolatileVolumeAndMount =
     vol ''ctdb-volatile'' (EmptyDirSource StorageMediumMemory) ''/var/lib/ctdb/volatile'' tagCTDBMeta"

definition ctdbSocketsVolumeAndMount :: volMount where
  "ctdbSocketsVolumeAndMount =
     vol ''ctdb-sockets'' (EmptyDirSource StorageMediumMemory) ''/var/run/ctdb'' tagCTDBMeta"

definition ctdbSharedStateVolumeAndMount :: "string \<Rightarrow> volMount" where
  "ctdbSharedStateVolumeAndMount pvcName =
     vol (pvcName @ ''-ctdb'') (PersistentVolumeClaimSource pvcName) ''/var/lib/ctdb/shared'' tagCTDBMeta"

section \<open>When a keeper is valid\<close>

definition vol_names :: "volKeeper \<Rightarrow> string list" where
  "vol_names vk = map (\<lambda>v. v_Name (vmt_volume v)) vk"

definition names_match :: "volKeeper \<Rightarrow> bool" where
  "names_match vk = (\<forall>v \<in> set vk. v_Name (vmt_volume v) = vm_Name (vmt_mount v))"

lemma validate_loop_iff:
  "validate_loop seen vk = None \<longleftrightarrow>
     names_match vk \<and> distinct (vol_names vk) \<and> set (vol_names vk) \<inter> seen = {}"
  by (induction seen vk rule: validate_loop.induct) (auto simp: names_match_def vol_names_def)

lemma vk_all_iff: "vk_all vk = Some vk' \<longleftrightarrow> vk' = vk \<and> names_match vk \<and> distinct (vol_names vk)"
  using validate_loop_iff [of "{}" vk]
  by (cases "validate_loop {} vk") (auto simp: vk_all_def vk_mustValidate_def vk_validate_def)

lemma vk_exclude_filter: "vk_exclude t vk = filter (\<lambda>v. vmt_tag v AND t \<noteq> t) vk"
  by (induction vk) auto

text \<open>
  \<open>mustValidate\<close> lets a keeper through exactly when every volume has the name of its
  mount and no name occurs twice, and \<open>exclude\<close> of a validated keeper validates again, so a
  container built from fewer volumes cannot panic when the pod's volumes did not.
\<close>

theorem vk_validation:
  "(vk_all vk = Some vk \<longleftrightarrow>
      (\<forall>v \<in> set vk. v_Name (vmt_volume v) = vm_Name (vmt_mount v)) \<and>
      distinct (map (\<lambda>v. v_Name (vmt_volume v)) vk)) \<and>
   (vk_all vk = None \<or> vk_all (vk_exclude t vk) = Some (filter (\<lambda>v. vmt_tag v AND t \<noteq> t) vk))"
proof -
  have "distinct (vol_names (filter P vk))" if "distinct (vol_names vk)" for P
    using that by (auto simp: vol_names_def distinct_map_filter)
  moreover have "vk_all vk = None \<or> vk_all vk = Some vk"
    using vk_all_iff [of vk] by (cases "vk_all vk") auto
  ultimately show ?thesis
    by (auto simp: vk_all_iff vk_exclude_filter names_match_def vol_names_def)
qed

lemma vk_validation_witness:
  "vk_all [vol ''a'' (EmptyDirSource ''Memory'') ''/a'' tagData, vol ''b'' (EmptyDirSource ''Memory'') ''/b'' tagMeta] \<noteq> None"
  using vk_validation [of "[vol ''a'' (EmptyDirSource ''Memory'') ''/a'' tagData,
    vol ''b'' (EmptyDirSource ''Memory'') ''/b'' tagMeta]" tagData]
  by (simp add: vol_def)

end
