(* ===== verification/Pods.thy ===== *)
theory Pods
  imports Volumes
begin

text \<open>
  \<open>internal/resources/pods.go\<close> and the container part of \<open>metrics.go\<close>: the four pod specs of
  a samba server (user or AD mode, clustered or not), their containers and environments.
  Building a container validates its volumes and can panic, so every builder is an option.
\<close>

section \<open>Environment and small helpers\<close>

definition sambaServiceAccountName :: string where
  "sambaServiceAccountName = ''samba''"

definition sambaSccName :: string where
  "sambaSccName = ''samba''"

definition svcSelectorKey :: string where
  "svcSelectorKey = ''samba-operator.samba.org/service''"

definition withMetricsExporter :: "OperatorConfig \<Rightarrow> bool" where
  "withMetricsExporter cfg = (toLower (oc_MetricsExporterMode cfg) = ''enabled'')"

definition joinEnvPaths :: "string list \<Rightarrow> string" where
  "joinEnvPaths p = join '':'' p"

definition env_value :: "string \<Rightarrow> string \<Rightarrow> EnvVar" where
  "env_value n v = \<lparr>ev_Name = n, ev_Value = v, ev_FieldPath = None\<rparr>"

definition env_field :: "string \<Rightarrow> string \<Rightarrow> EnvVar" where
  "env_field n p = \<lparr>ev_Name = n, ev_Value = '''', ev_FieldPath = Some p\<rparr>"

definition metaPodEnv :: "EnvVar list" where
  "metaPodEnv = [env_field ''SAMBA_POD_NAME'' ''metadata.name'',
                 env_field ''SAMBA_POD_NAMESPACE'' ''metadata.namespace'']"

definition defaultPodEnv :: "Planner \<Rightarrow> EnvVar list" where
  "defaultPodEnv pl =
     (let env = [env_value ''SAMBA_CONTAINER_ID'' (InstanceName pl),
                 env_value ''SAMBACC_CONFIG'' (joinEnvPaths (ContainerConfigs pl))];
          lvl = SambaContainerDebugLevel pl;
          env' = (if lvl \<noteq> '''' then env @ [env_value ''SAMBA_DEBUG_LEVEL'' lvl] else env)
      in env' @ metaPodEnv)"

definition svcWatchEnv :: "EnvVar list" where
  "svcWatchEnv = [env_value ''DESTINATION_PATH'' ServiceWatchJSON,
     env_value ''SERVICE_LABEL_KEY'' svcSelectorKey,
     env_field ''SERVICE_LABEL_VALUE'' (''metadata.labels['' @ [CHR 0x27] @ svcSelectorKey @ [CHR 0x27] @ '']''),
     env_field ''SERVICE_NAMESPACE'' ''metadata.namespace'']"

definition ctdbHostnameEnv :: "EnvVar list" where
  "ctdbHostnameEnv = [env_field ''HOSTNAME'' ''metadata.name'',
     env_value ''SAMBACC_CTDB'' ''ctdb-is-experimental'']"

definition imagePullPolicy :: "Planner \<Rightarrow> string" where
  "imagePullPolicy pl =
     (let p = oc_ImagePullPolicy (pl_GlobalConfig pl)
      in if p = ''Always'' \<or> p = ''Never'' \<or> p = ''IfNotPresent'' then p else ''IfNotPresent'')"

definition ctrPrivSecurityContext :: SecurityContext where
  "ctrPrivSecurityContext = \<lparr>sctx_Privileged = Some True, sctx_RunAsNonRoot = Some False\<rparr>"

definition podServiceAccount :: "Planner \<Rightarrow> string \<times> bool option" where
  "podServiceAccount pl =
     (if oc_ClusterType (pl_GlobalConfig pl) = ClusterTypeOpenShift
      then (sambaServiceAccountName, Some True) else (''default'', None))"

definition defaultPodSpec :: "Planner \<Rightarrow> PodSpec" where
  "defaultPodSpec pl =
     (let (acct, automount) = podServiceAccount pl
      in \<lparr>pd_ServiceAccountName = acct, pd_AutomountServiceAccountToken = automount,
          pd_ShareProcessNamespace = Some True, pd_Volumes = [], pd_InitContainers = [],
          pd_Containers = [], pd_NodeSelector = None, pd_Affinity = None\<rparr>)"

section \<open>Join sources\<close>

record joinSources =
  js_volumes :: "volMount list"
  js_paths :: "string list"

fun join_sources_from :: "Planner \<Rightarrow> nat \<Rightarrow> SmbSecurityJoinSpec list \<Rightarrow> joinSources \<Rightarrow> joinSources option" where
  "join_sources_from pl i [] src = Some src"
| "join_sources_from pl i (js # jss) src =
     (case sj_UserJoin js of
        None \<Rightarrow> join_sources_from pl (Suc i) jss src
      | Some _ \<Rightarrow> do {
          vm \<leftarrow> joinJSONFileVolumeAndMount pl i;
          join_sources_from pl (Suc i) jss
            \<lparr>js_volumes = js_volumes src @ [vm], js_paths = js_paths src @ [JoinJSONSource i]\<rparr> })"

definition getJoinSources :: "Planner \<Rightarrow> joinSources option" where
  "getJoinSources pl = do {
     sc \<leftarrow> pl_SecurityConfig pl;
     join_sources_from pl 0 (sec_JoinSources (ssc_Spec sc)) \<lparr>js_volumes = [], js_paths = []\<rparr> }"

section \<open>Containers\<close>

text \<open>What most samba containers have in common: the image, the pull policy and the mounts.\<close>

definition samba_ctr :: "Planner \<Rightarrow> string \<Rightarrow> string list \<Rightarrow> EnvVar list \<Rightarrow> volKeeper \<Rightarrow> Container option" where
  "samba_ctr pl name args env vols = do {
     vs \<leftarrow> vk_all vols;
     Some (zero_Container\<lparr>ct_Image := oc_SmbdContainerImage (pl_GlobalConfig pl),
       ct_ImagePullPolicy := imagePullPolicy pl, ct_Name := name, ct_Args := args, ct_Env := env,
       ct_VolumeMounts := getMounts vs\<rparr>) }"

definition buildSmbdCtr :: "Planner \<Rightarrow> EnvVar list \<Rightarrow> volKeeper \<Rightarrow> Container option" where
  "buildSmbdCtr pl env vols = do {
     let portnum = oc_SmbdPort (pl_GlobalConfig pl);
     vs \<leftarrow> vk_all vols;
     Some \<lparr>ct_Image = oc_SmbdContainerImage (pl_GlobalConfig pl), ct_ImagePullPolicy = imagePullPolicy pl,
       ct_Name = oc_SmbdContainerName (pl_GlobalConfig pl), ct_Command = [''samba-container''],
       ct_Args = args_Run pl ''smbd'', ct_Env = env,
       ct_Ports = [\<lparr>cp_Name = ''smb'', cp_ContainerPort = int32_of_int portnum\<rparr>],
       ct_VolumeMounts = getMounts vs,
       ct_ReadinessProbe = Some (TCPSocket (int32_of_int portnum)),
       ct_LivenessProbe = Some (TCPSocket (int32_of_int portnum)),
       ct_SecurityContext = Some ctrPrivSecurityContext\<rparr> }"

definition defaultMetricsPort :: goint where
  "defaultMetricsPort = 8080"

definition defaultMetricsPath :: string where
  "defaultMetricsPath = ''/metrics''"

definition buildSmbMetricsContainer :: "string \<Rightarrow> EnvVar list \<Rightarrow> VolumeMount list \<Rightarrow> Container" where
  "buildSmbMetricsContainer img env volmnts = zero_Container
     \<lparr>ct_Image := img, ct_Name := ''samba-metrics'', ct_Command := [''/bin/smbmetrics''],
      ct_Ports := [\<lparr>cp_Name = ''smbmetrics'', cp_ContainerPort = int32_of_int defaultMetricsPort\<rparr>],
      ct_VolumeMounts := volmnts, ct_Env := env,
      ct_ReadinessProbe := Some (TCPSocket (int32_of_int defaultMetricsPort)),
      ct_LivenessProbe := Some (TCPSocket (int32_of_int defaultMetricsPort))\<rparr>"

definition buildSmbdMetricsCtr :: "Planner \<Rightarrow> EnvVar list \<Rightarrow> volKeeper \<Rightarrow> Container option" where
  "buildSmbdMetricsCtr pl env vols = do {
     vs \<leftarrow> vk_all vols;
     Some (buildSmbMetricsContainer (oc_SmbdMetricsContainerImage (pl_GlobalConfig pl)) env (getMounts vs)) }"

definition buildWinbinddCtr :: "Planner \<Rightarrow> EnvVar list \<Rightarrow> volKeeper \<Rightarrow> Container option" where
  "buildWinbinddCtr pl env vols = do {
     c \<leftarrow> samba_ctr pl (oc_WinbindContainerName (pl_GlobalConfig pl)) (args_Run pl ''winbindd'') env vols;
     Some (c\<lparr>ct_LivenessProbe := Some (Exec [''samba-container'', ''check'', ''winbind''])\<rparr>) }"

definition buildCTDBDaemonCtr :: "Planner \<Rightarrow> EnvVar list \<Rightarrow> volKeeper \<Rightarrow> Container option" where
  "buildCTDBDaemonCtr pl env vols = do {
     c \<leftarrow> samba_ctr pl ''ctdb'' args_CTDBDaemon env vols;
     Some (c\<lparr>ct_ReadinessProbe := Some (Exec args_CTDBNodeStatus)\<rparr>) }"

definition buildCTDBManageNodesCtr :: "Planner \<Rightarrow> EnvVar list \<Rightarrow> volKeeper \<Rightarrow> Container option" where
  "buildCTDBManageNodesCtr pl env vols = samba_ctr pl ''ctdb-manage-nodes'' args_CTDBManageNodes env vols"

definition buildDNSRegCtr :: "Planner \<Rightarrow> EnvVar list \<Rightarrow> volKeeper \<Rightarrow> Container option" where
  "buildDNSRegCtr pl env vols = samba_ctr pl ''dns-register'' (args_DNSRegister pl) env vols"

definition buildSvcWatchCtr :: "Planner \<Rightarrow> EnvVar list \<Rightarrow> volKeeper \<Rightarrow> Container option" where
  "buildSvcWatchCtr pl env vols = do {
     c \<leftarrow> samba_ctr pl ''svc-watch'' [] env vols;
     Some (c\<lparr>ct_Image := oc_SvcWatchContainerImage (pl_GlobalConfig pl),
             ct_SecurityContext := Some ctrPrivSecurityContext\<rparr>) }"

definition buildInitCtr :: "Planner \<Rightarrow> EnvVar list \<Rightarrow> volKeeper \<Rightarrow> Container option" where
  "buildInitCtr pl env vols = samba_ctr pl ''init'' (args_Initializer pl ''init'') env vols"

definition buildEnsureShareCtr :: "Planner \<Rightarrow> EnvVar list \<Rightarrow> volKeeper \<Rightarrow> Container option" where
  "buildEnsureShareCtr pl env vols = do {
     c \<leftarrow> samba_ctr pl ''ensure-share-paths'' args_EnsureSharePaths env vols;
     Some (c\<lparr>ct_SecurityContext := Some ctrPrivSecurityContext\<rparr>) }"

definition buildMustJoinCtr :: "Planner \<Rightarrow> EnvVar list \<Rightarrow> volKeeper \<Rightarrow> Container option" where
  "buildMustJoinCtr pl env vols = samba_ctr pl ''must-join'' (args_Initializer pl ''must-join'') env vols"

definition buildCTDBMigrateCtr :: "Planner \<Rightarrow> EnvVar list \<Rightarrow> volKeeper \<Rightarrow> Container option" where
  "buildCTDBMigrateCtr pl env vols = samba_ctr pl ''ctdb-migrate'' args_CTDBMigrate env vols"

definition buildCTDBSetNodeCtr :: "Planner \<Rightarrow> EnvVar list \<Rightarrow> volKeeper \<Rightarrow> Container option" where
  "buildCTDBSetNodeCtr pl env vols = samba_ctr pl ''ctdb-set-node'' args_CTDBSetNode env vols"

definition buildCTDBMustHaveNodeCtr :: "Planner \<Rightarrow> EnvVar list \<Rightarrow> volKeeper \<Rightarrow> Container option" where
  "buildCTDBMustHaveNodeCtr pl env vols = samba_ctr pl ''ctdb-must-have-node'' args_CTDBMustHaveNode env vols"

text \<open>This container is built without a pull policy.\<close>

definition buildUpdateConfigWatchCtr :: "Planner \<Rightarrow> EnvVar list \<Rightarrow> volKeeper \<Rightarrow> Container option" where
  "buildUpdateConfigWatchCtr pl env vols = do {
     c \<leftarrow> samba_ctr pl ''watch-update-config'' args_UpdateConfigWatch env vols;
     Some (c\<lparr>ct_ImagePullPolicy := ''''\<rparr>) }"

definition buildSmbdCtrs :: "Planner \<Rightarrow> EnvVar list \<Rightarrow> volKeeper \<Rightarrow> Container list option" where
  "buildSmbdCtrs pl env vols = do {
     smbd \<leftarrow> buildSmbdCtr pl env vols;
     let metaOnlyVols = vk_exclude tagData vols;
     watch \<leftarrow> buildUpdateConfigWatchCtr pl env vols;
     if withMetricsExporter (pl_GlobalConfig pl) then do {
       metrics \<leftarrow> buildSmbdMetricsCtr pl metaPodEnv metaOnlyVols;
       Some [smbd, watch, metrics] }
     else Some [smbd, watch] }"

section \<open>Pod specs\<close>

definition finish_pod :: "Planner \<Rightarrow> volKeeper \<Rightarrow> Container list \<Rightarrow> Container list \<Rightarrow> PodSpec option" where
  "finish_pod pl volumes inits ctrs = do {
     vs \<leftarrow> vk_all volumes;
     Some ((defaultPodSpec pl)\<lparr>pd_Volumes := getVolumes vs, pd_InitContainers := inits,
       pd_Containers := ctrs, pd_NodeSelector := fst (NodeSelector pl)\<rparr>) }"

definition dns_ctrs :: "Planner \<Rightarrow> EnvVar list \<Rightarrow> volKeeper \<Rightarrow> (volKeeper \<times> Container list) option" where
  "dns_ctrs pl podEnv serverVols =
     (if DNSRegister pl \<noteq> DNSRegisterNever then do {
        let watchVol = svcWatchVolumeAndMount ServiceWatchStateDir;
        w \<leftarrow> buildSvcWatchCtr pl svcWatchEnv (vk_add watchVol newVolKeeper);
        d \<leftarrow> buildDNSRegCtr pl podEnv (vk_add watchVol (vk_clone serverVols));
        Some ([watchVol], [w, d]) }
      else Some ([], []))"

definition buildADPodSpec :: "Planner \<Rightarrow> string \<Rightarrow> PodSpec option" where
  "buildADPodSpec pl pvcName = do {
     let configVol = configVolumeAndMount pl;
     let stateVol = sambaStateVolumeAndMount;
     let smbInitVols = vk_add stateVol (vk_add configVol newVolKeeper);
     let wbSockVol = wbSocketsVolumeAndMount;
     let smbServerVols = vk_add wbSockVol (vk_clone smbInitVols);
     let shareVol = shareVolumeAndMount pl pvcName;
     let volumes = [configVol, stateVol, wbSockVol, shareVol];
     let smbdVols = vk_add shareVol (vk_clone smbServerVols);
     jsrc \<leftarrow> getJoinSources pl;
     let volumes = vk_extend (js_volumes jsrc) volumes;
     let joinVols = vk_extend (js_volumes jsrc) (vk_clone smbInitVols);
     let podEnv = defaultPodEnv pl;
     let joinEnv = podEnv @ [env_value ''SAMBACC_JOIN_FILES'' (joinEnvPaths (js_paths jsrc))];
     smbd \<leftarrow> buildSmbdCtrs pl podEnv smbdVols;
     wb \<leftarrow> buildWinbinddCtr pl podEnv smbServerVols;
     (dnsVols, dns) \<leftarrow> dns_ctrs pl podEnv smbServerVols;
     init \<leftarrow> buildInitCtr pl podEnv smbInitVols;
     ensure \<leftarrow> buildEnsureShareCtr pl podEnv smbdVols;
     mustjoin \<leftarrow> buildMustJoinCtr pl joinEnv joinVols;
     finish_pod pl (vk_extend dnsVols volumes) [init, ensure, mustjoin] (smbd @ [wb] @ dns) }"

definition buildUserPodSpec :: "Planner \<Rightarrow> string \<Rightarrow> PodSpec option" where
  "buildUserPodSpec pl pvcName = do {
     let volumes = [shareVolumeAndMount pl pvcName, sambaStateVolumeAndMount, configVolumeAndMount pl];
     let podEnv = defaultPodEnv pl;
     ensure \<leftarrow> buildEnsureShareCtr pl podEnv volumes;
     let volumes = vk_add osRunVolumeAndMount volumes;
     let volumes = (if us_Configured (user_security_source pl)
                    then vk_add (userConfigVolumeAndMount pl) volumes else volumes);
     smbd \<leftarrow> buildSmbdCtrs pl podEnv volumes;
     finish_pod pl volumes [ensure] smbd }"

definition buildPodSpec :: "Planner \<Rightarrow> string \<Rightarrow> PodSpec option" where
  "buildPodSpec pl pvcName =
     (if SecurityMode pl = ADMode then buildADPodSpec pl pvcName else buildUserPodSpec pl pvcName)"

text \<open>
  The init containers and the two ctdb containers are built alike in both clustered pod
  specs; \<open>joinCtrs\<close> is what the AD mode runs between them.
\<close>

definition ctdb_inits ::
  "Planner \<Rightarrow> string \<Rightarrow> string \<Rightarrow> volKeeper \<Rightarrow> Container list \<Rightarrow> Container list option" where
  "ctdb_inits pl dataPVC statePVC podCfgVols joinCtrs = do {
     let podEnv = defaultPodEnv pl;
     let ctdbEnv = podEnv @ ctdbHostnameEnv;
     let stateVol = sambaStateVolumeAndMount;
     let sharedVol = ctdbSharedStateVolumeAndMount statePVC;
     init \<leftarrow> buildInitCtr pl podEnv (vk_add sharedVol (vk_add stateVol (vk_clone podCfgVols)));
     ensure \<leftarrow> buildEnsureShareCtr pl podEnv
       (vk_add (shareVolumeAndMount pl dataPVC) (vk_add stateVol (vk_clone podCfgVols)));
     let ctdbInitVols = vk_add ctdbConfigVolumeAndMount (vk_add sharedVol (vk_add stateVol (vk_clone podCfgVols)));
     migrate \<leftarrow> buildCTDBMigrateCtr pl ctdbEnv (vk_add ctdbPersistentVolumeAndMount ctdbInitVols);
     setNode \<leftarrow> buildCTDBSetNodeCtr pl ctdbEnv ctdbInitVols;
     mustHave \<leftarrow> buildCTDBMustHaveNodeCtr pl ctdbEnv ctdbInitVols;
     Some ([init, ensure] @ joinCtrs @ [migrate, setNode, mustHave]) }"

definition ctdb_daemons :: "Planner \<Rightarrow> string \<Rightarrow> volKeeper \<Rightarrow> Container list option" where
  "ctdb_daemons pl statePVC podCfgVols = do {
     let ctdbEnv = defaultPodEnv pl @ ctdbHostnameEnv;
     let sharedVol = ctdbSharedStateVolumeAndMount statePVC;
     daemon \<leftarrow> buildCTDBDaemonCtr pl ctdbEnv (podCfgVols @ [ctdbConfigVolumeAndMount,
       ctdbPersistentVolumeAndMount, ctdbVolatileVolumeAndMount, ctdbSocketsVolumeAndMount, sharedVol]);
     manage \<leftarrow> buildCTDBManageNodesCtr pl ctdbEnv
       (podCfgVols @ [ctdbConfigVolumeAndMount, ctdbSocketsVolumeAndMount, sharedVol]);
     Some [daemon, manage] }"

definition clustered_volumes :: "Planner \<Rightarrow> string \<Rightarrow> string \<Rightarrow> volKeeper" where
  "clustered_volumes pl dataPVC statePVC =
     [shareVolumeAndMount pl dataPVC, configVolumeAndMount pl, sambaStateVolumeAndMount,
      ctdbConfigVolumeAndMount, ctdbPersistentVolumeAndMount, ctdbVolatileVolumeAndMount,
      ctdbSocketsVolumeAndMount, ctdbSharedStateVolumeAndMount statePVC]"

definition buildClusteredUserPodSpec :: "Planner \<Rightarrow> string \<Rightarrow> string \<Rightarrow> PodSpec option" where
  "buildClusteredUserPodSpec pl dataPVC statePVC = do {
     let users = (if us_Configured (user_security_source pl) then [userConfigVolumeAndMount pl] else []);
     let volumes = vk_extend users (clustered_volumes pl dataPVC statePVC);
     let podCfgVols = vk_extend users [configVolumeAndMount pl];
     inits \<leftarrow> ctdb_inits pl dataPVC statePVC podCfgVols [];
     daemons \<leftarrow> ctdb_daemons pl statePVC podCfgVols;
     smbd \<leftarrow> buildSmbdCtrs pl (defaultPodEnv pl) volumes;
     finish_pod pl volumes inits (daemons @ smbd) }"

definition buildClusteredADPodSpec :: "Planner \<Rightarrow> string \<Rightarrow> string \<Rightarrow> PodSpec option" where
  "buildClusteredADPodSpec pl dataPVC statePVC = do {
     let volumes = vk_add wbSocketsVolumeAndMount (clustered_volumes pl dataPVC statePVC);
     let podCfgVols = [configVolumeAndMount pl];
     jsrc \<leftarrow> getJoinSources pl;
     let joinEnv = [env_value ''SAMBACC_JOIN_FILES'' (joinEnvPaths (js_paths jsrc))];
     let volumes = vk_extend (js_volumes jsrc) volumes;
     let podEnv = defaultPodEnv pl;
     mustjoin \<leftarrow> buildMustJoinCtr pl joinEnv (vk_extend (js_volumes jsrc)
       (podCfgVols @ [sambaStateVolumeAndMount, ctdbSharedStateVolumeAndMount statePVC]));
     inits \<leftarrow> ctdb_inits pl dataPVC statePVC podCfgVols [mustjoin];
     daemons \<leftarrow> ctdb_daemons pl statePVC podCfgVols;
     let wbVols = podCfgVols @ [sambaStateVolumeAndMount, wbSocketsVolumeAndMount, ctdbConfigVolumeAndMount,
       ctdbPersistentVolumeAndMount, ctdbVolatileVolumeAndMount, ctdbSocketsVolumeAndMount,
       ctdbSharedStateVolumeAndMount statePVC];
     wb \<leftarrow> buildWinbinddCtr pl podEnv wbVols;
     smbd \<leftarrow> buildSmbdCtrs pl podEnv volumes;
     (dnsVols, dns) \<leftarrow> dns_ctrs pl podEnv wbVols;
     finish_pod pl (vk_extend dnsVols volumes) inits (daemons @ [wb] @ smbd @ dns) }"

definition buildClusteredPodSpec :: "Planner \<Rightarrow> string \<Rightarrow> string \<Rightarrow> PodSpec option" where
  "buildClusteredPodSpec pl dataPVC statePVC =
     (if SecurityMode pl = ADMode then buildClusteredADPodSpec pl dataPVC statePVC
      else buildClusteredUserPodSpec pl dataPVC statePVC)"

end
