(* ===== verification/PodsProps.thy ===== *)
theory PodsProps
  imports Pods
begin

text \<open>
  What holds of every pod spec the operator builds: building one never panics, volume names
  are unique, every mount of every container names a volume of the pod, and in the
  non-clustered AD mode the credentials for joining the domain reach no running container.
\<close>

section \<open>Valid keepers\<close>

definition vk_ok :: "volKeeper \<Rightarrow> bool" where
  "vk_ok vk \<longleftrightarrow> names_match vk \<and> distinct (vol_names vk)"

lemma vk_all_ok: "vk_ok vk \<Longrightarrow> vk_all vk = Some vk"
  by (simp add: vk_ok_def vk_all_iff)

lemma vk_ok_exclude: "vk_ok vk \<Longrightarrow> vk_ok (vk_exclude t vk)"
  by (auto simp: vk_ok_def vk_exclude_filter names_match_def vol_names_def distinct_map_filter)

named_theorems vol_simps \<open>names and mounts of the volumes\<close>

lemma names_match_simps [vol_simps]:
  "names_match []" "names_match (v # vk) \<longleftrightarrow> v_Name (vmt_volume v) = vm_Name (vmt_mount v) \<and> names_match vk"
  "names_match (vk @ vk') \<longleftrightarrow> names_match vk \<and> names_match vk'"
  by (auto simp: names_match_def)

lemma vol_names_simps [vol_simps]:
  "vol_names [] = []" "vol_names (v # vk) = v_Name (vmt_volume v) # vol_names vk"
  "vol_names (vk @ vk') = vol_names vk @ vol_names vk'"
  by (simp_all add: vol_names_def)

lemma vol_sel [vol_simps]:
  "v_Name (vmt_volume (vol n s p t)) = n" "vm_Name (vmt_mount (vol n s p t)) = n"
  "vmt_tag (vol n s p t) = t"
  by (simp_all add: vol_def)

lemmas vol_defs = shareVolumeAndMount_def configVolumeAndMount_def sambaStateVolumeAndMount_def
  osRunVolumeAndMount_def wbSocketsVolumeAndMount_def svcWatchVolumeAndMount_def
  ctdbConfigVolumeAndMount_def ctdbPersistentVolumeAndMount_def ctdbVolatileVolumeAndMount_def
  ctdbSocketsVolumeAndMount_def ctdbSharedStateVolumeAndMount_def

lemma userConfig_name [vol_simps]:
  "v_Name (vmt_volume (userConfigVolumeAndMount pl)) = userSecretVolName"
  "vm_Name (vmt_mount (userConfigVolumeAndMount pl)) = userSecretVolName"
  by (simp_all add: userConfigVolumeAndMount_def Let_def vol_simps)

lemmas name_defs = configMapName_def userSecretVolName_def wbSocketsVolName_def stateVolName_def
  osRunVolName_def

text \<open>Names with the suffixes of the two claims differ from the fixed names and each other.\<close>

lemma suffix_name:
  "p @ s = n \<Longrightarrow> take (length s) (rev n) = rev s"
  by auto

definition claim_free :: "string \<Rightarrow> bool" where
  "claim_free n \<longleftrightarrow> take 4 (rev n) \<noteq> rev ''-smb'' \<and> take 5 (rev n) \<noteq> rev ''-ctdb''"

lemma claim_free_neq [simp]:
  assumes "claim_free n"
  shows "p @ ''-smb'' \<noteq> n" "n \<noteq> p @ ''-smb''" "p @ ''-ctdb'' \<noteq> n" "n \<noteq> p @ ''-ctdb''"
  using assms suffix_name [of p "''-smb''" n] suffix_name [of p "''-ctdb''" n]
  by (auto simp: claim_free_def)

lemma smb_ctdb_neq [simp]: "p @ ''-smb'' \<noteq> q @ ''-ctdb''" "q @ ''-ctdb'' \<noteq> p @ ''-smb''"
  using suffix_name [of p "''-smb''" "q @ ''-ctdb''"] by auto

lemma fixed_claim_free [simp]:
  "claim_free configMapName" "claim_free userSecretVolName" "claim_free wbSocketsVolName"
  "claim_free stateVolName" "claim_free osRunVolName" "claim_free ''svcwatch''"
  "claim_free ''ctdb-config''" "claim_free ''ctdb-persistent''" "claim_free ''ctdb-volatile''"
  "claim_free ''ctdb-sockets''"
  by (simp_all add: claim_free_def name_defs)

section \<open>Join sources\<close>

lemma join_name_last: "\<exists>d < 10. last (joinJSONVolumeSuffix joinJSONVolName i) = digit_char d"
  using digits_are_digits [of "last (digits i)" i]
  by (simp add: joinJSONVolumeSuffix_def itoa_nonneg joinJSONVolName_def)

lemma join_name_neq [simp]:
  assumes "n \<noteq> ''''" "of_char (last n) < (48 :: nat) \<or> 57 < (of_char (last n) :: nat)"
  shows "joinJSONVolumeSuffix joinJSONVolName i \<noteq> n" "n \<noteq> joinJSONVolumeSuffix joinJSONVolName i"
proof -
  obtain d where "d < 10" "last (joinJSONVolumeSuffix joinJSONVolName i) = digit_char d"
    using join_name_last by blast
  then have "last (joinJSONVolumeSuffix joinJSONVolName i) \<noteq> last n"
    using digit_char_neq [OF _ assms(2)] by metis
  then show "joinJSONVolumeSuffix joinJSONVolName i \<noteq> n" "n \<noteq> joinJSONVolumeSuffix joinJSONVolName i"
    by auto
qed

lemma join_name_inj: "joinJSONVolumeSuffix v i = joinJSONVolumeSuffix v j \<longleftrightarrow> i = j"
  by (simp add: joinJSONVolumeSuffix_def itoa_inj)

text \<open>Keepers whose volumes all come from join sources with index at least \<open>i\<close>.\<close>

definition join_vols :: "volKeeper \<Rightarrow> bool" where
  "join_vols vs \<longleftrightarrow> vk_ok vs \<and> set (vol_names vs) \<subseteq> range (joinJSONVolumeSuffix joinJSONVolName)"

lemma join_sources_from_ok:
  assumes "pl_SecurityConfig pl = Some sc" "drop i (sec_JoinSources (ssc_Spec sc)) = jss"
    and "vk_ok (js_volumes src)" "set (vol_names (js_volumes src)) \<subseteq> joinJSONVolumeSuffix joinJSONVolName ` {..<i}"
  shows "\<exists>src'. join_sources_from pl i jss src = Some src' \<and> join_vols (js_volumes src')"
  using assms(2-4)
proof (induction jss arbitrary: i src)
  case Nil
  then show ?case by (auto simp: join_vols_def)
next
  case (Cons js jss)
  have i: "i < length (sec_JoinSources (ssc_Spec sc))" using Cons.prems(1) by (metis drop_all list.discI not_le)
  have js: "sec_JoinSources (ssc_Spec sc) ! i = js" and rest: "drop (Suc i) (sec_JoinSources (ssc_Spec sc)) = jss"
    using Cons.prems(1) i by (simp_all add: Cons_nth_drop_Suc [symmetric])
  have sub: "joinJSONVolumeSuffix joinJSONVolName ` {..<i} \<subseteq> joinJSONVolumeSuffix joinJSONVolName ` {..<Suc i}"
    by auto
  show ?case
  proof (cases "sj_UserJoin js")
    case None
    then show ?thesis using Cons.IH [OF rest Cons.prems(2)] Cons.prems(3) sub by auto
  next
    case (Some uj)
    let ?v = "vol (joinJSONVolumeSuffix joinJSONVolName i)
      (SecretSource (uj_Secret uj) [\<lparr>kp_Key = uj_Key uj, kp_Path = JoinJSONBaseName\<rparr>]) (JoinJSONSourceDir i) tagConfig"
    have v: "joinJSONFileVolumeAndMount pl i = Some ?v"
      using assms(1) i js Some by (simp add: joinJSONFileVolumeAndMount_def)
    have "joinJSONVolumeSuffix joinJSONVolName i \<notin> set (vol_names (js_volumes src))"
      using Cons.prems(3) by (auto simp: join_name_inj)
    then have "vk_ok (js_volumes src @ [?v])" using Cons.prems(2) by (auto simp: vk_ok_def vol_simps)
    moreover have "set (vol_names (js_volumes src @ [?v])) \<subseteq> joinJSONVolumeSuffix joinJSONVolName ` {..<Suc i}"
      using Cons.prems(3) sub by (auto simp: vol_simps)
    ultimately show ?thesis using Cons.IH [OF rest] Some v by simp
  qed
qed

lemma getJoinSources_ok:
  "SecurityMode pl = ADMode \<Longrightarrow> \<exists>src. getJoinSources pl = Some src \<and> join_vols (js_volumes src)"
proof -
  assume "SecurityMode pl = ADMode"
  then obtain sc where sc: "pl_SecurityConfig pl = Some sc"
    by (cases "pl_SecurityConfig pl") (auto simp: SecurityMode_def UserMode_def ADMode_def)
  then show ?thesis
    using join_sources_from_ok [OF sc, of 0 _ "\<lparr>js_volumes = [], js_paths = []\<rparr>"]
    by (simp add: getJoinSources_def vk_ok_def vol_simps)
qed

lemma join_vols_ok: "join_vols vs \<Longrightarrow> vk_ok vs"
  by (simp add: join_vols_def)

lemma join_vols_names:
  assumes "join_vols vs" "n \<in> set (vol_names vs)"
  shows "\<exists>d < 10. last n = digit_char d"
  using assms join_name_last by (fastforce simp: join_vols_def)

lemma join_vols_fresh:
  assumes "join_vols vs" "of_char (last n) < (48 :: nat) \<or> 57 < (of_char (last n) :: nat)"
  shows "n \<notin> set (vol_names vs)"
  using join_vols_names [OF assms(1)] digit_char_neq [OF _ assms(2)] by metis

section \<open>Containers\<close>

definition ctr_in :: "volKeeper \<Rightarrow> Container \<Rightarrow> bool" where
  "ctr_in vols c \<longleftrightarrow> set (ct_VolumeMounts c) \<subseteq> set (getMounts vols)"

lemma ctr_in_mono: "ctr_in vols c \<Longrightarrow> set vols \<subseteq> set vols' \<Longrightarrow> ctr_in vols' c"
  by (auto simp: ctr_in_def getMounts_def)

lemma samba_ctr_ok:
  "vk_ok vols \<Longrightarrow> samba_ctr pl n args env vols = Some (zero_Container
     \<lparr>ct_Image := oc_SmbdContainerImage (pl_GlobalConfig pl),
      ct_ImagePullPolicy := imagePullPolicy pl, ct_Name := n, ct_Args := args, ct_Env := env,
      ct_VolumeMounts := getMounts vols\<rparr>)"
  by (simp add: samba_ctr_def vk_all_ok)

lemmas ctr_defs = buildWinbinddCtr_def buildCTDBDaemonCtr_def buildCTDBManageNodesCtr_def
  buildDNSRegCtr_def buildSvcWatchCtr_def buildInitCtr_def buildEnsureShareCtr_def
  buildMustJoinCtr_def buildCTDBMigrateCtr_def buildCTDBSetNodeCtr_def buildCTDBMustHaveNodeCtr_def
  buildUpdateConfigWatchCtr_def

lemma ctrs_ok:
  assumes "vk_ok vols"
  shows "\<exists>c. buildWinbinddCtr pl env vols = Some c \<and> ctr_in vols c"
    "\<exists>c. buildCTDBDaemonCtr pl env vols = Some c \<and> ctr_in vols c"
    "\<exists>c. buildCTDBManageNodesCtr pl env vols = Some c \<and> ctr_in vols c"
    "\<exists>c. buildDNSRegCtr pl env vols = Some c \<and> ctr_in vols c"
    "\<exists>c. buildSvcWatchCtr pl env vols = Some c \<and> ctr_in vols c"
    "\<exists>c. buildInitCtr pl env vols = Some c \<and> ctr_in vols c"
    "\<exists>c. buildEnsureShareCtr pl env vols = Some c \<and> ctr_in vols c"
    "\<exists>c. buildMustJoinCtr pl env vols = Some c \<and> ctr_in vols c"
    "\<exists>c. buildCTDBMigrateCtr pl env vols = Some c \<and> ctr_in vols c"
    "\<exists>c. buildCTDBSetNodeCtr pl env vols = Some c \<and> ctr_in vols c"
    "\<exists>c. buildCTDBMustHaveNodeCtr pl env vols = Some c \<and> ctr_in vols c"
    "\<exists>c. buildUpdateConfigWatchCtr pl env vols = Some c \<and> ctr_in vols c"
  by (simp_all add: ctr_defs samba_ctr_ok [OF assms] ctr_in_def)

lemma smbd_ctrs_ok:
  assumes "vk_ok vols"
  shows "\<exists>cs. buildSmbdCtrs pl env vols = Some cs \<and> (\<forall>c \<in> set cs. ctr_in vols c)"
proof -
  obtain w where w: "buildUpdateConfigWatchCtr pl env vols = Some w" "ctr_in vols w"
    using ctrs_ok(12) [OF assms] by blast
  have "vk_all (vk_exclude tagData vols) = Some (vk_exclude tagData vols)"
    using assms by (simp add: vk_all_ok vk_ok_exclude)
  then show ?thesis using w assms
    by (auto simp: buildSmbdCtrs_def buildSmbdCtr_def buildSmbdMetricsCtr_def buildSmbMetricsContainer_def
        vk_all_ok ctr_in_def getMounts_def vk_exclude_filter Let_def)
qed

lemma smbd_ctr_mounts:
  "buildSmbdCtrs pl env vols = Some cs \<Longrightarrow>
   \<exists>c \<in> set cs. ct_Name c = oc_SmbdContainerName (pl_GlobalConfig pl) \<and> ct_VolumeMounts c = getMounts vols"
  by (auto simp: buildSmbdCtrs_def buildSmbdCtr_def vk_all_iff Let_def bind_eq_Some_conv split: if_splits)

lemma vk_ok_append:
  "vk_ok (a @ b) \<longleftrightarrow> vk_ok a \<and> vk_ok b \<and> set (vol_names a) \<inter> set (vol_names b) = {}"
  by (auto simp: vk_ok_def vol_simps)

lemma vk_ok_join:
  assumes "vk_ok a" "join_vols b"
    and "\<forall>n \<in> set (vol_names a). of_char (last n) < (48 :: nat) \<or> 57 < (of_char (last n) :: nat)"
  shows "vk_ok (a @ b)"
  using assms join_vols_fresh [OF assms(2)] join_vols_ok [OF assms(2)] by (auto simp: vk_ok_append)

lemma dns_ctrs_ok:
  assumes "vk_ok vols" "''svcwatch'' \<notin> set (vol_names vols)"
  shows "\<exists>vs cs. dns_ctrs pl env vols = Some (vs, cs) \<and> (vs = [] \<or> vs = [svcWatchVolumeAndMount ServiceWatchStateDir]) \<and>
    (\<forall>c \<in> set cs. ctr_in (vols @ vs) c)"
proof -
  let ?w = "svcWatchVolumeAndMount ServiceWatchStateDir"
  have "vk_ok [?w]" "vk_ok (vols @ [?w])"
    using assms by (simp_all add: vk_ok_def vol_simps vol_defs)
  then show ?thesis
    using ctrs_ok(5) [of "[?w]" pl svcWatchEnv] ctrs_ok(4) [of "vols @ [?w]" pl env]
    by (auto simp: dns_ctrs_def vk_add_def vk_clone_def newVolKeeper_def ctr_in_def getMounts_def Let_def)
qed

section \<open>Pod specs\<close>

definition pod_ok :: "PodSpec \<Rightarrow> bool" where
  "pod_ok ps \<longleftrightarrow> distinct (map v_Name (pd_Volumes ps)) \<and>
     (\<forall>c \<in> set (pd_InitContainers ps @ pd_Containers ps).
        \<forall>m \<in> set (ct_VolumeMounts c). vm_Name m \<in> set (map v_Name (pd_Volumes ps)))"

lemma finish_pod_ok:
  assumes "vk_ok vols" "\<forall>c \<in> set (inits @ ctrs). ctr_in vols c"
  shows "\<exists>ps. finish_pod pl vols inits ctrs = Some ps \<and> pod_ok ps"
proof -
  have names: "map v_Name (getVolumes vols) = vol_names vols" by (simp add: getVolumes_def vol_names_def)
  have "vm_Name m \<in> set (vol_names vols)" if "c \<in> set (inits @ ctrs)" "m \<in> set (ct_VolumeMounts c)" for c m
  proof -
    have "m \<in> set (getMounts vols)" using that assms(2) by (auto simp: ctr_in_def)
    then show ?thesis using assms(1) by (auto simp: getMounts_def vk_ok_def names_match_def vol_names_def)
  qed
  then show ?thesis
    using assms(1) by (auto simp: finish_pod_def vk_all_ok pod_ok_def names vk_ok_def simp del: set_map)
qed

lemma ADMode_fixed_names:
  "vk_ok [configVolumeAndMount pl, sambaStateVolumeAndMount]"
  "vk_ok [configVolumeAndMount pl, sambaStateVolumeAndMount, wbSocketsVolumeAndMount]"
  "vk_ok [configVolumeAndMount pl, sambaStateVolumeAndMount, wbSocketsVolumeAndMount, shareVolumeAndMount pl pvc]"
  by (simp_all add: vk_ok_def vol_simps vol_defs) (simp_all add: name_defs)

lemma buildADPodSpec_ok:
  assumes "SecurityMode pl = ADMode"
  shows "\<exists>ps. buildADPodSpec pl pvc = Some ps \<and> pod_ok ps \<and>
    (\<forall>c \<in> set (pd_Containers ps). ctr_in ([configVolumeAndMount pl, sambaStateVolumeAndMount,
       wbSocketsVolumeAndMount, shareVolumeAndMount pl pvc, svcWatchVolumeAndMount ServiceWatchStateDir]) c)"
proof -
  let ?i = "[configVolumeAndMount pl, sambaStateVolumeAndMount]"
  let ?s = "?i @ [wbSocketsVolumeAndMount]"
  let ?d = "?s @ [shareVolumeAndMount pl pvc]"
  obtain src where src: "getJoinSources pl = Some src" "join_vols (js_volumes src)"
    using getJoinSources_ok [OF assms] by blast
  have ok: "vk_ok ?i" "vk_ok ?s" "vk_ok ?d" by (simp_all add: ADMode_fixed_names)
  have okj: "vk_ok (?i @ js_volumes src)" "vk_ok (?d @ js_volumes src)"
    by (rule vk_ok_join [OF ok(1) src(2)] vk_ok_join [OF ok(3) src(2)];
        simp add: vol_simps vol_defs name_defs)+
  obtain cs where cs: "buildSmbdCtrs pl (defaultPodEnv pl) ?d = Some cs" "\<forall>c \<in> set cs. ctr_in ?d c"
    using smbd_ctrs_ok [OF ok(3)] by blast
  obtain wb where wb: "buildWinbinddCtr pl (defaultPodEnv pl) ?s = Some wb" "ctr_in ?s wb"
    using ctrs_ok(1) [OF ok(2)] by blast
  have "''svcwatch'' \<notin> set (vol_names ?s)" by (simp add: vol_simps vol_defs name_defs)
  from dns_ctrs_ok [OF ok(2) this, of pl "defaultPodEnv pl"] obtain vs dns where
    dns: "dns_ctrs pl (defaultPodEnv pl) ?s = Some (vs, dns)" "\<forall>c \<in> set dns. ctr_in (?s @ vs) c" and
    vs: "vs = [] \<or> vs = [svcWatchVolumeAndMount ServiceWatchStateDir]" by blast
  obtain init where init: "buildInitCtr pl (defaultPodEnv pl) ?i = Some init" "ctr_in ?i init"
    using ctrs_ok(6) [OF ok(1)] by blast
  obtain ens where ens: "buildEnsureShareCtr pl (defaultPodEnv pl) ?d = Some ens" "ctr_in ?d ens"
    using ctrs_ok(7) [OF ok(3)] by blast
  let ?e = "defaultPodEnv pl @ [env_value ''SAMBACC_JOIN_FILES'' (joinEnvPaths (js_paths src))]"
  obtain mj where mj: "buildMustJoinCtr pl ?e (?i @ js_volumes src) = Some mj" "ctr_in (?i @ js_volumes src) mj"
    using ctrs_ok(8) [OF okj(1)] by blast
  let ?v = "(?d @ js_volumes src) @ vs"
  have "''svcwatch'' \<notin> set (vol_names (js_volumes src))" by (rule join_vols_fresh [OF src(2)]) simp
  then have "vk_ok ?v"
    using okj(2) vs by (auto simp: vk_ok_def vol_simps vol_defs) (simp_all add: name_defs)
  moreover have "\<forall>c \<in> set ([init, ens, mj] @ cs @ [wb] @ dns). ctr_in ?v c"
    using cs(2) wb(2) dns(2) init(2) ens(2) mj(2) by (auto intro: ctr_in_mono)
  ultimately obtain ps where ps: "finish_pod pl ?v [init, ens, mj] (cs @ [wb] @ dns) = Some ps" "pod_ok ps"
    using finish_pod_ok by blast
  have "pd_Containers ps = cs @ [wb] @ dns" using ps(1) by (auto simp: finish_pod_def bind_eq_Some_conv)
  moreover have "\<forall>c \<in> set (cs @ [wb] @ dns). ctr_in (?d @ [svcWatchVolumeAndMount ServiceWatchStateDir]) c"
    using vs cs(2) wb(2) dns(2) by (elim disjE) (auto intro: ctr_in_mono)
  ultimately show ?thesis
    using ps src(1) cs(1) wb(1) dns(1) init(1) ens(1) mj(1)
    by (simp add: buildADPodSpec_def Let_def vk_add_def vk_extend_def vk_clone_def newVolKeeper_def)
qed

lemma buildUserPodSpec_ok: "\<exists>ps. buildUserPodSpec pl pvc = Some ps \<and> pod_ok ps"
proof -
  let ?a = "[shareVolumeAndMount pl pvc, sambaStateVolumeAndMount, configVolumeAndMount pl]"
  let ?v = "(?a @ [osRunVolumeAndMount]) @
    (if us_Configured (user_security_source pl) then [userConfigVolumeAndMount pl] else [])"
  have ok: "vk_ok ?a" "vk_ok ?v"
    by (simp_all add: vk_ok_def vol_simps vol_defs) (simp_all add: name_defs vol_simps)
  obtain ens where ens: "buildEnsureShareCtr pl (defaultPodEnv pl) ?a = Some ens" "ctr_in ?a ens"
    using ctrs_ok(7) [OF ok(1)] by blast
  obtain cs where cs: "buildSmbdCtrs pl (defaultPodEnv pl) ?v = Some cs" "\<forall>c \<in> set cs. ctr_in ?v c"
    using smbd_ctrs_ok [OF ok(2)] by blast
  have "\<forall>c \<in> set ([ens] @ cs). ctr_in ?v c" using ens(2) cs(2) by (auto intro: ctr_in_mono)
  then obtain ps where "finish_pod pl ?v [ens] cs = Some ps" "pod_ok ps"
    using finish_pod_ok [OF ok(2)] by blast
  then show ?thesis using ens(1) cs(1)
    by (auto simp: buildUserPodSpec_def Let_def vk_add_def split: if_splits)
qed

text \<open>The volumes with the configuration, common to all containers of a clustered pod.\<close>

definition cfg_vols :: "Planner \<Rightarrow> volKeeper \<Rightarrow> bool" where
  "cfg_vols pl p \<longleftrightarrow> p = [configVolumeAndMount pl] \<or> p = [configVolumeAndMount pl, userConfigVolumeAndMount pl]"

lemma cfg_vols_ok:
  assumes "cfg_vols pl p"
  shows "vk_ok (p @ [sambaStateVolumeAndMount, ctdbSharedStateVolumeAndMount spvc])"
    "vk_ok (p @ [sambaStateVolumeAndMount, shareVolumeAndMount pl dpvc])"
    "vk_ok (p @ [sambaStateVolumeAndMount, ctdbSharedStateVolumeAndMount spvc, ctdbConfigVolumeAndMount])"
    "vk_ok (p @ [sambaStateVolumeAndMount, ctdbSharedStateVolumeAndMount spvc, ctdbConfigVolumeAndMount,
       ctdbPersistentVolumeAndMount])"
    "vk_ok (p @ [ctdbConfigVolumeAndMount, ctdbPersistentVolumeAndMount, ctdbVolatileVolumeAndMount,
       ctdbSocketsVolumeAndMount, ctdbSharedStateVolumeAndMount spvc])"
    "vk_ok (p @ [ctdbConfigVolumeAndMount, ctdbSocketsVolumeAndMount, ctdbSharedStateVolumeAndMount spvc])"
    "vk_ok (p @ [sambaStateVolumeAndMount, wbSocketsVolumeAndMount, ctdbConfigVolumeAndMount,
       ctdbPersistentVolumeAndMount, ctdbVolatileVolumeAndMount, ctdbSocketsVolumeAndMount,
       ctdbSharedStateVolumeAndMount spvc])"
  using assms unfolding cfg_vols_def
  by (elim disjE; simp add: vk_ok_def vol_simps vol_defs; simp add: name_defs)+

lemma ctdb_inits_ok:
  assumes "cfg_vols pl p"
  shows "\<exists>cs. ctdb_inits pl dpvc spvc p js = Some cs \<and>
    (\<forall>c \<in> set cs. c \<in> set js \<or> ctr_in (p @ clustered_volumes pl dpvc spvc) c)"
proof -
  let ?e = "defaultPodEnv pl" and ?x = "defaultPodEnv pl @ ctdbHostnameEnv"
  note ok = cfg_vols_ok [OF assms]
  obtain a where a: "buildInitCtr pl ?e (p @ [sambaStateVolumeAndMount, ctdbSharedStateVolumeAndMount spvc]) = Some a"
    "ctr_in (p @ [sambaStateVolumeAndMount, ctdbSharedStateVolumeAndMount spvc]) a"
    using ctrs_ok(6) [OF ok(1)] by blast
  obtain b where b: "buildEnsureShareCtr pl ?e (p @ [sambaStateVolumeAndMount, shareVolumeAndMount pl dpvc]) = Some b"
    "ctr_in (p @ [sambaStateVolumeAndMount, shareVolumeAndMount pl dpvc]) b"
    using ctrs_ok(7) [OF ok(2)] by blast
  let ?c = "p @ [sambaStateVolumeAndMount, ctdbSharedStateVolumeAndMount spvc, ctdbConfigVolumeAndMount]"
  obtain m where m: "buildCTDBMigrateCtr pl ?x (p @ [sambaStateVolumeAndMount,
      ctdbSharedStateVolumeAndMount spvc, ctdbConfigVolumeAndMount, ctdbPersistentVolumeAndMount]) = Some m"
    "ctr_in (p @ [sambaStateVolumeAndMount, ctdbSharedStateVolumeAndMount spvc, ctdbConfigVolumeAndMount,
      ctdbPersistentVolumeAndMount]) m"
    using ctrs_ok(9) [OF ok(4)] by blast
  obtain s where s: "buildCTDBSetNodeCtr pl ?x ?c = Some s" "ctr_in ?c s"
    using ctrs_ok(10) [OF ok(3)] by blast
  obtain h where h: "buildCTDBMustHaveNodeCtr pl ?x ?c = Some h" "ctr_in ?c h"
    using ctrs_ok(11) [OF ok(3)] by blast
  have "ctdb_inits pl dpvc spvc p js = Some ([a, b] @ js @ [m, s, h])"
    using a(1) b(1) m(1) s(1) h(1) by (simp add: ctdb_inits_def Let_def vk_add_def vk_clone_def)
  moreover have "\<forall>c \<in> {a, b, m, s, h}. ctr_in (p @ clustered_volumes pl dpvc spvc) c"
    using a(2) b(2) m(2) s(2) h(2) by (auto simp: clustered_volumes_def elim!: ctr_in_mono)
  ultimately show ?thesis by auto
qed

lemma ctdb_daemons_ok:
  assumes "cfg_vols pl p"
  shows "\<exists>cs. ctdb_daemons pl spvc p = Some cs \<and> (\<forall>c \<in> set cs. ctr_in (p @ clustered_volumes pl dpvc spvc) c)"
proof -
  let ?x = "defaultPodEnv pl @ ctdbHostnameEnv"
  let ?d = "p @ [ctdbConfigVolumeAndMount, ctdbPersistentVolumeAndMount, ctdbVolatileVolumeAndMount,
       ctdbSocketsVolumeAndMount, ctdbSharedStateVolumeAndMount spvc]"
  let ?m = "p @ [ctdbConfigVolumeAndMount, ctdbSocketsVolumeAndMount, ctdbSharedStateVolumeAndMount spvc]"
  note ok = cfg_vols_ok [OF assms]
  obtain d where d: "buildCTDBDaemonCtr pl ?x ?d = Some d" "ctr_in ?d d"
    using ctrs_ok(2) [OF ok(5)] by blast
  obtain m where m: "buildCTDBManageNodesCtr pl ?x ?m = Some m" "ctr_in ?m m"
    using ctrs_ok(3) [OF ok(6)] by blast
  have "\<forall>c \<in> {d, m}. ctr_in (p @ clustered_volumes pl dpvc spvc) c"
    using d(2) m(2) by (auto simp: clustered_volumes_def elim!: ctr_in_mono)
  then show ?thesis using d(1) m(1) by (auto simp: ctdb_daemons_def Let_def)
qed

lemma buildClusteredUserPodSpec_ok: "\<exists>ps. buildClusteredUserPodSpec pl dpvc spvc = Some ps \<and> pod_ok ps"
proof -
  let ?u = "if us_Configured (user_security_source pl) then [userConfigVolumeAndMount pl] else []"
  let ?p = "[configVolumeAndMount pl] @ ?u"
  let ?v = "clustered_volumes pl dpvc spvc @ ?u"
  have p: "cfg_vols pl ?p" by (simp add: cfg_vols_def)
  have ok: "vk_ok ?v"
    by (simp add: vk_ok_def vol_simps vol_defs clustered_volumes_def) (simp add: name_defs vol_simps)
  obtain ini where i: "ctdb_inits pl dpvc spvc ?p [] = Some ini"
    "\<forall>c \<in> set ini. ctr_in (?p @ clustered_volumes pl dpvc spvc) c" using ctdb_inits_ok [OF p] by fastforce
  obtain ds where d: "ctdb_daemons pl spvc ?p = Some ds"
    "\<forall>c \<in> set ds. ctr_in (?p @ clustered_volumes pl dpvc spvc) c" using ctdb_daemons_ok [OF p] by blast
  obtain cs where c: "buildSmbdCtrs pl (defaultPodEnv pl) ?v = Some cs" "\<forall>c \<in> set cs. ctr_in ?v c"
    using smbd_ctrs_ok [OF ok] by blast
  have "set (?p @ clustered_volumes pl dpvc spvc) \<subseteq> set ?v" by (auto simp: clustered_volumes_def)
  then have "\<forall>c \<in> set (ini @ ds @ cs). ctr_in ?v c"
    using i(2) d(2) c(2) ctr_in_mono by (metis Un_iff set_append)
  then obtain ps where "finish_pod pl ?v ini (ds @ cs) = Some ps" "pod_ok ps"
    using finish_pod_ok [OF ok] by blast
  then show ?thesis using i(1) d(1) c(1)
    by (simp add: buildClusteredUserPodSpec_def Let_def vk_extend_def)
qed

lemma buildClusteredADPodSpec_ok:
  assumes "SecurityMode pl = ADMode"
  shows "\<exists>ps src. buildClusteredADPodSpec pl dpvc spvc = Some ps \<and> pod_ok ps \<and>
    getJoinSources pl = Some src \<and>
    (\<exists>c \<in> set (pd_Containers ps). ct_Name c = oc_SmbdContainerName (pl_GlobalConfig pl) \<and>
       set (getMounts (js_volumes src)) \<subseteq> set (ct_VolumeMounts c))"
proof -
  let ?p = "[configVolumeAndMount pl]" and ?e = "defaultPodEnv pl"
  have p: "cfg_vols pl ?p" by (simp add: cfg_vols_def)
  obtain src where src: "getJoinSources pl = Some src" "join_vols (js_volumes src)"
    using getJoinSources_ok [OF assms] by blast
  let ?f = "clustered_volumes pl dpvc spvc @ [wbSocketsVolumeAndMount]"
  let ?v = "?f @ js_volumes src"
  have fixed: "vk_ok ?f" by (simp add: vk_ok_def vol_simps vol_defs clustered_volumes_def) (simp add: name_defs)
  have okv: "vk_ok ?v"
    by (rule vk_ok_join [OF fixed src(2)]) (simp add: vol_simps vol_defs clustered_volumes_def name_defs)
  let ?j = "(?p @ [sambaStateVolumeAndMount, ctdbSharedStateVolumeAndMount spvc]) @ js_volumes src"
  have okj: "vk_ok ?j"
    by (rule vk_ok_join [OF cfg_vols_ok(1) [OF p] src(2)]) (simp add: vol_simps vol_defs name_defs)
  let ?x = "[env_value ''SAMBACC_JOIN_FILES'' (joinEnvPaths (js_paths src))]"
  obtain mj where mj: "buildMustJoinCtr pl ?x ?j = Some mj" "ctr_in ?j mj" using ctrs_ok(8) [OF okj] by blast
  obtain ini where i: "ctdb_inits pl dpvc spvc ?p [mj] = Some ini"
    "\<forall>c \<in> set ini. c \<in> set [mj] \<or> ctr_in (?p @ clustered_volumes pl dpvc spvc) c" using ctdb_inits_ok [OF p] by blast
  obtain ds where d: "ctdb_daemons pl spvc ?p = Some ds"
    "\<forall>c \<in> set ds. ctr_in (?p @ clustered_volumes pl dpvc spvc) c" using ctdb_daemons_ok [OF p] by blast
  let ?w = "?p @ [sambaStateVolumeAndMount, wbSocketsVolumeAndMount, ctdbConfigVolumeAndMount,
       ctdbPersistentVolumeAndMount, ctdbVolatileVolumeAndMount, ctdbSocketsVolumeAndMount,
       ctdbSharedStateVolumeAndMount spvc]"
  have okw: "vk_ok ?w" by (rule cfg_vols_ok(7) [OF p])
  obtain wb where wb: "buildWinbinddCtr pl ?e ?w = Some wb" "ctr_in ?w wb" using ctrs_ok(1) [OF okw] by blast
  obtain cs where cs: "buildSmbdCtrs pl ?e ?v = Some cs" "\<forall>c \<in> set cs. ctr_in ?v c"
    using smbd_ctrs_ok [OF okv] by blast
  have "''svcwatch'' \<notin> set (vol_names ?w)" by (simp add: vol_simps vol_defs name_defs)
  from dns_ctrs_ok [OF okw this, of pl ?e] obtain vs dns where
    dns: "dns_ctrs pl ?e ?w = Some (vs, dns)" "\<forall>c \<in> set dns. ctr_in (?w @ vs) c" and
    vs: "vs = [] \<or> vs = [svcWatchVolumeAndMount ServiceWatchStateDir]" by blast
  have "''svcwatch'' \<notin> set (vol_names (js_volumes src))" by (rule join_vols_fresh [OF src(2)]) simp
  then have okall: "vk_ok (?v @ vs)"
    using okv vs by (auto simp: vk_ok_def vol_simps vol_defs clustered_volumes_def) (simp_all add: name_defs)
  have "set ?j \<subseteq> set (?v @ vs)" "set (?p @ clustered_volumes pl dpvc spvc) \<subseteq> set (?v @ vs)"
    "set (?w @ vs) \<subseteq> set (?v @ vs)" "set ?w \<subseteq> set (?v @ vs)" "set ?v \<subseteq> set (?v @ vs)"
    by (auto simp: clustered_volumes_def)
  then have "\<forall>c \<in> set (ini @ ds @ [wb] @ cs @ dns). ctr_in (?v @ vs) c"
    using mj(2) i(2) d(2) wb(2) cs(2) dns(2) ctr_in_mono by (metis Un_iff empty_iff list.set(1,2) insertE set_append)
  then obtain ps where ps: "finish_pod pl (?v @ vs) ini (ds @ [wb] @ cs @ dns) = Some ps" "pod_ok ps"
    using finish_pod_ok [OF okall] by (metis append_assoc)
  have run: "buildClusteredADPodSpec pl dpvc spvc = Some ps"
    using ps(1) src(1) mj(1) i(1) d(1) wb(1) cs(1) dns(1)
    by (simp add: buildClusteredADPodSpec_def Let_def vk_add_def vk_extend_def)
  have "pd_Containers ps = ds @ [wb] @ cs @ dns" using ps(1) by (auto simp: finish_pod_def bind_eq_Some_conv)
  moreover have "\<exists>c \<in> set cs. ct_Name c = oc_SmbdContainerName (pl_GlobalConfig pl) \<and>
      ct_VolumeMounts c = getMounts ?v"
    using smbd_ctr_mounts [OF cs(1)] .
  ultimately have "\<exists>c \<in> set (pd_Containers ps). ct_Name c = oc_SmbdContainerName (pl_GlobalConfig pl) \<and>
       set (getMounts (js_volumes src)) \<subseteq> set (ct_VolumeMounts c)"
    by (fastforce simp: getMounts_def)
  then show ?thesis using run ps(2) src(1) by blast
qed

lemma buildPodSpec_total: "\<exists>ps. buildPodSpec pl pvc = Some ps \<and> pod_ok ps"
  using buildADPodSpec_ok [of pl pvc] buildUserPodSpec_ok [of pl pvc] by (auto simp: buildPodSpec_def)

lemma buildClusteredPodSpec_total: "\<exists>ps. buildClusteredPodSpec pl dpvc spvc = Some ps \<and> pod_ok ps"
  using buildClusteredADPodSpec_ok [of pl dpvc spvc] buildClusteredUserPodSpec_ok [of pl dpvc spvc]
  by (auto simp: buildClusteredPodSpec_def)

section \<open>Properties\<close>

text \<open>
  C19. Building a pod spec never panics, for every planner and all claim names, and the spec is
  one Kubernetes accepts: the volume names are pairwise distinct and every mount of every
  init and running container names one of the volumes.
\<close>

theorem pod_specs_valid:
  "(\<exists>ps. buildPodSpec pl pvc = Some ps \<and> distinct (map v_Name (pd_Volumes ps)) \<and>
      (\<forall>c \<in> set (pd_InitContainers ps @ pd_Containers ps).
         \<forall>m \<in> set (ct_VolumeMounts c). vm_Name m \<in> set (map v_Name (pd_Volumes ps)))) \<and>
   (\<exists>ps. buildClusteredPodSpec pl dpvc spvc = Some ps \<and> distinct (map v_Name (pd_Volumes ps)) \<and>
      (\<forall>c \<in> set (pd_InitContainers ps @ pd_Containers ps).
         \<forall>m \<in> set (ct_VolumeMounts c). vm_Name m \<in> set (map v_Name (pd_Volumes ps))))"
  using buildPodSpec_total [of pl pvc] buildClusteredPodSpec_total [of pl dpvc spvc]
  unfolding pod_ok_def by blast

definition demo_pods_planner :: Planner where
  "demo_pods_planner = \<lparr>pl_SmbShare = \<lparr>sh_meta = new_meta ''share1'' ''ns1'', sh_Spec =
       \<lparr>sp_ShareName = '''', sp_Storage = \<lparr>st_Pvc = None\<rparr>, sp_ReadOnly = False, sp_Browseable = True,
        sp_SecurityConfig = ''sec'', sp_CommonConfig = '''', sp_CustomShareConfig = None, sp_Scaling = None\<rparr>,
       sh_Status = \<lparr>sst_ServerGroup = ''share1''\<rparr>\<rparr>,
     pl_SecurityConfig = Some \<lparr>ssc_meta = new_meta ''sec'' ''ns1'', ssc_Spec = \<lparr>sec_Mode = ''active-directory'',
       sec_Users = None, sec_Realm = ''dom.example.org'',
       sec_JoinSources = [\<lparr>sj_UserJoin = Some \<lparr>uj_Secret = ''join1'', uj_Key = ''join.json''\<rparr>\<rparr>],
       sec_Domains = [], sec_DNS = None\<rparr>\<rparr>,
     pl_CommonConfig = None, pl_GlobalConfig = DefaultOperatorConfig, pl_ConfigState = None\<rparr>"

lemma demo_pods_mode: "SecurityMode demo_pods_planner = ADMode"
  by (simp add: SecurityMode_def demo_pods_planner_def ADMode_def)

lemma pod_specs_valid_witness:
  "\<exists>ps. buildPodSpec demo_pods_planner ''vol'' = Some ps \<and> distinct (map v_Name (pd_Volumes ps)) \<and>
     list_all (\<lambda>c. list_all (\<lambda>m. vm_Name m \<in> set (map v_Name (pd_Volumes ps))) (ct_VolumeMounts c))
       (pd_InitContainers ps @ pd_Containers ps)"
  using pod_specs_valid [of demo_pods_planner "''vol''" "''vol''" "''state''"]
  unfolding list_all_iff by blast

text \<open>
  C20. In the non-clustered AD mode no running container of the pod mounts a volume with join
  credentials: they reach only init containers, which have ended when the server runs.
\<close>

theorem join_secrets_confined:
  assumes "SecurityMode pl = ADMode" "buildPodSpec pl pvc = Some ps"
  shows "\<forall>c \<in> set (pd_Containers ps). \<forall>m \<in> set (ct_VolumeMounts c). \<forall>i.
    vm_Name m \<noteq> joinJSONVolumeSuffix joinJSONVolName i"
proof (intro ballI allI)
  fix c m i
  assume c: "c \<in> set (pd_Containers ps)" "m \<in> set (ct_VolumeMounts c)"
  have "buildADPodSpec pl pvc = Some ps" using assms by (simp add: buildPodSpec_def)
  with buildADPodSpec_ok [OF assms(1), of pvc] c(1)
  have "ctr_in ([configVolumeAndMount pl, sambaStateVolumeAndMount, wbSocketsVolumeAndMount,
      shareVolumeAndMount pl pvc, svcWatchVolumeAndMount ServiceWatchStateDir]) c" by auto
  with c(2) have "m \<in> set (getMounts [configVolumeAndMount pl, sambaStateVolumeAndMount, wbSocketsVolumeAndMount,
      shareVolumeAndMount pl pvc, svcWatchVolumeAndMount ServiceWatchStateDir])"
    by (auto simp: ctr_in_def)
  then have "vm_Name m \<in> {configMapName, stateVolName, wbSocketsVolName, pvc @ ''-smb'', ''svcwatch''}"
    by (auto simp: getMounts_def vol_simps vol_defs)
  then show "vm_Name m \<noteq> joinJSONVolumeSuffix joinJSONVolName i" by (auto simp: name_defs)
qed

lemma join_secrets_confined_witness:
  "\<exists>ps. buildPodSpec demo_pods_planner ''vol'' = Some ps \<and>
     list_all (\<lambda>c. list_all (\<lambda>m. vm_Name m \<noteq> joinJSONVolumeSuffix joinJSONVolName 0) (ct_VolumeMounts c))
       (pd_Containers ps)"
proof -
  obtain ps where ps: "buildPodSpec demo_pods_planner ''vol'' = Some ps"
    using buildADPodSpec_ok [OF demo_pods_mode] by (auto simp: buildPodSpec_def demo_pods_mode)
  then show ?thesis using join_secrets_confined [OF demo_pods_mode ps] by (auto simp: list_all_iff)
qed

text \<open>
  C21. In the clustered AD mode this does not hold: the smbd container mounts the volumes of
  all join sources, since its volumes are all those of the pod collected so far.
\<close>

theorem clustered_join_secrets_mounted:
  assumes "SecurityMode pl = ADMode" "buildClusteredPodSpec pl dpvc spvc = Some ps"
  shows "\<exists>src. getJoinSources pl = Some src \<and>
    (\<exists>c \<in> set (pd_Containers ps). ct_Name c = oc_SmbdContainerName (pl_GlobalConfig pl) \<and>
       set (getMounts (js_volumes src)) \<subseteq> set (ct_VolumeMounts c))"
  using assms buildClusteredADPodSpec_ok [OF assms(1), of dpvc spvc]
  by (auto simp: buildClusteredPodSpec_def)

lemma clustered_join_secrets_mounted_witness:
  "\<exists>ps src. buildClusteredPodSpec demo_pods_planner ''vol'' ''state'' = Some ps \<and>
     getJoinSources demo_pods_planner = Some src \<and> length (js_volumes src) = 1 \<and>
     (\<exists>c \<in> set (pd_Containers ps). set (getMounts (js_volumes src)) \<subseteq> set (ct_VolumeMounts c))"
proof -
  obtain ps where ps: "buildClusteredPodSpec demo_pods_planner ''vol'' ''state'' = Some ps"
    using buildClusteredADPodSpec_ok [OF demo_pods_mode, of "''vol''" "''state''"]
    by (auto simp: buildClusteredPodSpec_def demo_pods_mode)
  have "\<exists>src. getJoinSources demo_pods_planner = Some src \<and> length (js_volumes src) = 1"
    by (simp add: getJoinSources_def demo_pods_planner_def joinJSONFileVolumeAndMount_def)
  then show ?thesis using clustered_join_secrets_mounted [OF demo_pods_mode ps] ps by (metis option.inject)
qed

end
