(* ===== verification/Workloads.thy ===== *)
theory Workloads
  imports PodsProps
begin

text \<open>
  The objects that run a server group: \<open>services.go\<close>, \<open>deployments.go\<close>,
  \<open>statefulsets.go\<close> and the metrics objects of \<open>metrics.go\<close>, with their labels,
  annotations and affinities. \<open>None\<close> is a panic.
\<close>

section \<open>Labels and annotations\<close>

definition serviceLabel :: string where
  "serviceLabel = ''samba-operator.samba.org/service''"

definition commonConfigLabel :: string where
  "commonConfigLabel = ''samba-operator.samba.org/common-config-from''"

definition securityConfigLabel :: string where
  "securityConfigLabel = ''samba-operator.samba.org/security-config-from''"

definition labelValue :: "string list \<Rightarrow> string" where
  "labelValue s = (let out = join ''-'' s in if 63 < length out then take 63 out else out)"

definition managed_labels :: "string \<Rightarrow> (string \<times> string) list" where
  "managed_labels name =
     [(''app'', ''samba''),
      (''app.kubernetes.io/name'', ''samba''),
      (''app.kubernetes.io/instance'', labelValue [''samba'', name]),
      (''app.kubernetes.io/component'', ''smbd''),
      (''app.kubernetes.io/part-of'', ''samba''),
      (''app.kubernetes.io/managed-by'', ''samba-operator''),
      (serviceLabel, labelValue [name])]"

definition labelsForManagedResource :: "string \<Rightarrow> (string, string) gomap" where
  "labelsForManagedResource name = mlit (managed_labels name)"

text \<open>The assignments to the fresh map are further entries of the literal.\<close>

definition labelsForSmbServer :: "Planner \<Rightarrow> (string, string) gomap" where
  "labelsForSmbServer pl = mlit (managed_labels (InstanceName pl) @
     (case pl_CommonConfig pl of None \<Rightarrow> []
      | Some cc \<Rightarrow> [(commonConfigLabel, labelValue [m_Name (scc_meta cc)])]) @
     (case pl_SecurityConfig pl of None \<Rightarrow> []
      | Some sc \<Rightarrow> [(securityConfigLabel, labelValue [m_Name (ssc_meta sc)])]))"

definition annotationsForSmbMetricsPod :: "(string \<times> string) list" where
  "annotationsForSmbMetricsPod =
     [(''prometheus.io/scrape'', ''true''),
      (''prometheus.io/port'', itoa (sint defaultMetricsPort)),
      (''prometheus.io/path'', defaultMetricsPath)]"

definition annotationsForSmbPod :: "OperatorConfig \<Rightarrow> (string, string) gomap" where
  "annotationsForSmbPod cfg = mlit
     ([(''kubectl.kubernetes.io/default-logs-container'', oc_SmbdContainerName cfg),
       (''kubectl.kubernetes.io/default-container'', oc_SmbdContainerName cfg),
       (''openshift.io/scc'', sambaSccName)] @
      (if withMetricsExporter cfg then annotationsForSmbMetricsPod else []))"

section \<open>Affinity\<close>

definition affinityForSmbPod :: "Planner \<Rightarrow> Affinity option" where
  "affinityForSmbPod pl =
     (case pl_CommonConfig pl of
        None \<Rightarrow> None
      | Some cc \<Rightarrow> (case cc_PodSettings (scc_Spec cc) of None \<Rightarrow> None | Some ps \<Rightarrow> ps_Affinity ps))"

text \<open>
  The code appends to the affinity it got from the common configuration in place; that copy
  of the configuration is not looked at again in the same pass.
\<close>

definition buildOneSmbdPerNodeAffinity :: "Planner \<Rightarrow> (string, string) gomap \<Rightarrow> string \<Rightarrow> Affinity" where
  "buildOneSmbdPerNodeAffinity pl labels key =
     (let onePodPerNode = \<lparr>pat_TopologyKey = ''kubernetes.io/hostname'', pat_Key = key,
            pat_Operator = ''In'', pat_Values = [mget labels key]\<rparr>;
          affinity = (case affinityForSmbPod pl of None \<Rightarrow> \<lparr>aff_PodAntiAffinity = None, aff_other = ''''\<rparr>
                      | Some a \<Rightarrow> a);
          anti = (case aff_PodAntiAffinity affinity of None \<Rightarrow> \<lparr>paa_Required = [], paa_other = ''''\<rparr>
                  | Some p \<Rightarrow> p)
      in affinity\<lparr>aff_PodAntiAffinity := Some (anti\<lparr>paa_Required := paa_Required anti @ [onePodPerNode]\<rparr>)\<rparr>)"

section \<open>The server objects\<close>

definition toServiceType :: "string \<Rightarrow> string option" where
  "toServiceType s = (if s = ''ClusterIP'' \<or> s = ''NodePort'' \<or> s = ''LoadBalancer'' then Some s else None)"

definition newServiceForSmb :: "Planner \<Rightarrow> string \<Rightarrow> Service option" where
  "newServiceForSmb pl ns = do {
     let labels = labelsForSmbServer pl;
     type \<leftarrow> toServiceType (ServiceType pl);
     Some \<lparr>svc_meta = (new_meta (InstanceName pl) ns)\<lparr>m_Labels := labels\<rparr>, svc_Type = type,
       svc_Ports = [\<lparr>svp_Name = ''smb'', svp_Protocol = ''TCP'',
         svp_Port = int32_of_int (oc_SmbServicePort (pl_GlobalConfig pl)),
         svp_TargetPort = int32_of_int (oc_SmbdPort (pl_GlobalConfig pl))\<rparr>],
       svc_Selector = mlit [(svcSelectorKey, mget labels svcSelectorKey)]\<rparr> }"

definition buildDeployment :: "OperatorConfig \<Rightarrow> Planner \<Rightarrow> string \<Rightarrow> string \<Rightarrow> Deployment option" where
  "buildDeployment cfg pl pvcName ns = do {
     let labels = labelsForSmbServer pl;
     podSpec \<leftarrow> buildPodSpec pl pvcName;
     let podSpec = podSpec\<lparr>pd_Affinity := affinityForSmbPod pl\<rparr>;
     Some \<lparr>dep_meta = (new_meta (InstanceName pl) ns)\<lparr>m_Labels := labels,
         m_Annotations := mlit [(''openshift.io/scc'', sambaSccName)]\<rparr>,
       dep_Replicas = Some 1, dep_MatchLabels = labels,
       dep_Template = \<lparr>pt_Labels = labels, pt_Annotations = annotationsForSmbPod cfg, pt_Spec = podSpec\<rparr>\<rparr> }"

definition buildStatefulSet :: "Planner \<Rightarrow> string \<Rightarrow> string \<Rightarrow> string \<Rightarrow> StatefulSet option" where
  "buildStatefulSet pl dataPVCName statePVCName ns = do {
     let labels = labelsForSmbServer pl;
     let size = ClusterSize pl;
     podSpec \<leftarrow> buildClusteredPodSpec pl dataPVCName statePVCName;
     let podSpec = podSpec\<lparr>pd_Affinity :=
       (if NodeSpread pl then Some (buildOneSmbdPerNodeAffinity pl labels serviceLabel)
        else affinityForSmbPod pl)\<rparr>;
     Some \<lparr>ss_meta = (new_meta (InstanceName pl) ns)\<lparr>m_Labels := labels\<rparr>,
       ss_Replicas = Some size, ss_MatchLabels = labels,
       ss_Template = \<lparr>pt_Labels = labels, pt_Annotations = annotationsForSmbPod (pl_GlobalConfig pl),
         pt_Spec = podSpec\<rparr>\<rparr> }"

section \<open>The metrics objects\<close>

definition defaultMetricsPortName :: string where
  "defaultMetricsPortName = ''samba-metrics''"

definition defaultMetricsScrapeInterval :: string where
  "defaultMetricsScrapeInterval = ''1m''"

definition metricsInstanceName :: "Planner \<Rightarrow> string" where
  "metricsInstanceName pl = InstanceName pl @ ''-metrics''"

definition share_owner_ref :: "SmbShare \<Rightarrow> OwnerReference" where
  "share_owner_ref s = \<lparr>or_APIVersion = m_APIVersion (sh_meta s), or_Kind = m_Kind (sh_meta s),
     or_Name = m_Name (sh_meta s), or_UID = m_UID (sh_meta s), or_Controller = None,
     or_BlockOwnerDeletion = None\<rparr>"

definition metrics_meta :: "Planner \<Rightarrow> NamespacedName \<Rightarrow> ObjectMeta" where
  "metrics_meta pl key = (new_meta (nn_Name key) (nn_Namespace key))
     \<lparr>m_Labels := labelsForManagedResource (metricsInstanceName pl),
      m_OwnerReferences := [share_owner_ref (pl_SmbShare pl)]\<rparr>"

definition newMetricsService :: "Planner \<Rightarrow> NamespacedName \<Rightarrow> Service" where
  "newMetricsService pl key = \<lparr>svc_meta = metrics_meta pl key, svc_Type = ''ClusterIP'',
     svc_Ports = [\<lparr>svp_Name = defaultMetricsPortName, svp_Protocol = ''TCP'',
       svp_Port = int32_of_int defaultMetricsPort, svp_TargetPort = int32_of_int defaultMetricsPort\<rparr>],
     svc_Selector = labelsForManagedResource (metricsInstanceName pl)\<rparr>"

definition newMetricsServiceMonitor :: "Planner \<Rightarrow> NamespacedName \<Rightarrow> ServiceMonitor" where
  "newMetricsServiceMonitor pl key = \<lparr>sm_meta = metrics_meta pl key,
     sm_NamespaceSelector = [nn_Namespace key],
     sm_MatchLabels = labelsForManagedResource (metricsInstanceName pl),
     sm_Endpoints = [\<lparr>ep_Port = defaultMetricsPortName, ep_Path = defaultMetricsPath,
       ep_Interval = defaultMetricsScrapeInterval\<rparr>]\<rparr>"

section \<open>Properties\<close>

lemma labelValue_length: "length (labelValue s) \<le> 63"
  by (simp add: labelValue_def Let_def)

lemma server_labels_service:
  "mlookup (labelsForSmbServer pl) serviceLabel = Some (labelValue [InstanceName pl])"
  by (simp add: labelsForSmbServer_def mlookup_mlit managed_labels_def serviceLabel_def commonConfigLabel_def
      securityConfigLabel_def map_add_def split: option.splits)

lemma map_of_mlit_values: "mlookup (mlit kvs) k = Some v \<Longrightarrow> (k, v) \<in> set kvs"
  by (auto simp: mlookup_mlit dest: map_of_SomeD)

text \<open>
  C30. The three objects of a server group fit together: building them never panics, the
  workloads select exactly the labels they give their pods, the service selects on a label
  with the value those pods carry, and no label value is longer than the 63 bytes Kubernetes
  allows.
\<close>

theorem server_objects_match:
  "\<exists>svc dep ss. newServiceForSmb pl ns = Some svc \<and> buildDeployment cfg pl pvc ns = Some dep \<and>
     buildStatefulSet pl dpvc spvc ns = Some ss \<and>
     dep_MatchLabels dep = pt_Labels (dep_Template dep) \<and> ss_MatchLabels ss = pt_Labels (ss_Template ss) \<and>
     svc_Selector svc = mlit [(svcSelectorKey, labelValue [InstanceName pl])] \<and>
     mlookup (pt_Labels (dep_Template dep)) svcSelectorKey = Some (labelValue [InstanceName pl]) \<and>
     mlookup (pt_Labels (ss_Template ss)) svcSelectorKey = Some (labelValue [InstanceName pl]) \<and>
     list_all (\<lambda>(k, v). length v \<le> 63) (entries (labelsForSmbServer pl)) \<and>
     ss_Replicas ss = Some (ClusterSize pl) \<and> dep_Replicas dep = Some 1"
proof -
  obtain ps where ps: "buildPodSpec pl pvc = Some ps"
    using buildPodSpec_total by blast
  obtain cps where cps: "buildClusteredPodSpec pl dpvc spvc = Some cps"
    using buildClusteredPodSpec_total by blast
  have key: "svcSelectorKey = serviceLabel" by (simp add: svcSelectorKey_def serviceLabel_def)
  have type: "toServiceType (ServiceType pl) = Some (ServiceType pl)"
    by (auto simp: toServiceType_def ServiceType_def split: option.splits)
  have len: "list_all (\<lambda>(k, v). length v \<le> 63) (entries (labelsForSmbServer pl))"
  proof -
    have "length v \<le> 63" if "(k, v) \<in> set (entries (labelsForSmbServer pl))" for k v
    proof -
      have "sorted_keys (entries (labelsForSmbServer pl))"
        by (simp add: labelsForSmbServer_def mlit_def sorted_keys_fold_ins)
      then have "mlookup (labelsForSmbServer pl) k = Some v"
        using that by (simp add: mlookup_def sorted_keys_distinct map_of_is_SomeI)
      from map_of_mlit_values [OF this [unfolded labelsForSmbServer_def]] show ?thesis
        using labelValue_length by (auto simp: managed_labels_def split: option.splits)
    qed
    then show ?thesis by (auto simp: list_all_iff)
  qed
  show ?thesis
    using ps cps type len server_labels_service [of pl]
    by (simp add: newServiceForSmb_def buildDeployment_def buildStatefulSet_def Let_def key mget_def)
qed

text \<open>
  With node spreading on, the pods of a stateful set must run on different nodes: the
  required anti-affinity has a term on the host name for the very label value the pods
  carry, after all terms that the common configuration asks for.
\<close>

theorem node_spread_affinity:
  assumes "NodeSpread pl" "buildStatefulSet pl dpvc spvc ns = Some ss"
  shows "\<exists>a anti. pd_Affinity (pt_Spec (ss_Template ss)) = Some a \<and> aff_PodAntiAffinity a = Some anti \<and>
     paa_Required anti =
       (case affinityForSmbPod pl of None \<Rightarrow> []
        | Some ua \<Rightarrow> (case aff_PodAntiAffinity ua of None \<Rightarrow> [] | Some ut \<Rightarrow> paa_Required ut)) @
       [\<lparr>pat_TopologyKey = ''kubernetes.io/hostname'', pat_Key = serviceLabel, pat_Operator = ''In'',
         pat_Values = [mget (pt_Labels (ss_Template ss)) serviceLabel]\<rparr>]"
  using assms
  by (auto simp: buildStatefulSet_def buildOneSmbdPerNodeAffinity_def bind_eq_Some_conv Let_def
      split: option.splits)

lemma node_spread_affinity_witness:
  "\<exists>ss a anti. buildStatefulSet demo_pods_planner ''vol'' ''state'' ''ns1'' = Some ss \<and>
     pd_Affinity (pt_Spec (ss_Template ss)) = Some a \<and> aff_PodAntiAffinity a = Some anti \<and>
     length (paa_Required anti) = 1"
proof -
  obtain ss where ss: "buildStatefulSet demo_pods_planner ''vol'' ''state'' ''ns1'' = Some ss"
    using buildClusteredPodSpec_total [of demo_pods_planner "''vol''" "''state''"]
    by (auto simp: buildStatefulSet_def Let_def)
  have "NodeSpread demo_pods_planner" "affinityForSmbPod demo_pods_planner = None"
    by (simp_all add: NodeSpread_def demo_pods_planner_def mget_def nodeSpreadDisable_def affinityForSmbPod_def)
  with node_spread_affinity [OF this(1) ss] ss show ?thesis by auto
qed

end
