(* ===== verification/JsonProps.thy ===== *)
theory JsonProps
  imports Json
begin

text \<open>
  Reading back what was printed: for every document whose strings are valid UTF-8 and whose
  numbers are decimal naturals, \<open>parse_json\<close> of \<open>MarshalIndent\<close> is the document, so the
  fuel \<open>parse_json\<close> starts with is enough for every text the operator writes.
\<close>

section \<open>Strings\<close>

lemma byte_char_of [simp]: "n < 256 \<Longrightarrow> byte (char_of n) = n"
  by (simp add: byte_def)

lemma char_of_byte [simp]: "char_of (byte c) = c"
  by (simp add: byte_def)

lemma byte_less: "byte c < 256"
  using of_char_mod_256 [of c] by (simp add: byte_def)

lemma byte_inj: "byte c = byte d \<longleftrightarrow> c = d"
  by (simp add: byte_def)

lemma byte_simps [simp]: "byte dq = 34" "byte bs = 92" "byte (CHR ''<'') = 60" "byte (CHR ''>'') = 62" "byte (CHR ''&'') = 38"
  by (simp_all add: byte_def dq_def bs_def)

lemma dq_bs [simp]: "dq \<noteq> bs" "bs \<noteq> dq" "dq \<noteq> CHR ''u''" "bs \<noteq> CHR ''u''"
  by (simp_all add: dq_def bs_def)

lemma hex_value_digit: "d < 16 \<Longrightarrow> hex_value (hex_digit d) = Some d"
  by (simp add: hex_value_def hex_digit_def Let_def)

lemma utf8_len_prefix:
  assumes "utf8_len s = n" "0 < n"
  shows "n \<le> length s" "utf8_len (take n s @ t) = n"
  using assms
  by (auto simp: utf8_len_def split: list.splits if_splits)

lemma parse_escape_ascii:
  assumes "byte c < 128"
  shows "parse_chars (escape_ascii c @ r) = map_option (\<lambda>(t, u). (c # t, u)) (parse_chars r)"
proof -
  consider (quote) "c = dq \<or> c = bs" | (b) "byte c = 8" | (f) "byte c = 12" | (n) "byte c = 10"
    | (r) "byte c = 13" | (t) "byte c = 9"
    | (u) "c \<noteq> dq" "c \<noteq> bs" "byte c \<notin> {8, 12, 10, 13, 9}" "byte c < 32 \<or> c = CHR ''<'' \<or> c = CHR ''>'' \<or> c = CHR ''&''"
    | (plain) "c \<noteq> dq" "c \<noteq> bs" "byte c \<notin> {8, 12, 10, 13, 9}" "\<not> (byte c < 32 \<or> c = CHR ''<'' \<or> c = CHR ''>'' \<or> c = CHR ''&'')"
    by auto
  then show ?thesis
  proof cases
    case quote
    then show ?thesis by (auto simp: escape_ascii_def escape_value_def)
  next
    case b
    then have "c = CHR 0x08" by (simp add: byte_inj [symmetric] byte_def)
    then show ?thesis by (simp add: escape_ascii_def escape_value_def byte_def dq_def bs_def)
  next
    case f
    then have "c = CHR 0x0C" by (simp add: byte_inj [symmetric] byte_def)
    then show ?thesis by (simp add: escape_ascii_def escape_value_def byte_def dq_def bs_def)
  next
    case n
    then have "c = CHR 0x0A" by (simp add: byte_inj [symmetric] byte_def)
    then show ?thesis by (simp add: escape_ascii_def escape_value_def byte_def dq_def bs_def)
  next
    case r
    then have "c = CHR 0x0D" by (simp add: byte_inj [symmetric] byte_def)
    then show ?thesis by (simp add: escape_ascii_def escape_value_def byte_def dq_def bs_def)
  next
    case t
    then have "c = CHR 0x09" by (simp add: byte_inj [symmetric] byte_def)
    then show ?thesis by (simp add: escape_ascii_def escape_value_def byte_def dq_def bs_def)
  next
    case u
    have hex: "hex_value (hex_digit (byte c div 16)) = Some (byte c div 16)"
      "hex_value (hex_digit (byte c mod 16)) = Some (byte c mod 16)"
      using assms by (simp_all add: hex_value_digit)
    have zero: "hex_value (CHR ''0'') = Some 0" by (simp add: hex_value_def byte_def)
    have "16 * (byte c div 16) + byte c mod 16 = byte c" by simp
    then have "getu4 (CHR ''0'' # CHR ''0'' # hex_digit (byte c div 16) # hex_digit (byte c mod 16) # r) = Some (byte c, r)"
      by (simp add: getu4_def hex zero)
    then have "decode_u (CHR ''0'' # CHR ''0'' # hex_digit (byte c div 16) # hex_digit (byte c mod 16) # r) = Some ([c], r)"
      using assms by (simp add: decode_u_def utf8_encode_def)
    then show ?thesis using u by (simp add: escape_ascii_def)
  next
    case plain
    then show ?thesis using assms by (simp add: escape_ascii_def)
  qed
qed

lemma parse_u2028:
  "parse_chars (bs # ''u2028'' @ r) = map_option (\<lambda>(t, u). (utf8_encode 8232 @ t, u)) (parse_chars r)"
  "parse_chars (bs # ''u2029'' @ r) = map_option (\<lambda>(t, u). (utf8_encode 8233 @ t, u)) (parse_chars r)"
  by (simp_all add: decode_u_def getu4_def hex_value_def byte_def)

lemma parse_escape_multi:
  assumes "128 \<le> byte c" "utf8_len (c # s) = n" "0 < n"
  shows "parse_chars (escape_multi (take n (c # s)) @ r) =
    map_option (\<lambda>(t, u). (take n (c # s) @ t, u)) (parse_chars r)"
proof (cases "take n (c # s) = utf8_encode 8232 \<or> take n (c # s) = utf8_encode 8233")
  case True
  have "utf8_encode 8232 \<noteq> utf8_encode 8233" by (simp add: utf8_encode_def)
  then show ?thesis using True parse_u2028 [of r] by (auto simp: escape_multi_def)
next
  case False
  note pre = utf8_len_prefix [OF assms(2,3)]
  obtain p where p: "take n (c # s) = c # p" using assms(3) by (cases n) auto
  have len: "utf8_len ((c # p) @ r) = n" using pre(2) [of r] p by simp
  have n: "length (c # p) = n" using pre(1) p [symmetric] by simp
  have "c \<noteq> dq" "c \<noteq> bs" using assms(1) by auto
  then have "parse_chars ((c # p) @ r) = map_option (\<lambda>(t, u). (take n ((c # p) @ r) @ t, u))
      (parse_chars (drop n ((c # p) @ r)))"
    using assms(1,3) len by simp
  moreover have "take n ((c # p) @ r) = c # p" "drop n ((c # p) @ r) = r"
    using n by (metis append_eq_conv_conj)+
  ultimately show ?thesis using False p by (simp add: escape_multi_def)
qed

lemma parse_escape: "valid_utf8 s \<Longrightarrow> parse_chars (escape s @ dq # r) = Some (s, r)"
proof (induction s rule: escape.induct)
  case 1
  then show ?case by simp
next
  case (2 c s)
  show ?case
  proof (cases "byte c < 128")
    case True
    then show ?thesis using 2 parse_escape_ascii [OF True] by simp
  next
    case False
    then have len: "utf8_len (c # s) \<noteq> 0" "valid_utf8 (drop (utf8_len (c # s)) (c # s))"
      using "2.prems" by (auto split: if_splits)
    let ?n = "utf8_len (c # s)"
    have "parse_chars (escape (drop ?n (c # s)) @ dq # r) = Some (drop ?n (c # s), r)"
      using "2.IH"(3) False len by simp
    moreover have "escape (c # s) = escape_multi (take ?n (c # s)) @ escape (drop ?n (c # s))"
      using False len(1) by simp
    ultimately show ?thesis
      using parse_escape_multi [of c s ?n "escape (drop ?n (c # s)) @ dq # r"] False len(1)
      by (simp del: escape.simps parse_chars.simps)
  qed
qed

lemma parse_print_string: "valid_utf8 s \<Longrightarrow> parse_string (print_string s @ r) = Some (s, r)"
  by (simp add: parse_string_def print_string_def parse_escape)

section \<open>Numbers and white space\<close>

text \<open>What may follow a printed value: the end, a comma or a line break.\<close>

definition stop_ok :: "string \<Rightarrow> bool" where
  "stop_ok r \<longleftrightarrow> (case r of [] \<Rightarrow> True | c # _ \<Rightarrow> c = CHR '','' \<or> c = CHR 0x0A)"

lemma stop_ok_simps [simp]: "stop_ok []" "stop_ok (CHR '','' # r)" "stop_ok (newline d @ r)"
  by (simp_all add: stop_ok_def newline_def)

lemma is_digit_digit_char: "d < 10 \<Longrightarrow> is_digit (digit_char d)"
  by (simp add: is_digit_def byte_def of_char_digit)

lemma digits_all_digits: "c \<in> set (digits n) \<Longrightarrow> is_digit c"
  using digits_are_digits is_digit_digit_char by blast

lemma stop_not_digit: "stop_ok r \<Longrightarrow> r = x # xs \<Longrightarrow> \<not> is_digit x \<and> x \<noteq> CHR ''.'' \<and> x \<noteq> CHR ''e'' \<and> x \<noteq> CHR ''E''"
  by (auto simp: stop_ok_def is_digit_def byte_def)

lemma takeWhile_digits:
  assumes "\<forall>c \<in> set ds. is_digit c" "stop_ok r"
  shows "takeWhile is_digit (ds @ r) = ds" "dropWhile is_digit (ds @ r) = r"
  using assms stop_not_digit [OF assms(2)]
  by (cases r; simp add: takeWhile_append dropWhile_append)+

lemma digit_char_0: "digit_char 0 = CHR ''0''"
  by (rule of_char_eq_iff [where 'a = nat, THEN iffD1]) (simp add: of_char_digit)

lemma digits_hd_zero: "hd (digits n) = CHR ''0'' \<Longrightarrow> n = 0"
proof (induction n rule: digits.induct)
  case (1 n)
  show ?case
  proof (cases "n < 10")
    case True
    have "digit_char n = digit_char 0" using 1(2) True by (simp add: digits.simps [of n] digit_char_0)
    then have "char_digit (digit_char n) = char_digit (digit_char 0)" by simp
    then show ?thesis using True char_digit_digit [OF True] char_digit_digit [of 0] by simp
  next
    case False
    have "hd (digits n) = hd (digits (n div 10))" using False by (subst digits.simps) simp
    then show ?thesis using 1 False by fastforce
  qed
qed

lemma parse_digits:
  assumes "stop_ok r"
  shows "parse_number (digits n @ r) = Some (digits n, r)"
proof -
  obtain c cs where c: "digits n = c # cs" by (cases "digits n") simp_all
  have dig: "\<forall>x \<in> set (digits n). is_digit x" using digits_all_digits by blast
  have "is_digit c" using dig c by simp
  then have minus: "c \<noteq> CHR ''-''" by (auto simp: is_digit_def byte_def)
  have int: "parse_int_part (digits n @ r) = Some (digits n, r)"
  proof (cases "c = CHR ''0''")
    case True
    then have "n = 0" using digits_hd_zero [of n] c by simp
    then have "digits n = [CHR ''0'']" by (simp add: digits.simps [of 0] digit_char_0)
    then show ?thesis by (simp add: parse_int_part_def)
  next
    case False
    then have "parse_int_part (digits n @ r) = digits1 (digits n @ r)" by (simp add: parse_int_part_def c)
    then show ?thesis using takeWhile_digits [OF dig assms] by (simp add: digits1_def)
  qed
  have "parse_frac r = Some ([], r)" "parse_exp r = Some ([], r)"
    using stop_not_digit [OF assms] by (auto simp: parse_frac_def parse_exp_def split: list.splits)
  then show ?thesis using int minus by (simp add: parse_number_def c)
qed

lemma is_ws_newline: "c \<in> set (newline d) \<Longrightarrow> is_ws c"
  by (auto simp: newline_def is_ws_def byte_def)

lemma skip_ws_newline [simp]: "skip_ws (newline d @ r) = skip_ws r"
  using is_ws_newline by (simp add: skip_ws_def dropWhile_append2)

lemma skip_ws_nonws: "\<not> is_ws c \<Longrightarrow> skip_ws (c # r) = c # r"
  by (simp add: skip_ws_def)

lemma not_ws [simp]: "\<not> is_ws (CHR ''{'')" "\<not> is_ws (CHR ''}'')" "\<not> is_ws (CHR ''['')" "\<not> is_ws (CHR '']'')"
  "\<not> is_ws (CHR '','')" "\<not> is_ws (CHR '':'')" "\<not> is_ws dq" "\<not> is_ws (CHR ''n'')" "\<not> is_ws (CHR ''t'')" "\<not> is_ws (CHR ''f'')"
  "is_ws (CHR '' '')"
  by (simp_all add: is_ws_def byte_def dq_def)

lemma skip_ws_idem [simp]: "skip_ws (skip_ws s) = skip_ws s"
  by (simp add: skip_ws_def)

section \<open>Documents\<close>

fun good :: "json \<Rightarrow> bool"
  and good_elems :: "json list \<Rightarrow> bool"
  and good_members :: "(string \<times> json) list \<Rightarrow> bool" where
  "good (JNum n) \<longleftrightarrow> (\<exists>k. n = digits k)"
| "good (JStr s) \<longleftrightarrow> valid_utf8 s"
| "good (JArr js) \<longleftrightarrow> good_elems js"
| "good (JObj ms) \<longleftrightarrow> good_members ms"
| "good _ \<longleftrightarrow> True"
| "good_elems [] \<longleftrightarrow> True"
| "good_elems (j # js) \<longleftrightarrow> good j \<and> good_elems js"
| "good_members [] \<longleftrightarrow> True"
| "good_members ((k, j) # ms) \<longleftrightarrow> valid_utf8 k \<and> good j \<and> good_members ms"

fun need :: "json \<Rightarrow> nat"
  and need_elems :: "json list \<Rightarrow> nat"
  and need_members :: "(string \<times> json) list \<Rightarrow> nat" where
  "need (JArr js) = Suc (need_elems js)"
| "need (JObj ms) = Suc (need_members ms)"
| "need _ = 1"
| "need_elems [] = 0"
| "need_elems (j # js) = Suc (max (need j) (need_elems js))"
| "need_members [] = 0"
| "need_members ((k, j) # ms) = Suc (max (need j) (need_members ms))"

lemma newline_length [simp]: "length (newline d) = Suc (2 * d)"
  by (simp add: newline_def)

lemma need_length:
  "good j \<Longrightarrow> need j \<le> 2 * length (print d j)"
  "good_elems js \<Longrightarrow> need_elems js \<le> 2 * length (print_elems d js)"
  "good_members ms \<Longrightarrow> need_members ms \<le> 2 * length (print_members d ms)"
proof (induction d j and d js and d ms rule: print_print_elems_print_members.induct)
  case (3 d n)
  then obtain k where "n = digits k" by auto
  then have "1 \<le> length n" by (simp add: Suc_le_eq)
  then show ?case by simp
qed (auto simp: print_string_def)

lemma print_head:
  assumes "good j"
  shows "\<exists>c t. print d j = c # t \<and> \<not> is_ws c \<and> c \<noteq> CHR '']'' \<and> c \<noteq> CHR ''}''"
proof (cases j)
  case (JNum n)
  then obtain k where "n = digits k" using assms by auto
  moreover obtain c cs where "digits k = c # cs" by (cases "digits k") simp_all
  moreover from this have "is_digit c" using digits_all_digits [of c k] by simp
  then have "\<not> is_ws c" "c \<noteq> CHR '']''" "c \<noteq> CHR ''}''" by (auto simp: is_digit_def is_ws_def byte_def)
  ultimately show ?thesis using JNum by simp
next
  case (JArr js)
  then show ?thesis by (cases js) simp_all
next
  case (JObj ms)
  then show ?thesis by (cases ms) simp_all
next
  case (JStr s)
  then show ?thesis by (simp add: print_string_def dq_def is_ws_def byte_def)
qed (auto simp: is_ws_def byte_def)

lemma parse_value_skip: "parse_value n (skip_ws s) = parse_value n s"
  by (cases n) (simp_all add: Let_def)

lemma parse_value_newline [simp]: "parse_value n (newline d @ s) = parse_value n s"
  by (metis parse_value_skip skip_ws_newline)

lemma parse_value_space [simp]: "parse_value n (CHR '' '' # s) = parse_value n s"
proof -
  have "skip_ws (CHR '' '' # s) = skip_ws s" by (simp add: skip_ws_def)
  then show ?thesis by (metis parse_value_skip)
qed

lemma value_chars [simp]: "dq \<noteq> CHR ''{''" "dq \<noteq> CHR ''[''" "dq \<noteq> CHR ''}''" "dq \<noteq> CHR '']''"
  "CHR ''{'' \<noteq> dq" "CHR ''['' \<noteq> dq" "CHR ''n'' \<noteq> dq" "CHR ''t'' \<noteq> dq" "CHR ''f'' \<noteq> dq"
  by (simp_all add: dq_def)

lemma parse_leaf:
  "parse_value (Suc n) (''null'' @ r) = Some (JNull, r)"
  "parse_value (Suc n) (print d (JBool b) @ r) = Some (JBool b, r)"
  "valid_utf8 s \<Longrightarrow> parse_value (Suc n) (print_string s @ r) = Some (JStr s, r)"
  by (simp_all add: skip_ws_nonws print_string_def parse_escape Let_def)

lemma parse_num:
  assumes "stop_ok r"
  shows "parse_value (Suc n) (digits k @ r) = Some (JNum (digits k), r)"
proof -
  obtain c cs where c: "digits k = c # cs" by (cases "digits k") simp_all
  then have "is_digit c" using digits_all_digits [of c k] by simp
  then have "\<not> is_ws c" "c \<noteq> CHR ''{''" "c \<noteq> CHR ''[''" "c \<noteq> dq" "c \<noteq> CHR ''n''" "c \<noteq> CHR ''t''" "c \<noteq> CHR ''f''"
    by (auto simp: is_digit_def is_ws_def byte_def dq_def)
  then show ?thesis using parse_digits [OF assms, of k] by (simp add: c skip_ws_nonws)
qed

lemma skip_print: "good j \<Longrightarrow> \<exists>c t. skip_ws (print d j @ r) = c # t \<and> c \<noteq> CHR '']''"
  using print_head [of j d] by (auto simp: skip_ws_nonws)

lemma skip_print_elems:
  "good_elems (j # js) \<Longrightarrow> \<exists>c t. skip_ws (print_elems d (j # js) @ r) = c # t \<and> c \<noteq> CHR '']''"
  using skip_print [of j d] by (cases js) auto

lemma skip_print_members:
  "\<exists>t. skip_ws (print_members d ((k, j) # ms) @ r) = dq # t"
  by (cases ms) (auto simp: print_string_def skip_ws_nonws)

lemma parse_print:
  "good j \<Longrightarrow> stop_ok r \<Longrightarrow> need j \<le> n \<Longrightarrow> parse_value n (print d j @ r) = Some (j, r)"
  "good_elems js \<Longrightarrow> js \<noteq> [] \<Longrightarrow> need_elems js \<le> n \<Longrightarrow>
     parse_elems n (print_elems d js @ newline d' @ CHR '']'' # r) = Some (js, r)"
  "good_members ms \<Longrightarrow> ms \<noteq> [] \<Longrightarrow> need_members ms \<le> n \<Longrightarrow>
     parse_members n (print_members d ms @ newline d' @ CHR ''}'' # r) = Some (ms, r)"
proof (induction d j and d js and d ms arbitrary: n r and n r d' and n r d'
    rule: print_print_elems_print_members.induct)
  case (1 d)
  then show ?case using parse_leaf(1) by (cases n) auto
next
  case (2 d b)
  then show ?case using parse_leaf(2) by (cases n) auto
next
  case (3 d x)
  then show ?case using parse_num by (cases n) auto
next
  case (4 d s)
  then show ?case using parse_leaf(3) by (cases n) auto
next
  case (5 d)
  then show ?case by (cases n) (simp_all add: skip_ws_nonws)
next
  case (6 d j js)
  then obtain m where n: "n = Suc m" "need_elems (j # js) \<le> m" by (cases n) auto
  have ge: "good_elems (j # js)" using 6 by simp
  obtain c t where "skip_ws (print_elems (Suc d) (j # js) @ newline d @ CHR '']'' # r) = c # t" "c \<noteq> CHR '']''"
    using skip_print_elems [OF ge] by blast
  moreover have "parse_elems m (print_elems (Suc d) (j # js) @ newline d @ CHR '']'' # r) = Some (j # js, r)"
    using 6 n ge by simp
  ultimately show ?case by (simp add: n skip_ws_nonws del: print_elems.simps parse_elems.simps)
next
  case (7 d)
  then show ?case by (cases n) (simp_all add: skip_ws_nonws)
next
  case (8 d m ms)
  obtain k j where m: "m = (k, j)" by (cases m)
  obtain n' where n: "n = Suc n'" "need_members (m # ms) \<le> n'" using 8 by (cases n) auto
  obtain t where "skip_ws (print_members (Suc d) (m # ms) @ newline d @ CHR ''}'' # r) = dq # t"
    using skip_print_members m by blast
  moreover have "parse_members n' (print_members (Suc d) (m # ms) @ newline d @ CHR ''}'' # r) = Some (m # ms, r)"
    using 8 n by simp
  ultimately show ?case by (simp add: n skip_ws_nonws del: print_members.simps parse_members.simps)
next
  case (9 d)
  then show ?case by simp
next
  case (10 d j)
  then obtain m where n: "n = Suc m" "need j \<le> m" by (cases n) auto
  have "parse_value m (print d j @ newline d' @ CHR '']'' # r) = Some (j, newline d' @ CHR '']'' # r)"
    using 10 n by simp
  then show ?case by (simp add: n skip_ws_nonws)
next
  case (11 d j j2 js)
  then obtain m where n: "n = Suc m" "need j \<le> m" "need_elems (j2 # js) \<le> m" by (cases n) auto
  have "parse_value m (print d j @ CHR '','' # print_elems d (j2 # js) @ newline d' @ CHR '']'' # r) =
      Some (j, CHR '','' # print_elems d (j2 # js) @ newline d' @ CHR '']'' # r)"
    using 11 n by simp
  moreover have "parse_elems m (print_elems d (j2 # js) @ newline d' @ CHR '']'' # r) = Some (j2 # js, r)"
    using 11 n by simp
  ultimately show ?case by (simp add: n skip_ws_nonws del: print_elems.simps(3)) (simp add: n skip_ws_nonws)
next
  case (12 d)
  then show ?case by simp
next
  case (13 d k j)
  then obtain m where n: "n = Suc m" "need j \<le> m" by (cases n) auto
  have "parse_value m (print d j @ newline d' @ CHR ''}'' # r) = Some (j, newline d' @ CHR ''}'' # r)"
    using 13 n by simp
  moreover have "skip_ws (print_string k @ x) = print_string k @ x" for x
    by (simp add: print_string_def skip_ws_nonws)
  ultimately show ?case using 13 by (simp add: n skip_ws_nonws parse_print_string expect_def)
next
  case (14 d k j m2 ms)
  then obtain m where n: "n = Suc m" "need j \<le> m" "need_members (m2 # ms) \<le> m" by (cases n) auto
  have "parse_value m (print d j @ CHR '','' # print_members d (m2 # ms) @ newline d' @ CHR ''}'' # r) =
      Some (j, CHR '','' # print_members d (m2 # ms) @ newline d' @ CHR ''}'' # r)"
    using 14 n by simp
  moreover have "parse_members m (print_members d (m2 # ms) @ newline d' @ CHR ''}'' # r) = Some (m2 # ms, r)"
    using 14 n by simp
  moreover have "skip_ws (print_string k @ x) = print_string k @ x" for x
    by (simp add: print_string_def skip_ws_nonws)
  ultimately show ?case using 14 by (simp add: n skip_ws_nonws parse_print_string expect_def)
qed

lemma parse_MarshalIndent:
  assumes "good j"
  shows "parse_json (MarshalIndent j) = Some j"
proof -
  have "need j \<le> Suc (2 * length (MarshalIndent j))"
    using need_length(1) [OF assms, of 0] by (simp add: MarshalIndent_def)
  from parse_print(1) [OF assms stop_ok_simps(1) this, of 0]
  have "parse_value (Suc (2 * length (MarshalIndent j))) (MarshalIndent j) = Some (j, [])"
    by (simp add: MarshalIndent_def)
  then show ?thesis by (simp add: parse_json_def skip_ws_def)
qed

end
