(* ===== verification/ConfigMaps.thy ===== *)
theory ConfigMaps
  imports JsonProps SmbCC Effects
begin

text \<open>
  \<open>internal/resources/configmap.go\<close>: the configuration document as JSON text in a config map,
  with the field names and \<open>omitempty\<close> options of the struct tags in
  \<open>internal/smbcc/container_config.go\<close>. A member of an object goes to the field with its
  exact name, else to one that differs by letter case only, else it is ignored.
\<close>

definition ConfigJSONKey :: string where
  "ConfigJSONKey = ''config.json''"

section \<open>Encoding\<close>

definition omit_str :: "string \<Rightarrow> string \<Rightarrow> (string \<times> json) list" where
  "omit_str n s = (if s = '''' then [] else [(n, JStr s)])"

definition omit_strs :: "string \<Rightarrow> string list \<Rightarrow> (string \<times> json) list" where
  "omit_strs n xs = (if xs = [] then [] else [(n, JArr (map JStr xs))])"

definition omit_uint :: "string \<Rightarrow> goint \<Rightarrow> (string \<times> json) list" where
  "omit_uint n w = (if w = 0 then [] else [(n, JNum (digits (unat w)))])"

definition omit_map :: "string \<Rightarrow> ('v \<Rightarrow> json) \<Rightarrow> (string, 'v) gomap \<Rightarrow> (string \<times> json) list" where
  "omit_map n f m = (if entries m = [] then [] else [(n, JObj (map (\<lambda>(k, v). (k, f v)) (entries m)))])"

definition enc_slice :: "('v \<Rightarrow> json) \<Rightarrow> 'v list option \<Rightarrow> json" where
  "enc_slice f xs = (case xs of None \<Rightarrow> JNull | Some ys \<Rightarrow> JArr (map f ys))"

definition enc_permissions :: "PermissionsConfig \<Rightarrow> json" where
  "enc_permissions p = JObj (omit_str ''method'' (pc_Method p) @
     omit_str ''status_xattr'' (pc_StatusXAttr p) @ omit_str ''mode'' (pc_Mode p))"

definition enc_section :: "ConfigSection \<Rightarrow> json" where
  "enc_section c = JObj (omit_strs ''shares'' (cs_Shares c) @ omit_strs ''globals'' (cs_Globals c) @
     omit_str ''instance_name'' (cs_InstanceName c) @
     omit_strs ''instance_features'' (cs_InstanceFeatures c) @
     [(''permissions'', enc_permissions (cs_Permissions c))])"

definition enc_share :: "ShareConfig \<Rightarrow> json" where
  "enc_share s = JObj (omit_map ''options'' JStr (sc_Options s))"

definition enc_global :: "GlobalConfig \<Rightarrow> json" where
  "enc_global g = JObj (omit_map ''options'' JStr (gc_Options g))"

definition enc_user :: "UserEntry \<Rightarrow> json" where
  "enc_user u = JObj ((''name'', JStr (ue_Name u)) # omit_uint ''uid'' (ue_Uid u) @
     omit_uint ''gid'' (ue_Gid u) @ omit_str ''nt_hash'' (ue_NTHash u) @
     omit_str ''password'' (ue_Password u))"

definition enc_group :: "GroupEntry \<Rightarrow> json" where
  "enc_group g = JObj ((''name'', JStr (ge_Name g)) # omit_uint ''gid'' (ge_Gid g))"

definition enc_scc :: "SambaContainerConfig \<Rightarrow> json" where
  "enc_scc c = JObj ((''samba-container-config'', JStr (c_SCCVersion c)) #
     omit_map ''configs'' enc_section (c_Configs c) @ omit_map ''shares'' enc_share (c_Shares c) @
     omit_map ''globals'' enc_global (c_Globals c) @
     omit_map ''users'' (enc_slice enc_user) (c_Users c) @
     omit_map ''groups'' (enc_slice enc_group) (c_Groups c))"

section \<open>Decoding\<close>

text \<open>
  The folding that the decoder compares names with: ASCII letters to upper case, and the two
  other runes that fold to an ASCII letter (U+017F and U+212A).
\<close>

fun fold_name :: "string \<Rightarrow> string" where
  "fold_name [] = []"
| "fold_name (c # s) =
     (if byte c = 0xC5 \<and> (case s of d # _ \<Rightarrow> byte d = 0xBF | [] \<Rightarrow> False) then CHR ''S'' # fold_name (drop 1 s)
      else if byte c = 0xE2 \<and> (case s of d # e # _ \<Rightarrow> byte d = 0x84 \<and> byte e = 0xAA | _ \<Rightarrow> False)
      then CHR ''K'' # fold_name (drop 2 s)
      else upper_char c # fold_name s)"

type_synonym 'r field_table = "(string \<times> ('r \<Rightarrow> json \<Rightarrow> 'r option)) list"

definition field_of :: "'r field_table \<Rightarrow> string \<Rightarrow> ('r \<Rightarrow> json \<Rightarrow> 'r option) option" where
  "field_of tbl k = (case map_of tbl k of Some f \<Rightarrow> Some f
     | None \<Rightarrow> map_of (map (\<lambda>(n, f). (fold_name n, f)) tbl) (fold_name k))"

fun decode_fields :: "'r field_table \<Rightarrow> (string \<times> json) list \<Rightarrow> 'r \<Rightarrow> 'r option" where
  "decode_fields tbl [] r = Some r"
| "decode_fields tbl ((k, j) # ms) r =
     (case field_of tbl k of
        None \<Rightarrow> decode_fields tbl ms r
      | Some f \<Rightarrow> do { r' \<leftarrow> f r j; decode_fields tbl ms r' })"

fun decode_struct :: "'r field_table \<Rightarrow> 'r \<Rightarrow> json \<Rightarrow> 'r option" where
  "decode_struct tbl old JNull = Some old"
| "decode_struct tbl old (JObj ms) = decode_fields tbl ms old"
| "decode_struct tbl old _ = None"

fun decode_uint :: "goint \<Rightarrow> json \<Rightarrow> goint option" where
  "decode_uint old JNull = Some old"
| "decode_uint old (JNum s) =
     (if list_all is_digit s \<and> undigits s < 2 ^ 64 then Some (of_nat (undigits s)) else None)"
| "decode_uint old _ = None"

definition decode_strs :: "json \<Rightarrow> string list option" where
  "decode_strs j = map_option (\<lambda>xs. case xs of None \<Rightarrow> [] | Some ys \<Rightarrow> ys) (decode_slice (decode_string '''') j)"

definition permissions_fields :: "PermissionsConfig field_table" where
  "permissions_fields =
     [(''method'', \<lambda>p j. map_option (\<lambda>x. p\<lparr>pc_Method := x\<rparr>) (decode_string (pc_Method p) j)),
      (''status_xattr'', \<lambda>p j. map_option (\<lambda>x. p\<lparr>pc_StatusXAttr := x\<rparr>) (decode_string (pc_StatusXAttr p) j)),
      (''mode'', \<lambda>p j. map_option (\<lambda>x. p\<lparr>pc_Mode := x\<rparr>) (decode_string (pc_Mode p) j))]"

definition section_fields :: "ConfigSection field_table" where
  "section_fields =
     [(''shares'', \<lambda>c j. map_option (\<lambda>x. c\<lparr>cs_Shares := x\<rparr>) (decode_strs j)),
      (''globals'', \<lambda>c j. map_option (\<lambda>x. c\<lparr>cs_Globals := x\<rparr>) (decode_strs j)),
      (''instance_name'', \<lambda>c j. map_option (\<lambda>x. c\<lparr>cs_InstanceName := x\<rparr>) (decode_string (cs_InstanceName c) j)),
      (''instance_features'', \<lambda>c j. map_option (\<lambda>x. c\<lparr>cs_InstanceFeatures := x\<rparr>) (decode_strs j)),
      (''permissions'', \<lambda>c j. map_option (\<lambda>x. c\<lparr>cs_Permissions := x\<rparr>)
         (decode_struct permissions_fields (cs_Permissions c) j))]"

definition zero_section :: ConfigSection where
  "zero_section = \<lparr>cs_Shares = [], cs_Globals = [], cs_InstanceName = '''', cs_InstanceFeatures = [],
     cs_Permissions = \<lparr>pc_Method = '''', pc_StatusXAttr = '''', pc_Mode = ''''\<rparr>\<rparr>"

definition share_fields :: "ShareConfig field_table" where
  "share_fields = [(''options'', \<lambda>s j. map_option (\<lambda>x. s\<lparr>sc_Options := x\<rparr>)
     (decode_map (decode_string '''') (sc_Options s) j))]"

definition global_fields :: "GlobalConfig field_table" where
  "global_fields = [(''options'', \<lambda>g j. map_option (\<lambda>x. g\<lparr>gc_Options := x\<rparr>)
     (decode_map (decode_string '''') (gc_Options g) j))]"

definition user_fields :: "UserEntry field_table" where
  "user_fields =
     [(''name'', \<lambda>u j. map_option (\<lambda>x. u\<lparr>ue_Name := x\<rparr>) (decode_string (ue_Name u) j)),
      (''uid'', \<lambda>u j. map_option (\<lambda>x. u\<lparr>ue_Uid := x\<rparr>) (decode_uint (ue_Uid u) j)),
      (''gid'', \<lambda>u j. map_option (\<lambda>x. u\<lparr>ue_Gid := x\<rparr>) (decode_uint (ue_Gid u) j)),
      (''nt_hash'', \<lambda>u j. map_option (\<lambda>x. u\<lparr>ue_NTHash := x\<rparr>) (decode_string (ue_NTHash u) j)),
      (''password'', \<lambda>u j. map_option (\<lambda>x. u\<lparr>ue_Password := x\<rparr>) (decode_string (ue_Password u) j))]"

definition zero_user :: UserEntry where
  "zero_user = \<lparr>ue_Name = '''', ue_Uid = 0, ue_Gid = 0, ue_NTHash = '''', ue_Password = ''''\<rparr>"

definition group_fields :: "GroupEntry field_table" where
  "group_fields =
     [(''name'', \<lambda>g j. map_option (\<lambda>x. g\<lparr>ge_Name := x\<rparr>) (decode_string (ge_Name g) j)),
      (''gid'', \<lambda>g j. map_option (\<lambda>x. g\<lparr>ge_Gid := x\<rparr>) (decode_uint (ge_Gid g) j))]"

definition zero_group :: GroupEntry where
  "zero_group = \<lparr>ge_Name = '''', ge_Gid = 0\<rparr>"

definition scc_fields :: "SambaContainerConfig field_table" where
  "scc_fields =
     [(''samba-container-config'', \<lambda>c j. map_option (\<lambda>x. c\<lparr>c_SCCVersion := x\<rparr>) (decode_string (c_SCCVersion c) j)),
      (''configs'', \<lambda>c j. map_option (\<lambda>x. c\<lparr>c_Configs := x\<rparr>)
         (decode_map (decode_struct section_fields zero_section) (c_Configs c) j)),
      (''shares'', \<lambda>c j. map_option (\<lambda>x. c\<lparr>c_Shares := x\<rparr>)
         (decode_map (decode_struct share_fields \<lparr>sc_Options = None\<rparr>) (c_Shares c) j)),
      (''globals'', \<lambda>c j. map_option (\<lambda>x. c\<lparr>c_Globals := x\<rparr>)
         (decode_map (decode_struct global_fields \<lparr>gc_Options = None\<rparr>) (c_Globals c) j)),
      (''users'', \<lambda>c j. map_option (\<lambda>x. c\<lparr>c_Users := x\<rparr>)
         (decode_map (decode_slice (decode_struct user_fields zero_user)) (c_Users c) j)),
      (''groups'', \<lambda>c j. map_option (\<lambda>x. c\<lparr>c_Groups := x\<rparr>)
         (decode_map (decode_slice (decode_struct group_fields zero_group)) (c_Groups c) j))]"

section \<open>The operations\<close>

definition newDefaultConfigMap :: "string \<Rightarrow> string \<Rightarrow> ConfigMap" where
  "newDefaultConfigMap name ns = \<lparr>cm_meta = new_meta name ns,
     cm_Data = mlit [(ConfigJSONKey, MarshalIndent (enc_scc smbcc_New))]\<rparr>"

definition getContainerConfig :: "ConfigMap \<Rightarrow> gerror + SambaContainerConfig" where
  "getContainerConfig cm =
     (case mlookup (cm_Data cm) ConfigJSONKey of
        None \<Rightarrow> Inr smbcc_New
      | Some jstr \<Rightarrow>
          (case (do { j \<leftarrow> parse_json jstr; decode_struct scc_fields smbcc_New j }) of
             None \<Rightarrow> Inl DecodeError
           | Some cc \<Rightarrow> Inr cc))"

text \<open>Marshalling these structs never fails; writing to a nil \<open>Data\<close> map panics.\<close>

definition setContainerConfig :: "ConfigMap \<Rightarrow> SambaContainerConfig \<Rightarrow> ConfigMap option" where
  "setContainerConfig cm cc = do {
     d \<leftarrow> mset ConfigJSONKey (MarshalIndent (enc_scc cc)) (cm_Data cm);
     Some (cm\<lparr>cm_Data := d\<rparr>) }"

section \<open>Round trip\<close>

text \<open>
  The documents that survive \<open>omitempty\<close>: no option map and no map of users or groups is
  empty without being nil, and every string is valid UTF-8.
\<close>

definition good_opts :: "SmbOptions \<Rightarrow> bool" where
  "good_opts m \<longleftrightarrow> wf_map m \<and> m \<noteq> Some [] \<and> (\<forall>(k, v) \<in> set (entries m). valid_utf8 k \<and> valid_utf8 v)"

definition good_section :: "ConfigSection \<Rightarrow> bool" where
  "good_section c \<longleftrightarrow> list_all valid_utf8 (cs_Shares c) \<and> list_all valid_utf8 (cs_Globals c) \<and>
     valid_utf8 (cs_InstanceName c) \<and> list_all valid_utf8 (cs_InstanceFeatures c) \<and>
     valid_utf8 (pc_Method (cs_Permissions c)) \<and> valid_utf8 (pc_StatusXAttr (cs_Permissions c)) \<and>
     valid_utf8 (pc_Mode (cs_Permissions c))"

definition good_user :: "UserEntry \<Rightarrow> bool" where
  "good_user u \<longleftrightarrow> valid_utf8 (ue_Name u) \<and> valid_utf8 (ue_NTHash u) \<and> valid_utf8 (ue_Password u)"

definition storable :: "SambaContainerConfig \<Rightarrow> bool" where
  "storable c \<longleftrightarrow> wf_scc c \<and> valid_utf8 (c_SCCVersion c) \<and>
     (\<forall>(k, cfg) \<in> set (entries (c_Configs c)). valid_utf8 k \<and> good_section cfg) \<and>
     (\<forall>(k, s) \<in> set (entries (c_Shares c)). valid_utf8 k \<and> good_opts (sc_Options s)) \<and>
     (\<forall>(k, g) \<in> set (entries (c_Globals c)). valid_utf8 k \<and> good_opts (gc_Options g)) \<and>
     c_Users c \<noteq> Some [] \<and> (\<forall>(k, us) \<in> set (entries (c_Users c)). valid_utf8 k \<and>
        list_all good_user (case us of None \<Rightarrow> [] | Some xs \<Rightarrow> xs)) \<and>
     c_Groups c \<noteq> Some [] \<and> (\<forall>(k, gs) \<in> set (entries (c_Groups c)). valid_utf8 k \<and>
        list_all (\<lambda>g. valid_utf8 (ge_Name g)) (case gs of None \<Rightarrow> [] | Some xs \<Rightarrow> xs))"

lemma fold_ins_sorted_aux:
  "sorted_keys (m @ xs) \<Longrightarrow> fold (\<lambda>(k, v). ins k v) xs m = m @ xs"
proof (induction xs arbitrary: m)
  case (Cons e xs)
  obtain k v where e: "e = (k, v)" by (cases e)
  have "ins k v m = m @ [(k, v)]" if "\<forall>k' \<in> fst ` set m. k' < k" for m
    using that by (induction m) auto
  moreover have "\<forall>k' \<in> fst ` set m. k' < k"
    using Cons.prems e by (auto simp: sorted_keys_def sorted_wrt_append)
  ultimately show ?case using Cons e by simp
qed simp

lemma fold_ins_sorted: "sorted_keys xs \<Longrightarrow> fold (\<lambda>(k, v). ins k v) xs [] = xs"
  using fold_ins_sorted_aux [of "[]"] by simp

lemma decode_entries_enc:
  "(\<And>k v. (k, v) \<in> set xs \<Longrightarrow> f (enc v) = Some v) \<Longrightarrow>
   decode_entries f (map (\<lambda>(k, v). (k, enc v)) xs) m = Some (fold (\<lambda>(k, v). ins k v) xs m)"
proof (induction xs arbitrary: m)
  case (Cons e xs)
  obtain k v where e: "e = (k, v)" by (cases e)
  have "f (enc v) = Some v" using Cons.prems e by auto
  moreover have "decode_entries f (map (\<lambda>(k, v). (k, enc v)) xs) (ins k v m) =
      Some (fold (\<lambda>(k, v). ins k v) xs (ins k v m))"
    by (rule Cons.IH) (use Cons.prems in auto)
  ultimately show ?case using e by simp
qed simp

lemma decode_map_enc:
  assumes "\<And>k v. (k, v) \<in> set xs \<Longrightarrow> f (enc v) = Some v" "sorted_keys xs" "entries old = []"
  shows "decode_map f old (JObj (map (\<lambda>(k, v). (k, enc v)) xs)) = Some (Some xs)"
  using assms by (simp add: decode_entries_enc fold_ins_sorted)

lemma decode_list_enc: "(\<And>x. x \<in> set xs \<Longrightarrow> f (enc x) = Some x) \<Longrightarrow> decode_list f (map enc xs) = Some xs"
  by (induction xs) auto

lemma decode_slice_enc:
  "(\<And>x. x \<in> set (case xs of None \<Rightarrow> [] | Some ys \<Rightarrow> ys) \<Longrightarrow> f (enc x) = Some x) \<Longrightarrow>
   decode_slice f (enc_slice enc xs) = Some xs"
  by (cases xs) (simp_all add: enc_slice_def decode_list_enc)

lemma decode_strs_enc: "decode_strs (JArr (map JStr xs)) = Some xs"
  by (simp add: decode_strs_def decode_list_enc)

lemma decode_fields_append:
  "decode_fields tbl (ms @ ms') r = do { r' \<leftarrow> decode_fields tbl ms r; decode_fields tbl ms' r' }"
  by (induction tbl ms r rule: decode_fields.induct) (auto split: option.splits Option.bind_splits)

lemma decode_field_omit:
  assumes "field_of tbl n = Some f"
  shows "decode_fields tbl (omit_str n s) r = (if s = '''' then Some r else f r (JStr s))"
    "decode_fields tbl (omit_strs n xs) r = (if xs = [] then Some r else f r (JArr (map JStr xs)))"
    "decode_fields tbl (omit_uint n w) r = (if w = 0 then Some r else f r (JNum (digits (unat w))))"
    "decode_fields tbl (omit_map n g m) r = (if entries m = [] then Some r
       else f r (JObj (map (\<lambda>(k, v). (k, g v)) (entries m))))"
proof -
  have "decode_fields tbl [] = Some" by (rule ext) simp
  then show "decode_fields tbl (omit_str n s) r = (if s = '''' then Some r else f r (JStr s))"
    "decode_fields tbl (omit_strs n xs) r = (if xs = [] then Some r else f r (JArr (map JStr xs)))"
    "decode_fields tbl (omit_uint n w) r = (if w = 0 then Some r else f r (JNum (digits (unat w))))"
    "decode_fields tbl (omit_map n g m) r = (if entries m = [] then Some r
       else f r (JObj (map (\<lambda>(k, v). (k, g v)) (entries m))))"
    using assms by (simp_all add: omit_str_def omit_strs_def omit_uint_def omit_map_def)
qed

lemma decode_uint_enc [simp]: "decode_uint old (JNum (digits (unat w))) = Some w"
proof -
  have "list_all is_digit (digits (unat w))" using digits_all_digits by (auto simp: list_all_iff)
  moreover have "unat w < 2 ^ 64" using unsigned_less [of w, where ?'a = nat] by simp
  ultimately show ?thesis by simp
qed

declare decode_uint.simps(2) [simp del]

lemma permissions_enc: "decode_struct permissions_fields (cs_Permissions zero_section) (enc_permissions p) = Some p"
proof -
  have "field_of permissions_fields ''method'' = Some (\<lambda>p j. map_option (\<lambda>x. p\<lparr>pc_Method := x\<rparr>) (decode_string (pc_Method p) j))"
    "field_of permissions_fields ''status_xattr'' = Some (\<lambda>p j. map_option (\<lambda>x. p\<lparr>pc_StatusXAttr := x\<rparr>) (decode_string (pc_StatusXAttr p) j))"
    "field_of permissions_fields ''mode'' = Some (\<lambda>p j. map_option (\<lambda>x. p\<lparr>pc_Mode := x\<rparr>) (decode_string (pc_Mode p) j))"
    by (simp_all add: field_of_def permissions_fields_def)
  then show ?thesis
    by (simp add: enc_permissions_def decode_fields_append decode_field_omit zero_section_def)
qed

lemma section_enc: "decode_struct section_fields zero_section (enc_section c) = Some c"
proof -
  have f: "field_of section_fields ''shares'' = Some (\<lambda>c j. map_option (\<lambda>x. c\<lparr>cs_Shares := x\<rparr>) (decode_strs j))"
    "field_of section_fields ''globals'' = Some (\<lambda>c j. map_option (\<lambda>x. c\<lparr>cs_Globals := x\<rparr>) (decode_strs j))"
    "field_of section_fields ''instance_name'' = Some (\<lambda>c j. map_option (\<lambda>x. c\<lparr>cs_InstanceName := x\<rparr>) (decode_string (cs_InstanceName c) j))"
    "field_of section_fields ''instance_features'' = Some (\<lambda>c j. map_option (\<lambda>x. c\<lparr>cs_InstanceFeatures := x\<rparr>) (decode_strs j))"
    "field_of section_fields ''permissions'' = Some (\<lambda>c j. map_option (\<lambda>x. c\<lparr>cs_Permissions := x\<rparr>)
         (decode_struct permissions_fields (cs_Permissions c) j))"
    by (simp_all add: field_of_def section_fields_def)
  obtain a b d e p where c: "c = \<lparr>cs_Shares = a, cs_Globals = b, cs_InstanceName = d, cs_InstanceFeatures = e, cs_Permissions = p\<rparr>"
    by (cases c) auto
  show ?thesis
    using permissions_enc [of p]
    by (simp add: c enc_section_def decode_fields_append decode_field_omit f zero_section_def decode_strs_enc)
qed

lemma options_enc:
  assumes "good_opts m"
  shows "decode_map (decode_string '''') None (JObj (map (\<lambda>(k, v). (k, JStr v)) (entries m))) = Some (Some (entries m))"
  using assms by (intro decode_map_enc) (simp_all add: good_opts_def wf_map_def)

lemma share_enc:
  assumes "good_opts (sc_Options s)"
  shows "decode_struct share_fields \<lparr>sc_Options = None\<rparr> (enc_share s) = Some s"
proof -
  have f: "field_of share_fields ''options'' = Some (\<lambda>s j. map_option (\<lambda>x. s\<lparr>sc_Options := x\<rparr>)
     (decode_map (decode_string '''') (sc_Options s) j))"
    by (simp add: field_of_def share_fields_def)
  obtain m where s: "s = \<lparr>sc_Options = m\<rparr>" by (cases s) auto
  show ?thesis
    using assms options_enc [of m]
    by (cases m) (auto simp: s enc_share_def decode_field_omit f good_opts_def)
qed

lemma global_enc:
  assumes "good_opts (gc_Options g)"
  shows "decode_struct global_fields \<lparr>gc_Options = None\<rparr> (enc_global g) = Some g"
proof -
  have f: "field_of global_fields ''options'' = Some (\<lambda>g j. map_option (\<lambda>x. g\<lparr>gc_Options := x\<rparr>)
     (decode_map (decode_string '''') (gc_Options g) j))"
    by (simp add: field_of_def global_fields_def)
  obtain m where g: "g = \<lparr>gc_Options = m\<rparr>" by (cases g) auto
  show ?thesis
    using assms options_enc [of m]
    by (cases m) (auto simp: g enc_global_def decode_field_omit f good_opts_def)
qed

lemma user_enc: "decode_struct user_fields zero_user (enc_user u) = Some u"
proof -
  have f: "field_of user_fields ''name'' = Some (\<lambda>u j. map_option (\<lambda>x. u\<lparr>ue_Name := x\<rparr>) (decode_string (ue_Name u) j))"
    "field_of user_fields ''uid'' = Some (\<lambda>u j. map_option (\<lambda>x. u\<lparr>ue_Uid := x\<rparr>) (decode_uint (ue_Uid u) j))"
    "field_of user_fields ''gid'' = Some (\<lambda>u j. map_option (\<lambda>x. u\<lparr>ue_Gid := x\<rparr>) (decode_uint (ue_Gid u) j))"
    "field_of user_fields ''nt_hash'' = Some (\<lambda>u j. map_option (\<lambda>x. u\<lparr>ue_NTHash := x\<rparr>) (decode_string (ue_NTHash u) j))"
    "field_of user_fields ''password'' = Some (\<lambda>u j. map_option (\<lambda>x. u\<lparr>ue_Password := x\<rparr>) (decode_string (ue_Password u) j))"
    by (simp_all add: field_of_def user_fields_def)
  obtain a b c d e where u: "u = \<lparr>ue_Name = a, ue_Uid = b, ue_Gid = c, ue_NTHash = d, ue_Password = e\<rparr>"
    by (cases u) auto
  show ?thesis
    by (simp add: u enc_user_def decode_fields_append decode_field_omit f zero_user_def)
qed

lemma group_enc: "decode_struct group_fields zero_group (enc_group g) = Some g"
proof -
  have f: "field_of group_fields ''name'' = Some (\<lambda>g j. map_option (\<lambda>x. g\<lparr>ge_Name := x\<rparr>) (decode_string (ge_Name g) j))"
    "field_of group_fields ''gid'' = Some (\<lambda>g j. map_option (\<lambda>x. g\<lparr>ge_Gid := x\<rparr>) (decode_uint (ge_Gid g) j))"
    by (simp_all add: field_of_def group_fields_def)
  obtain a b where g: "g = \<lparr>ge_Name = a, ge_Gid = b\<rparr>" by (cases g) auto
  show ?thesis
    by (simp add: g enc_group_def decode_fields_append decode_field_omit f zero_group_def)
qed

lemma optional_map_enc:
  assumes "\<And>k v. (k, v) \<in> set (entries m) \<Longrightarrow> f (enc v) = Some v" "wf_map m" "entries old = []"
  shows "entries m \<noteq> [] \<Longrightarrow> decode_map f old (JObj (map (\<lambda>(k, v). (k, enc v)) (entries m))) = Some m"
proof -
  assume "entries m \<noteq> []"
  then obtain xs where m: "m = Some xs" by (cases m) auto
  then show ?thesis using assms decode_map_enc [of xs f enc old] by simp
qed

lemma decode_enc_scc:
  assumes "storable c"
  shows "decode_struct scc_fields smbcc_New (enc_scc c) = Some c"
proof -
  have f: "field_of scc_fields ''samba-container-config'' =
      Some (\<lambda>c j. map_option (\<lambda>x. c\<lparr>c_SCCVersion := x\<rparr>) (decode_string (c_SCCVersion c) j))"
    "field_of scc_fields ''configs'' = Some (\<lambda>c j. map_option (\<lambda>x. c\<lparr>c_Configs := x\<rparr>)
         (decode_map (decode_struct section_fields zero_section) (c_Configs c) j))"
    "field_of scc_fields ''shares'' = Some (\<lambda>c j. map_option (\<lambda>x. c\<lparr>c_Shares := x\<rparr>)
         (decode_map (decode_struct share_fields \<lparr>sc_Options = None\<rparr>) (c_Shares c) j))"
    "field_of scc_fields ''globals'' = Some (\<lambda>c j. map_option (\<lambda>x. c\<lparr>c_Globals := x\<rparr>)
         (decode_map (decode_struct global_fields \<lparr>gc_Options = None\<rparr>) (c_Globals c) j))"
    "field_of scc_fields ''users'' = Some (\<lambda>c j. map_option (\<lambda>x. c\<lparr>c_Users := x\<rparr>)
         (decode_map (decode_slice (decode_struct user_fields zero_user)) (c_Users c) j))"
    "field_of scc_fields ''groups'' = Some (\<lambda>c j. map_option (\<lambda>x. c\<lparr>c_Groups := x\<rparr>)
         (decode_map (decode_slice (decode_struct group_fields zero_group)) (c_Groups c) j))"
    by (simp_all add: field_of_def scc_fields_def)
  obtain v cf sh gl us gr where c: "c = \<lparr>c_SCCVersion = v, c_Configs = cf, c_Shares = sh, c_Globals = gl,
      c_Users = us, c_Groups = gr\<rparr>" by (cases c) auto
  have wf: "wf_map cf" "wf_map sh" "wf_map gl" "wf_map us" "wf_map gr" "cf \<noteq> None" "sh \<noteq> None" "gl \<noteq> None"
    "us \<noteq> Some []" "gr \<noteq> Some []"
    using assms by (simp_all add: storable_def wf_scc_def c)
  have nil: "entries cf = [] \<Longrightarrow> cf = Some []" "entries sh = [] \<Longrightarrow> sh = Some []" "entries gl = [] \<Longrightarrow> gl = Some []"
    "entries us = [] \<Longrightarrow> us = None" "entries gr = [] \<Longrightarrow> gr = None"
    using wf by (auto simp: entries_def split: option.splits)
  have cfg: "entries cf \<noteq> [] \<Longrightarrow> decode_map (decode_struct section_fields zero_section) (Some [])
      (JObj (map (\<lambda>(k, v). (k, enc_section v)) (entries cf))) = Some cf"
    by (rule optional_map_enc) (simp_all add: section_enc wf)
  have shr: "entries sh \<noteq> [] \<Longrightarrow> decode_map (decode_struct share_fields \<lparr>sc_Options = None\<rparr>) (Some [])
      (JObj (map (\<lambda>(k, v). (k, enc_share v)) (entries sh))) = Some sh"
    by (rule optional_map_enc) (use assms in \<open>auto simp: share_enc wf storable_def c\<close>)
  have glb: "entries gl \<noteq> [] \<Longrightarrow> decode_map (decode_struct global_fields \<lparr>gc_Options = None\<rparr>) (Some [])
      (JObj (map (\<lambda>(k, v). (k, enc_global v)) (entries gl))) = Some gl"
    by (rule optional_map_enc) (use assms in \<open>auto simp: global_enc wf storable_def c\<close>)
  have usr: "entries us \<noteq> [] \<Longrightarrow> decode_map (decode_slice (decode_struct user_fields zero_user)) None
      (JObj (map (\<lambda>(k, v). (k, enc_slice enc_user v)) (entries us))) = Some us"
    by (rule optional_map_enc) (simp_all add: decode_slice_enc user_enc wf)
  have grp: "entries gr \<noteq> [] \<Longrightarrow> decode_map (decode_slice (decode_struct group_fields zero_group)) None
      (JObj (map (\<lambda>(k, v). (k, enc_slice enc_group v)) (entries gr))) = Some gr"
    by (rule optional_map_enc) (simp_all add: decode_slice_enc group_enc wf)
  have base: "smbcc_New = \<lparr>c_SCCVersion = version0, c_Configs = Some [], c_Shares = Some [], c_Globals = Some [],
      c_Users = None, c_Groups = None\<rparr>" by (simp add: smbcc_New_def mlit_def)
  note field = decode_field_omit(4)
  have s1: "decode_fields scc_fields (omit_map ''configs'' enc_section cf) r = Some (r\<lparr>c_Configs := cf\<rparr>)"
    if "c_Configs r = Some []" for r
    using cfg nil(1) that by (cases r) (auto simp: field [OF f(2)] simp del: decode_map.simps)
  have s2: "decode_fields scc_fields (omit_map ''shares'' enc_share sh) r = Some (r\<lparr>c_Shares := sh\<rparr>)"
    if "c_Shares r = Some []" for r
    using shr nil(2) that by (cases r) (auto simp: field [OF f(3)] simp del: decode_map.simps)
  have s3: "decode_fields scc_fields (omit_map ''globals'' enc_global gl) r = Some (r\<lparr>c_Globals := gl\<rparr>)"
    if "c_Globals r = Some []" for r
    using glb nil(3) that by (cases r) (auto simp: field [OF f(4)] simp del: decode_map.simps)
  have s4: "decode_fields scc_fields (omit_map ''users'' (enc_slice enc_user) us) r = Some (r\<lparr>c_Users := us\<rparr>)"
    if "c_Users r = None" for r
    using usr nil(4) that by (cases r) (auto simp: field [OF f(5)] simp del: decode_map.simps)
  have s5: "decode_fields scc_fields (omit_map ''groups'' (enc_slice enc_group) gr) r = Some (r\<lparr>c_Groups := gr\<rparr>)"
    if "c_Groups r = None" for r
    using grp nil(5) that by (cases r) (auto simp: field [OF f(6)] simp del: decode_map.simps)
  show ?thesis
    unfolding enc_scc_def decode_struct.simps decode_fields.simps(2) f(1) base
    by (simp add: c decode_fields_append s1 s2 s3 s4 s5)
qed

lemma good_members_append [simp]: "good_members (a @ b) \<longleftrightarrow> good_members a \<and> good_members b"
  by (induction a) auto

lemma good_elems_map: "good_elems (map f xs) \<longleftrightarrow> (\<forall>x \<in> set xs. good (f x))"
  by (induction xs) auto

lemma good_members_map: "good_members (map (\<lambda>(k, v). (k, f v)) xs) \<longleftrightarrow> (\<forall>(k, v) \<in> set xs. valid_utf8 k \<and> good (f v))"
  by (induction xs) auto

lemma good_omit:
  "valid_utf8 n \<Longrightarrow> valid_utf8 s \<Longrightarrow> good_members (omit_str n s)"
  "valid_utf8 n \<Longrightarrow> list_all valid_utf8 xs \<Longrightarrow> good_members (omit_strs n xs)"
  "valid_utf8 n \<Longrightarrow> good_members (omit_uint n w)"
  "valid_utf8 n \<Longrightarrow> (\<And>k v. (k, v) \<in> set (entries m) \<Longrightarrow> valid_utf8 k \<and> good (f v)) \<Longrightarrow> good_members (omit_map n f m)"
  by (auto simp: omit_str_def omit_strs_def omit_uint_def omit_map_def good_elems_map good_members_map list_all_iff)

lemma valid_ascii: "list_all (\<lambda>c. byte c < 128) s \<Longrightarrow> valid_utf8 s"
  by (induction s) auto

declare valid_utf8.simps [simp del]

lemma field_names_valid [simp]:
  "valid_utf8 ''method''" "valid_utf8 ''status_xattr''" "valid_utf8 ''mode''" "valid_utf8 ''shares''"
  "valid_utf8 ''globals''" "valid_utf8 ''instance_name''" "valid_utf8 ''instance_features''"
  "valid_utf8 ''permissions''" "valid_utf8 ''options''" "valid_utf8 ''name''" "valid_utf8 ''uid''"
  "valid_utf8 ''gid''" "valid_utf8 ''nt_hash''" "valid_utf8 ''password''"
  "valid_utf8 ''samba-container-config''" "valid_utf8 ''configs''" "valid_utf8 ''users''" "valid_utf8 ''groups''"
  by (rule valid_ascii; simp add: byte_def)+

lemma good_enc_parts:
  "good_section c \<Longrightarrow> good (enc_section c)"
  "good_opts (sc_Options s) \<Longrightarrow> good (enc_share s)"
  "good_opts (gc_Options g) \<Longrightarrow> good (enc_global g)"
  "good_user u \<Longrightarrow> good (enc_user u)"
  "valid_utf8 (ge_Name gr) \<Longrightarrow> good (enc_group gr)"
  by (auto simp: enc_section_def enc_permissions_def enc_share_def enc_global_def enc_user_def enc_group_def
      good_section_def good_opts_def good_user_def intro!: good_omit)

lemma good_enc_scc:
  assumes "storable c"
  shows "good (enc_scc c)"
proof -
  have "good (enc_slice enc_user us)" if "(k, us) \<in> set (entries (c_Users c))" for k us
    using that assms by (cases us) (auto simp: storable_def enc_slice_def good_elems_map list_all_iff intro!: good_enc_parts)
  moreover have "good (enc_slice enc_group gs)" if "(k, gs) \<in> set (entries (c_Groups c))" for k gs
    using that assms by (cases gs) (auto simp: storable_def enc_slice_def good_elems_map list_all_iff intro!: good_enc_parts)
  ultimately show ?thesis
    using assms unfolding enc_scc_def storable_def
    by (auto intro!: good_omit good_enc_parts)
qed

lemma storable_New: "storable smbcc_New"
proof -
  have "valid_utf8 version0" by (rule valid_ascii) (simp add: version0_def byte_def)
  then show ?thesis by (simp add: storable_def) (simp add: smbcc_New_def mlit_def)
qed

text \<open>
  C9. The configuration document survives its trip through the config map: what
  \<open>setContainerConfig\<close> writes, \<open>getContainerConfig\<close> reads back unchanged, for every document
  whose strings are UTF-8 and whose option, user and group maps are nil or not empty; and
  writing needs nothing but a config map that has a data map.
\<close>

theorem container_config_roundtrip:
  assumes "storable cc" "cm_Data cm \<noteq> None"
  shows "\<exists>cm'. setContainerConfig cm cc = Some cm' \<and> getContainerConfig cm' = Inr cc \<and> cm_meta cm' = cm_meta cm"
proof -
  obtain d where d: "cm_Data cm = Some d" using assms(2) by blast
  have "parse_json (MarshalIndent (enc_scc cc)) = Some (enc_scc cc)"
    using parse_MarshalIndent [OF good_enc_scc [OF assms(1)]] .
  then show ?thesis
    using decode_enc_scc [OF assms(1)]
    by (simp add: setContainerConfig_def getContainerConfig_def d mlookup_Some)
qed

lemma container_config_roundtrip_witness:
  "\<exists>cm'. setContainerConfig (newDefaultConfigMap ''cm'' ''ns'') smbcc_New = Some cm' \<and>
     getContainerConfig cm' = Inr smbcc_New"
  using container_config_roundtrip [OF storable_New, of "newDefaultConfigMap ''cm'' ''ns''"]
  by (auto simp: newDefaultConfigMap_def)

lemma newDefaultConfigMap_reads: "getContainerConfig (newDefaultConfigMap n ns) = Inr smbcc_New"
  using parse_MarshalIndent [OF good_enc_scc [OF storable_New]] decode_enc_scc [OF storable_New]
  by (simp add: getContainerConfig_def newDefaultConfigMap_def mlookup_mlit)

end
