(* ===== verification/Getters.thy ===== *)
theory Getters
  imports Stages KubeLib Workloads ConfigMaps
begin

text \<open>
  \<open>internal/resources/getters.go\<close>: reading the objects of a server group, and creating the
  ones that are missing. The manager's fields are arguments: the library \<open>lib\<close> and the
  operator configuration \<open>cfg\<close>. A Go result \<open>(value, created, err)\<close> is an error or the
  pair of the first two; a nil object without an error is \<open>None\<close>.
\<close>

section \<open>Typed access\<close>

fun as_share :: "kobj \<Rightarrow> SmbShare option" where
  "as_share (OShare x) = Some x" | "as_share _ = None"

fun as_security :: "kobj \<Rightarrow> SmbSecurityConfig option" where
  "as_security (OSecurity x) = Some x" | "as_security _ = None"

fun as_common :: "kobj \<Rightarrow> SmbCommonConfig option" where
  "as_common (OCommon x) = Some x" | "as_common _ = None"

fun as_deployment :: "kobj \<Rightarrow> Deployment option" where
  "as_deployment (ODeployment x) = Some x" | "as_deployment _ = None"

fun as_statefulset :: "kobj \<Rightarrow> StatefulSet option" where
  "as_statefulset (OStatefulSet x) = Some x" | "as_statefulset _ = None"

fun as_service :: "kobj \<Rightarrow> Service option" where
  "as_service (OService x) = Some x" | "as_service _ = None"

fun as_configmap :: "kobj \<Rightarrow> ConfigMap option" where
  "as_configmap (OConfigMap x) = Some x" | "as_configmap _ = None"

fun as_pvc :: "kobj \<Rightarrow> PersistentVolumeClaim option" where
  "as_pvc (OPVC x) = Some x" | "as_pvc _ = None"

fun as_namespace :: "kobj \<Rightarrow> Namespace option" where
  "as_namespace (ONamespace x) = Some x" | "as_namespace _ = None"

fun as_serviceaccount :: "kobj \<Rightarrow> ServiceAccount option" where
  "as_serviceaccount (OServiceAccount x) = Some x" | "as_serviceaccount _ = None"

fun as_role :: "kobj \<Rightarrow> Role option" where
  "as_role (ORole x) = Some x" | "as_role _ = None"

fun as_rolebinding :: "kobj \<Rightarrow> RoleBinding option" where
  "as_rolebinding (ORoleBinding x) = Some x" | "as_rolebinding _ = None"

fun as_servicemonitor :: "kobj \<Rightarrow> ServiceMonitor option" where
  "as_servicemonitor (OServiceMonitor x) = Some x" | "as_servicemonitor _ = None"

fun as_pod :: "kobj \<Rightarrow> Pod option" where
  "as_pod (OPod x) = Some x" | "as_pod _ = None"

definition get_as :: "okind \<Rightarrow> (kobj \<Rightarrow> 'a option) \<Rightarrow> NamespacedName \<Rightarrow> (gerror + 'a) prog" where
  "get_as k proj nn = Do (CGet k nn) (\<lambda>r. Ret (typed proj r))"

definition nsname :: "string \<Rightarrow> string \<Rightarrow> NamespacedName" where
  "nsname ns name = \<lparr>nn_Namespace = ns, nn_Name = name\<rparr>"

text \<open>The two shapes that the getters have: nil for a missing object, and create if nil.\<close>

definition existing :: "okind \<Rightarrow> (kobj \<Rightarrow> 'a option) \<Rightarrow> NamespacedName \<Rightarrow> (gerror + 'a option) prog" where
  "existing k proj nn = andthen (get_as k proj nn) (\<lambda>r. case r of
     Inr found \<Rightarrow> Ret (Inr (Some found))
   | Inl err \<Rightarrow> if \<not> IsNotFound err then Ret (Inl err) else Ret (Inr None))"

definition get_or_create :: "(gerror + 'a option) prog \<Rightarrow> (gerror + 'a) prog \<Rightarrow> (gerror + 'a \<times> bool) prog" where
  "get_or_create get mk = on_ok get (\<lambda>err. Ret (Inl err)) (\<lambda>found. case found of
     Some x \<Rightarrow> Ret (Inr (x, False))
   | None \<Rightarrow> on_ok mk (\<lambda>err. Ret (Inl err)) (\<lambda>x. Ret (Inr (x, True))))"

text \<open>Creating an object with the share as its owner and controller.\<close>

definition create_owned :: "kube_lib \<Rightarrow> SmbShare \<Rightarrow> (ObjectMeta \<Rightarrow> 'a) \<Rightarrow> ('a \<Rightarrow> kobj) \<Rightarrow> ObjectMeta \<Rightarrow> (gerror + 'a) prog" where
  "create_owned lib s with_meta wrap m =
     (case kl_SetControllerReference lib (sh_meta s) m of
        Inl err \<Rightarrow> Ret (Inl err)
      | Inr m' \<Rightarrow> on_ok (api_write (CCreate (wrap (with_meta m')))) (\<lambda>err. Ret (Inl err))
          (\<lambda>_. Ret (Inr (with_meta m'))))"

section \<open>Names\<close>

definition pvcName :: "SmbShare \<Rightarrow> string option" where
  "pvcName s = do { p \<leftarrow> st_Pvc (sp_Storage (sh_Spec s));
     Some (if pvc_Name p \<noteq> '''' then pvc_Name p else m_Name (sh_meta s) @ ''-pvc'') }"

definition sharedStatePVCName :: "Planner \<Rightarrow> string" where
  "sharedStatePVCName pl = InstanceName pl @ ''-state''"

section \<open>Deployments and stateful sets\<close>

definition getExistingDeployment :: "Planner \<Rightarrow> string \<Rightarrow> (gerror + Deployment option) prog" where
  "getExistingDeployment pl ns = existing KDeployment as_deployment (nsname ns (InstanceName pl))"

definition getOrCreateDeployment ::
  "kube_lib \<Rightarrow> OperatorConfig \<Rightarrow> Planner \<Rightarrow> string \<Rightarrow> (gerror + Deployment \<times> bool) prog" where
  "getOrCreateDeployment lib cfg pl ns = get_or_create (getExistingDeployment pl ns)
     (eval (st_Pvc (sp_Storage (sh_Spec (pl_SmbShare pl)))) (\<lambda>pvc.
      eval (buildDeployment cfg pl (pvc_Name pvc) ns) (\<lambda>dep.
      create_owned lib (pl_SmbShare pl) (\<lambda>m. dep\<lparr>dep_meta := m\<rparr>) ODeployment (dep_meta dep))))"

definition getExistingStatefulSet :: "Planner \<Rightarrow> string \<Rightarrow> (gerror + StatefulSet option) prog" where
  "getExistingStatefulSet pl ns = existing KStatefulSet as_statefulset (nsname ns (InstanceName pl))"

definition getOrCreateStatefulSet ::
  "kube_lib \<Rightarrow> Planner \<Rightarrow> string \<Rightarrow> (gerror + StatefulSet \<times> bool) prog" where
  "getOrCreateStatefulSet lib pl ns = get_or_create (getExistingStatefulSet pl ns)
     (eval (st_Pvc (sp_Storage (sh_Spec (pl_SmbShare pl)))) (\<lambda>pvc.
      eval (buildStatefulSet pl (pvc_Name pvc) (sharedStatePVCName pl) ns) (\<lambda>ss.
      create_owned lib (pl_SmbShare pl) (\<lambda>m. ss\<lparr>ss_meta := m\<rparr>) OStatefulSet (ss_meta ss))))"

section \<open>Persistent volume claims\<close>

definition getExistingPVC :: "string \<Rightarrow> string \<Rightarrow> (gerror + PersistentVolumeClaim option) prog" where
  "getExistingPVC name ns = existing KPVC as_pvc (nsname ns name)"

text \<open>The spec is a pointer that the code dereferences when the claim is missing.\<close>

definition getOrCreateGenericPVC ::
  "kube_lib \<Rightarrow> SmbShare \<Rightarrow> PersistentVolumeClaimSpec option \<Rightarrow> string \<Rightarrow> string \<Rightarrow>
   (gerror + PersistentVolumeClaim \<times> bool) prog" where
  "getOrCreateGenericPVC lib s spec name ns = get_or_create (getExistingPVC name ns)
     (eval spec (\<lambda>sp.
      create_owned lib s (\<lambda>m. \<lparr>pvclaim_meta = m, pvclaim_Spec = sp\<rparr>) OPVC (new_meta name ns)))"

definition getOrCreateStatePVC :: "kube_lib \<Rightarrow> Planner \<Rightarrow> string \<Rightarrow> (gerror + PersistentVolumeClaim \<times> bool) prog" where
  "getOrCreateStatePVC lib pl ns =
     (case kl_ParseQuantity lib (oc_StatePVCSize (pl_GlobalConfig pl)) of
        Inl err \<Rightarrow> Ret (Inl err)
      | Inr squant \<Rightarrow> getOrCreateGenericPVC lib (pl_SmbShare pl)
          (Some \<lparr>pvcs_AccessModes = [''ReadWriteMany''], pvcs_Requests = mlit [(''storage'', squant)],
                 pvcs_other = ''''\<rparr>)
          (sharedStatePVCName pl) ns)"

definition getOrCreatePvc :: "kube_lib \<Rightarrow> SmbShare \<Rightarrow> string \<Rightarrow> (gerror + PersistentVolumeClaim \<times> bool) prog" where
  "getOrCreatePvc lib s ns =
     eval (pvcName s) (\<lambda>name.
     eval (st_Pvc (sp_Storage (sh_Spec s))) (\<lambda>pvc.
     getOrCreateGenericPVC lib s (pvc_Spec pvc) name ns))"

section \<open>Services and config maps\<close>

definition getOrCreateService :: "kube_lib \<Rightarrow> Planner \<Rightarrow> string \<Rightarrow> (gerror + Service \<times> bool) prog" where
  "getOrCreateService lib pl ns = get_or_create (existing KService as_service (nsname ns (InstanceName pl)))
     (eval (newServiceForSmb pl ns) (\<lambda>svc.
      create_owned lib (pl_SmbShare pl) (\<lambda>m. svc\<lparr>svc_meta := m\<rparr>) OService (svc_meta svc)))"

text \<open>The temporary planner is only used for the name of the instance.\<close>

definition share_planner :: "OperatorConfig \<Rightarrow> SmbShare \<Rightarrow> Planner" where
  "share_planner cfg s = \<lparr>pl_SmbShare = s, pl_SecurityConfig = None, pl_CommonConfig = None,
     pl_GlobalConfig = cfg, pl_ConfigState = None\<rparr>"

definition getOrCreateConfigMap :: "kube_lib \<Rightarrow> OperatorConfig \<Rightarrow> SmbShare \<Rightarrow> string \<Rightarrow> (gerror + ConfigMap \<times> bool) prog" where
  "getOrCreateConfigMap lib cfg s ns =
     (let pl = share_planner cfg s; cmKey = nsname ns (InstanceName pl)
      in get_or_create (existing KConfigMap as_configmap cmKey)
           (let cm = newDefaultConfigMap (nn_Name cmKey) (nn_Namespace cmKey)
            in create_owned lib (pl_SmbShare pl) (\<lambda>m. cm\<lparr>cm_meta := m\<rparr>) OConfigMap (cm_meta cm)))"

definition getConfigMap :: "OperatorConfig \<Rightarrow> SmbShare \<Rightarrow> string \<Rightarrow> (gerror + ConfigMap) prog" where
  "getConfigMap cfg s ns = get_as KConfigMap as_configmap (nsname ns (InstanceName (share_planner cfg s)))"

section \<open>The custom resources\<close>

definition getSecurityConfig :: "SmbShare \<Rightarrow> (gerror + SmbSecurityConfig option) prog" where
  "getSecurityConfig s =
     (if sp_SecurityConfig (sh_Spec s) = '''' then Ret (Inr None)
      else on_ok (get_as KSecurity as_security (nsname (m_Namespace (sh_meta s)) (sp_SecurityConfig (sh_Spec s))))
        (\<lambda>err. Ret (Inl err)) (\<lambda>sc. Ret (Inr (Some sc))))"

definition getCommonConfig :: "SmbShare \<Rightarrow> (gerror + SmbCommonConfig option) prog" where
  "getCommonConfig s =
     (if sp_CommonConfig (sh_Spec s) = '''' then Ret (Inr None)
      else on_ok (get_as KCommon as_common (nsname (m_Namespace (sh_meta s)) (sp_CommonConfig (sh_Spec s))))
        (\<lambda>err. Ret (Inl err)) (\<lambda>cc. Ret (Inr (Some cc))))"

definition getSmbShareByName :: "NamespacedName \<Rightarrow> (gerror + SmbShare) prog" where
  "getSmbShareByName name = get_as KShare as_share name"

definition getShareInstance :: "OperatorConfig \<Rightarrow> SmbShare \<Rightarrow> (gerror + InstanceConfiguration) prog" where
  "getShareInstance cfg s =
     on_ok (getSecurityConfig s) (\<lambda>err. Ret (Inl err)) (\<lambda>security.
     on_ok (getCommonConfig s) (\<lambda>err. Ret (Inl err)) (\<lambda>common.
     Ret (Inr \<lparr>ic_SmbShare = Some s, ic_SecurityConfig = security, ic_CommonConfig = common,
               ic_GlobalConfig = cfg\<rparr>)))"

section \<open>The stage contract\<close>

text \<open>A getter stops its caller when it fails or has created the object.\<close>

definition created_or_failed :: "gerror + 'a \<times> bool \<Rightarrow> bool" where
  "created_or_failed r = (case r of Inl _ \<Rightarrow> True | Inr (_, created) \<Rightarrow> created)"

lemma stage_on_ok:
  assumes "stage (\<lambda>_. False) p" "\<And>err. stage stop (e err)" "\<And>x. stage stop (f x)"
  shows "stage stop (on_ok p e f)"
  unfolding on_ok_def
  by (rule stage_andthen [OF assms(1)]) (auto split: sum.split intro: assms(2,3))

lemma stage_get_as [stage_intros]: "stage stop (get_as k proj nn)"
  by (simp add: get_as_def stage_Get stage_Ret)

lemma stage_existing [stage_intros]: "stage stop (existing k proj nn)"
  unfolding existing_def
  by (rule stage_andthen [OF stage_get_as, of "\<lambda>_. False"]) (auto split: sum.split intro: stage_intros)

lemma stage_get_or_create:
  assumes "stage (\<lambda>_. False) get" "stage (\<lambda>r. \<not> isl r) mk"
  shows "stage created_or_failed (get_or_create get mk)"
  unfolding get_or_create_def
proof (rule stage_on_ok [OF assms(1)])
  fix found :: "'a option"
  show "stage created_or_failed (case found of Some x \<Rightarrow> Ret (Inr (x, False))
    | None \<Rightarrow> on_ok mk (\<lambda>err. Ret (Inl err)) (\<lambda>x. Ret (Inr (x, True))))"
  proof (cases found)
    case None
    then show ?thesis unfolding on_ok_def
      by (auto intro!: stage_andthen [OF assms(2)] stage_intros split: sum.splits
          simp: created_or_failed_def)
  qed (simp add: stage_Ret)
qed (rule stage_Ret)

lemma stage_create_owned: "stage (\<lambda>r. \<not> isl r) (create_owned lib s f wrap m)"
  by (cases "kl_SetControllerReference lib (sh_meta s) m")
    (auto simp: create_owned_def on_ok_def api_write_def intro!: stage_Write stage_intros)

lemma stage_getters:
  "stage created_or_failed (getOrCreateDeployment lib cfg pl ns)"
  "stage created_or_failed (getOrCreateStatefulSet lib pl ns)"
  "stage created_or_failed (getOrCreateGenericPVC lib s spec name ns)"
  "stage created_or_failed (getOrCreateService lib pl ns)"
  "stage created_or_failed (getOrCreateConfigMap lib cfg s ns)"
  unfolding getOrCreateDeployment_def getOrCreateStatefulSet_def getOrCreateGenericPVC_def
    getOrCreateService_def getOrCreateConfigMap_def getExistingDeployment_def getExistingStatefulSet_def
    getExistingPVC_def Let_def
  by (intro stage_get_or_create stage_existing stage_eval stage_create_owned)+

lemma stage_pvc_getters:
  "stage created_or_failed (getOrCreateStatePVC lib pl ns)"
  "stage created_or_failed (getOrCreatePvc lib s ns)"
  unfolding getOrCreateStatePVC_def getOrCreatePvc_def
  by (auto split: sum.split intro!: stage_getters stage_Ret stage_eval)

lemma stage_readers:
  "stage a (getConfigMap cfg s ns)" "stage b (getSecurityConfig s)" "stage c (getCommonConfig s)"
  "stage d (getSmbShareByName name)" "stage e (getShareInstance cfg s)"
  unfolding getConfigMap_def getSecurityConfig_def getCommonConfig_def getSmbShareByName_def getShareInstance_def
  by (auto intro!: stage_on_ok stage_get_as stage_Ret simp: getSecurityConfig_def getCommonConfig_def)

end
