(* ===== verification/Openshift.thy ===== *)
theory Openshift
  imports Getters
begin

text \<open>
  \<open>internal/resources/openshift.go\<close> and the client part of \<open>metrics.go\<close>: what the operator
  adds on an OpenShift cluster. The operator configuration is one shared struct in which the
  manager caches the cluster type, so the programs here return it, and the share whose
  annotations they extend, along with their result.
\<close>

definition sambaSccRoleName :: string where
  "sambaSccRoleName = ''samba-scc-role''"

definition sambaSccRoleBindingName :: string where
  "sambaSccRoleBindingName = ''samba-scc-rolebinding''"

definition sambaMetricsRoleName :: string where
  "sambaMetricsRoleName = ''samba-metrics-role''"

definition sambaMetricsRoleBindingName :: string where
  "sambaMetricsRoleBindingName = ''samba-metrics-rolebinding''"

definition namespaceLabels :: "(string \<times> string) list" where
  "namespaceLabels =
     [(''openshift.io/cluster-monitoring'', ''true''),
      (''pod-security.kubernetes.io/enforce'', ''privileged''),
      (''pod-security.kubernetes.io/audit'', ''privileged''),
      (''pod-security.kubernetes.io/warn'', ''privileged''),
      (''security.openshift.io/scc.podSecurityLabelSync'', ''false'')]"

section \<open>Detecting the cluster type\<close>

definition getPod :: "NamespacedName \<Rightarrow> (gerror + Pod) prog" where
  "getPod podKey = get_as KPod as_pod podKey"

definition resolveClusterTypeByPod :: "NamespacedName \<Rightarrow> (gerror + string) prog" where
  "resolveClusterTypeByPod podKey =
     on_ok (getPod podKey) (\<lambda>err. Ret (Inl err)) (\<lambda>pod.
       Ret (Inr (if \<exists>(key, v) \<in> set (entries (m_Annotations (pod_meta pod))). contains key ClusterTypeOpenShift
                 then ClusterTypeOpenShift else ClusterTypeDefault)))"

definition IsOpenShiftCluster :: "OperatorConfig \<Rightarrow> bool prog" where
  "IsOpenShiftCluster cfg =
     andthen (resolveClusterTypeByPod (nsname (oc_PodNamespace cfg) (oc_PodName cfg)))
       (\<lambda>r. Ret (case r of Inl _ \<Rightarrow> False | Inr clusterType \<Rightarrow> clusterType = ClusterTypeOpenShift))"

definition updateClusterType :: "OperatorConfig \<Rightarrow> OperatorConfig prog" where
  "updateClusterType cfg =
     (if oc_ClusterType cfg = ''''
      then andthen (IsOpenShiftCluster cfg) (\<lambda>b.
        Ret (cfg\<lparr>oc_ClusterType := if b then ClusterTypeOpenShift else ClusterTypeDefault\<rparr>))
      else Ret cfg)"

section \<open>Get or create, with another get when someone else was faster\<close>

definition get_or_create_retry :: "(gerror + 'a) prog \<Rightarrow> ('a \<Rightarrow> kobj) \<Rightarrow> 'a \<Rightarrow> (gerror + 'a \<times> bool) prog" where
  "get_or_create_retry get wrap want =
     andthen get (\<lambda>r. case r of
       Inr cur \<Rightarrow> Ret (Inr (cur, False))
     | Inl err \<Rightarrow>
         if \<not> IsNotFound err then Ret (Inl err)
         else andthen (api_write (CCreate (wrap want))) (\<lambda>w. case w of
           Inr _ \<Rightarrow> Ret (Inr (want, True))
         | Inl err2 \<Rightarrow>
             if \<not> IsAlreadyExists err2 then Ret (Inl err2)
             else on_ok get (\<lambda>e. Ret (Inl e)) (\<lambda>cur. Ret (Inr (cur, False)))))"

section \<open>Namespace, service account, roles and bindings\<close>

definition hasNamespaceLabels :: "Namespace \<Rightarrow> bool" where
  "hasNamespaceLabels ns \<longleftrightarrow> (\<forall>(k, v) \<in> set namespaceLabels. mlookup (m_Labels (ns_meta ns)) k = Some v)"

fun add_labels :: "(string \<times> string) list \<Rightarrow> (string, string) gomap \<Rightarrow> (string, string) gomap option" where
  "add_labels [] m = Some m"
| "add_labels ((k, v) # kvs) m = do { m' \<leftarrow> mset k v m; add_labels kvs m' }"

definition addNamespaceLabels :: "Namespace \<Rightarrow> Namespace option" where
  "addNamespaceLabels ns = do {
     m \<leftarrow> add_labels namespaceLabels (m_Labels (ns_meta ns));
     Some (ns\<lparr>ns_meta := (ns_meta ns)\<lparr>m_Labels := m\<rparr>\<rparr>) }"

definition getNamespace :: "string \<Rightarrow> (gerror + Namespace) prog" where
  "getNamespace name = get_as KNamespace as_namespace (nsname '''' name)"

text \<open>The object written has the name and the labels of the namespace, and its spec.\<close>

definition getOrUpdateNamespaceOf :: "SmbShare \<Rightarrow> (gerror + Namespace \<times> bool) prog" where
  "getOrUpdateNamespaceOf s =
     on_ok (getNamespace (m_Namespace (sh_meta s))) (\<lambda>err. Ret (Inl err)) (\<lambda>nsCurr.
       if hasNamespaceLabels nsCurr then Ret (Inr (nsCurr, False))
       else let nsWant = \<lparr>ns_meta = (new_meta (m_Namespace (sh_meta s)) '''')\<lparr>m_Labels := m_Labels (ns_meta nsCurr)\<rparr>,
                          ns_Finalizers = ns_Finalizers nsCurr\<rparr>
            in eval (addNamespaceLabels nsWant) (\<lambda>nsWant'.
               on_ok (api_write (CUpdate (ONamespace nsWant'))) (\<lambda>err. Ret (Inl err))
                 (\<lambda>_. Ret (Inr (nsWant', True)))))"

definition serviceAccountNsname :: "SmbShare \<Rightarrow> NamespacedName" where
  "serviceAccountNsname s = nsname (m_Namespace (sh_meta s)) sambaServiceAccountName"

definition sccRoleNsnameOf :: "SmbShare \<Rightarrow> NamespacedName" where
  "sccRoleNsnameOf s = nsname (m_Namespace (sh_meta s)) sambaSccRoleName"

definition sccRoleBindingNsnameOf :: "SmbShare \<Rightarrow> NamespacedName" where
  "sccRoleBindingNsnameOf s = nsname (m_Namespace (sh_meta s)) sambaSccRoleBindingName"

definition metricsRoleNsnameOf :: "SmbShare \<Rightarrow> NamespacedName" where
  "metricsRoleNsnameOf s = nsname (m_Namespace (sh_meta s)) sambaMetricsRoleName"

definition metricsRoleBindingNsnameOf :: "SmbShare \<Rightarrow> NamespacedName" where
  "metricsRoleBindingNsnameOf s = nsname (m_Namespace (sh_meta s)) sambaMetricsRoleBindingName"

definition getServiceAccountOf :: "SmbShare \<Rightarrow> (gerror + ServiceAccount) prog" where
  "getServiceAccountOf s = get_as KServiceAccount as_serviceaccount (serviceAccountNsname s)"

definition meta_for :: "NamespacedName \<Rightarrow> ObjectMeta" where
  "meta_for key = new_meta (nn_Name key) (nn_Namespace key)"

definition getOrCreateServiceAccountOf :: "SmbShare \<Rightarrow> (gerror + ServiceAccount \<times> bool) prog" where
  "getOrCreateServiceAccountOf s = get_or_create_retry (getServiceAccountOf s) OServiceAccount
     \<lparr>sa_meta = meta_for (serviceAccountNsname s), sa_AutomountServiceAccountToken = Some True\<rparr>"

definition getSCCRoleOf :: "SmbShare \<Rightarrow> (gerror + Role) prog" where
  "getSCCRoleOf s = get_as KRole as_role (sccRoleNsnameOf s)"

definition getOrCreateSCCRoleOf :: "SmbShare \<Rightarrow> (gerror + Role \<times> bool) prog" where
  "getOrCreateSCCRoleOf s = get_or_create_retry (getSCCRoleOf s) ORole
     \<lparr>role_meta = meta_for (sccRoleNsnameOf s), role_Rules =
       [\<lparr>pr_APIGroups = [''security.openshift.io''], pr_Resources = [''securitycontextconstraints''],
         pr_ResourceNames = [sambaSccName], pr_Verbs = [''use'']\<rparr>,
        \<lparr>pr_APIGroups = [''''], pr_Resources = [''namespaces'', ''services'', ''pods''],
         pr_ResourceNames = [], pr_Verbs = [''get'', ''list'', ''watch'']\<rparr>]\<rparr>"

definition getSCCRoleBindingOf :: "SmbShare \<Rightarrow> (gerror + RoleBinding) prog" where
  "getSCCRoleBindingOf s = get_as KRoleBinding as_rolebinding (sccRoleBindingNsnameOf s)"

definition getOrCreateSCCRoleBindingOf ::
  "SmbShare \<Rightarrow> ServiceAccount \<Rightarrow> Role \<Rightarrow> (gerror + RoleBinding \<times> bool) prog" where
  "getOrCreateSCCRoleBindingOf s sa role = get_or_create_retry (getSCCRoleBindingOf s) ORoleBinding
     \<lparr>rb_meta = meta_for (sccRoleBindingNsnameOf s),
      rb_Subjects = [\<lparr>sub_Kind = ''ServiceAccount'', sub_Name = m_Name (sa_meta sa),
        sub_Namespace = m_Namespace (sa_meta sa)\<rparr>],
      rb_RoleRef = \<lparr>rr_Kind = ''Role'', rr_Name = m_Name (role_meta role)\<rparr>\<rparr>"

definition getMetricsRoleOf :: "SmbShare \<Rightarrow> (gerror + Role) prog" where
  "getMetricsRoleOf s = get_as KRole as_role (metricsRoleNsnameOf s)"

definition getOrCreateMetricsRoleOf :: "SmbShare \<Rightarrow> (gerror + Role \<times> bool) prog" where
  "getOrCreateMetricsRoleOf s = get_or_create_retry (getMetricsRoleOf s) ORole
     \<lparr>role_meta = meta_for (metricsRoleNsnameOf s), role_Rules =
       [\<lparr>pr_APIGroups = [''''], pr_Resources = [''services'', ''endpoints'', ''pods''],
         pr_ResourceNames = [], pr_Verbs = [''get'', ''list'', ''watch'']\<rparr>]\<rparr>"

definition getMetricsRoleBindingOf :: "SmbShare \<Rightarrow> (gerror + RoleBinding) prog" where
  "getMetricsRoleBindingOf s = get_as KRoleBinding as_rolebinding (metricsRoleBindingNsnameOf s)"

definition getOrCreateMetricsRoleBindingOf :: "SmbShare \<Rightarrow> Role \<Rightarrow> (gerror + RoleBinding \<times> bool) prog" where
  "getOrCreateMetricsRoleBindingOf s role = get_or_create_retry (getMetricsRoleBindingOf s) ORoleBinding
     \<lparr>rb_meta = meta_for (metricsRoleBindingNsnameOf s),
      rb_Subjects = [\<lparr>sub_Kind = ''ServiceAccount'', sub_Name = ''prometheus-k8s'',
        sub_Namespace = ''openshift-monitoring''\<rparr>],
      rb_RoleRef = \<lparr>rr_Kind = ''Role'', rr_Name = m_Name (role_meta role)\<rparr>\<rparr>"

section \<open>Update and finalize\<close>

definition requireAnnotationsOf :: "SmbShare \<Rightarrow> SmbShare" where
  "requireAnnotationsOf s = s\<lparr>sh_meta := (sh_meta s)\<lparr>m_Annotations :=
     Some (ins ''openshift.io/scc'' sambaSccName (entries (m_Annotations (sh_meta s))))\<rparr>\<rparr>"

text \<open>One step: stop with the error, ask for another pass after a change, else go on.\<close>

definition pass_step :: "(gerror + 'a \<times> bool) prog \<Rightarrow> (Result \<Rightarrow> 'b) \<Rightarrow> ('a \<Rightarrow> 'b prog) \<Rightarrow> 'b prog" where
  "pass_step p out next_step = on_ok p (\<lambda>err. Ret (out (ErrResult err)))
     (\<lambda>(x, changed). if changed then Ret (out Requeue) else next_step x)"

definition updateForOpenshift :: "OperatorConfig \<Rightarrow> SmbShare \<Rightarrow> (Result \<times> SmbShare \<times> OperatorConfig) prog" where
  "updateForOpenshift cfg0 s0 = andthen (updateClusterType cfg0) (\<lambda>cfg.
     if oc_ClusterType cfg \<noteq> ClusterTypeOpenShift then Ret (Done, s0, cfg)
     else let s = requireAnnotationsOf s0; out = (\<lambda>r. (r, s, cfg)) in
       pass_step (getOrUpdateNamespaceOf s) out (\<lambda>ns.
       pass_step (getOrCreateServiceAccountOf s) out (\<lambda>sa.
       pass_step (getOrCreateSCCRoleOf s) out (\<lambda>sccRole.
       pass_step (getOrCreateSCCRoleBindingOf s sa sccRole) out (\<lambda>sccRoleBind.
       pass_step (getOrCreateMetricsRoleOf s) out (\<lambda>metricsRole.
       pass_step (getOrCreateMetricsRoleBindingOf s metricsRole) out (\<lambda>metricsRoleBind.
       Ret (out Done))))))))"

text \<open>
  Deleting one object: a deletion asks for another pass; a missing object and, as in the
  code, any other error of the read let the finalization go on.
\<close>

definition finalize_one :: "(gerror + 'a) prog \<Rightarrow> ('a \<Rightarrow> kobj) \<Rightarrow> (Result \<Rightarrow> 'b) \<Rightarrow> 'b prog \<Rightarrow> 'b prog" where
  "finalize_one get wrap out next_step = andthen get (\<lambda>r. case r of
     Inr x \<Rightarrow> on_ok (api_write (CDelete (wrap x))) (\<lambda>err. Ret (out (ErrResult err))) (\<lambda>_. Ret (out Requeue))
   | Inl err \<Rightarrow> next_step)"

definition finalizeForOpenshift :: "OperatorConfig \<Rightarrow> SmbShare \<Rightarrow> (Result \<times> OperatorConfig) prog" where
  "finalizeForOpenshift cfg0 s = andthen (updateClusterType cfg0) (\<lambda>cfg.
     if oc_ClusterType cfg \<noteq> ClusterTypeOpenShift then Ret (Done, cfg)
     else let out = (\<lambda>r. (r, cfg)) in
       finalize_one (getMetricsRoleBindingOf s) ORoleBinding out
       (finalize_one (getMetricsRoleOf s) ORole out
       (finalize_one (getSCCRoleBindingOf s) ORoleBinding out
       (finalize_one (getSCCRoleOf s) ORole out
       (finalize_one (getServiceAccountOf s) OServiceAccount out
       (Ret (out Done)))))))"

text \<open>
  The objects \<open>finalizeForOpenshift\<close> deletes, in its order. Their names depend on the namespace
  of the share alone, so every share of a namespace has the same ones.
\<close>

definition access_keys :: "SmbShare \<Rightarrow> (okind \<times> NamespacedName) list" where
  "access_keys s = [(KRoleBinding, metricsRoleBindingNsnameOf s), (KRole, metricsRoleNsnameOf s),
     (KRoleBinding, sccRoleBindingNsnameOf s), (KRole, sccRoleNsnameOf s), (KServiceAccount, serviceAccountNsname s)]"

lemma access_keys_namespace: "m_Namespace (sh_meta s) = m_Namespace (sh_meta s') \<Longrightarrow> access_keys s = access_keys s'"
  by (simp add: access_keys_def metricsRoleBindingNsnameOf_def metricsRoleNsnameOf_def sccRoleBindingNsnameOf_def
      sccRoleNsnameOf_def serviceAccountNsname_def)

section \<open>Metrics service and monitor\<close>

definition metricsMonitorName :: "Planner \<Rightarrow> string" where
  "metricsMonitorName pl = InstanceName pl @ ''-metrics-monitor''"

definition getMetricsServiceOf :: "Planner \<Rightarrow> string \<Rightarrow> (gerror + Service) prog" where
  "getMetricsServiceOf pl ns = get_as KService as_service (nsname ns (metricsInstanceName pl))"

definition getOrCreateMetricsService :: "OperatorConfig \<Rightarrow> Planner \<Rightarrow> string \<Rightarrow> (gerror + Service option \<times> bool) prog" where
  "getOrCreateMetricsService cfg pl ns = andthen (IsOpenShiftCluster cfg) (\<lambda>b.
     if \<not> b then Ret (Inr (None, False))
     else on_ok (get_or_create_retry (getMetricsServiceOf pl ns) OService
           (newMetricsService pl (nsname ns (metricsInstanceName pl))))
       (\<lambda>err. Ret (Inl err)) (\<lambda>(svc, created). Ret (Inr (Some svc, created))))"

definition getMetricsServiceMonitorOf :: "Planner \<Rightarrow> string \<Rightarrow> (gerror + ServiceMonitor) prog" where
  "getMetricsServiceMonitorOf pl ns = get_as KServiceMonitor as_servicemonitor (nsname ns (metricsMonitorName pl))"

definition getOrCreateMetricsServiceMonitor ::
  "OperatorConfig \<Rightarrow> Planner \<Rightarrow> string \<Rightarrow> (gerror + ServiceMonitor option \<times> bool) prog" where
  "getOrCreateMetricsServiceMonitor cfg pl ns = andthen (IsOpenShiftCluster cfg) (\<lambda>b.
     if \<not> b then Ret (Inr (None, False))
     else on_ok (get_or_create_retry (getMetricsServiceMonitorOf pl ns) OServiceMonitor
           (newMetricsServiceMonitor pl (nsname ns (metricsMonitorName pl))))
       (\<lambda>err. Ret (Inl err)) (\<lambda>(sm, created). Ret (Inr (Some sm, created))))"

section \<open>The stage contract\<close>

lemma stage_get_or_create_retry:
  assumes "\<And>stop. stage stop get"
  shows "stage created_or_failed (get_or_create_retry get wrap want)"
  unfolding get_or_create_retry_def on_ok_def api_write_def andthen.simps
  by (rule stage_andthen [OF assms, of "\<lambda>_. False"])
    (auto split: sum.split intro!: stage_intros stage_Write stage_andthen [OF assms, of "\<lambda>_. False"]
      simp: created_or_failed_def)

lemma stage_openshift_getters:
  "stage created_or_failed (getOrCreateServiceAccountOf s)"
  "stage created_or_failed (getOrCreateSCCRoleOf s)"
  "stage created_or_failed (getOrCreateSCCRoleBindingOf s sa role)"
  "stage created_or_failed (getOrCreateMetricsRoleOf s)"
  "stage created_or_failed (getOrCreateMetricsRoleBindingOf s role)"
  unfolding getOrCreateServiceAccountOf_def getOrCreateSCCRoleOf_def getOrCreateSCCRoleBindingOf_def
    getOrCreateMetricsRoleOf_def getOrCreateMetricsRoleBindingOf_def getServiceAccountOf_def
    getSCCRoleOf_def getSCCRoleBindingOf_def getMetricsRoleOf_def getMetricsRoleBindingOf_def
  by (rule stage_get_or_create_retry stage_get_as)+

lemma stage_getOrUpdateNamespaceOf: "stage created_or_failed (getOrUpdateNamespaceOf s)"
  unfolding getOrUpdateNamespaceOf_def getNamespace_def
  by (rule stage_on_ok)
    (auto intro!: stage_intros stage_Write simp: Let_def on_ok_def api_write_def created_or_failed_def)

lemma stage_IsOpenShiftCluster: "stage stop (IsOpenShiftCluster cfg)"
  unfolding IsOpenShiftCluster_def resolveClusterTypeByPod_def getPod_def
  by (rule stage_andthen [of "\<lambda>_. False"]) (auto intro!: stage_on_ok stage_intros)

lemma stage_updateClusterType: "stage stop (updateClusterType cfg)"
  unfolding updateClusterType_def
  by (auto intro!: stage_andthen [OF stage_IsOpenShiftCluster, of "\<lambda>_. False"] stage_Ret)

lemma stage_pass_step:
  assumes "stage created_or_failed p" "\<And>r. Yield r \<Longrightarrow> stop (out r)" "\<And>x. stage stop (next_step x)"
  shows "stage stop (pass_step p out next_step)"
  unfolding pass_step_def on_ok_def
  by (rule stage_andthen [OF assms(1)])
    (auto split: sum.splits intro!: stage_Ret silent_Ret assms(2,3) simp: created_or_failed_def)

lemma stage_updateForOpenshift: "stage (\<lambda>r. Yield (fst r)) (updateForOpenshift cfg s)"
  unfolding updateForOpenshift_def
  by (rule stage_andthen [OF stage_updateClusterType, of "\<lambda>_. False"])
    (auto simp: Let_def intro!: stage_pass_step stage_getOrUpdateNamespaceOf stage_openshift_getters stage_Ret)

lemma stage_finalize_one:
  assumes "\<And>stop. stage stop get" "\<And>r. Yield r \<Longrightarrow> stop (out r)" "stage stop next_step"
  shows "stage stop (finalize_one get wrap out next_step)"
  unfolding finalize_one_def on_ok_def api_write_def andthen.simps
  by (rule stage_andthen [OF assms(1), of "\<lambda>_. False"])
    (auto split: sum.split intro!: stage_Write stage_Ret silent_Ret assms)

lemma stage_finalizeForOpenshift: "stage (\<lambda>r. Yield (fst r)) (finalizeForOpenshift cfg s)"
  unfolding finalizeForOpenshift_def
  by (rule stage_andthen [OF stage_updateClusterType, of "\<lambda>_. False"])
    (auto simp: Let_def getServiceAccountOf_def getSCCRoleOf_def getSCCRoleBindingOf_def getMetricsRoleOf_def
      getMetricsRoleBindingOf_def intro!: stage_finalize_one stage_get_as stage_Ret)

lemma stage_metrics:
  "stage created_or_failed (getOrCreateMetricsService cfg pl ns)"
  "stage created_or_failed (getOrCreateMetricsServiceMonitor cfg pl ns)"
proof -
  have ret: "stage created_or_failed (on_ok (get_or_create_retry get wrap want)
      (\<lambda>err. Ret (Inl err)) (\<lambda>(x, created). Ret (Inr (Some x, created))))"
    if "\<And>stop. stage stop get" for get and wrap :: "'a \<Rightarrow> kobj" and want
    unfolding on_ok_def
    by (rule stage_andthen [OF stage_get_or_create_retry [OF that]])
      (auto split: sum.splits intro!: stage_Ret silent_Ret simp: created_or_failed_def)
  show "stage created_or_failed (getOrCreateMetricsService cfg pl ns)"
    unfolding getOrCreateMetricsService_def
    by (rule stage_andthen [OF stage_IsOpenShiftCluster, of "\<lambda>_. False"])
      (auto intro!: ret stage_Ret simp: getMetricsServiceOf_def stage_get_as)
  show "stage created_or_failed (getOrCreateMetricsServiceMonitor cfg pl ns)"
    unfolding getOrCreateMetricsServiceMonitor_def
    by (rule stage_andthen [OF stage_IsOpenShiftCluster, of "\<lambda>_. False"])
      (auto intro!: ret stage_Ret simp: getMetricsServiceMonitorOf_def stage_get_as)
qed

end
