(* ===== verification/Ownership.thy ===== *)
theory Ownership
  imports KubeLib
begin

text \<open>
  \<open>internal/resources/ownership.go\<close>: the owner references of an object that point to
  SmbShares. The functions take the metadata of the object.
\<close>

fun share_refs_loop :: "kube_lib \<Rightarrow> OwnerReference list \<Rightarrow> OwnerReference list \<Rightarrow> gerror + OwnerReference list" where
  "share_refs_loop lib [] found = Inr found"
| "share_refs_loop lib (ref # refs) found =
     (case kl_ParseGroupVersion lib (or_APIVersion ref) of
        Inl err \<Rightarrow> Inl err
      | Inr refgv \<Rightarrow>
          if gv_Group refgv = gv_Group api_GroupVersion \<and> or_Kind ref = ''SmbShare''
          then share_refs_loop lib refs (found @ [ref])
          else share_refs_loop lib refs found)"

definition smbShareOwnerRefs :: "kube_lib \<Rightarrow> ObjectMeta \<Rightarrow> gerror + OwnerReference list" where
  "smbShareOwnerRefs lib obj = share_refs_loop lib (m_OwnerReferences obj) []"

definition ownerRefsToNames :: "OwnerReference list \<Rightarrow> string \<Rightarrow> NamespacedName list" where
  "ownerRefsToNames refs ns = map (\<lambda>ref. \<lparr>nn_Namespace = ns, nn_Name = or_Name ref\<rparr>) refs"

definition excludeOwnerRefs :: "OwnerReference list \<Rightarrow> string \<Rightarrow> string \<Rightarrow> OwnerReference list" where
  "excludeOwnerRefs refs name uid = filter (\<lambda>ref. or_Name ref \<noteq> name \<or> or_UID ref \<noteq> uid) refs"

definition ownerSharesExcluding :: "kube_lib \<Rightarrow> ObjectMeta \<Rightarrow> SmbShare \<Rightarrow> gerror + NamespacedName list" where
  "ownerSharesExcluding lib obj s =
     (case smbShareOwnerRefs lib obj of
        Inl err \<Rightarrow> Inl err
      | Inr refs \<Rightarrow>
          Inr (ownerRefsToNames (excludeOwnerRefs refs (m_Name (sh_meta s)) (m_UID (sh_meta s)))
                 (m_Namespace (sh_meta s))))"

definition same_owner :: "OwnerReference \<Rightarrow> OwnerReference \<Rightarrow> bool" where
  "same_owner a b = (or_Name a = or_Name b \<and> or_UID a = or_UID b)"

definition changeControllerOwnerTo :: "ObjectMeta \<Rightarrow> OwnerReference \<Rightarrow> ObjectMeta" where
  "changeControllerOwnerTo obj target = obj\<lparr>m_OwnerReferences :=
     map (\<lambda>ref. if same_owner ref target
                then ref\<lparr>or_Controller := Some True, or_BlockOwnerDeletion := Some True\<rparr>
                else ref\<lparr>or_Controller := None, or_BlockOwnerDeletion := None\<rparr>) (m_OwnerReferences obj)\<rparr>"

section \<open>Properties\<close>

definition is_controller :: "OwnerReference \<Rightarrow> bool" where
  "is_controller ref \<longleftrightarrow> or_Controller ref = Some True"

definition share_ref :: "kube_lib \<Rightarrow> OwnerReference \<Rightarrow> bool" where
  "share_ref lib ref \<longleftrightarrow> (\<exists>gv. kl_ParseGroupVersion lib (or_APIVersion ref) = Inr gv \<and>
     gv_Group gv = gv_Group api_GroupVersion \<and> or_Kind ref = ''SmbShare'')"

lemma share_refs_loop_filter:
  "(\<And>ref. ref \<in> set refs \<Longrightarrow> isl (kl_ParseGroupVersion lib (or_APIVersion ref)) = False) \<Longrightarrow>
   share_refs_loop lib refs found = Inr (found @ filter (share_ref lib) refs)"
proof (induction refs arbitrary: found)
  case (Cons ref refs)
  obtain gv where "kl_ParseGroupVersion lib (or_APIVersion ref) = Inr gv"
    using Cons.prems [of ref] by (cases "kl_ParseGroupVersion lib (or_APIVersion ref)") auto
  then show ?case using Cons by (simp add: share_ref_def)
qed simp

lemma share_refs_loop_error:
  "share_refs_loop lib refs found = Inr out \<Longrightarrow> out = found @ filter (share_ref lib) refs"
proof (induction refs arbitrary: found)
  case (Cons ref refs)
  then obtain gv where "kl_ParseGroupVersion lib (or_APIVersion ref) = Inr gv"
    by (auto split: sum.splits)
  then show ?case
    using Cons.prems Cons.IH [of found] Cons.IH [of "found @ [ref]"]
    by (auto simp: share_ref_def split: if_splits)
qed simp

lemma smbShareOwnerRefs_filter:
  "smbShareOwnerRefs lib obj = Inr refs \<Longrightarrow> refs = filter (share_ref lib) (m_OwnerReferences obj)"
  using share_refs_loop_error by (fastforce simp: smbShareOwnerRefs_def)

text \<open>
  C31. Handing an object over changes nothing but the two controller flags: the owners stay,
  in their order; when exactly one reference has the new owner's name and UID, it is the
  one and only controlling owner afterwards; and doing it twice is doing it once.
\<close>

theorem changeControllerOwnerTo_unique:
  assumes "target \<in> set (m_OwnerReferences obj)"
    and "length (filter (\<lambda>r. same_owner r target) (m_OwnerReferences obj)) = 1"
  defines "obj' \<equiv> changeControllerOwnerTo obj target"
  shows "map or_UID (m_OwnerReferences obj') = map or_UID (m_OwnerReferences obj) \<and>
    map or_Name (m_OwnerReferences obj') = map or_Name (m_OwnerReferences obj) \<and>
    map or_Name (filter is_controller (m_OwnerReferences obj')) = [or_Name target] \<and>
    map or_UID (filter is_controller (m_OwnerReferences obj')) = [or_UID target] \<and>
    changeControllerOwnerTo obj' target = obj' \<and> obj'\<lparr>m_OwnerReferences := []\<rparr> = obj\<lparr>m_OwnerReferences := []\<rparr>"
proof -
  let ?f = "\<lambda>ref. if same_owner ref target
      then ref\<lparr>or_Controller := Some True, or_BlockOwnerDeletion := Some True\<rparr>
      else ref\<lparr>or_Controller := None, or_BlockOwnerDeletion := None\<rparr>"
  have same: "same_owner (?f r) target = same_owner r target" for r by (simp add: same_owner_def)
  have idem: "?f (?f r) = ?f r" for r using same [of r] by simp
  have ctl: "is_controller (?f r) = same_owner r target" for r by (simp add: is_controller_def)
  have "map or_Name (filter is_controller (map ?f rs)) = map or_Name (filter (\<lambda>r. same_owner r target) rs)"
    "map or_UID (filter is_controller (map ?f rs)) = map or_UID (filter (\<lambda>r. same_owner r target) rs)" for rs
    by (induction rs) (auto simp: ctl)
  moreover obtain r where r: "filter (\<lambda>r. same_owner r target) (m_OwnerReferences obj) = [r]"
    using assms(2) by (metis One_nat_def length_0_conv length_Suc_conv)
  moreover have "same_owner r target" using r by (auto simp: filter_eq_Cons_iff)
  ultimately have "map or_Name (filter is_controller (map ?f (m_OwnerReferences obj))) = [or_Name target]"
    "map or_UID (filter is_controller (map ?f (m_OwnerReferences obj))) = [or_UID target]"
    by (simp_all add: same_owner_def)
  moreover have "map ?f (map ?f rs) = map ?f rs" for rs using idem by simp
  ultimately show ?thesis
    unfolding obj'_def changeControllerOwnerTo_def by (simp add: comp_def)
qed

definition demo_ref :: "string \<Rightarrow> string \<Rightarrow> bool option \<Rightarrow> OwnerReference" where
  "demo_ref name uid ctl = \<lparr>or_APIVersion = ''samba-operator.samba.org/v1alpha1'', or_Kind = ''SmbShare'',
     or_Name = name, or_UID = uid, or_Controller = ctl, or_BlockOwnerDeletion = ctl\<rparr>"

definition demo_owned :: ObjectMeta where
  "demo_owned = (new_meta ''cm'' ''ns1'')\<lparr>m_OwnerReferences :=
     [demo_ref ''a'' ''1'' (Some True), demo_ref ''b'' ''2'' None]\<rparr>"

lemma changeControllerOwnerTo_unique_witness:
  "map or_Name (filter is_controller
     (m_OwnerReferences (changeControllerOwnerTo demo_owned (demo_ref ''b'' ''2'' None)))) = [''b'']"
  using changeControllerOwnerTo_unique [of "demo_ref ''b'' ''2'' None" demo_owned]
  by (simp add: demo_owned_def same_owner_def demo_ref_def)

end
