(* ===== verification/ShareManager.thy ===== *)
theory ShareManager
  imports Openshift Ownership ConfigurationTheorems
begin

text \<open>
  \<open>internal/resources/smbshare.go\<close>: the manager of SmbShare resources. Every method is one
  program over the API calls, in the order of the code. The fields of the manager are
  arguments: the library \<open>lib\<close> (client helpers and scheme) and the operator configuration
  \<open>cfg\<close>. The share a method mutates through its pointer is returned along with the result,
  and so is the configuration, in which the cluster type is cached.
\<close>

definition shareFinalizer :: string where
  "shareFinalizer = ''samba-operator.samba.org/shareFinalizer''"

definition serverBackend :: string where
  "serverBackend = ''samba-operator.samba.org/serverBackend''"

definition clusteredBackend :: string where
  "clusteredBackend = ''clustered:ctdb/statefulset''"

definition standardBackend :: string where
  "standardBackend = ''standard:deployment''"

section \<open>Ownership\<close>

fun owned_by :: "kube_lib \<Rightarrow> GroupVersionKind \<Rightarrow> string \<Rightarrow> OwnerReference list \<Rightarrow> gerror + bool" where
  "owned_by lib gvk name [] = Inr False"
| "owned_by lib gvk name (ref # refs) =
     (case kl_ParseGroupVersion lib (or_APIVersion ref) of
        Inl err \<Rightarrow> Inl err
      | Inr refgv \<Rightarrow>
          if gvk_Group gvk = gv_Group refgv \<and> gvk_Kind gvk = or_Kind ref \<and> name = or_Name ref
          then Inr True else owned_by lib gvk name refs)"

definition claim_ref :: "kube_lib \<Rightarrow> GroupVersionKind \<Rightarrow> SmbShare \<Rightarrow> OwnerReference" where
  "claim_ref lib gvk s = \<lparr>or_APIVersion = kl_GroupVersionString lib gvk, or_Kind = gvk_Kind gvk,
     or_Name = m_Name (sh_meta s), or_UID = m_UID (sh_meta s), or_Controller = None,
     or_BlockOwnerDeletion = None\<rparr>"

definition claimOwnership :: "kube_lib \<Rightarrow> SmbShare \<Rightarrow> kobj \<Rightarrow> (gerror + bool) prog" where
  "claimOwnership lib s obj =
     (case kl_GVKForObject lib KShare of
        Inl err \<Rightarrow> Ret (Inl err)
      | Inr gvk \<Rightarrow>
          (let refs = m_OwnerReferences (kmeta obj) in
           case owned_by lib gvk (m_Name (sh_meta s)) refs of
             Inl err \<Rightarrow> Ret (Inl err)
           | Inr True \<Rightarrow> Ret (Inr False)
           | Inr False \<Rightarrow>
               on_ok (api_write (CUpdate (map_kmeta (m_OwnerReferences_update
                        (\<lambda>_. refs @ [claim_ref lib gvk s])) obj)))
                 (\<lambda>err. Ret (Inl err)) (\<lambda>_. Ret (Inr True))))"

text \<open>The loop over the remaining owners: the first that exists and is not being deleted.\<close>

fun choose_owner :: "string \<Rightarrow> OwnerReference list \<Rightarrow> (gerror + OwnerReference option) prog" where
  "choose_owner ns [] = Ret (Inr None)"
| "choose_owner ns (ref # refs) =
     andthen (getSmbShareByName (nsname ns (or_Name ref))) (\<lambda>r. case r of
       Inl err \<Rightarrow> if IsNotFound err then choose_owner ns refs else Ret (Inl err)
     | Inr s \<Rightarrow> if m_DeletionTimestamp (sh_meta s) = None then Ret (Inr (Some ref))
                else choose_owner ns refs)"

definition transferOwnership :: "kube_lib \<Rightarrow> kobj \<Rightarrow> SmbShare \<Rightarrow> Result prog" where
  "transferOwnership lib obj previous =
     (case smbShareOwnerRefs lib (kmeta obj) of
        Inl err \<Rightarrow> Ret (ErrResult err)
      | Inr refs0 \<Rightarrow>
          (let refs = excludeOwnerRefs refs0 (m_Name (sh_meta previous)) (m_UID (sh_meta previous)) in
           if refs = [] then Ret Done
           else if \<exists>ref \<in> set refs. or_Controller ref = Some True then Ret Done
           else on_ok (choose_owner (m_Namespace (kmeta obj)) refs) (\<lambda>err. Ret (ErrResult err)) (\<lambda>chosen.
             case chosen of
               None \<Rightarrow> Ret Done
             | Some ref \<Rightarrow>
                 if or_Name ref = '''' then Ret Done
                 else on_ok (api_write (CUpdate (map_kmeta (\<lambda>m. changeControllerOwnerTo m ref) obj)))
                   (\<lambda>err. Ret (ErrResult err)) (\<lambda>_. Ret Requeue))))"

section \<open>Finalizer and server group\<close>

definition addFinalizer :: "kube_lib \<Rightarrow> SmbShare \<Rightarrow> (gerror + bool) prog" where
  "addFinalizer lib s =
     (if kl_ContainsFinalizer lib (m_Finalizers (sh_meta s)) shareFinalizer then Ret (Inr False)
      else on_ok (api_write (CUpdate (OShare (s\<lparr>sh_meta := (sh_meta s)
               \<lparr>m_Finalizers := kl_AddFinalizer lib (m_Finalizers (sh_meta s)) shareFinalizer\<rparr>\<rparr>))))
        (\<lambda>err. Ret (Inl err)) (\<lambda>_. Ret (Inr True)))"

definition quoted :: "string \<Rightarrow> string" where
  "quoted s = CHR 0x27 # s @ [CHR 0x27]"

text \<open>The group name that a share asks for, or the message of the warning event.\<close>

definition requested_group :: "SmbShare \<Rightarrow> string + string" where
  "requested_group s =
     (let (mode, reqGroupName) = (case sp_Scaling (sh_Spec s) of
            None \<Rightarrow> (GroupModeNever, '''')
          | Some sc \<Rightarrow> (scal_GroupMode sc, scal_Group sc)) in
      if mode = GroupModeNever \<or> mode = GroupModeUnset then
        (if reqGroupName \<noteq> '''' then Inl (''a group name may not be specified when groupMode is '' @ quoted ''never'')
         else Inr (m_Name (sh_meta s)))
      else if mode = GroupModeExplicit then
        (if reqGroupName = '''' then Inl (''a group name is required when groupMode is '' @ quoted ''explicit'')
         else Inr reqGroupName)
      else Inl ''invalid group mode'')"

definition set_group :: "string \<Rightarrow> SmbShare \<Rightarrow> SmbShare" where
  "set_group g s = s\<lparr>sh_Status := (sh_Status s)\<lparr>sst_ServerGroup := g\<rparr>\<rparr>"

definition setServerGroup :: "SmbShare \<Rightarrow> (gerror + bool) prog" where
  "setServerGroup s =
     (if sst_ServerGroup (sh_Status s) \<noteq> '''' then Ret (Inr False)
      else case requested_group s of
        Inl msg \<Rightarrow> andthen (emit (nsname_of (sh_meta s)) EventWarning ReasonInvalidConfiguration msg)
          (\<lambda>_. Ret (Inl (ErrorMsg msg)))
      | Inr serverGroup \<Rightarrow>
          on_ok (api_write (CStatusUpdate (OShare (set_group serverGroup s))))
            (\<lambda>err. Ret (Inl err)) (\<lambda>_. Ret (Inr True)))"

section \<open>The configuration in the config map\<close>

text \<open>\<open>setContainerConfig\<close> and the update of the config map that follows it.\<close>

definition store_config :: "ConfigMap \<Rightarrow> SambaContainerConfig \<Rightarrow> (gerror \<Rightarrow> 'b prog) \<Rightarrow> 'b prog \<Rightarrow> 'b prog" where
  "store_config cm cc fail ok =
     eval (setContainerConfig cm cc) (\<lambda>cm'. on_ok (api_write (CUpdate (OConfigMap cm'))) fail (\<lambda>_. ok))"

text \<open>The sanity checks for a server group with more than one share.\<close>

definition check_group ::
  "OperatorConfig \<Rightarrow> SmbShare \<Rightarrow> InstanceConfiguration \<Rightarrow> NamespacedName list \<Rightarrow> (gerror + unit) prog" where
  "check_group cfg s shareInstance otherShares =
     (case otherShares of
        [] \<Rightarrow> Ret (Inr ())
      | first # _ \<Rightarrow>
          on_ok (getSmbShareByName first) (\<lambda>err. Ret (Inl err)) (\<lambda>other.
          on_ok (getShareInstance cfg other) (\<lambda>err. Ret (Inl err)) (\<lambda>otherInstance.
          eval (CheckCompatible shareInstance otherInstance) (\<lambda>r. case r of
            Inr _ \<Rightarrow> Ret (Inr ())
          | Inl e \<Rightarrow> andthen (emit (nsname_of (sh_meta s)) EventWarning ReasonInvalidConfiguration (iie_Error e))
              (\<lambda>_. Ret (Inl (IncompatibleError e)))))))"

definition updateConfiguration ::
  "kube_lib \<Rightarrow> OperatorConfig \<Rightarrow> ConfigMap \<Rightarrow> SmbShare \<Rightarrow> (gerror + Planner \<times> bool) prog" where
  "updateConfiguration lib cfg cm s =
     (case getContainerConfig cm of
        Inl err \<Rightarrow> Ret (Inl err)
      | Inr cc \<Rightarrow> (case ownerSharesExcluding lib (cm_meta cm) s of
          Inl err \<Rightarrow> Ret (Inl err)
        | Inr otherShares \<Rightarrow>
            if m_DeletionTimestamp (sh_meta s) \<noteq> None
            then Ret (Inl (ErrorMsg (''updateConfiguration called for deleted SmbShare: '' @ m_Name (sh_meta s))))
            else
              on_ok (getShareInstance cfg s) (\<lambda>err. Ret (Inl err)) (\<lambda>shareInstance.
              on_ok (check_group cfg s shareInstance otherShares) (\<lambda>err. Ret (Inl err)) (\<lambda>_.
              eval (New shareInstance (Some cc)) (\<lambda>planner.
              eval (Update planner) (\<lambda>(changed, cc').
                let planner' = planner\<lparr>pl_ConfigState := Some cc'\<rparr> in
                if \<not> changed then Ret (Inr (planner', False))
                else store_config cm cc' (\<lambda>err. Ret (Inl err)) (Ret (Inr (planner', True)))))))))"

definition pruneConfiguration :: "OperatorConfig \<Rightarrow> ConfigMap \<Rightarrow> SmbShare \<Rightarrow> (gerror + bool) prog" where
  "pruneConfiguration cfg cm s =
     (case getContainerConfig cm of
        Inl err \<Rightarrow> Ret (Inl err)
      | Inr cc \<Rightarrow>
          if m_DeletionTimestamp (sh_meta s) = None
          then Ret (Inl (ErrorMsg (''pruneConfiguration called for SmbShare not being deleted: '' @ m_Name (sh_meta s))))
          else
            eval (New \<lparr>ic_SmbShare = Some s, ic_SecurityConfig = None, ic_CommonConfig = None,
                       ic_GlobalConfig = cfg\<rparr> (Some cc)) (\<lambda>planner.
            eval (Prune planner) (\<lambda>(changed, cc').
              if \<not> changed then Ret (Inr False)
              else store_config cm cc' (\<lambda>err. Ret (Inl err)) (Ret (Inr True)))))"

section \<open>Stages of an update\<close>

text \<open>A stage that has created or changed something, or failed, ends the pass.\<close>

definition created_step ::
  "(gerror + 'a \<times> bool) prog \<Rightarrow> ('a \<Rightarrow> Result prog) \<Rightarrow> ('a \<Rightarrow> Result prog) \<Rightarrow> Result prog" where
  "created_step p made next_step = on_ok p (\<lambda>err. Ret (ErrResult err))
     (\<lambda>(x, created). if created then made x else next_step x)"

definition changed_step :: "(gerror + bool) prog \<Rightarrow> Result prog \<Rightarrow> Result prog" where
  "changed_step p next_step = on_ok p (\<lambda>err. Ret (ErrResult err))
     (\<lambda>changed. if changed then Ret Requeue else next_step)"

definition updateConfigMap :: "kube_lib \<Rightarrow> OperatorConfig \<Rightarrow> SmbShare \<Rightarrow> (Planner option \<times> Result) prog" where
  "updateConfigMap lib cfg s =
     on_ok (getOrCreateConfigMap lib cfg s (m_Namespace (sh_meta s))) (\<lambda>err. Ret (None, ErrResult err))
     (\<lambda>(cm, created). if created then Ret (None, Requeue) else
     on_ok (claimOwnership lib s (OConfigMap cm)) (\<lambda>err. Ret (None, ErrResult err))
     (\<lambda>changed. if changed then Ret (None, Requeue) else
     on_ok (updateConfiguration lib cfg cm s) (\<lambda>err. Ret (None, ErrResult err))
     (\<lambda>(planner, changed). if changed then Ret (None, Requeue) else Ret (Some planner, Done))))"

definition set_pvc_name :: "string \<Rightarrow> SmbShare \<Rightarrow> SmbShare option" where
  "set_pvc_name name s = do {
     pvc \<leftarrow> st_Pvc (sp_Storage (sh_Spec s));
     Some (s\<lparr>sh_Spec := (sh_Spec s)\<lparr>sp_Storage := (sp_Storage (sh_Spec s))
              \<lparr>st_Pvc := Some (pvc\<lparr>pvc_Name := name\<rparr>)\<rparr>\<rparr>\<rparr>) }"

definition shareNeedsPvc :: "SmbShare \<Rightarrow> bool" where
  "shareNeedsPvc s =
     (case st_Pvc (sp_Storage (sh_Spec s)) of None \<Rightarrow> False | Some pvc \<Rightarrow> pvc_Spec pvc \<noteq> None)"

text \<open>The share is returned with the name of the claim that was found filled in.\<close>

definition updatePVC :: "kube_lib \<Rightarrow> SmbShare \<Rightarrow> (SmbShare \<times> Result) prog" where
  "updatePVC lib s =
     on_ok (getOrCreatePvc lib s (m_Namespace (sh_meta s))) (\<lambda>err. Ret (s, ErrResult err))
     (\<lambda>(pvc, created).
        if created
        then andthen (emit (nsname_of (sh_meta s)) EventNormal ReasonCreatedPersistentVolumeClaim
               (''Created PVC '' @ m_Name (pvclaim_meta pvc) @ '' for SmbShare'')) (\<lambda>_. Ret (s, Requeue))
        else eval (set_pvc_name (m_Name (pvclaim_meta pvc)) s) (\<lambda>s'. Ret (s', Done)))"

definition backend_of :: "Planner \<Rightarrow> string" where
  "backend_of pl = (if IsClustered pl then clusteredBackend else standardBackend)"

definition updateBackend :: "Planner \<Rightarrow> Result prog" where
  "updateBackend pl =
     (let s = pl_SmbShare pl;
          s' = s\<lparr>sh_meta := (sh_meta s)\<lparr>m_Annotations :=
                  Some (ins serverBackend (backend_of pl) (entries (m_Annotations (sh_meta s))))\<rparr>\<rparr>
      in on_ok (api_write (CUpdate (OShare s'))) (\<lambda>err. Ret (ErrResult err)) (\<lambda>_. Ret Requeue))"

definition validateBackend :: "Planner \<Rightarrow> Result" where
  "validateBackend pl =
     (let b = mget (m_Annotations (sh_meta (pl_SmbShare pl))) serverBackend in
      if IsClustered pl \<and> b \<noteq> clusteredBackend
      then ErrResult (ErrorMsg (''Can not convert SmbShare to clustered instance. Current backend: '' @ b))
      else if \<not> IsClustered pl \<and> b \<noteq> standardBackend
      then ErrResult (ErrorMsg (''Can not convert SmbShare to non-clustered instance. Current backend: '' @ b))
      else Done)"

definition updateStatefulSetSize :: "StatefulSet \<Rightarrow> goint32 \<Rightarrow> (gerror + bool) prog" where
  "updateStatefulSetSize ss want =
     eval (ss_Replicas ss) (\<lambda>replicas.
       if sint replicas < sint want
       then on_ok (api_write (CUpdate (OStatefulSet (ss\<lparr>ss_Replicas := Some want\<rparr>))))
              (\<lambda>err. Ret (Inl err)) (\<lambda>_. Ret (Inr True))
       else Ret (Inr False))"

definition updateDeploymentSize :: "Deployment \<Rightarrow> (gerror + bool) prog" where
  "updateDeploymentSize dep =
     eval (dep_Replicas dep) (\<lambda>replicas.
       if replicas \<noteq> 1
       then on_ok (api_write (CUpdate (ODeployment (dep\<lparr>dep_Replicas := Some 1\<rparr>))))
              (\<lambda>err. Ret (Inl err)) (\<lambda>_. Ret (Inr True))
       else Ret (Inr False))"

definition created_event :: "Planner \<Rightarrow> string \<Rightarrow> string \<Rightarrow> Result prog" where
  "created_event pl reason msg =
     andthen (emit (nsname_of (sh_meta (pl_SmbShare pl))) EventNormal reason msg) (\<lambda>_. Ret Requeue)"

text \<open>The spec's scaling section is a pointer, dereferenced for the minimal cluster size.\<close>

definition updateClusteredState :: "kube_lib \<Rightarrow> Planner \<Rightarrow> Result prog" where
  "updateClusteredState lib pl =
     (let s = pl_SmbShare pl; ns = m_Namespace (sh_meta s) in
      if \<not> MayCluster pl
      then Ret (ErrResult (ErrorMsg
        (''CTDB clustering not enabled in ClusterSupport: '' @ oc_ClusterSupport (pl_GlobalConfig pl))))
      else
        created_step (getOrCreateStatePVC lib pl ns) (\<lambda>_. Ret Requeue) (\<lambda>_.
        created_step (getOrCreateStatefulSet lib pl ns)
          (\<lambda>ss. created_event pl ReasonCreatedStatefulSet
             (''Created stateful set '' @ m_Name (ss_meta ss) @ '' for SmbShare'')) (\<lambda>ss.
        changed_step (claimOwnership lib s (OStatefulSet ss))
        (eval (sp_Scaling (sh_Spec s)) (\<lambda>scaling.
         changed_step (updateStatefulSetSize ss (int32_of_int (scal_MinClusterSize scaling))) (Ret Done))))))"

definition updateNonClusteredState :: "kube_lib \<Rightarrow> OperatorConfig \<Rightarrow> Planner \<Rightarrow> Result prog" where
  "updateNonClusteredState lib cfg pl =
     (let s = pl_SmbShare pl; ns = m_Namespace (sh_meta s) in
      created_step (getOrCreateDeployment lib cfg pl ns)
        (\<lambda>dep. created_event pl ReasonCreatedDeployment
           (''Created deployment '' @ m_Name (dep_meta dep) @ '' for SmbShare'')) (\<lambda>dep.
      changed_step (claimOwnership lib s (ODeployment dep))
      (changed_step (updateDeploymentSize dep) (Ret Done))))"

definition updateSmbService :: "kube_lib \<Rightarrow> Planner \<Rightarrow> Result prog" where
  "updateSmbService lib pl =
     (let s = pl_SmbShare pl in
      created_step (getOrCreateService lib pl (m_Namespace (sh_meta s))) (\<lambda>_. Ret Requeue) (\<lambda>svc.
      changed_step (claimOwnership lib s (OService svc)) (Ret Done)))"

definition updateMetricsService :: "OperatorConfig \<Rightarrow> Planner \<Rightarrow> Result prog" where
  "updateMetricsService cfg pl =
     created_step (getOrCreateMetricsService cfg pl (m_Namespace (sh_meta (pl_SmbShare pl))))
       (\<lambda>_. Ret Requeue) (\<lambda>_. Ret Done)"

definition updateMetricsServiceMonitor :: "OperatorConfig \<Rightarrow> Planner \<Rightarrow> Result prog" where
  "updateMetricsServiceMonitor cfg pl =
     created_step (getOrCreateMetricsServiceMonitor cfg pl (m_Namespace (sh_meta (pl_SmbShare pl))))
       (\<lambda>_. Ret Requeue) (\<lambda>_. Ret Done)"

section \<open>\<open>Update\<close>\<close>

text \<open>\<open>if result := ...; result.Yield() { return result }\<close>\<close>

definition unless_yield :: "Result prog \<Rightarrow> (Result \<Rightarrow> 'b) \<Rightarrow> 'b prog \<Rightarrow> 'b prog" where
  "unless_yield p out next_step = andthen p (\<lambda>r. if Yield r then Ret (out r) else next_step)"

text \<open>The stages on the resources of the server group, once the planner exists.\<close>

definition update_resources :: "kube_lib \<Rightarrow> OperatorConfig \<Rightarrow> Planner \<Rightarrow> Result prog" where
  "update_resources lib cfg pl =
     unless_yield
       (if mget (m_Annotations (sh_meta (pl_SmbShare pl))) serverBackend = ''''
        then updateBackend pl else Ret (validateBackend pl)) id
     (unless_yield
       (if IsClustered pl then updateClusteredState lib pl else updateNonClusteredState lib cfg pl) id
     (unless_yield (updateSmbService lib pl) id
     (unless_yield (updateMetricsService cfg pl) id
     (unless_yield (updateMetricsServiceMonitor cfg pl) id
     (Ret Done)))))"

text \<open>The planner points to the same share, so a filled in claim name is seen by it too.\<close>

definition share_Update :: "kube_lib \<Rightarrow> OperatorConfig \<Rightarrow> SmbShare \<Rightarrow> (Result \<times> OperatorConfig) prog" where
  "share_Update lib cfg0 s0 =
     on_ok (addFinalizer lib s0) (\<lambda>err. Ret (ErrResult err, cfg0)) (\<lambda>added.
     if added then Ret (Requeue, cfg0) else
     andthen (updateForOpenshift cfg0 s0) (\<lambda>(r1, s, cfg).
     if Yield r1 then Ret (r1, cfg) else
     on_ok (setServerGroup s) (\<lambda>err. Ret (ErrResult err, cfg)) (\<lambda>assigned.
     if assigned then Ret (Requeue, cfg) else
     andthen (updateConfigMap lib cfg s) (\<lambda>(planner, r2).
     if Yield r2 then Ret (r2, cfg) else
     eval planner (\<lambda>pl.
     andthen (if shareNeedsPvc s then updatePVC lib s else Ret (s, Done)) (\<lambda>(s', r3).
     if Yield r3 then Ret (r3, cfg) else
     andthen (update_resources lib cfg (pl\<lparr>pl_SmbShare := s'\<rparr>)) (\<lambda>r. Ret (r, cfg))))))))"

section \<open>\<open>Finalize\<close>\<close>

definition finalizeConfigMap :: "kube_lib \<Rightarrow> OperatorConfig \<Rightarrow> SmbShare \<Rightarrow> Result prog" where
  "finalizeConfigMap lib cfg s =
     andthen (getConfigMap cfg s (m_Namespace (sh_meta s))) (\<lambda>r. case r of
       Inr cm \<Rightarrow>
         unless_yield (transferOwnership lib (OConfigMap cm) s) id
         (changed_step (pruneConfiguration cfg cm s) (Ret Done))
     | Inl err \<Rightarrow> if \<not> IsNotFound err then Ret (ErrResult err) else Ret Done)"

definition transfer_existing ::
  "kube_lib \<Rightarrow> SmbShare \<Rightarrow> ('a \<Rightarrow> kobj) \<Rightarrow> (gerror + 'a option) prog \<Rightarrow> Result prog \<Rightarrow> Result prog" where
  "transfer_existing lib s wrap get next_step =
     on_ok get (\<lambda>err. Ret (ErrResult err)) (\<lambda>found. case found of
       None \<Rightarrow> next_step
     | Some x \<Rightarrow> unless_yield (transferOwnership lib (wrap x) s) id next_step)"

definition finalizeServerResources :: "kube_lib \<Rightarrow> OperatorConfig \<Rightarrow> SmbShare \<Rightarrow> Result prog" where
  "finalizeServerResources lib cfg s =
     (let ns = m_Namespace (sh_meta s); pl = share_planner cfg s in
      if IsClustered pl
      then transfer_existing lib s OStatefulSet (getExistingStatefulSet pl ns)
             (transfer_existing lib s OPVC (getExistingPVC (sharedStatePVCName pl) ns) (Ret Done))
      else transfer_existing lib s ODeployment (getExistingDeployment pl ns) (Ret Done))"

definition finalizeDataPVC :: "kube_lib \<Rightarrow> SmbShare \<Rightarrow> Result prog" where
  "finalizeDataPVC lib s =
     eval (pvcName s) (\<lambda>name.
       transfer_existing lib s OPVC (getExistingPVC name (m_Namespace (sh_meta s))) (Ret Done))"

definition remove_finalizer :: "kube_lib \<Rightarrow> SmbShare \<Rightarrow> SmbShare" where
  "remove_finalizer lib s = s\<lparr>sh_meta := (sh_meta s)
     \<lparr>m_Finalizers := kl_RemoveFinalizer lib (m_Finalizers (sh_meta s)) shareFinalizer\<rparr>\<rparr>"

definition share_Finalize :: "kube_lib \<Rightarrow> OperatorConfig \<Rightarrow> SmbShare \<Rightarrow> (Result \<times> OperatorConfig) prog" where
  "share_Finalize lib cfg0 s =
     unless_yield (finalizeConfigMap lib cfg0 s) (\<lambda>r. (r, cfg0))
     (unless_yield (finalizeServerResources lib cfg0 s) (\<lambda>r. (r, cfg0))
     (andthen (finalizeForOpenshift cfg0 s) (\<lambda>(r1, cfg).
      if Yield r1 then Ret (r1, cfg) else
      unless_yield (if shareNeedsPvc s then finalizeDataPVC lib s else Ret Done) (\<lambda>r. (r, cfg))
      (on_ok (api_write (CUpdate (OShare (remove_finalizer lib s))))
        (\<lambda>err. Ret (ErrResult err, cfg)) (\<lambda>_. Ret (Done, cfg))))))"

section \<open>\<open>Process\<close>\<close>

definition Process :: "kube_lib \<Rightarrow> OperatorConfig \<Rightarrow> NamespacedName \<Rightarrow> (Result \<times> OperatorConfig) prog" where
  "Process lib cfg nn =
     andthen (getSmbShareByName nn) (\<lambda>r. case r of
       Inl err \<Rightarrow> if IsNotFound err then Ret (Done, cfg) else Ret (ErrResult err, cfg)
     | Inr s \<Rightarrow>
         if m_DeletionTimestamp (sh_meta s) \<noteq> None
         then if kl_ContainsFinalizer lib (m_Finalizers (sh_meta s)) shareFinalizer
              then share_Finalize lib cfg s else Ret (Done, cfg)
         else share_Update lib cfg s)"

end
