(* ===== verification/ShareStages.thy ===== *)
theory ShareStages
  imports ShareManager
begin

text \<open>
  Every stage of the share manager meets the contract of \<open>Stages\<close>, whatever the API server
  answers: one pass of \<open>Process\<close> changes at most one object, and nothing but events follows
  the change. The stages of an update end the pass when they have changed something.
\<close>

section \<open>Rules\<close>

lemma silent_stage:
  assumes "silent stop p"
  shows "stage stop p"
proof
  fix rs tr out
  assume "replay p rs = (tr, out)"
  then have "\<forall>e \<in> set tr. is_event (fst e)" using assms by (auto simp: silent_def)
  then show "one_shot tr" using one_shot_events [of "[]" tr] by simp
next
  fix rs tr x
  assume "replay p rs = (tr, Returned x)"
  then have "\<forall>e \<in> set tr. is_event (fst e)" using assms unfolding silent_def by blast
  then show "quiet tr" by (rule events_quiet)
qed

lemma stage_bind:
  assumes "stage sp p" "\<And>x. \<not> sp x \<Longrightarrow> stage sq (f x)" "\<And>x. sp x \<Longrightarrow> silent sq (f x)"
  shows "stage sq (andthen p f)"
  using assms silent_stage by (blast intro: stage_andthen)

lemma stage_check:
  assumes "stage sp p" "\<And>err. silent stop (e err)" "\<And>x. \<not> sp (Inr x) \<Longrightarrow> stage stop (f x)"
    and "\<And>x. sp (Inr x) \<Longrightarrow> silent stop (f x)"
  shows "stage stop (on_ok p e f)"
  unfolding on_ok_def
  by (rule stage_bind [OF assms(1)]) (auto split: sum.splits intro: assms(2-4) silent_stage)

lemma stage_change:
  assumes "\<And>err. silent stop (e err)" "\<And>x. silent stop (f x)"
  shows "stage stop (on_ok (api_write c) e f)"
  unfolding on_ok_def api_write_def andthen.simps
  by (rule stage_Write) (auto intro!: silent_stage assms)

definition changed_or_failed :: "gerror + bool \<Rightarrow> bool" where
  "changed_or_failed r = (case r of Inl _ \<Rightarrow> True | Inr changed \<Rightarrow> changed)"

lemma changed_or_failed_simps [simp]: "changed_or_failed (Inl e)" "changed_or_failed (Inr b) = b"
  by (simp_all add: changed_or_failed_def)

lemma created_or_failed_simps [simp]: "created_or_failed (Inl e)" "created_or_failed (Inr (x, b)) = b"
  by (simp_all add: created_or_failed_def)

lemma stage_weaken: "stage sp p \<Longrightarrow> (\<And>x. sp x \<Longrightarrow> sq x) \<Longrightarrow> stage sq p"
  unfolding stage_def by blast

lemma stage_created_step:
  assumes "stage created_or_failed p" "\<And>x. silent Yield (made x)" "\<And>x. stage Yield (next_step x)"
  shows "stage Yield (created_step p made next_step)"
  unfolding created_step_def
  by (rule stage_check [OF assms(1)]) (auto intro!: silent_Ret assms(2,3))

lemma stage_changed_step:
  assumes "stage changed_or_failed p" "stage Yield next_step"
  shows "stage Yield (changed_step p next_step)"
  unfolding changed_step_def
  by (rule stage_check [OF assms(1)]) (auto intro!: silent_Ret assms(2))

lemma stage_unless_yield:
  assumes "stage Yield p" "\<And>r. Yield r \<Longrightarrow> stop (out r)" "stage stop next_step"
  shows "stage stop (unless_yield p out next_step)"
  unfolding unless_yield_def
  by (rule stage_bind [OF assms(1)]) (auto intro!: silent_Ret assms(2,3))

section \<open>Single operations\<close>

lemma stage_claimOwnership: "stage changed_or_failed (claimOwnership lib s obj)"
  unfolding claimOwnership_def Let_def
  by (auto split: sum.splits bool.splits intro!: stage_Ret stage_change silent_Ret)

lemma stage_choose_owner: "stage stop (choose_owner ns refs)"
proof (induction refs)
  case (Cons ref refs)
  show ?case unfolding choose_owner.simps
    by (rule stage_bind [of "\<lambda>_. False", OF stage_readers(4)])
      (auto split: sum.splits intro!: stage_Ret Cons.IH)
qed (simp add: stage_Ret)

lemma stage_transferOwnership: "stage Yield (transferOwnership lib obj s)"
  unfolding transferOwnership_def Let_def
  by (auto split: sum.splits option.splits intro!: stage_Ret stage_change silent_Ret
      stage_check [of "\<lambda>_. False", OF stage_choose_owner])

lemma stage_addFinalizer: "stage changed_or_failed (addFinalizer lib s)"
  unfolding addFinalizer_def by (auto intro!: stage_Ret stage_change silent_Ret)

lemma stage_setServerGroup: "stage changed_or_failed (setServerGroup s)"
  unfolding setServerGroup_def
  by (auto split: sum.splits intro!: stage_Ret stage_change silent_Ret stage_emit)

lemma stage_store_config:
  assumes "\<And>err. silent stop (fail err)" "silent stop ok"
  shows "stage stop (store_config cm cc fail ok)"
  unfolding store_config_def by (intro stage_eval stage_change assms)

lemma stage_check_group: "stage stop (check_group cfg s si others)"
  unfolding check_group_def
  by (auto split: list.splits sum.splits intro!: stage_Ret stage_on_ok stage_readers stage_eval stage_emit)

lemma stage_updateConfiguration: "stage created_or_failed (updateConfiguration lib cfg cm s)"
  unfolding updateConfiguration_def Let_def
  by (auto split: sum.splits intro!: stage_Ret stage_eval stage_on_ok stage_readers stage_check_group
      stage_store_config silent_Ret)

lemma stage_pruneConfiguration: "stage changed_or_failed (pruneConfiguration cfg cm s)"
  unfolding pruneConfiguration_def
  by (auto split: sum.splits intro!: stage_Ret stage_eval stage_store_config silent_Ret)

lemma stage_sizes:
  "stage changed_or_failed (updateStatefulSetSize ss n)"
  "stage changed_or_failed (updateDeploymentSize dep)"
  unfolding updateStatefulSetSize_def updateDeploymentSize_def
  by (auto intro!: stage_eval stage_Ret stage_change silent_Ret)

section \<open>The stages of an update\<close>

lemma stage_updateConfigMap: "stage (\<lambda>r. Yield (snd r)) (updateConfigMap lib cfg s)"
  unfolding updateConfigMap_def
  by (rule stage_check [OF stage_getters(5)])
    (auto intro!: silent_Ret stage_Ret stage_check [OF stage_claimOwnership] stage_check [OF stage_updateConfiguration])

lemma stage_updatePVC: "stage (\<lambda>r. Yield (snd r)) (updatePVC lib s)"
  unfolding updatePVC_def
  by (rule stage_check [OF stage_pvc_getters(2)])
    (auto intro!: silent_Ret stage_Ret stage_eval silent_emit)

lemma stage_updateBackend: "stage Yield (updateBackend pl)"
  unfolding updateBackend_def Let_def by (auto intro!: stage_change silent_Ret)

lemma silent_created_event: "silent Yield (created_event pl reason msg)"
  unfolding created_event_def by (auto intro!: silent_emit silent_Ret)

lemma stage_updateClusteredState: "stage Yield (updateClusteredState lib pl)"
  unfolding updateClusteredState_def Let_def
  by (auto intro!: stage_Ret silent_Ret stage_created_step stage_changed_step stage_eval stage_getters
      stage_pvc_getters stage_claimOwnership stage_sizes silent_created_event)

lemma stage_updateNonClusteredState: "stage Yield (updateNonClusteredState lib cfg pl)"
  unfolding updateNonClusteredState_def Let_def
  by (auto intro!: stage_Ret stage_created_step stage_changed_step stage_getters
      stage_claimOwnership stage_sizes silent_created_event)

lemma stage_services:
  "stage Yield (updateSmbService lib pl)"
  "stage Yield (updateMetricsService cfg pl)"
  "stage Yield (updateMetricsServiceMonitor cfg pl)"
  unfolding updateSmbService_def updateMetricsService_def updateMetricsServiceMonitor_def Let_def
  by (auto intro!: stage_Ret silent_Ret stage_created_step stage_changed_step stage_getters stage_metrics
      stage_claimOwnership)

lemma stage_update_resources: "stage Yield (update_resources lib cfg pl)"
  unfolding update_resources_def
  by (auto intro!: stage_unless_yield stage_Ret stage_updateBackend stage_updateClusteredState
      stage_updateNonClusteredState stage_services)

lemma stage_share_Update: "stage (\<lambda>r. Yield (fst r)) (share_Update lib cfg s)"
proof -
  define go where "go c x pl = andthen (if shareNeedsPvc x then updatePVC lib x else Ret (x, Done)) (\<lambda>(x', r3).
    if Yield r3 then Ret (r3, c) else
    andthen (update_resources lib c (pl\<lparr>pl_SmbShare := x'\<rparr>)) (\<lambda>r. Ret (r, c)))" for c x pl
  have pvc: "stage (\<lambda>r. Yield (snd r)) (if b then updatePVC lib x else Ret (x, Done))" for b x
    by (simp add: stage_updatePVC stage_Ret)
  have resources: "stage (\<lambda>r. Yield (fst r)) (andthen (update_resources lib c pl) (\<lambda>r. Ret (r, c)))" for c pl
    by (rule stage_bind [OF stage_update_resources]) (auto intro!: stage_Ret silent_Ret)
  have go: "stage (\<lambda>r. Yield (fst r)) (go c x pl)" for c x pl
    unfolding go_def by (rule stage_bind [OF pvc]) (auto intro!: stage_Ret silent_Ret resources)
  show ?thesis unfolding share_Update_def go_def [symmetric]
    by (rule stage_check [OF stage_addFinalizer])
      (auto intro!: silent_Ret stage_Ret go stage_eval stage_bind [OF stage_updateForOpenshift]
        stage_check [OF stage_setServerGroup] stage_bind [OF stage_updateConfigMap])
qed

section \<open>Finalization\<close>

lemma stage_finalizeConfigMap: "stage Yield (finalizeConfigMap lib cfg s)"
  unfolding finalizeConfigMap_def
  by (rule stage_bind [of "\<lambda>_. False", OF stage_readers(1)])
    (auto split: sum.splits intro!: stage_Ret stage_unless_yield stage_transferOwnership stage_changed_step
      stage_pruneConfiguration)

lemma stage_transfer_existing:
  assumes "\<And>stop. stage stop get" "stage Yield next_step"
  shows "stage Yield (transfer_existing lib s wrap get next_step)"
  unfolding transfer_existing_def
  by (rule stage_on_ok [OF assms(1)])
    (auto split: option.splits intro!: stage_Ret assms(2) stage_unless_yield stage_transferOwnership)

lemma stage_finalizers:
  "stage Yield (finalizeServerResources lib cfg s)" "stage Yield (finalizeDataPVC lib s)"
  unfolding finalizeServerResources_def finalizeDataPVC_def Let_def getExistingStatefulSet_def
    getExistingDeployment_def getExistingPVC_def
  by (auto intro!: stage_transfer_existing stage_existing stage_Ret stage_eval)

lemma stage_share_Finalize: "stage (\<lambda>_. True) (share_Finalize lib cfg s)"
proof -
  have "stage Yield (if b then finalizeDataPVC lib s else Ret Done)" for b
    by (simp add: stage_finalizers stage_Ret)
  then show ?thesis unfolding share_Finalize_def
    by (auto intro!: stage_unless_yield stage_finalizeConfigMap stage_finalizers stage_change silent_Ret
        stage_Ret stage_bind [OF stage_finalizeForOpenshift])
qed

lemma stage_Process: "stage (\<lambda>_. True) (Process lib cfg nn)"
  unfolding Process_def
  by (rule stage_bind [of "\<lambda>_. False", OF stage_readers(4)])
    (auto split: sum.splits intro!: stage_Ret stage_share_Finalize stage_weaken [OF stage_share_Update])

interpretation process: stage "\<lambda>_. True" "Process lib cfg nn" for lib cfg nn
  by (rule stage_Process)

interpretation share_update: stage "\<lambda>r. Yield (fst r)" "share_Update lib cfg s" for lib cfg s
  by (rule stage_share_Update)

end
