(* ===== verification/ConfSource.thy ===== *)
theory ConfSource
  imports Conf
begin

text \<open>
  How the operator's configuration is read: \<open>Source\<close> of \<open>internal/conf/config.go\<close> and the
  global configuration of \<open>global.go\<close>. The settings are kept by viper and the flags by
  pflag, whose code is not in the repository: their functions are a record that the
  definitions take as an argument, and what they are documented to do is the locale
  \<open>viper_laws\<close>, which a concrete instance satisfies.
\<close>

section \<open>The libraries\<close>

datatype read_error = ConfigFileNotFoundError | ConfigFileError string

text \<open>\<open>'v\<close> is a viper, \<open>'f\<close> a set of flags, \<open>'x\<close> a setting of any type.\<close>

record ('v, 'f, 'x) viper_lib =
  vl_New :: 'v
  vl_SetDefault :: "string \<Rightarrow> 'x \<Rightarrow> 'v \<Rightarrow> 'v"
  vl_AllKeys :: "'v \<Rightarrow> string list"
  vl_AddConfigPath :: "string \<Rightarrow> 'v \<Rightarrow> 'v"
  vl_SetConfigName :: "string \<Rightarrow> 'v \<Rightarrow> 'v"
  vl_ReadInConfig :: "'v \<Rightarrow> read_error option \<times> 'v"
  vl_SetEnvPrefix :: "string \<Rightarrow> 'v \<Rightarrow> 'v"
  vl_SetEnvKeyReplacer :: "(string \<Rightarrow> string) \<Rightarrow> 'v \<Rightarrow> 'v"
  vl_AutomaticEnv :: "'v \<Rightarrow> 'v"
  vl_BindPFlags :: "'f \<Rightarrow> 'v \<Rightarrow> string option \<times> 'v"
  vl_Get :: "'v \<Rightarrow> string \<Rightarrow> 'x option"
  vl_string :: "string \<Rightarrow> 'x"
  vl_int :: "goint \<Rightarrow> 'x"
  vl_to_string :: "'x \<Rightarrow> string + string"
  vl_to_int :: "'x \<Rightarrow> string + goint"
  vl_NewFlagSet :: "string \<Rightarrow> 'f"
  vl_FlagString :: "string \<Rightarrow> string \<Rightarrow> string \<Rightarrow> 'f \<Rightarrow> 'f"

section \<open>The source\<close>

record ('v, 'f) Source =
  so_v :: 'v
  so_fset :: "'f option"

datatype setting = SetStr string | SetInt goint

fun to_setting :: "('v, 'f, 'x) viper_lib \<Rightarrow> setting \<Rightarrow> 'x" where
  "to_setting lib (SetStr s) = vl_string lib s"
| "to_setting lib (SetInt i) = vl_int lib i"

text \<open>The calls of \<open>SetDefault\<close> in \<open>NewSource\<close>.\<close>

definition defaults_of :: "OperatorConfig \<Rightarrow> (string \<times> setting) list" where
  "defaults_of d =
     [(''smbd-container-image'', SetStr (oc_SmbdContainerImage d)),
      (''smbd-metrics-container-image'', SetStr (oc_SmbdMetricsContainerImage d)),
      (''smbd-container-name'', SetStr (oc_SmbdContainerName d)),
      (''winbind-container-name'', SetStr (oc_WinbindContainerName d)),
      (''working-namespace'', SetStr (oc_WorkingNamespace d)),
      (''svc-watch-container-image'', SetStr (oc_SvcWatchContainerImage d)),
      (''samba-debug-level'', SetStr (oc_SambaDebugLevel d)),
      (''state-pvc-size'', SetStr (oc_StatePVCSize d)),
      (''cluster-support'', SetStr (oc_ClusterSupport d)),
      (''smb-service-port'', SetInt (oc_SmbServicePort d)),
      (''smbd-port'', SetInt (oc_SmbdPort d)),
      (''service-account-name'', SetStr (oc_ServiceAccountName d)),
      (''metrics-exporter-mode'', SetStr (oc_MetricsExporterMode d)),
      (''pod-name'', SetStr (oc_PodName d)),
      (''pod-namespace'', SetStr (oc_PodNamespace d)),
      (''pod-ip'', SetStr (oc_PodIP d)),
      (''image-pull-policy'', SetStr (oc_ImagePullPolicy d)),
      (''default-node-selector'', SetStr (oc_DefaultNodeSelector d)),
      (''cluster-type'', SetStr (oc_ClusterType d))]"

definition NewSource :: "('v, 'f, 'x) viper_lib \<Rightarrow> ('v, 'f) Source" where
  "NewSource lib = \<lparr>so_v = fold (\<lambda>(k, x). vl_SetDefault lib k (to_setting lib x)) (defaults_of DefaultOperatorConfig) (vl_New lib),
     so_fset = None\<rparr>"

text \<open>The keys are lower-case words with dashes, for which \<open>%q\<close> adds the quotes only.\<close>

definition flag_usage :: "string \<Rightarrow> string" where
  "flag_usage k = ''Specify the '' @ CHR 0x22 # k @ CHR 0x22 # '' configuration parameter''"

definition Flags :: "('v, 'f, 'x) viper_lib \<Rightarrow> ('v, 'f) Source \<Rightarrow> 'f \<times> ('v, 'f) Source" where
  "Flags lib s = (case so_fset s of
     Some f \<Rightarrow> (f, s)
   | None \<Rightarrow> (let f = fold (\<lambda>k. vl_FlagString lib k '''' (flag_usage k)) (vl_AllKeys lib (so_v s)) (vl_NewFlagSet lib ''conf'')
       in (f, s\<lparr>so_fset := Some f\<rparr>)))"

section \<open>Decoding the settings\<close>

text \<open>
  The fields of the configuration with their \<open>mapstructure\<close> tags; a field whose tag is no key
  of the viper keeps the zero value it has in \<open>&OperatorConfig{}\<close>.
\<close>

datatype conf_field =
    StrField string "OperatorConfig \<Rightarrow> string" "string \<Rightarrow> OperatorConfig \<Rightarrow> OperatorConfig"
  | IntField string "OperatorConfig \<Rightarrow> goint" "goint \<Rightarrow> OperatorConfig \<Rightarrow> OperatorConfig"

fun field_tag :: "conf_field \<Rightarrow> string" where
  "field_tag (StrField k _ _) = k"
| "field_tag (IntField k _ _) = k"

definition config_fields :: "conf_field list" where
  "config_fields =
     [StrField ''smbd-container-image'' oc_SmbdContainerImage (\<lambda>x. oc_SmbdContainerImage_update (\<lambda>_. x)),
      StrField ''smbd-metrics-container-image'' oc_SmbdMetricsContainerImage (\<lambda>x. oc_SmbdMetricsContainerImage_update (\<lambda>_. x)),
      StrField ''svc-watch-container-image'' oc_SvcWatchContainerImage (\<lambda>x. oc_SvcWatchContainerImage_update (\<lambda>_. x)),
      StrField ''smbd-container-name'' oc_SmbdContainerName (\<lambda>x. oc_SmbdContainerName_update (\<lambda>_. x)),
      StrField ''winbind-container-name'' oc_WinbindContainerName (\<lambda>x. oc_WinbindContainerName_update (\<lambda>_. x)),
      StrField ''working-namespace'' oc_WorkingNamespace (\<lambda>x. oc_WorkingNamespace_update (\<lambda>_. x)),
      StrField ''samba-debug-level'' oc_SambaDebugLevel (\<lambda>x. oc_SambaDebugLevel_update (\<lambda>_. x)),
      StrField ''state-pvc-size'' oc_StatePVCSize (\<lambda>x. oc_StatePVCSize_update (\<lambda>_. x)),
      StrField ''cluster-support'' oc_ClusterSupport (\<lambda>x. oc_ClusterSupport_update (\<lambda>_. x)),
      IntField ''smb-service-port'' oc_SmbServicePort (\<lambda>x. oc_SmbServicePort_update (\<lambda>_. x)),
      IntField ''smbd-port'' oc_SmbdPort (\<lambda>x. oc_SmbdPort_update (\<lambda>_. x)),
      StrField ''service-account-name'' oc_ServiceAccountName (\<lambda>x. oc_ServiceAccountName_update (\<lambda>_. x)),
      StrField ''metrics-exporter-mode'' oc_MetricsExporterMode (\<lambda>x. oc_MetricsExporterMode_update (\<lambda>_. x)),
      StrField ''pod-name'' oc_PodName (\<lambda>x. oc_PodName_update (\<lambda>_. x)),
      StrField ''pod-namespace'' oc_PodNamespace (\<lambda>x. oc_PodNamespace_update (\<lambda>_. x)),
      StrField ''pod-ip'' oc_PodIP (\<lambda>x. oc_PodIP_update (\<lambda>_. x)),
      StrField ''image-pull-policy'' oc_ImagePullPolicy (\<lambda>x. oc_ImagePullPolicy_update (\<lambda>_. x)),
      StrField ''default-node-selector'' oc_DefaultNodeSelector (\<lambda>x. oc_DefaultNodeSelector_update (\<lambda>_. x)),
      StrField ''cluster-type'' oc_ClusterType (\<lambda>x. oc_ClusterType_update (\<lambda>_. x))]"

definition zero_config :: OperatorConfig where
  "zero_config = \<lparr>oc_SmbdContainerImage = '''', oc_SmbdMetricsContainerImage = '''', oc_SvcWatchContainerImage = '''',
     oc_SmbdContainerName = '''', oc_WinbindContainerName = '''', oc_WorkingNamespace = '''', oc_SambaDebugLevel = '''',
     oc_StatePVCSize = '''', oc_ClusterSupport = '''', oc_SmbServicePort = 0, oc_SmbdPort = 0, oc_ServiceAccountName = '''',
     oc_MetricsExporterMode = '''', oc_PodName = '''', oc_PodNamespace = '''', oc_PodIP = '''', oc_ImagePullPolicy = '''',
     oc_DefaultNodeSelector = '''', oc_ClusterType = ''''\<rparr>"

fun set_field :: "('v, 'f, 'x) viper_lib \<Rightarrow> conf_field \<Rightarrow> 'x \<Rightarrow> OperatorConfig \<Rightarrow> string + OperatorConfig" where
  "set_field lib (StrField _ _ set_to) x c = map_sum id (\<lambda>s. set_to s c) (vl_to_string lib x)"
| "set_field lib (IntField _ _ set_to) x c = map_sum id (\<lambda>i. set_to i c) (vl_to_int lib x)"

fun unmarshal_fields :: "('v, 'f, 'x) viper_lib \<Rightarrow> 'v \<Rightarrow> conf_field list \<Rightarrow> OperatorConfig \<Rightarrow> string + OperatorConfig" where
  "unmarshal_fields lib v [] c = Inr c"
| "unmarshal_fields lib v (f # fs) c =
     (case (if field_tag f \<in> set (vl_AllKeys lib v) then vl_Get lib v (field_tag f) else None) of
        None \<Rightarrow> unmarshal_fields lib v fs c
      | Some x \<Rightarrow> (case set_field lib f x c of Inl err \<Rightarrow> Inl err | Inr c' \<Rightarrow> unmarshal_fields lib v fs c'))"

section \<open>Reading\<close>

text \<open>\<open>strings.NewReplacer(old, new)\<close> for strings of one byte.\<close>

definition replace_char :: "char \<Rightarrow> char \<Rightarrow> string \<Rightarrow> string" where
  "replace_char old new = map (\<lambda>c. if c = old then new else c)"

definition Source_Read :: "('v, 'f, 'x) viper_lib \<Rightarrow> ('v, 'f) Source \<Rightarrow> (string + OperatorConfig) \<times> ('v, 'f) Source" where
  "Source_Read lib s =
     (let v1 = vl_SetConfigName lib ''samba-operator'' (vl_AddConfigPath lib ''.'' (vl_AddConfigPath lib ''/etc/samba-operator'' (so_v s)))
      in case vl_ReadInConfig lib v1 of
        (Some (ConfigFileError err), v2) \<Rightarrow> (Inl err, s\<lparr>so_v := v2\<rparr>)
      | (_, v2) \<Rightarrow>
          (let v3 = vl_AutomaticEnv lib (vl_SetEnvKeyReplacer lib (replace_char (CHR ''-'') (CHR ''_'')) (vl_SetEnvPrefix lib ''SAMBA_OP'' v2))
           in case (case so_fset s of None \<Rightarrow> (None, v3) | Some f \<Rightarrow> vl_BindPFlags lib f v3) of
             (Some err, v4) \<Rightarrow> (Inl err, s\<lparr>so_v := v4\<rparr>)
           | (None, v4) \<Rightarrow> (unmarshal_fields lib v4 config_fields zero_config, s\<lparr>so_v := v4\<rparr>)))"

text \<open>\<open>globalConf\<close> is the state; it is set by a successful \<open>Load\<close> only.\<close>

definition Load :: "('v, 'f, 'x) viper_lib \<Rightarrow> ('v, 'f) Source \<Rightarrow> OperatorConfig option \<Rightarrow>
    string option \<times> OperatorConfig option \<times> ('v, 'f) Source" where
  "Load lib s globalConf = (case Source_Read lib s of
     (Inl err, s') \<Rightarrow> (Some err, globalConf, s')
   | (Inr c, s') \<Rightarrow> (None, Some c, s'))"

definition conf_Get :: "OperatorConfig option \<Rightarrow> OperatorConfig option" where
  "conf_Get globalConf = globalConf"

section \<open>What the libraries are documented to do\<close>

text \<open>
  A viper looks a key up in layers: the flags that were set on the command line, the
  environment, the configuration file, the defaults. The environment variable of a key is
  its upper-case form after the prefix, and a variable that is empty counts as not set.
\<close>

definition env_name :: "string \<Rightarrow> (string \<Rightarrow> string) \<Rightarrow> string \<Rightarrow> string" where
  "env_name pre rep k = rep (toUpper (pre @ ''_'' @ k))"

fun or_else :: "'a option \<Rightarrow> 'a option \<Rightarrow> 'a option" where
  "or_else (Some x) _ = Some x"
| "or_else None y = y"

text \<open>What a viper has been told: the layers, and where to look for the file and the environment.\<close>

record 'x layers =
  ly_flag :: "string \<Rightarrow> 'x option"
  ly_file :: "string \<Rightarrow> 'x option"
  ly_default :: "string \<Rightarrow> 'x option"
  ly_paths :: "string list"
  ly_name :: string
  ly_prefix :: string
  ly_replace :: "string \<Rightarrow> string"
  ly_auto :: bool

definition no_layers :: "'x layers" where
  "no_layers = \<lparr>ly_flag = \<lambda>_. None, ly_file = \<lambda>_. None, ly_default = \<lambda>_. None, ly_paths = [], ly_name = ''config'',
     ly_prefix = '''', ly_replace = \<lambda>s. s, ly_auto = False\<rparr>"

definition env_layer :: "(string \<Rightarrow> 'x) \<Rightarrow> (string \<Rightarrow> string option) \<Rightarrow> 'x layers \<Rightarrow> string \<Rightarrow> 'x option" where
  "env_layer mk vars l k = (if \<not> ly_auto l then None
     else case vars (env_name (ly_prefix l) (ly_replace l) k) of
       None \<Rightarrow> None | Some s \<Rightarrow> if s = '''' then None else Some (mk s))"

definition look_up :: "(string \<Rightarrow> 'x) \<Rightarrow> (string \<Rightarrow> string option) \<Rightarrow> 'x layers \<Rightarrow> string \<Rightarrow> 'x option" where
  "look_up mk vars l k = or_else (ly_flag l k) (or_else (env_layer mk vars l k) (or_else (ly_file l k) (ly_default l k)))"

text \<open>Keys are not case sensitive and may be paths, so the laws speak of plain ones.\<close>

definition plain_key :: "string \<Rightarrow> bool" where
  "plain_key k \<longleftrightarrow> list_all (\<lambda>c. c = CHR ''-'' \<or> (97 \<le> (of_char c :: nat) \<and> (of_char c :: nat) \<le> 122)) k"

locale viper_laws =
  fixes lib :: "('v, 'f, 'x) viper_lib"
    and view :: "'v \<Rightarrow> 'x layers"
    and given :: "'f \<Rightarrow> string \<Rightarrow> string option"
    and vars :: "string \<Rightarrow> string option"
    and disk :: "string list \<Rightarrow> string \<Rightarrow> read_error + (string \<Rightarrow> 'x option)"
  assumes new: "view (vl_New lib) = no_layers"
    and set_default: "plain_key k \<Longrightarrow> view (vl_SetDefault lib k x v) = (view v)\<lparr>ly_default := (ly_default (view v))(k \<mapsto> x)\<rparr>"
    and all_keys: "plain_key k \<Longrightarrow> ly_default (view v) k \<noteq> None \<Longrightarrow> k \<in> set (vl_AllKeys lib v)"
    and add_path: "view (vl_AddConfigPath lib p v) = (view v)\<lparr>ly_paths := ly_paths (view v) @ [p]\<rparr>"
    and set_name: "view (vl_SetConfigName lib n v) = (view v)\<lparr>ly_name := n\<rparr>"
    and read_in: "case disk (ly_paths (view v)) (ly_name (view v)) of
        Inl err \<Rightarrow> fst (vl_ReadInConfig lib v) = Some err \<and> view (snd (vl_ReadInConfig lib v)) = view v
      | Inr m \<Rightarrow> fst (vl_ReadInConfig lib v) = None \<and> view (snd (vl_ReadInConfig lib v)) = (view v)\<lparr>ly_file := m\<rparr>"
    and set_prefix: "view (vl_SetEnvPrefix lib p v) = (view v)\<lparr>ly_prefix := p\<rparr>"
    and set_replacer: "view (vl_SetEnvKeyReplacer lib r v) = (view v)\<lparr>ly_replace := r\<rparr>"
    and automatic_env: "view (vl_AutomaticEnv lib v) = (view v)\<lparr>ly_auto := True\<rparr>"
    and bind_flags: "ly_flag (view v) = (\<lambda>_. None) \<Longrightarrow> fst (vl_BindPFlags lib f v) = None \<and>
      view (snd (vl_BindPFlags lib f v)) = (view v)\<lparr>ly_flag := \<lambda>k. map_option (vl_string lib) (given f k)\<rparr>"
    and get: "plain_key k \<Longrightarrow> vl_Get lib v k = look_up (vl_string lib) vars (view v) k"

section \<open>Fields are independent\<close>

fun shows_value :: "('v, 'f, 'x) viper_lib \<Rightarrow> conf_field \<Rightarrow> 'x \<Rightarrow> OperatorConfig \<Rightarrow> bool" where
  "shows_value lib (StrField _ read _) x c = (vl_to_string lib x = Inr (read c))"
| "shows_value lib (IntField _ read _) x c = (vl_to_int lib x = Inr (read c))"

fun apart :: "conf_field \<Rightarrow> conf_field \<Rightarrow> bool" where
  "apart (StrField _ read _) (StrField _ _ set_to) = (\<forall>x c. read (set_to x c) = read c)"
| "apart (StrField _ read _) (IntField _ _ set_to) = (\<forall>x c. read (set_to x c) = read c)"
| "apart (IntField _ read _) (StrField _ _ set_to) = (\<forall>x c. read (set_to x c) = read c)"
| "apart (IntField _ read _) (IntField _ _ set_to) = (\<forall>x c. read (set_to x c) = read c)"

fun lens :: "conf_field \<Rightarrow> bool" where
  "lens (StrField _ read set_to) = (\<forall>x c. read (set_to x c) = x)"
| "lens (IntField _ read set_to) = (\<forall>x c. read (set_to x c) = x)"

lemma config_fields_apart: "sorted_wrt apart config_fields" "list_all lens config_fields"
  by (simp_all add: config_fields_def)

lemma config_fields_keys: "list_all plain_key (map field_tag config_fields)" "distinct (map field_tag config_fields)"
  by code_simp+

lemma default_keys: "list_all (\<lambda>(k, x). plain_key k) (defaults_of DefaultOperatorConfig)"
  "list_all (\<lambda>k. k \<in> set (map fst (defaults_of DefaultOperatorConfig))) (map field_tag config_fields)"
  by code_simp+

lemma set_field_shows: "lens f \<Longrightarrow> set_field lib f x c = Inr c' \<Longrightarrow> shows_value lib f x c'"
  by (cases f) (auto simp: map_sum_def split: sum.splits)

lemma set_field_apart: "apart f g \<Longrightarrow> set_field lib g y c = Inr c' \<Longrightarrow> shows_value lib f x c' = shows_value lib f x c"
  by (cases f; cases g) (auto simp: map_sum_def split: sum.splits)

lemma unmarshal_shows:
  assumes "unmarshal_fields lib v fs c = Inr c'" "sorted_wrt apart fs" "list_all lens fs"
    and "\<And>f. f \<in> set fs \<Longrightarrow> field_tag f \<in> set (vl_AllKeys lib v) \<and> vl_Get lib v (field_tag f) = Some (val f)"
  shows "(\<forall>f \<in> set fs. shows_value lib f (val f) c') \<and>
    (\<forall>g x. (\<forall>f \<in> set fs. apart g f) \<longrightarrow> shows_value lib g x c' = shows_value lib g x c)"
  using assms
proof (induction fs arbitrary: c)
  case (Cons f fs)
  obtain c1 where c1: "set_field lib f (val f) c = Inr c1" "unmarshal_fields lib v fs c1 = Inr c'"
    using Cons.prems(1) Cons.prems(4) [of f] by (auto split: sum.splits)
  have ih: "(\<forall>f \<in> set fs. shows_value lib f (val f) c') \<and>
      (\<forall>g x. (\<forall>f \<in> set fs. apart g f) \<longrightarrow> shows_value lib g x c' = shows_value lib g x c1)"
    using Cons.prems(2-4) by (intro Cons.IH [OF c1(2)]) auto
  have "shows_value lib f (val f) c1" using set_field_shows [OF _ c1(1)] Cons.prems(3) by simp
  then show ?case using ih Cons.prems(2) set_field_apart [OF _ c1(1)] by auto
qed simp

fun refuses :: "('v, 'f, 'x) viper_lib \<Rightarrow> conf_field \<Rightarrow> 'x \<Rightarrow> string \<Rightarrow> bool" where
  "refuses lib (StrField _ _ _) x err = (vl_to_string lib x = Inl err)"
| "refuses lib (IntField _ _ _) x err = (vl_to_int lib x = Inl err)"

lemma unmarshal_refuses:
  assumes "unmarshal_fields lib v fs c = Inl err"
    and "\<And>f. f \<in> set fs \<Longrightarrow> field_tag f \<in> set (vl_AllKeys lib v) \<and> vl_Get lib v (field_tag f) = Some (val f)"
  shows "\<exists>f \<in> set fs. refuses lib f (val f) err"
  using assms
proof (induction fs arbitrary: c)
  case (Cons f fs)
  show ?case
  proof (cases "set_field lib f (val f) c")
    case (Inl e)
    then have "refuses lib f (val f) err"
      using Cons.prems(1) Cons.prems(2) [of f] by (cases f) (auto simp: map_sum_def split: sum.splits)
    then show ?thesis by simp
  next
    case (Inr c1)
    then have "unmarshal_fields lib v fs c1 = Inl err" using Cons.prems(1) Cons.prems(2) [of f] by simp
    from Cons.IH [OF this] Cons.prems(2) show ?thesis by auto
  qed
qed simp

section \<open>Where a setting comes from\<close>

text \<open>
  The value of a key: the flag if it was set, else the environment variable \<open>SAMBA_OP_\<close>
  followed by the key, else the entry of the configuration file, else the default.
\<close>

definition dashes_to_underscores :: "string \<Rightarrow> string" where
  "dashes_to_underscores = replace_char (CHR ''-'') (CHR ''_'')"

definition source_setting :: "('v, 'f, 'x) viper_lib \<Rightarrow> (string \<Rightarrow> string option) \<Rightarrow> (string \<Rightarrow> string option) \<Rightarrow>
    (string \<Rightarrow> 'x option) \<Rightarrow> string \<Rightarrow> 'x option" where
  "source_setting lib flags vars file k =
     or_else (map_option (vl_string lib) (flags k))
    (or_else (case vars (env_name ''SAMBA_OP'' dashes_to_underscores k) of
        None \<Rightarrow> None | Some s \<Rightarrow> if s = '''' then None else Some (vl_string lib s))
    (or_else (file k)
      (map_option (to_setting lib) (map_of (rev (defaults_of DefaultOperatorConfig)) k))))"

lemma or_else_some: "y \<noteq> None \<Longrightarrow> or_else x y \<noteq> None"
  by (cases x) simp_all

lemma source_setting_some:
  assumes "f \<in> set config_fields"
  shows "source_setting lib flags vars file (field_tag f) \<noteq> None"
proof -
  have "field_tag f \<in> set (map fst (defaults_of DefaultOperatorConfig))"
    using default_keys(2) assms by (simp add: list_all_iff)
  then have "map_of (rev (defaults_of DefaultOperatorConfig)) (field_tag f) \<noteq> None"
    by (simp add: map_of_eq_None_iff)
  then show ?thesis unfolding source_setting_def by (intro or_else_some) simp
qed

context viper_laws
begin

lemma view_defaults:
  "list_all (\<lambda>(k, x). plain_key k) kxs \<Longrightarrow>
   view (fold (\<lambda>(k, x). vl_SetDefault lib k (to_setting lib x)) kxs v) =
     (view v)\<lparr>ly_default := \<lambda>k. or_else (map_option (to_setting lib) (map_of (rev kxs) k)) (ly_default (view v) k)\<rparr>"
proof (induction kxs arbitrary: v)
  case (Cons kx kxs)
  obtain k x where kx: "kx = (k, x)" by (cases kx)
  have "map_of (rev kxs @ [(k, x)]) k' = or_else (map_of (rev kxs) k') (if k' = k then Some x else None)" for k'
    by (cases "map_of (rev kxs) k'") (auto simp: map_add_def)
  then have "or_else (map_option (to_setting lib) (map_of (rev kxs) k')) (((ly_default (view v))(k \<mapsto> to_setting lib x)) k') =
      or_else (map_option (to_setting lib) (map_of (rev kxs @ [(k, x)]) k')) (ly_default (view v) k')" for k'
    by (cases "map_of (rev kxs) k'") auto
  then show ?case using Cons by (simp add: kx set_default)
qed simp

lemma view_NewSource: "view (so_v (NewSource lib)) =
    no_layers\<lparr>ly_default := \<lambda>k. map_option (to_setting lib) (map_of (rev (defaults_of DefaultOperatorConfig)) k)\<rparr>"
proof -
  have "or_else x None = x" for x :: "'x option" by (cases x) simp_all
  then show ?thesis unfolding NewSource_def Source.simps view_defaults [OF default_keys(1)] by (simp add: new no_layers_def)
qed

lemma Read_settings:
  assumes "so_v s = so_v (NewSource lib)"
  defines "flags \<equiv> case so_fset s of None \<Rightarrow> (\<lambda>_. None) | Some f \<Rightarrow> given f"
  shows "case disk [''/etc/samba-operator'', ''.''] ''samba-operator'' of
      Inl (ConfigFileError err) \<Rightarrow> fst (Source_Read lib s) = Inl err
    | found \<Rightarrow> \<exists>v. fst (Source_Read lib s) = unmarshal_fields lib v config_fields zero_config \<and>
        (\<forall>f \<in> set config_fields. field_tag f \<in> set (vl_AllKeys lib v) \<and>
          vl_Get lib v (field_tag f) = source_setting lib flags vars (case found of Inr m \<Rightarrow> m | Inl _ \<Rightarrow> \<lambda>_. None) (field_tag f))"
proof -
  let ?v1 = "vl_SetConfigName lib ''samba-operator'' (vl_AddConfigPath lib ''.'' (vl_AddConfigPath lib ''/etc/samba-operator'' (so_v s)))"
  let ?d = "\<lambda>k. map_option (to_setting lib) (map_of (rev (defaults_of DefaultOperatorConfig)) k)"
  have v1: "view ?v1 = no_layers\<lparr>ly_default := ?d, ly_paths := [''/etc/samba-operator'', ''.''], ly_name := ''samba-operator''\<rparr>"
    by (simp add: set_name add_path assms(1) view_NewSource no_layers_def)
  obtain e v2 where v2: "vl_ReadInConfig lib ?v1 = (e, v2)" by (cases "vl_ReadInConfig lib ?v1")
  let ?v3 = "vl_AutomaticEnv lib (vl_SetEnvKeyReplacer lib (replace_char (CHR ''-'') (CHR ''_'')) (vl_SetEnvPrefix lib ''SAMBA_OP'' v2))"
  define v4 where "v4 = (case so_fset s of None \<Rightarrow> ?v3 | Some f \<Rightarrow> snd (vl_BindPFlags lib f ?v3))"
  note read = read_in [of ?v1, unfolded v1 v2]
  have step: "fst (Source_Read lib s) = unmarshal_fields lib v4 config_fields zero_config \<and>
      (\<forall>f \<in> set config_fields. field_tag f \<in> set (vl_AllKeys lib v4) \<and>
        vl_Get lib v4 (field_tag f) = source_setting lib flags vars m (field_tag f))"
    if m: "view v2 = (view ?v1)\<lparr>ly_file := m\<rparr>" "\<And>err. e \<noteq> Some (ConfigFileError err)" for m
  proof -
    have v3: "ly_flag (view ?v3) = (\<lambda>_. None)" by (simp add: automatic_env set_replacer set_prefix m(1) v1 no_layers_def)
    have v4: "view v4 = (view ?v3)\<lparr>ly_flag := \<lambda>k. map_option (vl_string lib) (flags k)\<rparr>"
      using bind_flags [OF v3] v3 by (cases "so_fset s") (simp_all add: v4_def flags_def)
    have "fst (Source_Read lib s) = unmarshal_fields lib v4 config_fields zero_config"
      using m(2) bind_flags [OF v3]
      by (cases e) (auto simp: Source_Read_def Let_def v2 v4_def split: option.split prod.split read_error.split, (metis fst_conv option.distinct(1) snd_conv)+)
    moreover have "field_tag f \<in> set (vl_AllKeys lib v4) \<and>
        vl_Get lib v4 (field_tag f) = source_setting lib flags vars m (field_tag f)" if f: "f \<in> set config_fields" for f
    proof -
      have plain: "plain_key (field_tag f)" using config_fields_keys(1) f by (simp add: list_all_iff)
      have dflt: "ly_default (view v4) = ?d" by (simp add: v4 automatic_env set_replacer set_prefix m(1) v1)
      have "?d (field_tag f) \<noteq> None" using default_keys(2) f by (simp add: list_all_iff map_of_eq_None_iff)
      then have "field_tag f \<in> set (vl_AllKeys lib v4)" using all_keys [OF plain, of v4] dflt by simp
      then show ?thesis
        by (simp add: get [OF plain] look_up_def env_layer_def source_setting_def v4 automatic_env set_replacer set_prefix m(1) v1
            no_layers_def dashes_to_underscores_def)
    qed
    ultimately show ?thesis by blast
  qed
  show ?thesis
  proof (cases "disk [''/etc/samba-operator'', ''.''] ''samba-operator''")
    case (Inl err)
    then have e: "e = Some err" "view v2 = (view ?v1)\<lparr>ly_file := \<lambda>_. None\<rparr>" using read by (simp_all add: no_layers_def v1)
    show ?thesis
    proof (cases err)
      case ConfigFileNotFoundError
      then show ?thesis using step [OF e(2)] e(1) Inl by auto
    next
      case (ConfigFileError msg)
      then show ?thesis using Inl e(1) v2 by (simp add: Source_Read_def Let_def)
    qed
  next
    case (Inr m)
    then have "e = None" "view v2 = (view ?v1)\<lparr>ly_file := m\<rparr>" using read by (simp_all add: no_layers_def v1)
    then show ?thesis using step [of m] Inr by auto
  qed
qed

end

section \<open>A concrete library\<close>

text \<open>The defaults as a list of entries, the flags as a list of names with what was given.\<close>

type_synonym std_viper = "(string \<times> setting) list \<times> setting layers"
type_synonym std_flags = "(string \<times> string option) list"

definition std_view :: "std_viper \<Rightarrow> setting layers" where
  "std_view v = (snd v)\<lparr>ly_default := map_of (fst v)\<rparr>"

definition std_given :: "std_flags \<Rightarrow> string \<Rightarrow> string option" where
  "std_given f k = (case map_of f k of None \<Rightarrow> None | Some g \<Rightarrow> g)"

fun std_to_string :: "setting \<Rightarrow> string + string" where
  "std_to_string (SetStr s) = Inr s"
| "std_to_string (SetInt i) = Inr (itoa (sint i))"

fun std_to_int :: "setting \<Rightarrow> string + goint" where
  "std_to_int (SetInt i) = Inr i"
| "std_to_int (SetStr s) = (if s \<noteq> '''' \<and> list_all (\<lambda>c. 48 \<le> (of_char c :: nat) \<and> (of_char c :: nat) \<le> 57) s
     then Inr (word_of_nat (fold (\<lambda>c n. 10 * n + (of_char c - 48)) s 0)) else Inl ''cannot parse as int'')"

definition std_viper_lib :: "(string \<Rightarrow> string option) \<Rightarrow> (string list \<Rightarrow> string \<Rightarrow> read_error + (string \<Rightarrow> setting option)) \<Rightarrow>
    (std_viper, std_flags, setting) viper_lib" where
  "std_viper_lib vars disk = \<lparr>vl_New = ([], no_layers),
     vl_SetDefault = (\<lambda>k x v. ((k, x) # fst v, snd v)),
     vl_AllKeys = (\<lambda>v. remdups (map fst (fst v))),
     vl_AddConfigPath = (\<lambda>p v. (fst v, (snd v)\<lparr>ly_paths := ly_paths (snd v) @ [p]\<rparr>)),
     vl_SetConfigName = (\<lambda>n v. (fst v, (snd v)\<lparr>ly_name := n\<rparr>)),
     vl_ReadInConfig = (\<lambda>v. case disk (ly_paths (snd v)) (ly_name (snd v)) of
        Inl err \<Rightarrow> (Some err, v) | Inr m \<Rightarrow> (None, (fst v, (snd v)\<lparr>ly_file := m\<rparr>))),
     vl_SetEnvPrefix = (\<lambda>p v. (fst v, (snd v)\<lparr>ly_prefix := p\<rparr>)),
     vl_SetEnvKeyReplacer = (\<lambda>r v. (fst v, (snd v)\<lparr>ly_replace := r\<rparr>)),
     vl_AutomaticEnv = (\<lambda>v. (fst v, (snd v)\<lparr>ly_auto := True\<rparr>)),
     vl_BindPFlags = (\<lambda>f v. (None, (fst v, (snd v)\<lparr>ly_flag := \<lambda>k. map_option SetStr (std_given f k)\<rparr>))),
     vl_Get = (\<lambda>v k. look_up SetStr vars (std_view v) k),
     vl_string = SetStr, vl_int = SetInt, vl_to_string = std_to_string, vl_to_int = std_to_int,
     vl_NewFlagSet = (\<lambda>name. []), vl_FlagString = (\<lambda>name dflt usage f. (name, None) # f)\<rparr>"

interpretation std_viper: viper_laws "std_viper_lib vars disk" std_view std_given vars disk for vars disk
  by unfold_locales
    (auto simp: std_viper_lib_def std_view_def no_layers_def fun_eq_iff split: sum.split simp flip: dom_map_of_conv_image_fst)

section \<open>Properties\<close>

text \<open>
  C39. \<open>Source.Read\<close> fills every field of the configuration from the first source that has it,
  in the order flag, environment variable, configuration file, default, and no field is
  without a default, so that none is left out of the environment. The variable is
  \<open>SAMBA_OP_\<close> and the field's tag in upper case with underscores. It fails only if the file
  is there and cannot be read, or with the error of a field whose setting has the wrong
  type; a missing file is no error.
\<close>

theorem Source_Read_precedence:
  assumes "viper_laws lib view given vars disk" "so_v s = so_v (NewSource lib)"
  shows "case disk [''/etc/samba-operator'', ''.''] ''samba-operator'' of
      Inl (ConfigFileError err) \<Rightarrow> fst (Source_Read lib s) = Inl err
    | found \<Rightarrow>
        (let setting = source_setting lib (case so_fset s of None \<Rightarrow> (\<lambda>_. None) | Some f \<Rightarrow> given f) vars
           (case found of Inr m \<Rightarrow> m | Inl _ \<Rightarrow> \<lambda>_. None)
         in case fst (Source_Read lib s) of
           Inr c \<Rightarrow> list_all (\<lambda>f. case setting (field_tag f) of None \<Rightarrow> False | Some x \<Rightarrow> shows_value lib f x c) config_fields
         | Inl err \<Rightarrow> list_ex (\<lambda>f. case setting (field_tag f) of None \<Rightarrow> False | Some x \<Rightarrow> refuses lib f x err) config_fields)"
proof -
  let ?flags = "case so_fset s of None \<Rightarrow> (\<lambda>_. None) | Some f \<Rightarrow> given f"
  have fields: "case fst (Source_Read lib s) of
      Inr c \<Rightarrow> list_all (\<lambda>f. case setting (field_tag f) of None \<Rightarrow> False | Some x \<Rightarrow> shows_value lib f x c) config_fields
    | Inl err \<Rightarrow> list_ex (\<lambda>f. case setting (field_tag f) of None \<Rightarrow> False | Some x \<Rightarrow> refuses lib f x err) config_fields"
    if run: "fst (Source_Read lib s) = unmarshal_fields lib v config_fields zero_config"
      and got: "\<forall>f \<in> set config_fields. field_tag f \<in> set (vl_AllKeys lib v) \<and> vl_Get lib v (field_tag f) = setting (field_tag f)"
      and some: "\<forall>f \<in> set config_fields. setting (field_tag f) \<noteq> None" for v setting
  proof -
    let ?val = "\<lambda>f. the (setting (field_tag f))"
    have get: "field_tag f \<in> set (vl_AllKeys lib v) \<and> vl_Get lib v (field_tag f) = Some (?val f)" if "f \<in> set config_fields" for f
      using got some that by auto
    show ?thesis
    proof (cases "fst (Source_Read lib s)")
      case (Inr c)
      then show ?thesis
        using unmarshal_shows [of lib v config_fields zero_config c ?val] run config_fields_apart get some
        by (auto simp: list_all_iff split: option.split)
    next
      case (Inl err)
      then obtain f where f: "f \<in> set config_fields" "refuses lib f (?val f) err"
        using unmarshal_refuses [of lib v config_fields zero_config err ?val] run get by auto
      moreover obtain x where "setting (field_tag f) = Some x" using some f(1) by auto
      ultimately show ?thesis using Inl by (auto simp: list_ex_iff intro!: bexI [of _ f])
    qed
  qed
  note src = viper_laws.Read_settings [OF assms]
  show ?thesis
  proof (cases "\<exists>err. disk [''/etc/samba-operator'', ''.''] ''samba-operator'' = Inl (ConfigFileError err)")
    case False
    let ?m = "case disk [''/etc/samba-operator'', ''.''] ''samba-operator'' of Inr m \<Rightarrow> m | Inl _ \<Rightarrow> \<lambda>_. None"
    obtain v where "fst (Source_Read lib s) = unmarshal_fields lib v config_fields zero_config"
      "\<forall>f \<in> set config_fields. field_tag f \<in> set (vl_AllKeys lib v) \<and>
          vl_Get lib v (field_tag f) = source_setting lib ?flags vars ?m (field_tag f)"
      using src False by (auto split: sum.splits read_error.splits)
    moreover have "\<forall>f \<in> set config_fields. source_setting lib ?flags vars ?m (field_tag f) \<noteq> None"
      by (intro ballI source_setting_some)
    ultimately have "case fst (Source_Read lib s) of
        Inr c \<Rightarrow> list_all (\<lambda>f. case source_setting lib ?flags vars ?m (field_tag f) of
          None \<Rightarrow> False | Some x \<Rightarrow> shows_value lib f x c) config_fields
      | Inl err \<Rightarrow> list_ex (\<lambda>f. case source_setting lib ?flags vars ?m (field_tag f) of
          None \<Rightarrow> False | Some x \<Rightarrow> refuses lib f x err) config_fields"
      by (rule fields)
    then show ?thesis
      using False by (simp add: Let_def split: sum.splits read_error.splits)
  qed (use src in auto)
qed

text \<open>A port on the command line, the namespace in the environment, another port in a file.\<close>

definition demo_vars :: "string \<Rightarrow> string option" where
  "demo_vars n = (if n = ''SAMBA_OP_WORKING_NAMESPACE'' then Some ''ns1''
     else if n = ''SAMBA_OP_SMBD_PORT'' then Some ''2445'' else None)"

definition demo_disk :: "string list \<Rightarrow> string \<Rightarrow> read_error + (string \<Rightarrow> setting option)" where
  "demo_disk paths name = (if paths = [''/etc/samba-operator'', ''.''] \<and> name = ''samba-operator''
     then Inr (\<lambda>k. if k = ''smb-service-port'' then Some (SetInt 3445) else if k = ''smbd-port'' then Some (SetInt 4445) else None)
     else Inl ConfigFileNotFoundError)"

definition demo_source :: "(std_viper, std_flags) Source" where
  "demo_source = (NewSource (std_viper_lib demo_vars demo_disk))\<lparr>so_fset := Some [(''smbd-port'', Some ''1445'')]\<rparr>"

definition demo_read :: OperatorConfig where
  "demo_read = DefaultOperatorConfig\<lparr>oc_WorkingNamespace := ''ns1'', oc_SmbdPort := 1445, oc_SmbServicePort := 3445\<rparr>"

lemma demo_source_read: "fst (Source_Read (std_viper_lib demo_vars demo_disk) demo_source) = Inr demo_read"
  by code_simp

lemma Source_Read_precedence_witness:
  "list_all (\<lambda>f. case source_setting (std_viper_lib demo_vars demo_disk) (std_given [(''smbd-port'', Some ''1445'')]) demo_vars
       (\<lambda>k. if k = ''smb-service-port'' then Some (SetInt 3445) else if k = ''smbd-port'' then Some (SetInt 4445) else None) (field_tag f) of
     None \<Rightarrow> False | Some x \<Rightarrow> shows_value (std_viper_lib demo_vars demo_disk) f x demo_read) config_fields"
proof -
  have "so_v demo_source = so_v (NewSource (std_viper_lib demo_vars demo_disk))" "so_fset demo_source = Some [(''smbd-port'', Some ''1445'')]"
    by (simp_all add: demo_source_def)
  note parts = this
  show ?thesis
    using Source_Read_precedence [OF std_viper.viper_laws_axioms parts(1)] demo_source_read parts(2)
    by (simp add: demo_disk_def Let_def)
qed

end
