(* ===== verification/Controllers.thy ===== *)
theory Controllers
  imports ShareStages ConfSource
begin

text \<open>
  The reconcilers of \<open>controllers/\<close> and the start of the operator in \<open>main.go\<close>. A
  reconciler turns the result of a pass into what the controller runtime expects: whether to
  queue the request again, and an error. The runtime (watching, queueing, leader election)
  is not part of the repository; \<open>main\<close> is a sequence of calls of it whose answers are an
  argument.
\<close>

section \<open>Reconcilers\<close>

text \<open>\<open>ctrl.Result\<close>; a request that fails is queued again by the runtime, whatever the flag.\<close>

record ctrl_Result =
  cr_Requeue :: bool

definition Reconcile ::
  "kube_lib \<Rightarrow> OperatorConfig \<Rightarrow> NamespacedName \<Rightarrow> (ctrl_Result \<times> gerror option \<times> OperatorConfig) prog" where
  "Reconcile lib cfg req = andthen (Process lib cfg req) (\<lambda>(res, cfg').
     let err = r_err res in
     if r_requeue res then Ret (\<lparr>cr_Requeue = True\<rparr>, err, cfg') else Ret (\<lparr>cr_Requeue = False\<rparr>, err, cfg'))"

definition Reconcile_SmbCommonConfig :: "NamespacedName \<Rightarrow> (ctrl_Result \<times> gerror option) prog" where
  "Reconcile_SmbCommonConfig req = Ret (\<lparr>cr_Requeue = False\<rparr>, None)"

definition Reconcile_SmbSecurityConfig :: "NamespacedName \<Rightarrow> (ctrl_Result \<times> gerror option) prog" where
  "Reconcile_SmbSecurityConfig req = Ret (\<lparr>cr_Requeue = False\<rparr>, None)"

text \<open>
  \<open>SetupWithManager\<close>: the kind of object a reconciler is queued for, and the kinds it owns, a
  change of which queues the controlling owner.
\<close>

record watches =
  w_For :: okind
  w_Owns :: "okind list"

definition SmbShare_SetupWithManager :: watches where
  "SmbShare_SetupWithManager = \<lparr>w_For = KShare, w_Owns = [KPVC, KConfigMap, KService, KDeployment, KStatefulSet]\<rparr>"

definition SmbCommonConfig_SetupWithManager :: watches where
  "SmbCommonConfig_SetupWithManager = \<lparr>w_For = KCommon, w_Owns = []\<rparr>"

definition SmbSecurityConfig_SetupWithManager :: watches where
  "SmbSecurityConfig_SetupWithManager = \<lparr>w_For = KSecurity, w_Owns = []\<rparr>"

section \<open>Start of the operator\<close>

text \<open>
  \<open>conf.Load\<close> and the checks that \<open>main\<close> makes before it starts the manager. What the
  configuration source read (or its error) is an argument; every failure ends the process.
\<close>

datatype start_error =
    UnableToConfigure string
  | InvalidConfiguration conf_error
  | InvalidNodeSelector

definition start_checks :: "string + OperatorConfig \<Rightarrow> start_error + OperatorConfig" where
  "start_checks source =
     (case source of
        Inl err \<Rightarrow> Inl (UnableToConfigure err)
      | Inr cfg \<Rightarrow> (case Validate cfg of
          Some err \<Rightarrow> Inl (InvalidConfiguration err)
        | None \<Rightarrow> if snd (node_selector None cfg) then Inl InvalidNodeSelector else Inr cfg))"

text \<open>
  What \<open>main\<close> asks of the controller runtime. Each call has an error or none as its answer,
  and the first error ends the process.
\<close>

record manager_options =
  mo_MetricsBindAddress :: string
  mo_Port :: goint
  mo_LeaderElection :: bool
  mo_LeaderElectionID :: string

datatype boot_call = NewManager manager_options | SetupController watches | StartManager

datatype exit = Exit int | NilDereference

fun boot :: "(boot_call \<Rightarrow> string option) \<Rightarrow> boot_call list \<Rightarrow> boot_call list \<times> exit" where
  "boot answer [] = ([], Exit 0)"
| "boot answer (c # cs) = (case answer c of
     Some err \<Rightarrow> ([c], Exit 1)
   | None \<Rightarrow> (case boot answer cs of (tr, code) \<Rightarrow> (c # tr, code)))"

text \<open>The flags of the command line; \<open>flag.Parse\<close> sets them or ends the process.\<close>

record 'f cli =
  cli_metricsAddr :: string
  cli_enableLeaderElection :: bool
  cli_conf :: 'f

definition start_calls :: "'f cli \<Rightarrow> boot_call list" where
  "start_calls cli =
     [NewManager \<lparr>mo_MetricsBindAddress = cli_metricsAddr cli, mo_Port = 9443,
        mo_LeaderElection = cli_enableLeaderElection cli, mo_LeaderElectionID = ''b60bd080.samba.org''\<rparr>,
      SetupController SmbShare_SetupWithManager, SetupController SmbSecurityConfig_SetupWithManager,
      SetupController SmbCommonConfig_SetupWithManager, StartManager]"

definition main_run :: "('v, 'f, 'x) viper_lib \<Rightarrow> ('f cli \<Rightarrow> int + 'f cli) \<Rightarrow> (boot_call \<Rightarrow> string option) \<Rightarrow>
    boot_call list \<times> exit" where
  "main_run lib parse answer =
     (let (fset, confSource) = Flags lib (NewSource lib) in
      case parse \<lparr>cli_metricsAddr = '':8080'', cli_enableLeaderElection = False, cli_conf = fset\<rparr> of
        Inl code \<Rightarrow> ([], Exit code)
      | Inr cli \<Rightarrow>
         (case Load lib (confSource\<lparr>so_fset := Some (cli_conf cli)\<rparr>) None of (err, globalConf, _) \<Rightarrow>
          (case err of
             Some e \<Rightarrow> ([], Exit 1)
           | None \<Rightarrow>
              (case conf_Get globalConf of
                 None \<Rightarrow> ([], NilDereference)
               | Some cfg \<Rightarrow>
                  (case start_checks (Inr cfg) of
                     Inl e \<Rightarrow> ([], Exit 1)
                   | Inr cfg' \<Rightarrow> boot answer (start_calls cli))))))"

section \<open>Properties\<close>

text \<open>
  The pod builders ignore the error of \<open>NodeSelector\<close> because they have no logger. With a
  configuration that passed the checks at the start there is never an error to ignore, for
  any share and any common configuration: the selector is the one of the common
  configuration if that has entries, else the one of the operator configuration, which is
  the built-in one only if the operator's text is empty. And both port numbers are positive.
\<close>

theorem start_checks_node_selector:
  assumes "start_checks source = Inr cfg" "pl_GlobalConfig pl = cfg"
  shows "\<not> snd (NodeSelector pl) \<and>
    fst (NodeSelector pl) =
      (case bind (pl_CommonConfig pl) (\<lambda>cc. cc_PodSettings (scc_Spec cc)) of
         Some ps \<Rightarrow> if entries (ps_NodeSelector ps) \<noteq> [] then ps_NodeSelector ps else fst (node_selector None cfg)
       | None \<Rightarrow> fst (node_selector None cfg)) \<and>
    (oc_DefaultNodeSelector cfg \<noteq> '''' \<longrightarrow>
       unmarshal_string_map (oc_DefaultNodeSelector cfg) = Some (fst (node_selector None cfg))) \<and>
    (oc_DefaultNodeSelector cfg = '''' \<longrightarrow> fst (node_selector None cfg) = builtinDefaultNodeSelector) \<and>
    0 < sint (oc_SmbdPort cfg) \<and> 0 < sint (oc_SmbServicePort cfg)"
proof -
  have "\<not> snd (node_selector None cfg)" "Validate cfg = None"
    using assms(1) by (auto simp: start_checks_def split: sum.splits option.splits if_splits)
  then show ?thesis
    using assms(2) Validate_ok [of cfg]
    by (auto simp: NodeSelector_def node_selector_def Let_def mlen_def split: option.splits if_splits)
qed

definition demo_start_config :: OperatorConfig where
  "demo_start_config = DefaultOperatorConfig
     \<lparr>oc_WorkingNamespace := ''ns1'', oc_DefaultNodeSelector := ''{'' @ dq # ''disk'' @ dq # '':'' @ dq # ''ssd'' @ dq # ''}''\<rparr>"

lemma demo_start_config_passes: "start_checks (Inr demo_start_config) = Inr demo_start_config"
  by code_simp

lemma start_checks_node_selector_witness:
  "\<not> snd (NodeSelector (demo_pods_planner\<lparr>pl_GlobalConfig := demo_start_config\<rparr>)) \<and>
   unmarshal_string_map (oc_DefaultNodeSelector demo_start_config) =
     Some (fst (node_selector None demo_start_config))"
  using start_checks_node_selector [OF demo_start_config_passes, of "demo_pods_planner\<lparr>pl_GlobalConfig := demo_start_config\<rparr>"]
  by (simp add: demo_start_config_def)

lemma boot_prefix: "boot answer cs = (tr, code) \<Longrightarrow>
  \<exists>n. n \<le> length cs \<and> tr = take n cs \<and> list_all (\<lambda>c. answer c = None) (butlast tr) \<and>
    code = (if n = length cs \<and> list_all (\<lambda>c. answer c = None) tr then Exit 0 else Exit 1)"
proof (induction cs arbitrary: tr)
  case (Cons c cs)
  show ?case
  proof (cases "answer c")
    case None
    then obtain tr' where tr': "boot answer cs = (tr', code)" "tr = c # tr'" using Cons.prems by (auto split: prod.splits)
    from Cons.IH [OF tr'(1)] obtain n where n: "n \<le> length cs" "tr' = take n cs" "list_all (\<lambda>c. answer c = None) (butlast tr')"
      "code = (if n = length cs \<and> list_all (\<lambda>c. answer c = None) tr' then Exit 0 else Exit 1)" by blast
    show ?thesis using tr'(2) None n by (intro exI [of _ "Suc n"]) simp
  next
    case (Some e)
    then have "tr = [c]" "code = Exit 1" using Cons.prems by simp_all
    then show ?thesis using Some by (intro exI [of _ 1]) simp
  qed
qed simp

lemma start_checks_ok:
  assumes "start_checks (Inr cfg) = Inr cfg'"
  shows "cfg' = cfg" "Validate cfg = None" "\<not> snd (node_selector None cfg)"
  using assms by (auto simp: start_checks_def split: option.splits if_splits)

lemma NodeSelector_checked: "\<not> snd (node_selector None cfg) \<Longrightarrow> \<not> snd (NodeSelector (pl\<lparr>pl_GlobalConfig := cfg\<rparr>))"
  by (auto simp: NodeSelector_def node_selector_def Let_def split: option.splits if_splits)

text \<open>
  C40. The operator starts in order: \<open>main\<close> ends in an exit code and never by dereferencing the
  global configuration when it was not loaded. When it gets as far as calling the controller
  runtime, the configuration was read and passed every check: a working namespace is set,
  both ports are positive, and \<open>NodeSelector\<close>, whose error the pod builders drop, has no error
  for any share. The manager is created first, then the reconcilers of shares, security
  configurations and common configurations are set up, then it is started; no call is made
  after one that failed, and the exit code is 0 exactly if none failed.
\<close>

theorem main_run_ordered:
  fixes lib :: "('v, 'f, 'x) viper_lib"
  assumes "main_run lib parse answer = (tr, code)"
  shows "code \<noteq> NilDereference \<and> (tr = [] \<or> (\<exists>(cli :: 'f cli) cfg opts n. n \<le> 5 \<and>
    fst (Source_Read lib ((snd (Flags lib (NewSource lib)))\<lparr>so_fset := Some (cli_conf cli)\<rparr>)) = Inr cfg \<and>
    oc_WorkingNamespace cfg \<noteq> '''' \<and> 0 < sint (oc_SmbServicePort cfg) \<and> 0 < sint (oc_SmbdPort cfg) \<and>
    (\<forall>pl. \<not> snd (NodeSelector (pl\<lparr>pl_GlobalConfig := cfg\<rparr>))) \<and>
    mo_MetricsBindAddress opts = cli_metricsAddr cli \<and> mo_LeaderElection opts = cli_enableLeaderElection cli \<and>
    tr = take n [NewManager opts, SetupController SmbShare_SetupWithManager, SetupController SmbSecurityConfig_SetupWithManager,
      SetupController SmbCommonConfig_SetupWithManager, StartManager] \<and>
    list_all (\<lambda>c. answer c = None) (butlast tr) \<and> code = (if n = 5 \<and> list_all (\<lambda>c. answer c = None) tr then Exit 0 else Exit 1)))"
proof (cases "parse \<lparr>cli_metricsAddr = '':8080'', cli_enableLeaderElection = False, cli_conf = fst (Flags lib (NewSource lib))\<rparr>")
  case (Inl c)
  then show ?thesis using assms by (auto simp: main_run_def split: prod.splits)
next
  case (Inr cli)
  let ?s = "(snd (Flags lib (NewSource lib)))\<lparr>so_fset := Some (cli_conf cli)\<rparr>"
  show ?thesis
  proof (cases "\<exists>cfg. fst (Source_Read lib ?s) = Inr cfg \<and> start_checks (Inr cfg) = Inr cfg")
    case True
    then obtain cfg where cfg: "fst (Source_Read lib ?s) = Inr cfg" "start_checks (Inr cfg) = Inr cfg" by blast
    then have "boot answer (start_calls cli) = (tr, code)"
      using assms Inr by (auto simp: main_run_def Load_def conf_Get_def split: prod.splits)
    note prefix = boot_prefix [OF this]
    have "length (start_calls cli) = 5" by (simp add: start_calls_def)
    with prefix obtain n where run: "n \<le> 5" "tr = take n (start_calls cli)"
      "list_all (\<lambda>c. answer c = None) (butlast tr)" "code = (if n = 5 \<and> list_all (\<lambda>c. answer c = None) tr then Exit 0 else Exit 1)"
      by auto
    have "\<forall>pl. \<not> snd (NodeSelector (pl\<lparr>pl_GlobalConfig := cfg\<rparr>))"
      using NodeSelector_checked start_checks_ok(3) [OF cfg(2)] by blast
    moreover have "oc_WorkingNamespace cfg \<noteq> '''' \<and> 0 < sint (oc_SmbServicePort cfg) \<and> 0 < sint (oc_SmbdPort cfg)"
      using start_checks_ok(2) [OF cfg(2)] by (simp add: Validate_ok)
    ultimately show ?thesis
      using cfg(1) run(1,3,4) run(2) [unfolded start_calls_def]
      by (intro conjI disjI2 exI [of _ cli] exI [of _ cfg] exI [of _ "\<lparr>mo_MetricsBindAddress = cli_metricsAddr cli,
        mo_Port = 9443, mo_LeaderElection = cli_enableLeaderElection cli, mo_LeaderElectionID = ''b60bd080.samba.org''\<rparr>"] exI [of _ n]) auto
  next
    case False
    then show ?thesis
      using assms Inr start_checks_ok(1)
      by (auto simp: main_run_def Load_def conf_Get_def split: prod.splits sum.splits)
  qed
qed

definition demo_parse :: "std_flags cli \<Rightarrow> int + std_flags cli" where
  "demo_parse cli = Inr (cli\<lparr>cli_conf := [(''smbd-port'', Some ''1445'')]\<rparr>)"

lemma demo_start_runs:
  "main_run (std_viper_lib demo_vars demo_disk) demo_parse (\<lambda>c. if c = StartManager then Some ''no lease'' else None) =
     (start_calls \<lparr>cli_metricsAddr = '':8080'', cli_enableLeaderElection = False, cli_conf = [(''smbd-port'', Some ''1445'')]\<rparr>, Exit 1)"
proof -
  let ?lib = "std_viper_lib demo_vars demo_disk"
  obtain fset src where flags: "Flags ?lib (NewSource ?lib) = (fset, src)" by (cases "Flags ?lib (NewSource ?lib)")
  then have "src\<lparr>so_fset := Some [(''smbd-port'', Some ''1445'')]\<rparr> = demo_source"
    by (auto simp: Flags_def NewSource_def demo_source_def Let_def)
  moreover have "start_checks (Inr demo_read) = Inr demo_read" by code_simp
  moreover obtain src' where "Source_Read ?lib demo_source = (Inr demo_read, src')"
    using demo_source_read by (cases "Source_Read ?lib demo_source") auto
  ultimately show ?thesis
    by (simp add: main_run_def flags demo_parse_def Load_def conf_Get_def start_calls_def)
qed

lemma main_run_ordered_witness:
  "\<exists>(cli :: std_flags cli) cfg. fst (Source_Read (std_viper_lib demo_vars demo_disk)
      ((snd (Flags (std_viper_lib demo_vars demo_disk) (NewSource (std_viper_lib demo_vars demo_disk))))\<lparr>so_fset := Some (cli_conf cli)\<rparr>)) = Inr cfg \<and>
    oc_WorkingNamespace cfg \<noteq> '''' \<and> cli_metricsAddr cli = '':8080''"
  using main_run_ordered [OF demo_start_runs] by (auto simp: start_calls_def take_Cons' split: if_splits)

end
