(* ===== verification/Contracts.thy ===== *)
theory Contracts
  imports ShareStages
begin

text \<open>
  Contracts of programs over the API calls: as long as every answer is one that the rely
  condition allows, every call meets the guarantee and every returned value the
  postcondition. The predicate is computed along the program, so that it turns sequencing
  into a nested contract, and \<open>contract_replay\<close> says what it means for a run.
\<close>

named_theorems contract_simps \<open>contracts of the program constructors\<close>

primrec contract :: "(call \<times> resp \<Rightarrow> bool) \<Rightarrow> (call \<Rightarrow> bool) \<Rightarrow> 'a prog \<Rightarrow> ('a \<Rightarrow> bool) \<Rightarrow> bool" where
  "contract rely guar (Ret x) = (\<lambda>post. post x)"
| "contract rely guar Panic = (\<lambda>post. True)"
| "contract rely guar (Do c k) = (\<lambda>post. guar c \<and> (\<forall>r. rely (c, r) \<longrightarrow> contract rely guar (k r) post))"

declare contract.simps [contract_simps]

lemma contract_mono:
  "contract rely guar p post \<Longrightarrow> (\<And>x. post x \<Longrightarrow> post' x) \<Longrightarrow> contract rely guar p post'"
  by (induction p) auto

lemma contract_guar_mono:
  "contract rely guar p post \<Longrightarrow> (\<And>c. guar c \<Longrightarrow> guar' c) \<Longrightarrow> contract rely guar' p post"
  by (induction p) auto

lemma contract_andthen [contract_simps]:
  "contract rely guar (andthen p f) post = contract rely guar p (\<lambda>x. contract rely guar (f x) post)"
  by (induction p) auto

lemma contract_eval [contract_simps]:
  "contract rely guar (eval x f) post = (\<forall>v. x = Some v \<longrightarrow> contract rely guar (f v) post)"
  by (cases x) (simp_all add: eval_def)

lemma contract_on_ok [contract_simps]:
  "contract rely guar (on_ok p e f) post =
   contract rely guar p (\<lambda>r. (\<forall>err. r = Inl err \<longrightarrow> contract rely guar (e err) post) \<and>
                             (\<forall>x. r = Inr x \<longrightarrow> contract rely guar (f x) post))"
  unfolding on_ok_def contract_andthen by (rule arg_cong [where f = "contract rely guar p"]) (auto split: sum.split)

lemma contract_emit [contract_simps]:
  "contract rely guar (emit about t reason msg) post =
   (guar (CEvent about t reason msg) \<and> ((\<exists>r. rely (CEvent about t reason msg, r)) \<longrightarrow> post ()))"
  by (auto simp: emit_def)

lemma contract_api_write [contract_simps]:
  "contract rely guar (api_write c) post = (guar c \<and> (\<forall>r. rely (c, r) \<longrightarrow> post r))"
  by (simp add: api_write_def)

lemma contract_get_as [contract_simps]:
  "contract rely guar (get_as k proj nn) post =
   (guar (CGet k nn) \<and> (\<forall>r. rely (CGet k nn, r) \<longrightarrow> post (typed proj r)))"
  by (simp add: get_as_def)

lemma contract_if [contract_simps]:
  "contract rely guar (if b then p else q) post =
   ((b \<longrightarrow> contract rely guar p post) \<and> (\<not> b \<longrightarrow> contract rely guar q post))"
  by simp

lemma contract_rely_mono:
  "contract rely guar p post \<Longrightarrow> (\<And>e. rely' e \<Longrightarrow> rely e) \<Longrightarrow> contract rely' guar p post"
  by (induction p) auto

lemma contract_True: "contract rely (\<lambda>_. True) p (\<lambda>_. True)"
  by (induction p) auto

lemma contract_conj:
  "contract rely guar p post \<Longrightarrow> contract rely guar' p post' \<Longrightarrow>
   contract rely (\<lambda>c. guar c \<and> guar' c) p (\<lambda>x. post x \<and> post' x)"
  by (induction p) auto

section \<open>What a contract says of a run\<close>

lemma contract_replay:
  assumes "contract rely guar p post" "replay p rs = (tr, out)" "\<forall>e \<in> set tr. rely e"
  shows "(\<forall>e \<in> set tr. guar (fst e)) \<and> (\<forall>x. out = Returned x \<longrightarrow> post x)"
  using assms
proof (induction p arbitrary: rs tr)
  case (Do c k)
  show ?case
  proof (cases rs)
    case (Cons r rs')
    obtain tr1 out1 where 1: "replay (k r) rs' = (tr1, out1)" by fastforce
    with Do.prems(2) Cons have tr: "tr = (c, r) # tr1" "out = out1" by auto
    have "contract rely guar (k r) post" "guar c" "\<forall>e \<in> set tr1. rely e" using Do.prems(1,3) tr by auto
    then show ?thesis using Do.IH [of "k r" rs' tr1] 1 Do.prems(2) Cons tr by auto
  qed (use Do.prems in auto)
qed auto

lemma contract_run:
  assumes "contract rely guar p post" "run_prog api p w = (tr, out, w')" "\<forall>e \<in> set tr. rely e"
  shows "(\<forall>e \<in> set tr. guar (fst e)) \<and> (\<forall>x. out = Some x \<longrightarrow> post x)"
  using contract_replay [OF assms(1) run_replay [OF assms(2)] assms(3)] by (auto split: option.splits)

section \<open>Answers that fit the question\<close>

text \<open>What an API server is relied on for: a read returns the object that was asked for.\<close>

fun honest :: "call \<times> resp \<Rightarrow> bool" where
  "honest (CGet k nn, Inr x) = (kind_of x = k \<and> nsname_of (kmeta x) = nn)"
| "honest _ = True"

lemma honest_simps [simp]: "honest (c, Inl e)" "honest (CCreate x, r)" "honest (CUpdate x, r)"
  "honest (CStatusUpdate x, r)" "honest (CDelete x, r)" "honest (CEvent a t q m, r)"
  by (cases c; simp) (cases r; simp)+

lemma nsname_of_eq: "nsname_of m = nsname ns n \<longleftrightarrow> m_Namespace m = ns \<and> m_Name m = n"
  by (simp add: nsname_of_def nsname_def)

lemma nsname_sel [simp]: "nn_Namespace (nsname ns n) = ns" "nn_Name (nsname ns n) = n"
  by (simp_all add: nsname_def)

text \<open>A typed read is an object of the right key.\<close>

lemma typed_Inr: "typed proj r = Inr x \<longleftrightarrow> (\<exists>y. r = Inr y \<and> proj y = Some x)"
  by (auto simp: typed_def split: sum.splits option.splits)

lemma as_simps:
  "as_share y = Some a \<longleftrightarrow> y = OShare a" "as_security y = Some b \<longleftrightarrow> y = OSecurity b"
  "as_common y = Some c \<longleftrightarrow> y = OCommon c" "as_deployment y = Some d \<longleftrightarrow> y = ODeployment d"
  "as_statefulset y = Some e \<longleftrightarrow> y = OStatefulSet e" "as_service y = Some f \<longleftrightarrow> y = OService f"
  "as_configmap y = Some g \<longleftrightarrow> y = OConfigMap g" "as_pvc y = Some h \<longleftrightarrow> y = OPVC h"
  "as_namespace y = Some i \<longleftrightarrow> y = ONamespace i" "as_serviceaccount y = Some j \<longleftrightarrow> y = OServiceAccount j"
  "as_role y = Some l \<longleftrightarrow> y = ORole l" "as_rolebinding y = Some m \<longleftrightarrow> y = ORoleBinding m"
  "as_servicemonitor y = Some n \<longleftrightarrow> y = OServiceMonitor n" "as_pod y = Some q \<longleftrightarrow> y = OPod q"
  by (cases y; simp)+

end
