(* ===== verification/Permissions.thy ===== *)
theory Permissions
  imports Contracts
begin

text \<open>
  What one pass may do to the cluster, proved along the programs with the contracts of
  \<open>Contracts\<close>: which objects are created and that the share owns them, which fields of the
  share are written, what is deleted, and that nothing outside the share's namespace is read
  or written.
\<close>

section \<open>The share\<close>

definition scc_annotation :: string where
  "scc_annotation = ''openshift.io/scc''"

text \<open>The spec as the user wrote it, or with the name of the claim filled in.\<close>

definition same_spec :: "SmbShare \<Rightarrow> SmbShare \<Rightarrow> bool" where
  "same_spec s s' \<longleftrightarrow> sh_Spec s' = sh_Spec s \<or>
     (\<exists>pvc. st_Pvc (sp_Storage (sh_Spec s)) = Some pvc \<and> pvc_Name pvc = '''' \<and>
        sh_Spec s' = (sh_Spec s)\<lparr>sp_Storage := (sp_Storage (sh_Spec s))
          \<lparr>st_Pvc := Some (pvc\<lparr>pvc_Name := m_Name (sh_meta s) @ ''-pvc''\<rparr>)\<rparr>\<rparr>)"

definition same_meta :: "ObjectMeta \<Rightarrow> ObjectMeta \<Rightarrow> bool" where
  "same_meta m m' \<longleftrightarrow> m_Name m' = m_Name m \<and> m_Namespace m' = m_Namespace m \<and> m_UID m' = m_UID m \<and>
     m_Labels m' = m_Labels m \<and> m_OwnerReferences m' = m_OwnerReferences m \<and>
     m_DeletionTimestamp m' = m_DeletionTimestamp m \<and>
     (\<forall>k. k \<noteq> scc_annotation \<and> k \<noteq> serverBackend \<longrightarrow> mlookup (m_Annotations m') k = mlookup (m_Annotations m) k)"

text \<open>The writes of a share that an update makes, besides the status.\<close>

definition share_write :: "kube_lib \<Rightarrow> SmbShare \<Rightarrow> SmbShare \<Rightarrow> bool" where
  "share_write lib s s' \<longleftrightarrow> same_meta (sh_meta s) (sh_meta s') \<and> same_spec s s' \<and> sh_Status s' = sh_Status s \<and>
     (m_Finalizers (sh_meta s') = m_Finalizers (sh_meta s) \<or>
      m_Finalizers (sh_meta s') = kl_AddFinalizer lib (m_Finalizers (sh_meta s)) shareFinalizer)"

text \<open>A share with annotations and claim name filled in, as it is passed along in a pass.\<close>

definition same_share :: "SmbShare \<Rightarrow> SmbShare \<Rightarrow> bool" where
  "same_share s s' \<longleftrightarrow> same_meta (sh_meta s) (sh_meta s') \<and> same_spec s s' \<and> sh_Status s' = sh_Status s \<and>
     m_Finalizers (sh_meta s') = m_Finalizers (sh_meta s)"

lemma same_meta_refl [simp]: "same_meta m m"
  by (simp add: same_meta_def)

lemma same_share_refl [simp]: "same_share s s"
  by (simp add: same_share_def same_spec_def)

lemma same_meta_annotation:
  assumes "same_meta m m'" "k = scc_annotation \<or> k = serverBackend"
  shows "same_meta m (m'\<lparr>m_Annotations := Some (ins k v (entries (m_Annotations m')))\<rparr>)"
  using assms by (auto simp: same_meta_def mlookup_def entries_def map_of_ins)

section \<open>What an update may do\<close>

definition owned_by_share :: "SmbShare \<Rightarrow> ObjectMeta \<Rightarrow> bool" where
  "owned_by_share s m \<longleftrightarrow>
     (\<exists>ref \<in> set (m_OwnerReferences m). or_UID ref = m_UID (sh_meta s) \<and> or_Name ref = m_Name (sh_meta s))"

text \<open>The service account, the roles and the bindings that an OpenShift namespace gets.\<close>

definition access_object :: "SmbShare \<Rightarrow> kobj \<Rightarrow> bool" where
  "access_object s x \<longleftrightarrow> (kind_of x, nsname_of (kmeta x)) \<in> set (access_keys s)"

lemma access_object_scope:
  "access_object s x \<Longrightarrow> kind_of x \<in> {KServiceAccount, KRole, KRoleBinding} \<and> m_Namespace (kmeta x) = m_Namespace (sh_meta s)"
  by (auto simp: access_object_def access_keys_def nsname_of_def nsname_def metricsRoleBindingNsnameOf_def metricsRoleNsnameOf_def
      sccRoleBindingNsnameOf_def sccRoleNsnameOf_def serviceAccountNsname_def)

definition reads_in :: "NamespacedName \<Rightarrow> string \<Rightarrow> okind \<Rightarrow> NamespacedName \<Rightarrow> bool" where
  "reads_in pod ns k nn \<longleftrightarrow>
     nn_Namespace nn = ns \<or> (k = KNamespace \<and> nn = nsname '''' ns) \<or> (k = KPod \<and> nn = pod)"

fun update_may :: "kube_lib \<Rightarrow> NamespacedName \<Rightarrow> SmbShare \<Rightarrow> call \<Rightarrow> bool" where
  "update_may lib pod s (CGet k nn) = reads_in pod (m_Namespace (sh_meta s)) k nn"
| "update_may lib pod s (CEvent about t reason msg) = (about = nsname_of (sh_meta s))"
| "update_may lib pod s (CCreate x) =
     (m_Namespace (kmeta x) = m_Namespace (sh_meta s) \<and>
      (kind_of x \<in> {KServiceAccount, KRole, KRoleBinding} \<and> access_object s x \<and> m_OwnerReferences (kmeta x) = [] \<or>
       kind_of x \<in> {KDeployment, KStatefulSet, KService, KConfigMap, KPVC, KServiceMonitor} \<and> owned_by_share s (kmeta x)))"
| "update_may lib pod s (CUpdate x) =
     ((\<exists>s'. x = OShare s' \<and> share_write lib s s') \<or>
      kind_of x = KNamespace \<and> m_Name (kmeta x) = m_Namespace (sh_meta s) \<or>
      kind_of x \<in> {KDeployment, KStatefulSet, KService, KConfigMap} \<and> m_Namespace (kmeta x) = m_Namespace (sh_meta s))"
| "update_may lib pod s (CStatusUpdate x) =
     (\<exists>s' g. same_share s s' \<and> sst_ServerGroup (sh_Status s) = '''' \<and> requested_group s = Inr g \<and>
        x = OShare (set_group g s'))"
| "update_may lib pod s (CDelete x) = False"

section \<open>Reads and creations\<close>

lemma contract_read:
  assumes "guar (CGet k nn)" "\<And>e. post (Inl e)"
    and "\<And>y x. kind_of y = k \<Longrightarrow> nsname_of (kmeta y) = nn \<Longrightarrow> proj y = Some x \<Longrightarrow> post (Inr x)"
  shows "contract honest guar (get_as k proj nn) post"
  using assms by (auto simp: contract_get_as typed_def split: sum.splits option.splits)

lemma contract_existing:
  assumes "guar (CGet k nn)" "\<And>e. post (Inl e)" "post (Inr None)"
    and "\<And>y x. kind_of y = k \<Longrightarrow> nsname_of (kmeta y) = nn \<Longrightarrow> proj y = Some x \<Longrightarrow> post (Inr (Some x))"
  shows "contract honest guar (existing k proj nn) post"
  unfolding existing_def contract_andthen
  by (rule contract_read) (auto simp: assms)

lemma contract_get_or_create:
  assumes "contract honest guar get (\<lambda>r. \<forall>x. r = Inr (Some x) \<longrightarrow> P x)"
    and "contract honest guar mk (\<lambda>r. \<forall>x. r = Inr x \<longrightarrow> P x)"
  shows "contract honest guar (get_or_create get mk) (\<lambda>r. \<forall>x b. r = Inr (x, b) \<longrightarrow> P x)"
  unfolding get_or_create_def contract_on_ok
  by (rule contract_mono [OF assms(1)])
    (auto simp: contract_simps split: option.split intro: contract_mono [OF assms(2)])

lemma contract_create_owned:
  assumes "kube_laws lib"
    and "\<And>m'. m_Name m' = m_Name m \<Longrightarrow> m_Namespace m' = m_Namespace m \<Longrightarrow> owned_by_share s m' \<Longrightarrow>
      guar (CCreate (wrap (with_meta m'))) \<and> P (with_meta m')"
  shows "contract honest guar (create_owned lib s with_meta wrap m) (\<lambda>r. \<forall>x. r = Inr x \<longrightarrow> P x)"
proof (cases "kl_SetControllerReference lib (sh_meta s) m")
  case (Inr m')
  then have "m_Name m' = m_Name m" "m_Namespace m' = m_Namespace m" "owned_by_share s m'"
    using kube_laws.controller_keeps [OF assms(1) Inr] kube_laws.controller_set [OF assms(1) Inr]
    by (auto simp: owned_by_share_def)
  then show ?thesis using assms(2) [of m'] Inr by (auto simp: create_owned_def contract_simps)
qed (simp add: create_owned_def contract_simps)

lemma contract_get_or_create_retry:
  assumes get: "contract honest guar get (\<lambda>r. \<forall>x. r = Inr x \<longrightarrow> P x)"
    and "guar (CCreate (wrap want))" "P want"
  shows "contract honest guar (get_or_create_retry get wrap want) (\<lambda>r. \<forall>x b. r = Inr (x, b) \<longrightarrow> P x)"
  unfolding get_or_create_retry_def contract_andthen
  by (rule contract_mono [OF get])
    (auto simp: contract_simps assms(2,3) split: sum.split intro: contract_mono [OF get])

section \<open>The getters\<close>

lemma nsname_of_iff: "nsname_of m = nn \<longleftrightarrow> m_Namespace m = nn_Namespace nn \<and> m_Name m = nn_Name nn"
  by (cases nn) (auto simp: nsname_of_def)

context kube_laws
begin

lemma getter_contract:
  assumes "m_Namespace (sh_meta p) = ns" "kind_of (wrap (with_meta m)) \<in> {KDeployment, KStatefulSet, KService, KConfigMap, KPVC}"
    and "\<And>m'. kind_of (wrap (with_meta m')) = kind_of (wrap (with_meta m)) \<and> kmeta (wrap (with_meta m')) = m' \<and> meta (with_meta m') = m'"
    and "m_Namespace m = ns" "m_UID (sh_meta s) = m_UID (sh_meta p)" "m_Name (sh_meta s) = m_Name (sh_meta p)"
    "m_Namespace (sh_meta s) = ns"
  shows "contract honest (update_may lib pod s) (create_owned lib p with_meta wrap m)
    (\<lambda>r. \<forall>x. r = Inr x \<longrightarrow> m_Namespace (meta x) = ns \<and> m_Name (meta x) = m_Name m)"
  using assms
  by (intro contract_create_owned kube_laws_axioms) (auto simp: owned_by_share_def)

lemma getOrCreateConfigMap_contract:
  assumes "same_share s p"
  shows "contract honest (update_may lib pod s) (getOrCreateConfigMap lib cfg p (m_Namespace (sh_meta p)))
     (\<lambda>r. \<forall>x b. r = Inr (x, b) \<longrightarrow> m_Namespace (cm_meta x) = m_Namespace (sh_meta s))"
  using assms unfolding getOrCreateConfigMap_def Let_def
  by (intro contract_get_or_create contract_existing contract_mono [OF getter_contract [where meta = cm_meta]])
    (auto simp: reads_in_def as_simps nsname_of_iff newDefaultConfigMap_def share_planner_def same_share_def same_meta_def)

lemma getOrCreateDeployment_contract:
  assumes "same_share s (pl_SmbShare pl)"
  shows "contract honest (update_may lib pod s) (getOrCreateDeployment lib cfg pl (m_Namespace (sh_meta (pl_SmbShare pl))))
     (\<lambda>r. \<forall>x b. r = Inr (x, b) \<longrightarrow> m_Namespace (dep_meta x) = m_Namespace (sh_meta s))"
  using assms unfolding getOrCreateDeployment_def getExistingDeployment_def contract_eval
  by (intro contract_get_or_create contract_existing)
    (auto simp: reads_in_def as_simps nsname_of_iff same_share_def same_meta_def contract_eval buildDeployment_def
      bind_eq_Some_conv Let_def intro!: contract_mono [OF getter_contract [where meta = dep_meta]])

lemma getOrCreateStatefulSet_contract:
  assumes "same_share s (pl_SmbShare pl)"
  shows "contract honest (update_may lib pod s) (getOrCreateStatefulSet lib pl (m_Namespace (sh_meta (pl_SmbShare pl))))
     (\<lambda>r. \<forall>x b. r = Inr (x, b) \<longrightarrow> m_Namespace (ss_meta x) = m_Namespace (sh_meta s))"
  using assms unfolding getOrCreateStatefulSet_def getExistingStatefulSet_def contract_eval
  by (intro contract_get_or_create contract_existing)
    (auto simp: reads_in_def as_simps nsname_of_iff same_share_def same_meta_def contract_eval buildStatefulSet_def
      bind_eq_Some_conv Let_def intro!: contract_mono [OF getter_contract [where meta = ss_meta]])

lemma getOrCreateGenericPVC_contract:
  assumes "same_share s p"
  shows "contract honest (update_may lib pod s) (getOrCreateGenericPVC lib p spec name (m_Namespace (sh_meta p)))
     (\<lambda>r. \<forall>x b. r = Inr (x, b) \<longrightarrow> m_Namespace (pvclaim_meta x) = m_Namespace (sh_meta s) \<and> m_Name (pvclaim_meta x) = name)"
  using assms unfolding getOrCreateGenericPVC_def getExistingPVC_def
  by (intro contract_get_or_create contract_existing)
    (auto simp: reads_in_def as_simps nsname_of_iff same_share_def same_meta_def contract_eval
      intro!: contract_mono [OF getter_contract [where meta = pvclaim_meta]])

lemma getOrCreateService_contract:
  assumes "same_share s (pl_SmbShare pl)"
  shows "contract honest (update_may lib pod s) (getOrCreateService lib pl (m_Namespace (sh_meta (pl_SmbShare pl))))
     (\<lambda>r. \<forall>x b. r = Inr (x, b) \<longrightarrow> m_Namespace (svc_meta x) = m_Namespace (sh_meta s))"
  using assms unfolding getOrCreateService_def
  by (intro contract_get_or_create contract_existing)
    (auto simp: reads_in_def as_simps nsname_of_iff same_share_def same_meta_def contract_eval newServiceForSmb_def
      bind_eq_Some_conv Let_def intro!: contract_mono [OF getter_contract [where meta = svc_meta]])

end

section \<open>The steps of an update\<close>

lemma contract_pass_step:
  assumes "contract honest guar p (\<lambda>r. \<forall>x b. r = Inr (x, b) \<longrightarrow> P x)" "\<And>r. post (out r)"
    and "\<And>x. P x \<Longrightarrow> contract honest guar (next_step x) post"
  shows "contract honest guar (pass_step p out next_step) post"
  unfolding pass_step_def contract_on_ok
  by (rule contract_mono [OF assms(1)]) (auto simp: contract_simps assms(2,3))

lemma contract_created_step:
  assumes "contract honest guar p (\<lambda>r. \<forall>x b. r = Inr (x, b) \<longrightarrow> P x)" "\<And>r. post r"
    and "\<And>x. contract honest guar (made x) post" "\<And>x. P x \<Longrightarrow> contract honest guar (next_step x) post"
  shows "contract honest guar (created_step p made next_step) post"
  unfolding created_step_def contract_on_ok
  by (rule contract_mono [OF assms(1)]) (auto simp: contract_simps assms(2-4))

lemma contract_changed_step:
  assumes "contract honest guar p (\<lambda>_. True)" "\<And>r. post r" "contract honest guar next_step post"
  shows "contract honest guar (changed_step p next_step) post"
  unfolding changed_step_def contract_on_ok
  by (rule contract_mono [OF assms(1)]) (auto simp: contract_simps assms(2,3))

lemma contract_unless_yield:
  assumes "contract honest guar p (\<lambda>_. True)" "\<And>r. post (out r)" "contract honest guar next_step post"
  shows "contract honest guar (unless_yield p out next_step) post"
  unfolding unless_yield_def contract_andthen
  by (rule contract_mono [OF assms(1)]) (auto simp: contract_simps assms(2,3))

definition only_cluster_type :: "OperatorConfig \<Rightarrow> OperatorConfig \<Rightarrow> bool" where
  "only_cluster_type cfg cfg' \<longleftrightarrow> cfg'\<lparr>oc_ClusterType := ''''\<rparr> = cfg\<lparr>oc_ClusterType := ''''\<rparr>"

lemma contract_cluster_type:
  assumes "guar (CGet KPod (nsname (oc_PodNamespace cfg) (oc_PodName cfg)))"
  shows "contract rely guar (IsOpenShiftCluster cfg) (\<lambda>_. True)"
    and "contract rely guar (updateClusterType cfg) (only_cluster_type cfg)"
proof -
  show is_open: "contract rely guar (IsOpenShiftCluster cfg) (\<lambda>_. True)"
    using assms by (simp add: IsOpenShiftCluster_def resolveClusterTypeByPod_def getPod_def contract_simps)
  show "contract rely guar (updateClusterType cfg) (only_cluster_type cfg)"
    unfolding updateClusterType_def contract_if contract_andthen
    by (intro conjI impI contract_mono [OF is_open]) (simp_all add: only_cluster_type_def)
qed

text \<open>Objects with a fixed name in the namespace of the share, created without an owner.\<close>

lemma contract_openshift_getter:
  assumes "m_Namespace (sh_meta p) = m_Namespace (sh_meta s)" "kind_of (wrap want) \<in> {KServiceAccount, KRole, KRoleBinding}"
    and "kmeta (wrap want) = meta_for (nsname (m_Namespace (sh_meta p)) name)" "(kind_of (wrap want), nsname (m_Namespace (sh_meta p)) name) \<in> set (access_keys p)"
  shows "contract honest (update_may lib pod s)
    (get_or_create_retry (get_as k proj (nsname (m_Namespace (sh_meta p)) name)) wrap want)
    (\<lambda>r. \<forall>x b. r = Inr (x, b) \<longrightarrow> True)"
  using assms access_keys_namespace [OF assms(1)]
  by (intro contract_get_or_create_retry)
    (auto simp: contract_get_as reads_in_def meta_for_def access_object_def nsname_of_def nsname_def)

lemma openshift_getters_contract:
  assumes "same_share s p"
  shows "contract honest (update_may lib pod s) (getOrCreateServiceAccountOf p) (\<lambda>r. \<forall>x b. r = Inr (x, b) \<longrightarrow> True)"
    "contract honest (update_may lib pod s) (getOrCreateSCCRoleOf p) (\<lambda>r. \<forall>x b. r = Inr (x, b) \<longrightarrow> True)"
    "contract honest (update_may lib pod s) (getOrCreateSCCRoleBindingOf p sa role) (\<lambda>r. \<forall>x b. r = Inr (x, b) \<longrightarrow> True)"
    "contract honest (update_may lib pod s) (getOrCreateMetricsRoleOf p) (\<lambda>r. \<forall>x b. r = Inr (x, b) \<longrightarrow> True)"
    "contract honest (update_may lib pod s) (getOrCreateMetricsRoleBindingOf p role) (\<lambda>r. \<forall>x b. r = Inr (x, b) \<longrightarrow> True)"
  using assms
  unfolding getOrCreateServiceAccountOf_def getOrCreateSCCRoleOf_def getOrCreateSCCRoleBindingOf_def
    getOrCreateMetricsRoleOf_def getOrCreateMetricsRoleBindingOf_def getServiceAccountOf_def
    getSCCRoleOf_def getSCCRoleBindingOf_def getMetricsRoleOf_def getMetricsRoleBindingOf_def
    serviceAccountNsname_def sccRoleNsnameOf_def sccRoleBindingNsnameOf_def metricsRoleNsnameOf_def
    metricsRoleBindingNsnameOf_def
  by (intro contract_openshift_getter; simp add: same_share_def same_meta_def access_keys_def serviceAccountNsname_def
      sccRoleNsnameOf_def sccRoleBindingNsnameOf_def metricsRoleNsnameOf_def metricsRoleBindingNsnameOf_def)+

lemma getOrUpdateNamespaceOf_contract:
  assumes "same_share s p"
  shows "contract honest (update_may lib pod s) (getOrUpdateNamespaceOf p) (\<lambda>r. \<forall>x b. r = Inr (x, b) \<longrightarrow> True)"
  using assms unfolding getOrUpdateNamespaceOf_def getNamespace_def contract_on_ok
  by (intro contract_read)
    (auto simp: contract_simps Let_def reads_in_def same_share_def same_meta_def addNamespaceLabels_def bind_eq_Some_conv)

lemma requireAnnotationsOf_same: "same_share s (requireAnnotationsOf s)"
  using same_meta_annotation [OF same_meta_refl, of scc_annotation "sh_meta s"]
  by (simp add: same_share_def same_spec_def requireAnnotationsOf_def scc_annotation_def)

lemma updateForOpenshift_contract:
  assumes "pod = nsname (oc_PodNamespace cfg) (oc_PodName cfg)"
  shows "contract honest (update_may lib pod s) (updateForOpenshift cfg s)
    (\<lambda>(r, s', cfg'). same_share s s' \<and> only_cluster_type cfg cfg')"
proof -
  let ?s = "requireAnnotationsOf s" and ?post = "\<lambda>(r, s', cfg'). same_share s s' \<and> only_cluster_type cfg cfg'"
  note stages = openshift_getters_contract [OF requireAnnotationsOf_same, where lib = lib]
    getOrUpdateNamespaceOf_contract [OF requireAnnotationsOf_same, where lib = lib]
  have "contract honest (update_may lib pod s)
     (pass_step (getOrUpdateNamespaceOf ?s) (\<lambda>r. (r, ?s, c)) (\<lambda>ns.
      pass_step (getOrCreateServiceAccountOf ?s) (\<lambda>r. (r, ?s, c)) (\<lambda>sa.
      pass_step (getOrCreateSCCRoleOf ?s) (\<lambda>r. (r, ?s, c)) (\<lambda>sccRole.
      pass_step (getOrCreateSCCRoleBindingOf ?s sa sccRole) (\<lambda>r. (r, ?s, c)) (\<lambda>b.
      pass_step (getOrCreateMetricsRoleOf ?s) (\<lambda>r. (r, ?s, c)) (\<lambda>metricsRole.
      pass_step (getOrCreateMetricsRoleBindingOf ?s metricsRole) (\<lambda>r. (r, ?s, c)) (\<lambda>b.
      Ret (Done, ?s, c)))))))) ?post"
    if "only_cluster_type cfg c" for c
    using that requireAnnotationsOf_same
    by (intro contract_pass_step [OF stages(6)] contract_pass_step [OF stages(1)] contract_pass_step [OF stages(2)]
        contract_pass_step [OF stages(3)] contract_pass_step [OF stages(4)] contract_pass_step [OF stages(5)])
      simp_all
  then show ?thesis
    unfolding updateForOpenshift_def contract_andthen Let_def contract_if
    by (intro contract_mono [OF contract_cluster_type(2)]) (auto simp: assms reads_in_def)
qed

section \<open>The stages of an update\<close>

definition server_object :: "SmbShare \<Rightarrow> kobj \<Rightarrow> bool" where
  "server_object s x \<longleftrightarrow> kind_of x \<in> {KDeployment, KStatefulSet, KService, KConfigMap} \<and>
     m_Namespace (kmeta x) = m_Namespace (sh_meta s)"

lemma kind_of_map_kmeta [simp]: "kind_of (map_kmeta f x) = kind_of x"
  by (simp add: map_kmeta_def)

lemma claimOwnership_contract:
  "server_object s x \<Longrightarrow> contract rely (update_may lib pod s) (claimOwnership lib p x) (\<lambda>_. True)"
  unfolding claimOwnership_def
  by (auto simp: contract_simps server_object_def Let_def split: sum.split bool.split)

lemma claim_ConfigMap_namespace: "setContainerConfig cm cc = Some cm' \<Longrightarrow> cm_meta cm' = cm_meta cm"
  by (auto simp: setContainerConfig_def bind_eq_Some_conv)

lemma contract_reads_share:
  assumes "m_Namespace (sh_meta p) = m_Namespace (sh_meta s)"
  shows "contract rely (update_may lib pod s) (getSecurityConfig p) (\<lambda>_. True)"
    and "contract rely (update_may lib pod s) (getCommonConfig p) (\<lambda>_. True)"
    and "contract rely (update_may lib pod s) (getShareInstance cfg p)
      (\<lambda>r. \<forall>i. r = Inr i \<longrightarrow> ic_SmbShare i = Some p \<and> ic_GlobalConfig i = cfg)"
proof -
  show sec: "contract rely (update_may lib pod s) (getSecurityConfig p) (\<lambda>_. True)"
    using assms by (simp add: getSecurityConfig_def contract_simps reads_in_def)
  show com: "contract rely (update_may lib pod s) (getCommonConfig p) (\<lambda>_. True)"
    using assms by (simp add: getCommonConfig_def contract_simps reads_in_def)
  show "contract rely (update_may lib pod s) (getShareInstance cfg p)
      (\<lambda>r. \<forall>i. r = Inr i \<longrightarrow> ic_SmbShare i = Some p \<and> ic_GlobalConfig i = cfg)"
    unfolding getShareInstance_def contract_on_ok
    by (rule contract_mono [OF sec]) (auto simp: contract_simps intro!: contract_mono [OF com])
qed

lemma ownerSharesExcluding_namespace:
  "ownerSharesExcluding lib m p = Inr others \<Longrightarrow> nn \<in> set others \<Longrightarrow> nn_Namespace nn = m_Namespace (sh_meta p)"
  by (auto simp: ownerSharesExcluding_def ownerRefsToNames_def split: sum.splits)

lemma check_group_contract:
  assumes "same_share s p" "\<forall>nn \<in> set others. nn_Namespace nn = m_Namespace (sh_meta s)"
  shows "contract honest (update_may lib pod s) (check_group cfg p i others) (\<lambda>_. True)"
proof (cases others)
  case (Cons nn nns)
  have about: "nsname_of (sh_meta p) = nsname_of (sh_meta s)"
    using assms(1) by (simp add: same_share_def same_meta_def nsname_of_def)
  show ?thesis
    unfolding check_group_def Cons list.case getSmbShareByName_def contract_on_ok
  proof (rule contract_read)
    fix y other
    assume "nsname_of (kmeta y) = nn" "as_share y = Some other"
    then have ns: "m_Namespace (sh_meta other) = m_Namespace (sh_meta s)"
      using assms(2) Cons by (auto simp: as_simps nsname_of_def)
    show "(\<forall>err. Inr other = Inl err \<longrightarrow> contract honest (update_may lib pod s) (Ret (Inl err)) (\<lambda>_. True)) \<and>
      (\<forall>x. Inr other = Inr x \<longrightarrow> contract honest (update_may lib pod s) (getShareInstance cfg x)
        (\<lambda>r. (\<forall>err. r = Inl err \<longrightarrow> contract honest (update_may lib pod s) (Ret (Inl err)) (\<lambda>_. True)) \<and>
             (\<forall>otherInstance. r = Inr otherInstance \<longrightarrow> contract honest (update_may lib pod s)
                (eval (CheckCompatible i otherInstance) (\<lambda>r. case r of Inl e \<Rightarrow>
                    andthen (emit (nsname_of (sh_meta p)) EventWarning ReasonInvalidConfiguration (iie_Error e))
                      (\<lambda>_. Ret (Inl (IncompatibleError e)))
                  | Inr _ \<Rightarrow> Ret (Inr ()))) (\<lambda>_. True))))"
      by (auto simp: contract_simps about split: sum.split intro!: contract_mono [OF contract_reads_share(3) [OF ns]])
  qed (use assms(2) Cons in \<open>auto simp: reads_in_def contract_simps\<close>)
qed (simp add: check_group_def contract_simps)

lemma updateConfiguration_contract:
  assumes "same_share s p" "m_Namespace (cm_meta cm) = m_Namespace (sh_meta s)"
  shows "contract honest (update_may lib pod s) (updateConfiguration lib cfg cm p)
    (\<lambda>r. \<forall>pl b. r = Inr (pl, b) \<longrightarrow> pl_SmbShare pl = p \<and> pl_GlobalConfig pl = cfg)"
proof -
  have ns: "m_Namespace (sh_meta p) = m_Namespace (sh_meta s)"
    using assms(1) by (simp add: same_share_def same_meta_def)
  show ?thesis
    unfolding updateConfiguration_def
    using check_group_contract [OF assms(1)] ownerSharesExcluding_namespace [of lib "cm_meta cm" p] ns assms(2)
    by (auto simp: contract_simps Let_def store_config_def New_def claim_ConfigMap_namespace split: sum.split option.splits
        intro!: contract_mono [OF contract_reads_share(3)] contract_mono [OF check_group_contract [OF assms(1)]])
qed

context kube_laws
begin

lemma updateConfigMap_contract:
  assumes "same_share s p"
  shows "contract honest (update_may lib pod s) (updateConfigMap lib cfg p)
    (\<lambda>(planner, r). \<forall>pl. planner = Some pl \<longrightarrow> pl_SmbShare pl = p \<and> pl_GlobalConfig pl = cfg)"
proof -
  have claim: "contract honest (update_may lib pod s) (claimOwnership lib p (OConfigMap cm)) (\<lambda>_. True)"
    if "m_Namespace (cm_meta cm) = m_Namespace (sh_meta s)" for cm
    using that by (intro claimOwnership_contract) (simp add: server_object_def)
  show ?thesis
    unfolding updateConfigMap_def contract_on_ok
    by (rule contract_mono [OF getOrCreateConfigMap_contract [OF assms]])
      (auto simp: contract_simps intro!: contract_mono [OF claim] contract_mono [OF updateConfiguration_contract [OF assms]])
qed

lemma set_pvc_name_same:
  assumes "same_share s p" "pvcName p = Some n" "set_pvc_name n p = Some p'"
  shows "same_share s p'"
  using assms
  by (auto simp: same_share_def same_spec_def set_pvc_name_def pvcName_def bind_eq_Some_conv same_meta_def
      split: if_splits)

lemma updatePVC_contract:
  assumes "same_share s p"
  shows "contract honest (update_may lib pod s) (updatePVC lib p) (\<lambda>(p', r). same_share s p')"
proof -
  have about: "nsname_of (sh_meta p) = nsname_of (sh_meta s)"
    using assms by (simp add: same_share_def same_meta_def nsname_of_def)
  have get: "contract honest (update_may lib pod s) (getOrCreatePvc lib p (m_Namespace (sh_meta p)))
     (\<lambda>r. \<forall>x b. r = Inr (x, b) \<longrightarrow> pvcName p = Some (m_Name (pvclaim_meta x)))"
    unfolding getOrCreatePvc_def contract_eval
    by (auto intro!: contract_mono [OF getOrCreateGenericPVC_contract [OF assms]])
  show ?thesis
    unfolding updatePVC_def contract_on_ok
    by (rule contract_mono [OF get])
      (auto simp: contract_simps assms about intro: set_pvc_name_same [OF assms])
qed

lemma updateBackend_contract:
  assumes "same_share s (pl_SmbShare pl)"
  shows "contract honest (update_may lib pod s) (updateBackend pl) (\<lambda>_. True)"
  using assms same_meta_annotation [of "sh_meta s" "sh_meta (pl_SmbShare pl)" serverBackend]
  by (auto simp: updateBackend_def Let_def contract_simps share_write_def same_share_def same_spec_def)

lemma created_event_contract:
  assumes "same_share s (pl_SmbShare pl)"
  shows "contract honest (update_may lib pod s) (created_event pl reason msg) (\<lambda>_. True)"
  using assms by (simp add: created_event_def contract_simps same_share_def same_meta_def nsname_of_def)

lemma sizes_contract:
  "m_Namespace (ss_meta ss) = m_Namespace (sh_meta s) \<Longrightarrow>
   contract rely (update_may lib pod s) (updateStatefulSetSize ss n) (\<lambda>_. True)"
  "m_Namespace (dep_meta dep) = m_Namespace (sh_meta s) \<Longrightarrow>
   contract rely (update_may lib pod s) (updateDeploymentSize dep) (\<lambda>_. True)"
  by (auto simp: updateStatefulSetSize_def updateDeploymentSize_def contract_simps)

lemma getOrCreateStatePVC_contract:
  assumes "same_share s (pl_SmbShare pl)"
  shows "contract honest (update_may lib pod s) (getOrCreateStatePVC lib pl (m_Namespace (sh_meta (pl_SmbShare pl))))
     (\<lambda>r. \<forall>x b. r = Inr (x, b) \<longrightarrow> True)"
  unfolding getOrCreateStatePVC_def
  by (auto simp: contract_simps split: sum.split intro!: contract_mono [OF getOrCreateGenericPVC_contract [OF assms]])

lemma updateClusteredState_contract:
  assumes "same_share s (pl_SmbShare pl)"
  shows "contract honest (update_may lib pod s) (updateClusteredState lib pl) (\<lambda>_. True)"
  unfolding updateClusteredState_def Let_def contract_if
  by (auto simp: contract_simps server_object_def intro!: contract_changed_step claimOwnership_contract
      created_event_contract [OF assms] sizes_contract(1)
      contract_created_step [OF getOrCreateStatePVC_contract [OF assms]]
      contract_created_step [OF getOrCreateStatefulSet_contract [OF assms]])

lemma updateNonClusteredState_contract:
  assumes "same_share s (pl_SmbShare pl)"
  shows "contract honest (update_may lib pod s) (updateNonClusteredState lib cfg pl) (\<lambda>_. True)"
  unfolding updateNonClusteredState_def Let_def
  by (auto simp: contract_simps server_object_def intro!: contract_changed_step claimOwnership_contract
      created_event_contract [OF assms] sizes_contract(2)
      contract_created_step [OF getOrCreateDeployment_contract [OF assms]])

lemma updateSmbService_contract:
  assumes "same_share s (pl_SmbShare pl)"
  shows "contract honest (update_may lib pod s) (updateSmbService lib pl) (\<lambda>_. True)"
  unfolding updateSmbService_def Let_def
  by (auto simp: contract_simps server_object_def intro!: contract_changed_step claimOwnership_contract
      contract_created_step [OF getOrCreateService_contract [OF assms]])

lemma metrics_contract:
  assumes "same_share s (pl_SmbShare pl)" "pod = nsname (oc_PodNamespace cfg) (oc_PodName cfg)"
  shows "contract honest (update_may lib pod s) (updateMetricsService cfg pl) (\<lambda>_. True)"
    and "contract honest (update_may lib pod s) (updateMetricsServiceMonitor cfg pl) (\<lambda>_. True)"
proof -
  have pod: "reads_in pod ns KPod (nsname (oc_PodNamespace cfg) (oc_PodName cfg))" for ns
    using assms(2) by (simp add: reads_in_def)
  have sh: "m_Namespace (sh_meta (pl_SmbShare pl)) = m_Namespace (sh_meta s)"
    "m_Name (sh_meta (pl_SmbShare pl)) = m_Name (sh_meta s)" "m_UID (sh_meta (pl_SmbShare pl)) = m_UID (sh_meta s)"
    using assms(1) by (simp_all add: same_share_def same_meta_def)
  have "contract honest (update_may lib pod s) (get_or_create_retry (getMetricsServiceOf pl (m_Namespace (sh_meta s)))
      OService (newMetricsService pl (nsname (m_Namespace (sh_meta s)) (metricsInstanceName pl))))
    (\<lambda>r. \<forall>x b. r = Inr (x, b) \<longrightarrow> True)"
    by (intro contract_get_or_create_retry)
      (auto simp: getMetricsServiceOf_def contract_get_as reads_in_def newMetricsService_def metrics_meta_def
        owned_by_share_def share_owner_ref_def sh)
  then show "contract honest (update_may lib pod s) (updateMetricsService cfg pl) (\<lambda>_. True)"
    unfolding updateMetricsService_def created_step_def getOrCreateMetricsService_def contract_on_ok contract_andthen sh
    by (intro contract_mono [OF contract_cluster_type(1) [where cfg = cfg]])
      (auto simp: contract_simps pod elim!: contract_mono)
  have "contract honest (update_may lib pod s) (get_or_create_retry (getMetricsServiceMonitorOf pl (m_Namespace (sh_meta s)))
      OServiceMonitor (newMetricsServiceMonitor pl (nsname (m_Namespace (sh_meta s)) (metricsMonitorName pl))))
    (\<lambda>r. \<forall>x b. r = Inr (x, b) \<longrightarrow> True)"
    by (intro contract_get_or_create_retry)
      (auto simp: getMetricsServiceMonitorOf_def contract_get_as reads_in_def newMetricsServiceMonitor_def metrics_meta_def
        owned_by_share_def share_owner_ref_def sh)
  then show "contract honest (update_may lib pod s) (updateMetricsServiceMonitor cfg pl) (\<lambda>_. True)"
    unfolding updateMetricsServiceMonitor_def created_step_def getOrCreateMetricsServiceMonitor_def contract_on_ok
      contract_andthen sh
    by (intro contract_mono [OF contract_cluster_type(1) [where cfg = cfg]])
      (auto simp: contract_simps pod elim!: contract_mono)
qed

lemma update_resources_contract:
  assumes "same_share s (pl_SmbShare pl)" "pod = nsname (oc_PodNamespace cfg) (oc_PodName cfg)"
  shows "contract honest (update_may lib pod s) (update_resources lib cfg pl) (\<lambda>_. True)"
  unfolding update_resources_def
  by (intro contract_unless_yield updateSmbService_contract [OF assms(1)] metrics_contract [OF assms])
    (auto simp: contract_simps updateBackend_contract [OF assms(1)] updateClusteredState_contract [OF assms(1)]
      updateNonClusteredState_contract [OF assms(1)])

lemma setServerGroup_contract:
  assumes "same_share s p"
  shows "contract honest (update_may lib pod s) (setServerGroup p) (\<lambda>_. True)"
proof -
  have "m_Name (sh_meta p) = m_Name (sh_meta s)" "sp_Scaling (sh_Spec p) = sp_Scaling (sh_Spec s)"
    using assms by (auto simp: same_share_def same_spec_def same_meta_def)
  then have "requested_group p = requested_group s"
    by (simp add: requested_group_def split: prod.split)
  moreover have "nsname_of (sh_meta p) = nsname_of (sh_meta s)" "sh_Status p = sh_Status s"
    using assms by (simp_all add: same_share_def same_meta_def nsname_of_def)
  ultimately show ?thesis using assms
    by (auto simp: setServerGroup_def contract_simps split: sum.split)
qed

lemma addFinalizer_contract: "contract honest (update_may lib pod s) (addFinalizer lib s) (\<lambda>_. True)"
  by (auto simp: addFinalizer_def contract_simps share_write_def same_meta_def same_spec_def)

text \<open>One pass of \<open>Update\<close>.\<close>

lemma share_Update_contract:
  assumes "pod = nsname (oc_PodNamespace cfg) (oc_PodName cfg)"
  shows "contract honest (update_may lib pod s) (share_Update lib cfg s) (\<lambda>_. True)"
proof -
  have pod: "pod = nsname (oc_PodNamespace c) (oc_PodName c)" if "only_cluster_type cfg c" for c
    using that assms by (cases cfg, cases c) (simp add: only_cluster_type_def)
  define go where "go c x pl = andthen (if shareNeedsPvc x then updatePVC lib x else Ret (x, Done)) (\<lambda>(x', r3).
    if Yield r3 then Ret (r3, c) else
    andthen (update_resources lib c (pl\<lparr>pl_SmbShare := x'\<rparr>)) (\<lambda>r. Ret (r, c)))" for c x pl
  have resources: "contract honest (update_may lib pod s) (go c p pl) (\<lambda>_. True)"
    if "same_share s p" "only_cluster_type cfg c" for p c pl
  proof -
    have "contract honest (update_may lib pod s) (if shareNeedsPvc p then updatePVC lib p else Ret (p, Done))
        (\<lambda>(p', r). same_share s p')"
      using that(1) by (simp add: updatePVC_contract)
    then show ?thesis unfolding go_def contract_andthen
      by (rule contract_mono)
        (auto simp: contract_simps intro!: contract_mono [OF update_resources_contract [OF _ pod [OF that(2)]]])
  qed
  show ?thesis
    unfolding share_Update_def go_def [symmetric] contract_on_ok
    by (rule contract_mono [OF addFinalizer_contract])
      (auto simp: contract_simps intro!: contract_mono [OF updateForOpenshift_contract [OF assms]]
        contract_mono [OF setServerGroup_contract] contract_mono [OF updateConfigMap_contract] resources)
qed

end

end
