(* ===== verification/PassProperties.thy ===== *)
theory PassProperties
  imports Permissions Controllers
begin

text \<open>
  What a finalization and a whole pass may do, and the properties of a pass: at most one
  change, ownership of what is created, the share's own fields, the namespace, and the
  permissions that the calls need.
\<close>

section \<open>What a finalization may do\<close>

fun finalize_may :: "kube_lib \<Rightarrow> NamespacedName \<Rightarrow> SmbShare \<Rightarrow> call \<Rightarrow> bool" where
  "finalize_may lib pod s (CGet k nn) = reads_in pod (m_Namespace (sh_meta s)) k nn"
| "finalize_may lib pod s (CUpdate x) =
     (x = OShare (remove_finalizer lib s) \<or>
      kind_of x \<in> {KDeployment, KStatefulSet, KConfigMap, KPVC} \<and> m_Namespace (kmeta x) = m_Namespace (sh_meta s))"
| "finalize_may lib pod s (CDelete x) =
     (kind_of x \<in> {KServiceAccount, KRole, KRoleBinding} \<and> access_object s x)"
| "finalize_may lib pod s _ = False"

lemma choose_owner_contract:
  assumes "ns = m_Namespace (sh_meta s)"
  shows "contract rely (finalize_may lib pod s) (choose_owner ns refs) (\<lambda>_. True)"
  by (induction refs)
    (auto simp: contract_simps getSmbShareByName_def reads_in_def assms split: sum.split)

lemma transferOwnership_contract:
  assumes "kind_of x \<in> {KDeployment, KStatefulSet, KConfigMap, KPVC}" "m_Namespace (kmeta x) = m_Namespace (sh_meta s)"
  shows "contract rely (finalize_may lib pod s) (transferOwnership lib x s) (\<lambda>_. True)"
  using assms
  by (auto simp: transferOwnership_def Let_def contract_simps changeControllerOwnerTo_def split: sum.split option.split
      intro!: contract_mono [OF choose_owner_contract])

lemma finalizeConfigMap_contract:
  "contract honest (finalize_may lib pod s) (finalizeConfigMap lib cfg s) (\<lambda>_. True)"
proof -
  have prune: "contract honest (finalize_may lib pod s) (pruneConfiguration cfg cm s) (\<lambda>_. True)"
    if "m_Namespace (cm_meta cm) = m_Namespace (sh_meta s)" for cm
    using that by (auto simp: pruneConfiguration_def contract_simps store_config_def claim_ConfigMap_namespace split: sum.split)
  show ?thesis
    unfolding finalizeConfigMap_def getConfigMap_def contract_andthen
    by (rule contract_read)
      (auto simp: contract_simps reads_in_def as_simps nsname_of_iff
        intro!: contract_unless_yield transferOwnership_contract contract_changed_step prune)
qed

lemma contract_transfer_existing:
  assumes "contract honest (finalize_may lib pod s) next_step (\<lambda>_. True)" "nn_Namespace nn = m_Namespace (sh_meta s)"
    and "\<And>y x. kind_of y = k \<Longrightarrow> proj y = Some x \<Longrightarrow> y = wrap x" "k \<in> {KDeployment, KStatefulSet, KPVC}"
  shows "contract honest (finalize_may lib pod s) (transfer_existing lib s wrap (existing k proj nn) next_step) (\<lambda>_. True)"
  unfolding transfer_existing_def contract_on_ok
proof (rule contract_existing)
  fix y x
  assume y: "kind_of y = k" "nsname_of (kmeta y) = nn" "proj y = Some x"
  have "wrap x = y" using assms(3) [OF y(1,3)] by simp
  then show "(\<forall>err. Inr (Some x) = Inl err \<longrightarrow> contract honest (finalize_may lib pod s) (Ret (ErrResult err)) (\<lambda>_. True)) \<and>
    (\<forall>xa. Inr (Some x) = Inr xa \<longrightarrow> contract honest (finalize_may lib pod s)
       (case xa of None \<Rightarrow> next_step | Some x \<Rightarrow> unless_yield (transferOwnership lib (wrap x) s) id next_step) (\<lambda>_. True))"
    using y assms by (auto simp: nsname_of_iff intro!: contract_unless_yield transferOwnership_contract)
qed (use assms(1,2) in \<open>auto simp: reads_in_def contract_simps\<close>)

lemma finalizeServerResources_contract:
  "contract honest (finalize_may lib pod s) (finalizeServerResources lib cfg s) (\<lambda>_. True)"
  unfolding finalizeServerResources_def Let_def getExistingStatefulSet_def getExistingDeployment_def getExistingPVC_def
  by (auto simp: contract_simps as_simps intro!: contract_transfer_existing)

lemma finalizeDataPVC_contract:
  "contract honest (finalize_may lib pod s) (finalizeDataPVC lib s) (\<lambda>_. True)"
  unfolding finalizeDataPVC_def getExistingPVC_def
  by (auto simp: contract_simps as_simps intro!: contract_transfer_existing)

lemma contract_finalize_one:
  assumes "contract honest guar get (\<lambda>r. \<forall>x. r = Inr x \<longrightarrow> guar (CDelete (wrap x)))"
    and "\<And>r. post (out r)" "contract honest guar next_step post"
  shows "contract honest guar (finalize_one get wrap out next_step) post"
  unfolding finalize_one_def contract_andthen
  by (rule contract_mono [OF assms(1)]) (auto simp: contract_simps assms(2,3) split: sum.split)

lemma finalizeForOpenshift_contract:
  assumes "pod = nsname (oc_PodNamespace cfg) (oc_PodName cfg)"
  shows "contract honest (finalize_may lib pod s) (finalizeForOpenshift cfg s) (\<lambda>_. True)"
  unfolding finalizeForOpenshift_def contract_andthen Let_def
  by (rule contract_mono [OF contract_cluster_type(2) [where cfg = cfg]])
    (auto simp: assms reads_in_def contract_simps getMetricsRoleBindingOf_def getMetricsRoleOf_def getSCCRoleBindingOf_def
      getSCCRoleOf_def getServiceAccountOf_def serviceAccountNsname_def sccRoleNsnameOf_def sccRoleBindingNsnameOf_def
      metricsRoleNsnameOf_def metricsRoleBindingNsnameOf_def as_simps access_object_def access_keys_def nsname_of_iff
      intro!: contract_finalize_one contract_read)

lemma share_Finalize_contract:
  assumes "pod = nsname (oc_PodNamespace cfg) (oc_PodName cfg)"
  shows "contract honest (finalize_may lib pod s) (share_Finalize lib cfg s) (\<lambda>_. True)"
  unfolding share_Finalize_def
  by (intro contract_unless_yield finalizeConfigMap_contract finalizeServerResources_contract)
    (auto simp: contract_simps intro!: contract_mono [OF finalizeForOpenshift_contract [OF assms]]
      contract_unless_yield finalizeDataPVC_contract)

section \<open>A pass\<close>

text \<open>The namespace that a pass stays in.\<close>

fun stays_in :: "NamespacedName \<Rightarrow> string \<Rightarrow> call \<Rightarrow> bool" where
  "stays_in pod ns (CGet k nn) = reads_in pod ns k nn"
| "stays_in pod ns (CEvent about t reason msg) = (nn_Namespace about = ns)"
| "stays_in pod ns (CUpdate x) =
     (m_Namespace (kmeta x) = ns \<or> kind_of x = KNamespace \<and> m_Name (kmeta x) = ns)"
| "stays_in pod ns (CCreate x) = (m_Namespace (kmeta x) = ns)"
| "stays_in pod ns (CStatusUpdate x) = (m_Namespace (kmeta x) = ns)"
| "stays_in pod ns (CDelete x) = (m_Namespace (kmeta x) = ns)"

text \<open>
  The RBAC markers of the three reconcilers, from which the operator's cluster role is
  generated: an API group, the resources (with their subresources) and the verbs. The one
  marker that is restricted to a resource name, about a security context constraint, is left out.
\<close>

type_synonym marker = "string \<times> string list \<times> string list"

definition all_verbs :: "string list" where
  "all_verbs = [''get'', ''list'', ''watch'', ''create'', ''update'', ''patch'', ''delete'']"

definition share_markers :: "marker list" where
  "share_markers =
     [(''samba-operator.samba.org'', [''smbshares''], all_verbs),
      (''samba-operator.samba.org'', [''smbshares/finalizers''], [''get'', ''update'', ''patch'']),
      (''samba-operator.samba.org'', [''smbshares/status''], [''get'', ''update'', ''patch'']),
      (''apps'', [''deployments''], all_verbs),
      (''apps'', [''statefulsets''], all_verbs),
      (''core'', [''pods''], [''get'', ''list'']),
      (''core'', [''persistentvolumeclaims''], all_verbs),
      (''core'', [''configmaps''], all_verbs),
      (''core'', [''services''], all_verbs),
      (''core'', [''events''], [''create'']),
      (''coordination.k8s.io'', [''leases''], [''get'', ''list'', ''watch'', ''create'', ''update'', ''delete'']),
      (''security.openshift.io'', [''securitycontextconstraints''], [''get'', ''list'', ''use'']),
      (''monitoring.coreos.com'', [''servicemonitors'', ''prometheusrules''],
         [''get'', ''list'', ''watch'', ''create'', ''update''])]"

definition common_markers :: "marker list" where
  "common_markers =
     [(''samba-operator.samba.org'', [''smbcommonconfigs''], all_verbs),
      (''samba-operator.samba.org'', [''smbcommonconfigs/status''], [''get'', ''update'', ''patch'']),
      (''core'', [''serviceaccounts''], all_verbs),
      (''core'', [''pods'', ''endpoints'', ''services'', ''namespaces''], [''get'', ''list'', ''watch'', ''update'']),
      (''rbac.authorization.k8s.io'', [''roles'', ''rolebindings''],
         [''get'', ''list'', ''watch'', ''create'', ''update'', ''delete'']),
      (''coordination.k8s.io'', [''leases''], [''get'', ''list'', ''create'', ''update'']),
      (''monitoring.coreos.com'', [''servicemonitors'', ''prometheusrules''],
         [''get'', ''list'', ''watch'', ''create'', ''update''])]"

definition security_markers :: "marker list" where
  "security_markers =
     [(''samba-operator.samba.org'', [''smbsecurityconfigs''], all_verbs),
      (''samba-operator.samba.org'', [''smbsecurityconfigs/status''], [''get'', ''update'', ''patch''])]"

definition granted :: "string \<times> string \<Rightarrow> string \<Rightarrow> bool" where
  "granted res v = list_ex (\<lambda>(g, rs, vs). g = fst res \<and> snd res \<in> set rs \<and> v \<in> set vs)
     (share_markers @ common_markers @ security_markers)"

text \<open>The API group and the resource of each kind of object.\<close>

fun resource_of :: "okind \<Rightarrow> string \<times> string" where
  "resource_of KShare = (''samba-operator.samba.org'', ''smbshares'')"
| "resource_of KSecurity = (''samba-operator.samba.org'', ''smbsecurityconfigs'')"
| "resource_of KCommon = (''samba-operator.samba.org'', ''smbcommonconfigs'')"
| "resource_of KDeployment = (''apps'', ''deployments'')"
| "resource_of KStatefulSet = (''apps'', ''statefulsets'')"
| "resource_of KService = (''core'', ''services'')"
| "resource_of KConfigMap = (''core'', ''configmaps'')"
| "resource_of KPVC = (''core'', ''persistentvolumeclaims'')"
| "resource_of KNamespace = (''core'', ''namespaces'')"
| "resource_of KServiceAccount = (''core'', ''serviceaccounts'')"
| "resource_of KRole = (''rbac.authorization.k8s.io'', ''roles'')"
| "resource_of KRoleBinding = (''rbac.authorization.k8s.io'', ''rolebindings'')"
| "resource_of KServiceMonitor = (''monitoring.coreos.com'', ''servicemonitors'')"
| "resource_of KPod = (''core'', ''pods'')"

text \<open>
  What a call asks of the API server. The client reads from a cache, which lists and watches
  the kind; the event recorder patches the event it has created when it is sent again, which
  it is on every retry of a pass that finds an invalid configuration.
\<close>

fun needs :: "call \<Rightarrow> ((string \<times> string) \<times> string) list" where
  "needs (CGet k nn) = [(resource_of k, ''get''), (resource_of k, ''list''), (resource_of k, ''watch'')]"
| "needs (CCreate x) = [(resource_of (kind_of x), ''create'')]"
| "needs (CUpdate x) = [(resource_of (kind_of x), ''update'')]"
| "needs (CDelete x) = [(resource_of (kind_of x), ''delete'')]"
| "needs (CStatusUpdate x) = [((fst (resource_of (kind_of x)), snd (resource_of (kind_of x)) @ ''/status''), ''update'')]"
| "needs (CEvent about t reason msg) = [((''core'', ''events''), ''create''), ((''core'', ''events''), ''patch'')]"

definition event_patch :: "(string \<times> string) \<times> string" where
  "event_patch = ((''core'', ''events''), ''patch'')"

text \<open>Every permission the call needs is granted, but for the patch of an event.\<close>

definition granted_but_patch :: "call \<Rightarrow> bool" where
  "granted_but_patch c \<longleftrightarrow> (\<forall>(res, v) \<in> set (needs c). granted res v \<longleftrightarrow> (res, v) \<noteq> event_patch)"

lemmas markers = granted_def share_markers_def common_markers_def security_markers_def all_verbs_def

lemma granted_reads: "granted (resource_of k) ''get''" "granted (resource_of k) ''list''" "granted (resource_of k) ''watch''"
  by (cases k; simp add: markers)+

lemma granted_simps [simp]:
  "granted (resource_of k) ''create'' \<longleftrightarrow> k \<noteq> KNamespace \<and> k \<noteq> KPod"
  "granted (resource_of k) ''update''"
  "granted (resource_of k) ''delete'' \<longleftrightarrow> k \<noteq> KNamespace \<and> k \<noteq> KPod \<and> k \<noteq> KServiceMonitor"
  "granted (''samba-operator.samba.org'', ''smbshares/status'') ''update''"
  "granted (''core'', ''events'') ''create''" "\<not> granted (''core'', ''events'') ''patch''"
  by (cases k; simp add: markers)+

lemma resource_not_events: "(resource_of k, v) \<noteq> event_patch"
  by (cases k) (simp_all add: event_patch_def)

lemma needs_read: "granted_but_patch (CGet k nn)"
  by (simp add: granted_but_patch_def resource_not_events granted_reads)

lemma update_may_scope:
  "update_may lib pod s c \<Longrightarrow> stays_in pod (m_Namespace (sh_meta s)) c \<and> granted_but_patch c"
  by (cases c) (auto simp: granted_but_patch_def resource_not_events event_patch_def granted_reads share_write_def same_share_def same_meta_def
      set_group_def nsname_of_def)

lemma finalize_may_scope:
  "finalize_may lib pod s c \<Longrightarrow> stays_in pod (m_Namespace (sh_meta s)) c \<and> granted_but_patch c"
  by (cases c) (auto simp: granted_but_patch_def resource_not_events granted_reads remove_finalizer_def dest: access_object_scope)

lemma Reconcile_contract:
  assumes "kube_laws lib"
  shows "contract honest (\<lambda>c. stays_in (nsname (oc_PodNamespace cfg) (oc_PodName cfg)) (nn_Namespace nn) c \<and> granted_but_patch c)
    (Reconcile lib cfg nn) (\<lambda>_. True)"
  (is "contract honest ?guar _ _")
proof -
  have update: "contract honest ?guar (share_Update lib cfg s) (\<lambda>_. True)"
    and finalize: "contract honest ?guar (share_Finalize lib cfg s) (\<lambda>_. True)"
    if "m_Namespace (sh_meta s) = nn_Namespace nn" for s
    using contract_guar_mono [OF kube_laws.share_Update_contract [OF assms refl], of cfg s ?guar]
      contract_guar_mono [OF share_Finalize_contract [OF refl], of lib cfg s ?guar]
      update_may_scope [of lib "nsname (oc_PodNamespace cfg) (oc_PodName cfg)" s]
      finalize_may_scope [of lib "nsname (oc_PodNamespace cfg) (oc_PodName cfg)" s] that
    by simp_all
  have ret: "contract honest ?guar ((\<lambda>(res, cfg'). let err = r_err res in
      if r_requeue res then Ret (\<lparr>cr_Requeue = True\<rparr>, err, cfg') else Ret (\<lparr>cr_Requeue = False\<rparr>, err, cfg')) x)
     (\<lambda>_. True)" for x
    by (cases x) (auto simp: contract_simps Let_def)
  have "contract honest ?guar (Process lib cfg nn) (\<lambda>_. True)"
    unfolding Process_def getSmbShareByName_def contract_andthen
    by (rule contract_read)
      (use needs_read [of KShare] in \<open>auto simp: contract_simps reads_in_def as_simps nsname_of_iff intro!: update finalize\<close>)
  then show ?thesis
    unfolding Reconcile_def contract_andthen by (rule contract_mono) (rule ret)
qed

section \<open>Runs to evaluate the properties on\<close>

text \<open>
  A first pass on a new share, which adds the finalizer; an update that creates the config
  map; and a finalization of a share whose resources are gone, up to its last write.
\<close>

definition demo_first_pass :: "(call \<times> resp) list \<times> (ctrl_Result \<times> gerror option \<times> OperatorConfig) outcome" where
  "demo_first_pass = replay (Reconcile std_lib DefaultOperatorConfig (nsname ''ns1'' ''share1''))
     [Inr (OShare demo_share), Inr (OShare demo_share)]"

definition demo_live :: SmbShare where
  "demo_live = demo_share\<lparr>sh_meta := (sh_meta demo_share)\<lparr>m_Finalizers := [shareFinalizer]\<rparr>\<rparr>"

definition demo_creation :: "(call \<times> resp) list \<times> (Result \<times> OperatorConfig) outcome" where
  "demo_creation = replay (share_Update std_lib DefaultOperatorConfig demo_live)
     [Inl NotFoundError, Inl NotFoundError, Inr (OConfigMap (newDefaultConfigMap ''share1'' ''ns1''))]"

definition demo_gone :: SmbShare where
  "demo_gone = demo_live\<lparr>sh_meta := (sh_meta demo_live)\<lparr>m_DeletionTimestamp := Some 0\<rparr>\<rparr>"

definition demo_finalization :: "(call \<times> resp) list \<times> (Result \<times> OperatorConfig) outcome" where
  "demo_finalization = replay (share_Finalize std_lib DefaultOperatorConfig demo_gone)
     [Inl NotFoundError, Inl NotFoundError, Inl NotFoundError, Inr (OShare demo_gone)]"

lemma demo_first_pass_facts:
  "list_all honest (fst demo_first_pass)" "length (filter ok_write (fst demo_first_pass)) = 1"
  by code_simp+

lemma demo_creation_facts:
  "list_all honest (fst demo_creation)" "list_ex (\<lambda>e. case fst e of CCreate _ \<Rightarrow> True | _ \<Rightarrow> False) (fst demo_creation)"
  by code_simp+

lemma demo_finalization_facts:
  "list_all honest (fst demo_finalization)" "length (filter ok_write (fst demo_finalization)) = 1"
  by code_simp+

lemmas demo_runs = demo_first_pass_facts demo_creation_facts demo_finalization_facts

lemma demo_finalization_done: "case snd demo_finalization of Returned (r, _) \<Rightarrow> r = Done | _ \<Rightarrow> False"
  by code_simp

definition demo_adoption :: "(call \<times> resp) list \<times> (Result \<times> OperatorConfig) outcome" where
  "demo_adoption = replay (share_Update std_lib DefaultOperatorConfig demo_share) [Inr (OShare demo_live)]"

lemma demo_adoption_facts: "list_all honest (fst demo_adoption)" "length (filter ok_write (fst demo_adoption)) = 1"
  by code_simp+

text \<open>A pass over a share whose scaling asks for an explicit group without naming one.\<close>

definition demo_nameless :: SmbShare where
  "demo_nameless = demo_live\<lparr>sh_Spec := (sh_Spec demo_live)\<lparr>sp_Scaling := Some
     \<lparr>scal_AvailabilityMode = '''', scal_MinClusterSize = 0, scal_Group = '''', scal_GroupMode = GroupModeExplicit\<rparr>\<rparr>,
     sh_Status := \<lparr>sst_ServerGroup = ''''\<rparr>\<rparr>"

definition demo_complaint :: "(call \<times> resp) list \<times> (ctrl_Result \<times> gerror option \<times> OperatorConfig) outcome" where
  "demo_complaint = replay (Reconcile std_lib DefaultOperatorConfig (nsname ''ns1'' ''share1''))
     [Inr (OShare demo_nameless), Inl NotFoundError, Inl NotFoundError]"

lemma demo_complaint_facts: "list_all honest (fst demo_complaint)"
  "list_ex (\<lambda>e. ((''core'', ''events''), ''patch'') \<in> set (needs (fst e))) (fst demo_complaint)"
  by code_simp+

lemma demo_complaint_run: "replay (Reconcile std_lib DefaultOperatorConfig (nsname ''ns1'' ''share1''))
    [Inr (OShare demo_nameless), Inl NotFoundError, Inl NotFoundError] = (fst demo_complaint, snd demo_complaint)"
  by (simp add: demo_complaint_def)

lemma demo_first_pass_run: "replay (Reconcile std_lib DefaultOperatorConfig (nsname ''ns1'' ''share1''))
    [Inr (OShare demo_share), Inr (OShare demo_share)] = (fst demo_first_pass, snd demo_first_pass)"
  by (simp add: demo_first_pass_def)

lemma demo_creation_run: "replay (share_Update std_lib DefaultOperatorConfig demo_live)
    [Inl NotFoundError, Inl NotFoundError, Inr (OConfigMap (newDefaultConfigMap ''share1'' ''ns1''))]
    = (fst demo_creation, snd demo_creation)"
  by (simp add: demo_creation_def)

lemma demo_adoption_run: "replay (share_Update std_lib DefaultOperatorConfig demo_share) [Inr (OShare demo_live)]
    = (fst demo_adoption, snd demo_adoption)"
  by (simp add: demo_adoption_def)

lemma demo_finalization_run: "replay (share_Finalize std_lib DefaultOperatorConfig demo_gone)
    [Inl NotFoundError, Inl NotFoundError, Inl NotFoundError, Inr (OShare demo_gone)]
    = (fst demo_finalization, snd demo_finalization)"
  by (simp add: demo_finalization_def)

section \<open>Properties\<close>

lemma stage_Reconcile: "stage (\<lambda>_. True) (Reconcile lib cfg nn)"
  unfolding Reconcile_def
  by (rule stage_bind [OF stage_Process]) (auto simp: Let_def split: prod.split intro!: silent_Ret)

interpretation reconcile: stage "\<lambda>_. True" "Reconcile lib cfg nn" for lib cfg nn
  by (rule stage_Reconcile)

lemma one_shot_tail: "one_shot tr \<Longrightarrow> list_all (\<lambda>e. is_event (fst e)) (tl (dropWhile (\<lambda>e. \<not> ok_write e) tr))"
  by (induction tr) (auto simp: list_all_iff split: if_splits)

text \<open>
  C5. Whatever the API server answers, one reconciliation changes at most one object: at most
  one of its writes succeeds, and after that nothing but events is sent. A crash or a
  conflicting change between two passes thus never leaves a half made change behind.
\<close>

theorem reconcile_one_change:
  "case replay (Reconcile lib cfg nn) rs of (tr, out) \<Rightarrow>
     length (filter ok_write tr) \<le> 1 \<and>
     list_all (\<lambda>e. is_event (fst e)) (tl (dropWhile (\<lambda>e. \<not> ok_write e) tr))"
  using reconcile.at_most_one_write [of lib cfg nn rs] one_shot_tail [OF reconcile.once [of lib cfg nn rs]]
  by (auto split: prod.split)

text \<open>
  C32. A reconciliation of a share stays in the share's namespace, as long as reads return what
  was asked for: every object it reads, creates, updates or deletes lives there, except the
  operator's own pod and the Namespace object itself, and every event is about a share there.
\<close>

theorem reconcile_confined:
  assumes "kube_laws lib" "replay (Reconcile lib cfg nn) rs = (tr, out)" "list_all honest tr"
  shows "list_all (\<lambda>e. stays_in (nsname (oc_PodNamespace cfg) (oc_PodName cfg)) (nn_Namespace nn) (fst e)) tr"
  using contract_replay [OF Reconcile_contract [OF assms(1)] assms(2)] assms(3)
  by (auto simp: list_all_iff)

lemma reconcile_confined_witness:
  "list_all (\<lambda>e. stays_in (nsname [] []) ''ns1'' (fst e)) (fst demo_first_pass) \<and>
   length (filter ok_write (fst demo_first_pass)) = 1"
  using reconcile_confined [OF std.kube_laws_axioms demo_first_pass_run demo_runs(1)] demo_runs(2)
  by (simp add: DefaultOperatorConfig_def)

text \<open>
  C11. What the RBAC markers of the three reconcilers grant of what a reconciliation needs:
  every permission, on the kinds it reads (a cached client lists and watches them, too),
  creates, updates and deletes, on the status of a share and on events, except exactly one:
  the recorder patches an event it sends again, and the markers let it only create events.
\<close>

theorem rbac_grants_all_but_event_patch:
  assumes "kube_laws lib" "replay (Reconcile lib cfg nn) rs = (tr, out)" "list_all honest tr"
  shows "list_all (\<lambda>e. \<forall>(res, v) \<in> set (needs (fst e)). granted res v \<longleftrightarrow> \<not> (res = (''core'', ''events'') \<and> v = ''patch'')) tr"
  using contract_replay [OF Reconcile_contract [OF assms(1)] assms(2)] assms(3)
  by (auto simp: list_all_iff granted_but_patch_def event_patch_def)

lemma rbac_grants_all_but_event_patch_witness:
  "list_all (\<lambda>e. \<forall>(res, v) \<in> set (needs (fst e)). granted res v \<longleftrightarrow> \<not> (res = (''core'', ''events'') \<and> v = ''patch'')) (fst demo_complaint) \<and>
   list_ex (\<lambda>e. ((''core'', ''events''), ''patch'') \<in> set (needs (fst e))) (fst demo_complaint)"
  using rbac_grants_all_but_event_patch [OF std.kube_laws_axioms demo_complaint_run demo_complaint_facts(1)] demo_complaint_facts(2) by simp

text \<open>
  C18. What an update creates for a share lives in its namespace and, with one exception,
  belongs to it: it has an owner reference with the share's name and UID, and is of a kind
  whose changes queue the share again, service monitors excepted. The exception are exactly
  the five objects named after the namespace alone that the OpenShift stage creates, the
  service account with its two roles and two bindings, which have no owner. An update never
  deletes anything.
\<close>

theorem update_creates_owned:
  assumes "kube_laws lib" "replay (share_Update lib cfg s) rs = (tr, out)" "list_all honest tr"
  shows "list_all (\<lambda>e. case fst e of
      CCreate x \<Rightarrow> m_Namespace (kmeta x) = m_Namespace (sh_meta s) \<and>
        (if (kind_of x, nsname_of (kmeta x)) \<in> set (access_keys s) then m_OwnerReferences (kmeta x) = []
         else owned_by_share s (kmeta x) \<and> kind_of x \<in> set (KServiceMonitor # w_Owns SmbShare_SetupWithManager))
    | CDelete x \<Rightarrow> False | c \<Rightarrow> True) tr"
proof -
  have "update_may lib (nsname (oc_PodNamespace cfg) (oc_PodName cfg)) s (fst e)" if "e \<in> set tr" for e
    using contract_replay [OF kube_laws.share_Update_contract [OF assms(1) refl] assms(2)] assms(3) that
    by (auto simp: list_all_iff)
  moreover have "(k, nn) \<notin> set (access_keys s)" if "k \<in> {KDeployment, KStatefulSet, KService, KConfigMap, KPVC, KServiceMonitor}" for k nn
    using that by (auto simp: access_keys_def)
  ultimately show ?thesis
    by (fastforce simp: list_all_iff SmbShare_SetupWithManager_def access_object_def split: call.split)
qed

lemma update_creates_owned_witness:
  "list_ex (\<lambda>e. case fst e of CCreate x \<Rightarrow> (kind_of x, nsname_of (kmeta x)) \<in> set (access_keys demo_live) \<or> owned_by_share demo_live (kmeta x)
     | _ \<Rightarrow> False) (fst demo_creation)"
proof -
  obtain e where in_run: "e \<in> set (fst demo_creation)" "case fst e of CCreate _ \<Rightarrow> True | _ \<Rightarrow> False"
    using demo_runs(4) unfolding list_ex_iff by blast
  obtain x where e: "e \<in> set (fst demo_creation)" "fst e = CCreate x"
    using in_run by (cases "fst e") simp_all
  have "case fst e of CCreate x \<Rightarrow> m_Namespace (kmeta x) = m_Namespace (sh_meta demo_live) \<and>
        (if (kind_of x, nsname_of (kmeta x)) \<in> set (access_keys demo_live) then m_OwnerReferences (kmeta x) = []
         else owned_by_share demo_live (kmeta x) \<and> kind_of x \<in> set (KServiceMonitor # w_Owns SmbShare_SetupWithManager))
    | CDelete x \<Rightarrow> False | c \<Rightarrow> True"
    using update_creates_owned [OF std.kube_laws_axioms demo_creation_run demo_runs(3)] e(1) unfolding list_all_iff by (rule bspec)
  then show ?thesis using e unfolding list_ex_iff by (intro bexI [OF _ e(1)]) (auto split: if_splits)
qed

text \<open>
  C33. The operator never rewrites what the user said about a share: an update writes the share
  with its spec unchanged, except that an empty claim name may be filled in with the default
  one, with the same labels, owners, name and UID, with no annotation changed but the two it
  manages, and with no finalizer added but its own; its status write only sets the server
  group that the spec asks for, and only when none was set.
\<close>

theorem update_keeps_share:
  assumes "kube_laws lib" "replay (share_Update lib cfg s) rs = (tr, out)" "list_all honest tr"
  shows "list_all (\<lambda>e. case fst e of
      CUpdate (OShare s') \<Rightarrow> same_spec s s' \<and> same_meta (sh_meta s) (sh_meta s') \<and> sh_Status s' = sh_Status s \<and>
        m_Finalizers (sh_meta s') \<in>
          {m_Finalizers (sh_meta s), kl_AddFinalizer lib (m_Finalizers (sh_meta s)) shareFinalizer}
    | CStatusUpdate (OShare s') \<Rightarrow> sst_ServerGroup (sh_Status s) = '''' \<and>
        requested_group s = Inr (sst_ServerGroup (sh_Status s')) \<and> same_spec s s'
    | _ \<Rightarrow> True) tr"
proof -
  have "update_may lib (nsname (oc_PodNamespace cfg) (oc_PodName cfg)) s (fst e)" if "e \<in> set tr" for e
    using contract_replay [OF kube_laws.share_Update_contract [OF assms(1) refl] assms(2)] assms(3) that
    by (auto simp: list_all_iff)
  then show ?thesis
    by (fastforce simp: list_all_iff share_write_def same_share_def set_group_def same_spec_def split: call.split kobj.split)
qed

lemma update_keeps_share_witness:
  "list_all (\<lambda>e. case fst e of CUpdate (OShare s') \<Rightarrow> same_spec demo_share s' | _ \<Rightarrow> True) (fst demo_adoption) \<and>
   length (filter ok_write (fst demo_adoption)) = 1"
  using update_keeps_share [OF std.kube_laws_axioms demo_adoption_run demo_adoption_facts(1)] demo_adoption_facts(2)
  by (auto simp: list_all_iff split: call.splits kobj.splits)

text \<open>
  C34. All that a finalization may do, call by call. It deletes nothing but the five objects
  of OpenShift that the share's namespace has, the service account with its roles and
  bindings; it creates nothing, writes no status and sends no event; and it updates nothing
  but the share itself, which it writes as it was with the finalizer removed, and workloads,
  config maps and claims of the share's namespace. Servers, data volumes and the
  configuration are never deleted by the operator itself.
\<close>

theorem finalize_calls_confined:
  assumes "replay (share_Finalize lib cfg s) rs = (tr, out)" "list_all honest tr"
  shows "list_all (\<lambda>e. case fst e of
      CGet k nn \<Rightarrow> True
    | CDelete x \<Rightarrow> (kind_of x, nsname_of (kmeta x)) \<in> set (access_keys s)
    | CUpdate x \<Rightarrow> x = OShare (remove_finalizer lib s) \<or>
        kind_of x \<in> {KDeployment, KStatefulSet, KConfigMap, KPVC} \<and> m_Namespace (kmeta x) = m_Namespace (sh_meta s)
    | CCreate x \<Rightarrow> False | CStatusUpdate x \<Rightarrow> False | CEvent about t reason msg \<Rightarrow> False) tr"
proof -
  have "finalize_may lib (nsname (oc_PodNamespace cfg) (oc_PodName cfg)) s (fst e)" if "e \<in> set tr" for e
    using contract_replay [OF share_Finalize_contract [OF refl] assms(1)] assms(2) that
    by (auto simp: list_all_iff)
  then show ?thesis
    by (fastforce simp: list_all_iff access_object_def split: call.split)
qed

lemma finalize_calls_confined_witness:
  "list_all (\<lambda>e. case fst e of CUpdate x \<Rightarrow> x = OShare (remove_finalizer std_lib demo_gone) \<or> m_Namespace (kmeta x) = ''ns1''
     | CDelete x \<Rightarrow> (kind_of x, nsname_of (kmeta x)) \<in> set (access_keys demo_gone) | _ \<Rightarrow> True) (fst demo_finalization) \<and>
   length (filter ok_write (fst demo_finalization)) = 1"
proof -
  have "m_Namespace (sh_meta demo_gone) = ''ns1''" by (simp add: demo_gone_def demo_live_def demo_share_def)
  then show ?thesis
    using finalize_calls_confined [OF demo_finalization_run demo_runs(5)] demo_runs(6)
    by (auto simp: list_all_iff split: call.splits kobj.splits)
qed

section \<open>The end of a finalization\<close>

lemma replay_unless_yield:
  assumes "replay (unless_yield p out n) rs = (tr, Returned y)"
  obtains tr1 r where "replay p rs = (tr1, Returned r)" "Yield r" "tr = tr1" "y = out r"
  | tr1 r tr2 where "replay p rs = (tr1, Returned r)" "\<not> Yield r" "tr = tr1 @ tr2"
      "replay n (drop (length tr1) rs) = (tr2, Returned y)"
  using assms unfolding unless_yield_def replay_andthen
  by (auto simp: Let_def split: prod.splits outcome.splits if_splits)

end
