(* ===== verification/Utf8Props.thy ===== *)
theory Utf8Props
  imports JsonProps Planner
begin

text \<open>
  The string functions of the planner keep UTF-8: concatenation, cutting and joining at an
  ASCII character, upper case, decimal numbers and the paths built from them.
\<close>

named_theorems utf8 \<open>closure of UTF-8 strings under the operations of the planner\<close>

lemma valid_utf8_ascii: "list_all (\<lambda>c. byte c < 128) s \<Longrightarrow> valid_utf8 s"
  by (induction s) auto

lemma valid_utf8_Nil [utf8]: "valid_utf8 []"
  by simp

lemma utf8_len_append:
  assumes "utf8_len s \<noteq> 0"
  shows "utf8_len (s @ t) = utf8_len s" "utf8_len s \<le> length s"
proof -
  have "(\<exists>a b. s = [a, b]) \<or> (\<exists>a b c. s = [a, b, c]) \<or> (\<exists>a b c d r. s = a # b # c # d # r)"
    using assms by (cases s rule: remdups_adj.cases; cases "tl (tl s)"; cases "tl (tl (tl s))") (auto simp: utf8_len_def)
  then have "utf8_len (s @ t) = utf8_len s \<and> utf8_len s \<le> length s"
    using assms by (elim disjE exE; simp add: utf8_len_def split: if_splits; cases t; auto)
  then show "utf8_len (s @ t) = utf8_len s" "utf8_len s \<le> length s" by simp_all
qed

lemma valid_utf8_append [utf8]: "valid_utf8 s \<Longrightarrow> valid_utf8 t \<Longrightarrow> valid_utf8 (s @ t)"
proof (induction s rule: valid_utf8.induct)
  case (2 c s)
  show ?case
  proof (cases "byte c < 128")
    case False
    then have len: "utf8_len (c # s) \<noteq> 0" "valid_utf8 (drop (utf8_len (c # s)) (c # s))"
      using "2.prems" by (simp_all split: if_splits)
    have "valid_utf8 (drop (utf8_len (c # s)) (c # s) @ t)"
      using "2.IH"(2) False len "2.prems" by simp
    moreover have "utf8_len (c # s @ t) = utf8_len (c # s)"
      using utf8_len_append(1) [OF len(1), of t] by simp
    moreover have "drop (utf8_len (c # s)) ((c # s) @ t) = drop (utf8_len (c # s)) (c # s) @ t"
      using utf8_len_append(2) [OF len(1)] by (subst drop_append) (simp del: append_Cons)
    then have "drop (utf8_len (c # s)) (c # s @ t) = drop (utf8_len (c # s)) (c # s) @ t"
      by simp
    ultimately show ?thesis using False len(1) by (simp only: append_Cons valid_utf8.simps if_False)
  qed (use 2 in simp)
qed simp

text \<open>The bytes of a multi-byte sequence are all at least 128.\<close>

lemma utf8_len_high:
  assumes "utf8_len s \<noteq> 0"
  shows "list_all (\<lambda>c. 128 \<le> byte c) (take (utf8_len s) s)" "utf8_len s \<le> length s"
  using assms by (auto simp: utf8_len_def cont_def split: list.splits if_splits)

lemma valid_utf8_chunk:
  "byte c \<ge> 128 \<Longrightarrow> valid_utf8 (c # s) \<Longrightarrow> utf8_len (c # s) \<noteq> 0 \<and> valid_utf8 (drop (utf8_len (c # s)) (c # s))"
  by (simp split: if_splits)

lemma utf8_chunk_valid:
  assumes "utf8_len s \<noteq> 0" "128 \<le> byte (hd s)"
  shows "valid_utf8 (take (utf8_len s) s)"
proof -
  obtain c s' where s: "s = c # s'" using assms(1) by (cases s) (auto simp: utf8_len_def)
  have len: "utf8_len (take (utf8_len s) s) = utf8_len s"
    using assms(1) by (auto simp: utf8_len_def split: list.splits if_splits)
  obtain n where n: "utf8_len s = Suc n" using assms(1) by (cases "utf8_len s") auto
  then have eq: "take (utf8_len s) s = c # take n s'" by (simp add: s)
  have len': "utf8_len (c # take n s') = Suc n" using len n eq by simp
  have "\<not> byte c < 128" using assms(2) s by simp
  then have "valid_utf8 (c # take n s')" using len' by (simp del: take_Suc_Cons)
  then show ?thesis using eq by simp
qed

lemma split_on_high:
  "list_all (\<lambda>x. x \<noteq> d) u \<Longrightarrow> split_on d (u @ s) = (u @ hd (split_on d s)) # tl (split_on d s)"
proof (induction u)
  case (Cons x u)
  then show ?case by (cases "split_on d s") auto
qed simp

lemma valid_utf8_split_on [utf8]:
  "valid_utf8 s \<Longrightarrow> byte d < 128 \<Longrightarrow> \<forall>p \<in> set (split_on d s). valid_utf8 p"
proof (induction s rule: valid_utf8.induct)
  case (2 c s)
  show ?case
  proof (cases "byte c < 128")
    case True
    then have IH: "\<forall>p \<in> set (split_on d s). valid_utf8 p" using 2 by simp
    obtain q qs where "split_on d s = q # qs" by (cases "split_on d s") auto
    then show ?thesis using IH True by auto
  next
    case False
    let ?n = "utf8_len (c # s)" and ?w = "c # s"
    have n: "?n \<noteq> 0" "valid_utf8 (drop ?n ?w)" using valid_utf8_chunk [of c s] False "2.prems"(1) by auto
    then have IH: "\<forall>p \<in> set (split_on d (drop ?n ?w)). valid_utf8 p" using "2.IH"(2) False "2.prems" by simp
    have "list_all (\<lambda>x. x \<noteq> d) (take ?n ?w)"
      using utf8_len_high(1) [OF n(1)] "2.prems"(2) by (auto simp: list_all_iff)
    from split_on_high [OF this, of "drop ?n ?w"]
    have "split_on d ?w = (take ?n ?w @ hd (split_on d (drop ?n ?w))) # tl (split_on d (drop ?n ?w))"
      by (simp only: append_take_drop_id)
    moreover have "valid_utf8 (take ?n ?w)" using utf8_chunk_valid [OF n(1)] False by simp
    moreover obtain q qs where "split_on d (drop ?n ?w) = q # qs" by (cases "split_on d (drop ?n ?w)") auto
    ultimately show ?thesis using IH by (auto intro: valid_utf8_append)
  qed
qed simp

lemma takeWhile_split_on: "takeWhile (\<lambda>x. x \<noteq> d) s = hd (split_on d s)"
  by (induction s) (auto split: list.splits)

lemma valid_utf8_takeWhile [utf8]: "valid_utf8 s \<Longrightarrow> byte d < 128 \<Longrightarrow> valid_utf8 (takeWhile (\<lambda>x. x \<noteq> d) s)"
  unfolding takeWhile_split_on using valid_utf8_split_on by simp

lemma valid_utf8_join [utf8]:
  "valid_utf8 sep \<Longrightarrow> \<forall>s \<in> set ss. valid_utf8 s \<Longrightarrow> valid_utf8 (join sep ss)"
  by (induction sep ss rule: join.induct) (auto intro: valid_utf8_append)

section \<open>Upper case\<close>

lemma byte_upper: "byte (upper_char c) < 128 \<longleftrightarrow> byte c < 128" "128 \<le> byte c \<Longrightarrow> upper_char c = c"
  by (auto simp: byte_def upper_char_def Let_def of_char_of)

lemma valid_utf8_upper [utf8]: "valid_utf8 s \<Longrightarrow> valid_utf8 (toUpper s)"
proof (induction s rule: valid_utf8.induct)
  case (2 c s)
  show ?case
  proof (cases "byte c < 128")
    case True
    then show ?thesis using 2 by (simp add: toUpper_def byte_upper(1))
  next
    case False
    let ?n = "utf8_len (c # s)" and ?w = "c # s"
    have n: "?n \<noteq> 0" "valid_utf8 (drop ?n ?w)" using valid_utf8_chunk [of c s] False "2.prems" by auto
    then have "valid_utf8 (toUpper (drop ?n ?w))" using "2.IH"(2) False by simp
    moreover have "map upper_char (take ?n ?w) = take ?n ?w"
      using utf8_len_high(1) [OF n(1)] byte_upper(2) by (auto simp: list_all_iff intro: map_idI)
    moreover have "valid_utf8 (take ?n ?w)" using utf8_chunk_valid [OF n(1)] False by simp
    moreover have "toUpper ?w = map upper_char (take ?n ?w) @ toUpper (drop ?n ?w)"
      unfolding toUpper_def by (simp only: map_append [symmetric] append_take_drop_id)
    ultimately show ?thesis by (auto intro: valid_utf8_append)
  qed
qed (simp add: toUpper_def)

section \<open>Numbers and paths\<close>

lemma valid_utf8_digits [utf8]: "valid_utf8 (digits n)"
  using digits_are_digits [of _ n]
  by (intro valid_utf8_ascii) (fastforce simp: list_all_iff byte_def of_char_digit)

lemma valid_utf8_itoa [utf8]: "valid_utf8 (itoa i)"
  using valid_utf8_digits by (simp add: itoa_def byte_def)

lemma valid_utf8_clean_segs:
  "\<forall>s \<in> set acc. valid_utf8 s \<Longrightarrow> \<forall>s \<in> set ss. valid_utf8 s \<Longrightarrow> \<forall>s \<in> set (clean_segs rooted acc ss). valid_utf8 s"
  by (induction rooted acc ss rule: clean_segs.induct) (auto split: list.splits simp: byte_def)

lemma valid_utf8_Clean [utf8]:
  assumes "valid_utf8 p"
  shows "valid_utf8 (path_Clean p)"
proof -
  have sep: "byte (CHR ''/'') < 128" "valid_utf8 ''/''" by (simp_all add: byte_def)
  have "\<forall>s \<in> set (clean_segs r [] (split_on (CHR ''/'') p)). valid_utf8 s" for r
    using valid_utf8_clean_segs [of "[]" "split_on (CHR ''/'') p" r] valid_utf8_split_on [OF assms sep(1)] by simp
  then have "valid_utf8 (join ''/'' (clean_segs r [] (split_on (CHR ''/'') p)))" for r
    using valid_utf8_join [OF sep(2)] by blast
  then show ?thesis using sep(1)
    by (cases p) (auto simp: path_Clean_def Let_def byte_def simp del: split_on.simps clean_segs.simps)
qed

lemma valid_utf8_join_elems: "valid_utf8 buf \<Longrightarrow> \<forall>e \<in> set es. valid_utf8 e \<Longrightarrow> valid_utf8 (join_elems buf es)"
  by (induction buf es rule: join_elems.induct) (auto simp: byte_def valid_utf8_append)

lemma valid_utf8_Join [utf8]: "\<forall>e \<in> set es. valid_utf8 e \<Longrightarrow> valid_utf8 (path_Join es)"
  by (simp add: path_Join_def valid_utf8_Clean valid_utf8_join_elems)

end
