(* ===== verification/Storable.thy ===== *)
theory Storable
  imports Utf8Props ConfigMaps ConfigurationTheorems Contracts
begin

text \<open>
  \<open>Update\<close> and \<open>Prune\<close> keep a document storable: when the strings of the custom resources are
  UTF-8 (as every string that came through the API server is), what they write into the
  document survives its way through the config map. With the round trip of \<open>ConfigMaps\<close> a
  pass on the config map thus refines a pass on the document.
\<close>

section \<open>Inputs\<close>

definition utf8_map :: "(string, string) gomap \<Rightarrow> bool" where
  "utf8_map m \<longleftrightarrow> list_all (\<lambda>(k, v). valid_utf8 k \<and> valid_utf8 v) (entries m)"

definition utf8_share :: "SmbShare \<Rightarrow> bool" where
  "utf8_share s \<longleftrightarrow> valid_utf8 (m_Name (sh_meta s)) \<and> valid_utf8 (m_UID (sh_meta s)) \<and>
     valid_utf8 (sp_ShareName (sh_Spec s)) \<and> valid_utf8 (sst_ServerGroup (sh_Status s)) \<and>
     (case st_Pvc (sp_Storage (sh_Spec s)) of None \<Rightarrow> True | Some p \<Rightarrow> valid_utf8 (pvc_Path p)) \<and>
     (case sp_Scaling (sh_Spec s) of None \<Rightarrow> True | Some c \<Rightarrow> valid_utf8 (scal_Group c)) \<and>
     (case sp_CustomShareConfig (sh_Spec s) of None \<Rightarrow> True | Some c \<Rightarrow> utf8_map (shc_Configs c))"

definition utf8_inputs :: "Planner \<Rightarrow> bool" where
  "utf8_inputs pl \<longleftrightarrow> utf8_share (pl_SmbShare pl) \<and>
     (case pl_SecurityConfig pl of None \<Rightarrow> True
      | Some sc \<Rightarrow> valid_utf8 (sec_Realm (ssc_Spec sc)) \<and>
          list_all (\<lambda>d. valid_utf8 (sd_Name d)) (sec_Domains (ssc_Spec sc))) \<and>
     (case pl_CommonConfig pl of None \<Rightarrow> True
      | Some cc \<Rightarrow> (case cc_CustomGlobalConfig (scc_Spec cc) of None \<Rightarrow> True | Some c \<Rightarrow> utf8_map (cg_Configs c)))"

section \<open>Option maps\<close>


text \<open>An option map as it is built: canonical, not nil, of UTF-8 strings, perhaps empty.\<close>

definition utf8_opts :: "SmbOptions \<Rightarrow> bool" where
  "utf8_opts m \<longleftrightarrow> wf_opts m \<and> utf8_map m"

lemma utf8_opts_mset: "utf8_opts m \<Longrightarrow> mset k v m = Some m' \<Longrightarrow> valid_utf8 k \<Longrightarrow> valid_utf8 v \<Longrightarrow> utf8_opts m' \<and> m' \<noteq> Some []"
  by (cases m) (auto simp: utf8_opts_def utf8_map_def wf_opts_def wf_map_def mset_def entries_def sorted_keys_ins
      list_all_iff dest!: set_ins)

lemma good_opts_utf8: "good_opts m \<longleftrightarrow> wf_map m \<and> m \<noteq> Some [] \<and> utf8_map m"
  by (auto simp: good_opts_def utf8_map_def list_all_iff)

lemma apply_configs_utf8:
  "apply_configs kvs opts ch = Some (m, c) \<Longrightarrow> list_all (\<lambda>(k, v). valid_utf8 k \<and> valid_utf8 v) kvs \<Longrightarrow>
   utf8_opts opts \<Longrightarrow> utf8_opts m \<and> (opts \<noteq> Some [] \<longrightarrow> m \<noteq> Some [])"
proof (induction kvs opts ch rule: apply_configs.induct)
  case (2 k v kvs opts changed)
  then show ?case
    by (auto split: option.splits if_splits simp: bind_eq_Some_conv dest: utf8_opts_mset)
qed simp

lemma set_param_utf8:
  "set_param k v opts = Some (m, c) \<Longrightarrow> valid_utf8 k \<Longrightarrow> valid_utf8 v \<Longrightarrow> utf8_opts opts \<Longrightarrow>
   utf8_opts m \<and> (opts \<noteq> Some [] \<longrightarrow> m \<noteq> Some [])"
  by (auto simp: set_param_def bind_eq_Some_conv split: if_splits dest: utf8_opts_mset)

section \<open>Documents\<close>

lemma storable_share:
  "storable c \<Longrightarrow> mset k s (c_Shares c) = Some m \<Longrightarrow> valid_utf8 k \<Longrightarrow> utf8_opts (sc_Options s) \<Longrightarrow>
   sc_Options s \<noteq> Some [] \<Longrightarrow> storable (c\<lparr>c_Shares := m\<rparr>)"
  using wf_scc_set_share [of c k s m]
  by (cases "c_Shares c") (auto simp: storable_def mset_def good_opts_utf8 utf8_opts_def wf_opts_def entries_def dest!: set_ins)

lemma storable_global:
  "storable c \<Longrightarrow> mset k g (c_Globals c) = Some m \<Longrightarrow> valid_utf8 k \<Longrightarrow> utf8_opts (gc_Options g) \<Longrightarrow>
   gc_Options g \<noteq> Some [] \<Longrightarrow> storable (c\<lparr>c_Globals := m\<rparr>)"
  using wf_scc_set_global [of c k g m]
  by (cases "c_Globals c") (auto simp: storable_def mset_def good_opts_utf8 utf8_opts_def wf_opts_def entries_def dest!: set_ins)

lemma storable_config:
  "storable c \<Longrightarrow> mset k s (c_Configs c) = Some m \<Longrightarrow> valid_utf8 k \<Longrightarrow> good_section s \<Longrightarrow> storable (c\<lparr>c_Configs := m\<rparr>)"
  using wf_scc_set_config [of c k s m]
  by (cases "c_Configs c") (auto simp: storable_def mset_def entries_def dest!: set_ins)

lemma storable_lookup:
  assumes "storable c"
  shows "mlookup (c_Shares c) k = Some s \<Longrightarrow> utf8_opts (sc_Options s) \<and> sc_Options s \<noteq> Some []"
    and "mlookup (c_Globals c) k = Some g \<Longrightarrow> utf8_opts (gc_Options g) \<and> gc_Options g \<noteq> Some []"
    and "mlookup (c_Configs c) k = Some cfg \<Longrightarrow> good_section cfg"
  using assms
  by (fastforce simp: storable_def wf_scc_def mlookup_def utf8_opts_def good_opts_utf8 dest!: map_of_SomeD)+

section \<open>The blocks of \<open>Update\<close> and \<open>Prune\<close>\<close>

lemma valid_literals [utf8]:
  "valid_utf8 Yes" "valid_utf8 No" "valid_utf8 BrowseableParam" "valid_utf8 ReadOnlyParam" "valid_utf8 Globals_key"
  "valid_utf8 ''yes''" "valid_utf8 ''no''"
  by (simp_all add: Yes_def No_def BrowseableParam_def ReadOnlyParam_def Globals_key_def byte_def)

lemma utf8_Grouping:
  "utf8_share (pl_SmbShare pl) \<Longrightarrow> valid_utf8 (snd (Grouping pl))"
  by (auto simp: Grouping_def utf8_share_def Let_def split: option.splits)

lemma utf8_Share_path:
  assumes "utf8_share (pl_SmbShare pl)" "Share_path pl = Some p"
  shows "valid_utf8 p"
proof -
  have lit: "valid_utf8 ''/mnt''" "valid_utf8 ''/''" by (simp_all add: byte_def)
  have "valid_utf8 (ShareMountPath pl)"
    using utf8_Grouping [OF assms(1)] assms(1) lit
    by (auto simp: ShareMountPath_def utf8_share_def split: prod.splits intro!: valid_utf8_Join)
  then show ?thesis
    using assms lit by (auto simp: Share_path_def utf8_share_def bind_eq_Some_conv split: if_splits intro!: valid_utf8_Join)
qed

lemma utf8_NewSimpleShare:
  "valid_utf8 p \<Longrightarrow> utf8_opts (sc_Options (NewSimpleShare p)) \<and> sc_Options (NewSimpleShare p) \<noteq> Some []"
  by (simp add: utf8_opts_def utf8_map_def NewSimpleShare_def mlit_def entries_def wf_opts_def wf_map_def
      sorted_keys_Cons No_def byte_def)

lemma utf8_NewGlobals: "utf8_opts (gc_Options (NewGlobals opts)) \<and> gc_Options (NewGlobals opts) \<noteq> Some []"
  using valid_utf8_itoa [of "sint (go_SmbPort opts)"]
  by (simp add: utf8_opts_def utf8_map_def NewGlobals_def Let_def entries_def wf_opts_def wf_map_def
      sorted_keys_Cons Yes_def No_def byte_def)

lemma utf8_shareName: "utf8_share (pl_SmbShare pl) \<Longrightarrow> valid_utf8 (shareName pl)"
  by (simp add: utf8_share_def shareName_def)

lemma ensure_globals_storable: "ensure_globals pl (ch, st) = Some (ch', st') \<Longrightarrow> storable st \<Longrightarrow> storable st'"
  using utf8_NewGlobals valid_literals
  by (auto simp: ensure_globals_def bind_eq_Some_conv split: option.splits intro!: storable_global)

lemma ensure_share_storable:
  "ensure_share pl (ch, st) = Some (ch', st') \<Longrightarrow> utf8_share (pl_SmbShare pl) \<Longrightarrow> storable st \<Longrightarrow> storable st'"
  using utf8_NewSimpleShare utf8_Share_path utf8_shareName
  by (auto simp: ensure_share_def bind_eq_Some_conv split: option.splits intro!: storable_share)

lemma custom_globals_storable:
  assumes "custom_globals pl (ch, st) = Some (ch', st')" "utf8_inputs pl" "storable st"
  shows "storable st'"
proof (cases "pl_CommonConfig pl")
  case (Some cc)
  then obtain g g' c m where g: "mlookup (c_Globals st) Globals_key = Some g"
    "applyCustomGlobal g (scc_Spec cc) = Some (g', c)" "mset Globals_key g' (c_Globals st) = Some m"
    "st' = st\<lparr>c_Globals := m\<rparr>"
    using assms(1) by (auto simp: custom_globals_def bind_eq_Some_conv)
  have old: "utf8_opts (gc_Options g)" "gc_Options g \<noteq> Some []" using storable_lookup(2) [OF assms(3) g(1)] by auto
  have "utf8_opts (gc_Options g') \<and> gc_Options g' \<noteq> Some []"
    using g(2) old assms(2) Some
    by (auto simp: applyCustomGlobal_def bind_eq_Some_conv utf8_inputs_def utf8_map_def split: option.splits if_splits
        dest!: apply_configs_utf8)
  then show ?thesis using storable_global [OF assms(3) g(3)] valid_literals g(4) by simp
qed (use assms in \<open>simp add: custom_globals_def\<close>)

lemma share_values_storable:
  assumes "share_values pl (ch, st) = Some (ch', st')" "utf8_share (pl_SmbShare pl)" "storable st"
  shows "storable st'"
proof -
  let ?spec = "sh_Spec (pl_SmbShare pl)"
  obtain s s1 c1 s2 c2 m where s: "mlookup (c_Shares st) (shareName pl) = Some s"
    "applyCustomShare s ?spec = Some (s1, c1)" "applyShareValues s1 ?spec = Some (s2, c2)"
    "mset (shareName pl) s2 (c_Shares st) = Some m" "st' = st\<lparr>c_Shares := m\<rparr>"
    using assms(1) by (clarsimp simp: share_values_def bind_eq_Some_conv)
  have "utf8_opts (sc_Options s)" "sc_Options s \<noteq> Some []" using storable_lookup(1) [OF assms(3) s(1)] by auto
  then have s1: "utf8_opts (sc_Options s1) \<and> sc_Options s1 \<noteq> Some []"
    using s(2) assms(2)
    by (auto simp: applyCustomShare_def bind_eq_Some_conv utf8_share_def utf8_map_def split: option.splits if_splits
        dest!: apply_configs_utf8)
  have "valid_utf8 (browseable_value ?spec)" "valid_utf8 (read_only_value ?spec)"
    using valid_literals by (simp_all add: browseable_value_def read_only_value_def)
  then have "utf8_opts (sc_Options s2) \<and> sc_Options s2 \<noteq> Some []"
    using s(3) s1 valid_literals(3,4)
    by (auto simp: applyShareValues_def bind_eq_Some_conv dest!: set_param_utf8)
  then show ?thesis using storable_share [OF assms(3) s(4)] utf8_shareName [OF assms(2)] s(5) by simp
qed

lemma utf8_Realm: "utf8_inputs pl \<Longrightarrow> Realm pl = Some r \<Longrightarrow> valid_utf8 r"
  by (auto simp: Realm_def utf8_inputs_def bind_eq_Some_conv intro: valid_utf8_upper)

lemma utf8_Workgroup: "utf8_inputs pl \<Longrightarrow> Workgroup pl = Some w \<Longrightarrow> valid_utf8 w"
  using utf8_Realm
  by (auto simp: Workgroup_def bind_eq_Some_conv splitN2_hd byte_def intro!: valid_utf8_takeWhile)

lemma new_section_good:
  assumes "utf8_inputs pl" "new_section pl = Some cfg"
  shows "good_section cfg"
proof -
  have names: "valid_utf8 (shareName pl)" "valid_utf8 (InstanceName pl)" "valid_utf8 CTDB_feature"
    using assms(1) utf8_shareName [of pl]
    by (auto simp: utf8_inputs_def utf8_share_def InstanceName_def CTDB_feature_def byte_def)
  have perms: "valid_utf8 (pc_Method NewPermissionsConfig)" "valid_utf8 (pc_StatusXAttr NewPermissionsConfig)"
    "valid_utf8 (pc_Mode NewPermissionsConfig)"
    by (simp_all add: NewPermissionsConfig_def byte_def)
  show ?thesis
    using assms(2) names perms valid_literals(5) utf8_Realm [OF assms(1)]
    by (auto simp: new_section_def good_section_def bind_eq_Some_conv Let_def split: if_splits)
qed

lemma ensure_section_storable:
  assumes "ensure_section pl (ch, st) = Some (ch', st')" "utf8_inputs pl" "storable st"
  shows "storable st'"
proof -
  have name: "valid_utf8 (instanceID pl)" "valid_utf8 (shareName pl)"
    using assms(2) utf8_shareName by (auto simp: instanceID_def InstanceName_def utf8_inputs_def utf8_share_def)
  obtain cfg c where cfg: "(case mlookup (c_Configs st) (instanceID pl) of
         Some cfg \<Rightarrow> Some (cfg, ch) | None \<Rightarrow> do { cfg \<leftarrow> new_section pl; Some (cfg, True) }) = Some (cfg, c)"
    using assms(1) by (auto simp: ensure_section_def bind_eq_Some_conv)
  then have "good_section cfg"
    using new_section_good [OF assms(2)] storable_lookup(3) [OF assms(3)]
    by (auto simp: bind_eq_Some_conv split: option.splits)
  then have "good_section (cfg\<lparr>cs_Shares := cs_Shares cfg @ [shareName pl]\<rparr>)" "good_section cfg"
    using name(2) by (simp_all add: good_section_def)
  then show ?thesis
    using assms(1,3) cfg storable_config [OF assms(3) _ name(1)]
    by (auto simp: ensure_section_def bind_eq_Some_conv Let_def split: if_splits)
qed


lemma ensure_users_storable:
  assumes "ensure_users (ch, st) = Some (ch', st')" "storable st"
  shows "storable st'"
proof -
  have "wf_map NewDefaultUsers" "NewDefaultUsers \<noteq> Some []"
    "\<forall>(k, us) \<in> set (entries NewDefaultUsers). valid_utf8 k \<and> list_all good_user (case us of None \<Rightarrow> [] | Some xs \<Rightarrow> xs)"
    by (simp_all add: NewDefaultUsers_def AllEntriesKey_def good_user_def byte_def mlit_def wf_map_def sorted_keys_Cons)
  then have "storable (st\<lparr>c_Users := NewDefaultUsers\<rparr>)" using assms(2) by (simp add: storable_def wf_scc_def)
  then show ?thesis using assms by (auto simp: ensure_users_def split: if_splits)
qed

lemma utf8_opts_idmap:
  assumes "utf8_inputs pl"
  shows "utf8_opts (idmapOptions pl) \<and> idmapOptions pl \<noteq> Some []"
proof -
  define utf8_pairs :: "(string \<times> string) list \<Rightarrow> bool"
    where "utf8_pairs = list_all (\<lambda>(k, v). valid_utf8 k \<and> valid_utf8 v)"
  have pieces: "valid_utf8 ''idmap config ''" "valid_utf8 '' : ''" "valid_utf8 ''-''" "valid_utf8 ''backend''"
    "valid_utf8 ''schema_mode''" "valid_utf8 ''range''" "valid_utf8 ''autorid''" "valid_utf8 ''ad''" "valid_utf8 ''rfc2307''"
    "valid_utf8 ''*''"
    by (simp_all add: byte_def)
  have range: "valid_utf8 (idmap_range i)" for i
    unfolding idmap_range_def using pieces by (intro valid_utf8_append valid_utf8_itoa)
  have pair: "utf8_pairs (ins k v m)" if "valid_utf8 k" "valid_utf8 v" "utf8_pairs m" for k v m
    using that set_ins [of _ k v m] by (fastforce simp: utf8_pairs_def list_all_iff)
  have prefix: "valid_utf8 (idmap_prefix n @ x)" if "valid_utf8 n" "valid_utf8 x" for n x
    unfolding idmap_prefix_def append_assoc using that pieces by (intro valid_utf8_append)
  have one: "utf8_pairs (idmap_domain i d m) \<and> idmap_domain i d m \<noteq> []" if "valid_utf8 (sd_Name d)" "utf8_pairs m" for i d m
    by (cases "sd_Backend d = ''autorid''")
      (simp_all only: idmap_domain_def Let_def if_True if_False ins_not_Nil simp_thms,
       (intro pair prefix that pieces range)+)
  have loop: "utf8_pairs (idmap_loop i ds m) \<and> (m \<noteq> [] \<or> ds \<noteq> [] \<longrightarrow> idmap_loop i ds m \<noteq> [])"
    if "list_all (\<lambda>d. valid_utf8 (sd_Name d)) ds" "utf8_pairs m" for i ds m
    using that
  proof (induction ds arbitrary: i m)
    case (Cons d ds)
    then show ?case using one [of d m i] by simp
  qed simp
  have all: "list_all (\<lambda>d. valid_utf8 (sd_Name d)) (all_domains ds) \<and> all_domains ds \<noteq> []"
    if "list_all (\<lambda>d. valid_utf8 (sd_Name d)) ds" "ds \<noteq> []" for ds
    using that by (simp add: all_domains_def byte_def)
  show ?thesis
  proof (cases "pl_SecurityConfig pl")
    case (Some sc)
    show ?thesis
    proof (cases "sec_Domains (ssc_Spec sc) = []")
      case False
      then show ?thesis
        using Some assms all [of "sec_Domains (ssc_Spec sc)"] loop [of "all_domains (sec_Domains (ssc_Spec sc))" "[]" 0]
          wf_opts_idmap [of pl]
        by (simp add: utf8_opts_def utf8_map_def idmapOptions_def utf8_inputs_def utf8_pairs_def)
    qed (use Some wf_opts_idmap [of pl] in
        \<open>simp add: utf8_opts_def utf8_map_def idmapOptions_def mlit_def byte_def\<close>)
  qed (use wf_opts_idmap [of pl] in \<open>simp add: utf8_opts_def utf8_map_def idmapOptions_def mlit_def byte_def\<close>)
qed

lemma ensure_realm_storable:
  assumes "ensure_realm pl (ch, st) = Some (ch', st')" "utf8_inputs pl" "storable st"
  shows "storable st'"
proof -
  have keys: "valid_utf8 ''security''" "valid_utf8 ''ads''" "valid_utf8 ''workgroup''" "valid_utf8 ''realm''"
    by (simp_all add: byte_def)
  have opts: "utf8_opts opts \<and> opts \<noteq> Some []" if run: "realm_options pl = Some opts" for opts
  proof -
    obtain o1 wg o2 realm where o: "mset ''security'' ''ads'' (idmapOptions pl) = Some o1" "Workgroup pl = Some wg"
      "mset ''workgroup'' wg o1 = Some o2" "Realm pl = Some realm" "mset ''realm'' realm o2 = Some opts"
      using run unfolding realm_options_def bind_eq_Some_conv by blast
    have "utf8_opts o1" using utf8_opts_mset [OF _ o(1)] utf8_opts_idmap [OF assms(2)] keys by blast
    then have "utf8_opts o2" using utf8_opts_mset [OF _ o(3)] utf8_Workgroup [OF assms(2) o(2)] keys by blast
    then show ?thesis using utf8_opts_mset [OF _ o(5)] utf8_Realm [OF assms(2) o(4)] keys by blast
  qed
  show ?thesis
  proof (cases "st' = st")
    case False
    then obtain realm opts m where "Realm pl = Some realm" "realm_options pl = Some opts"
      "mset realm \<lparr>gc_Options = opts\<rparr> (c_Globals st) = Some m" "st' = st\<lparr>c_Globals := m\<rparr>"
      using assms(1) by (auto simp: ensure_realm_def bind_eq_Some_conv split: if_splits option.splits)
    then show ?thesis using storable_global [OF assms(3)] utf8_Realm [OF assms(2)] opts by simp
  qed (use assms(3) in simp)
qed

lemma prune_section_storable:
  assumes "prune_section pl (ch, st) = Some (ch', st')" "utf8_inputs pl" "storable st"
  shows "storable st'"
proof (cases "st' = st")
  case False
  then obtain cfg cfg' m where cfg: "mlookup (c_Configs st) (instanceID pl) = Some cfg"
    "removeShare cfg (shareName pl) = (cfg', True)" "mset (instanceID pl) cfg' (c_Configs st) = Some m"
    "st' = st\<lparr>c_Configs := m\<rparr>"
    using assms(1) by (auto simp: prune_section_def bind_eq_Some_conv split: option.splits prod.splits bool.splits)
  have "good_section cfg'"
    using storable_lookup(3) [OF assms(3) cfg(1)] cfg(2) by (auto simp: removeShare_def good_section_def list_all_iff split: if_splits dest: subsetD [OF set_remove1_subset])
  moreover have "valid_utf8 (instanceID pl)"
    using assms(2) by (simp add: instanceID_def InstanceName_def utf8_inputs_def utf8_share_def)
  ultimately show ?thesis using storable_config [OF assms(3) cfg(3)] cfg(4) by simp
qed (use assms(3) in simp)

lemma prune_share_storable:
  assumes "prune_share pl (ch, st) = Some (ch', st')" "storable st"
  shows "storable st'"
proof -
  have "set (entries (mdelete (shareName pl) (c_Shares st))) \<subseteq> set (entries (c_Shares st))"
    by (cases "c_Shares st") (auto simp: mdelete_def)
  then have "storable (st\<lparr>c_Shares := mdelete (shareName pl) (c_Shares st)\<rparr>)"
    using assms(2) wf_scc_delete_share [of st "shareName pl"] by (auto simp: storable_def)
  then show ?thesis using assms by (auto simp: prune_share_def split: option.splits)
qed


lemma update_steps_storable:
  assumes "update_steps pl (ch, st) = Some (ch', st')" "utf8_inputs pl" "storable st"
  shows "storable st'"
proof -
  obtain c1 st1 c2 st2 c3 st3 c4 st4 c5 st5 c6 st6 where steps:
    "ensure_globals pl (ch, st) = Some (c1, st1)" "ensure_share pl (c1, st1) = Some (c2, st2)"
    "custom_globals pl (c2, st2) = Some (c3, st3)" "share_values pl (c3, st3) = Some (c4, st4)"
    "ensure_section pl (c4, st4) = Some (c5, st5)" "ensure_users (c5, st5) = Some (c6, st6)"
    "ensure_realm pl (c6, st6) = Some (ch', st')"
    using assms(1) by (auto simp: update_steps_def bind_eq_Some_conv)
  have share: "utf8_share (pl_SmbShare pl)" using assms(2) by (simp add: utf8_inputs_def)
  show ?thesis
    using assms(3) ensure_globals_storable [OF steps(1)] ensure_share_storable [OF steps(2) share]
      custom_globals_storable [OF steps(3) assms(2)] share_values_storable [OF steps(4) share]
      ensure_section_storable [OF steps(5) assms(2)] ensure_users_storable [OF steps(6)]
      ensure_realm_storable [OF steps(7) assms(2)] by blast
qed

lemma prune_steps_storable:
  "prune_steps pl (ch, st) = Some (ch', st') \<Longrightarrow> utf8_inputs pl \<Longrightarrow> storable st \<Longrightarrow> storable st'"
  by (auto simp: prune_steps_def bind_eq_Some_conv dest!: prune_section_storable prune_share_storable)


section \<open>Properties\<close>

text \<open>
  \<open>Update\<close> and \<open>Prune\<close> never make a document that cannot be stored: if every string in the
  document and in the custom resources is UTF-8 and no option map of the document is empty
  without being nil, the same holds for the document they leave, whatever they changed.
  So what a pass writes into the config map is exactly what the next pass reads.
\<close>

theorem Update_Prune_storable:
  assumes "pl_ConfigState pl = Some st" "storable st" "utf8_inputs pl"
  shows "(case Update pl of None \<Rightarrow> True | Some (ch, st') \<Rightarrow> storable st') \<and>
    (case Prune pl of None \<Rightarrow> True | Some (ch, st') \<Rightarrow> storable st')"
  using assms update_steps_storable [of pl False st] prune_steps_storable [of pl False st]
  by (auto simp: Update_steps Prune_steps split: option.split)

lemma utf8_demo: "utf8_inputs (demo_planner demo_share st)"
  by (simp add: utf8_inputs_def utf8_share_def demo_planner_def demo_share_def demo_spec_def demo_security_def
      new_meta_def utf8_map_def mlit_def byte_def)

lemma Update_Prune_storable_witness: "storable demo_settled"
  using Update_Prune_storable [OF demo_facts(3) storable_New utf8_demo] by simp

text \<open>
  Reading a config map back after a document was written into it.
\<close>

lemma set_get_config:
  assumes "setContainerConfig cm cc = Some cm'" "storable cc"
  shows "getContainerConfig cm' = Inr cc" "cm_meta cm' = cm_meta cm"
  using assms parse_MarshalIndent [OF good_enc_scc [OF assms(2)]] decode_enc_scc [OF assms(2)]
  by (auto simp: setContainerConfig_def getContainerConfig_def bind_eq_Some_conv mset_def mlookup_def split: option.splits)

text \<open>The end of an update or a prune of the configuration: what a run of it wrote.\<close>

lemma replay_store_config:
  assumes "replay (store_config cm cc (\<lambda>err. Ret (Inl err)) (Ret (Inr x))) rs = (tr, Returned (Inr y))"
  shows "y = x \<and> (\<exists>cm' r. setContainerConfig cm cc = Some cm' \<and> tr = [(CUpdate (OConfigMap cm'), Inr r)])"
proof (cases "setContainerConfig cm cc")
  case (Some cm')
  then have "replay (on_ok (api_write (CUpdate (OConfigMap cm'))) (\<lambda>err. Ret (Inl err)) (\<lambda>_. Ret (Inr x))) rs = (tr, Returned (Inr y))"
    using assms by (simp add: store_config_def eval_def)
  then have "y = x \<and> (\<exists>r. tr = [(CUpdate (OConfigMap cm'), Inr r)])"
    by (cases rs) (auto simp: on_ok_def api_write_def split: sum.splits)
  then show ?thesis using Some by blast
qed (use assms in \<open>simp add: store_config_def eval_def\<close>)

lemma replay_on_ok_quiet:
  assumes "replay (on_ok p (\<lambda>err. Ret (Inl err)) f) rs = (tr, Returned (Inr y))" "stage (\<lambda>_. False) p"
  obtains x tr1 tr2 rs' where "quiet tr1" "tr = tr1 @ tr2" "replay (f x) rs' = (tr2, Returned (Inr y))"
    "replay p rs = (tr1, Returned (Inr x))"
proof -
  obtain r tr1 tr2 rs' where r: "replay p rs = (tr1, Returned r)" "tr = tr1 @ tr2"
    "replay (case r of Inl err \<Rightarrow> Ret (Inl err) | Inr x \<Rightarrow> f x) rs' = (tr2, Returned (Inr y))"
    using assms(1) unfolding on_ok_def replay_andthen
    by (auto simp: Let_def split: prod.splits outcome.splits)
  then obtain x where "r = Inr x" by (cases r) auto
  then show thesis using that [OF stage.still [OF assms(2) r(1)] r(2)] r by auto
qed


lemma getShareInstance_share:
  "contract (\<lambda>_. True) (\<lambda>_. True) (getShareInstance cfg s) (\<lambda>r. case r of Inl _ \<Rightarrow> True | Inr inst \<Rightarrow> ic_SmbShare inst = Some s)"
  by (auto simp: getShareInstance_def contract_simps intro!: contract_mono [OF contract_True])

text \<open>\<open>updateConfiguration\<close> from the point where the planner exists.\<close>

definition finish_config :: "ConfigMap \<Rightarrow> InstanceConfiguration \<Rightarrow> SambaContainerConfig \<Rightarrow> (gerror + Planner \<times> bool) prog" where
  "finish_config cm inst cc = eval (New inst (Some cc)) (\<lambda>planner. eval (Update planner) (\<lambda>(changed, cc').
      let planner' = planner\<lparr>pl_ConfigState := Some cc'\<rparr> in
      if \<not> changed then Ret (Inr (planner', False))
      else store_config cm cc' (\<lambda>err. Ret (Inl err)) (Ret (Inr (planner', True)))))"

lemma updateConfiguration_run:
  assumes "getContainerConfig cm = Inr cc"
    and "replay (updateConfiguration lib cfg cm s) rs = (tr, Returned (Inr y))"
  obtains inst tr1 tr2 rs2 where "quiet tr1" "tr = tr1 @ tr2" "ic_SmbShare inst = Some s"
    "replay (finish_config cm inst cc) rs2 = (tr2, Returned (Inr y))"
proof -
  obtain others where others: "ownerSharesExcluding lib (cm_meta cm) s = Inr others" "m_DeletionTimestamp (sh_meta s) = None"
    using assms by (cases "ownerSharesExcluding lib (cm_meta cm) s") (auto simp: updateConfiguration_def split: if_splits)
  have run: "replay (on_ok (getShareInstance cfg s) (\<lambda>err. Ret (Inl err)) (\<lambda>inst.
      on_ok (check_group cfg s inst others) (\<lambda>err. Ret (Inl err)) (\<lambda>_. finish_config cm inst cc))) rs = (tr, Returned (Inr y))"
    using assms others by (simp add: updateConfiguration_def finish_config_def)
  obtain inst tr1 tr1' rs1 where 1: "quiet tr1" "tr = tr1 @ tr1'"
    "replay (on_ok (check_group cfg s inst others) (\<lambda>err. Ret (Inl err)) (\<lambda>_. finish_config cm inst cc)) rs1 = (tr1', Returned (Inr y))"
    "replay (getShareInstance cfg s) rs = (tr1, Returned (Inr inst))"
    using run by (rule replay_on_ok_quiet [OF _ stage_readers(5)])
  obtain tr2 tr3 rs2 where 2: "quiet tr2" "tr1' = tr2 @ tr3" "replay (finish_config cm inst cc) rs2 = (tr3, Returned (Inr y))"
    using 1(3) by (rule replay_on_ok_quiet [OF _ stage_check_group])
  have "ic_SmbShare inst = Some s" using contract_replay [OF getShareInstance_share 1(4)] by simp
  then show thesis using that [of "tr1 @ tr2" tr3 inst rs2] 1 2 by simp
qed

text \<open>
  C8. A pass on the config map refines a pass on the document: reading is the abstraction. When
  \<open>updateConfiguration\<close> succeeds, \<open>Update\<close> of the planner that it built from the stored
  document returned the same change flag; if it reports a change, its last call wrote the
  config map, and that config map holds exactly the document \<open>Update\<close> left; if not, it wrote
  nothing and the document is what the config map already held. The new document is again
  one that can be stored, so this goes on pass after pass.
\<close>

theorem updateConfiguration_refines:
  assumes "getContainerConfig cm = Inr cc" "storable cc"
    and "replay (updateConfiguration lib cfg cm s) rs = (tr, Returned (Inr (pl, changed)))" "utf8_inputs pl"
  shows "\<exists>cc'. Update (pl\<lparr>pl_ConfigState := Some cc\<rparr>) = Some (changed, cc') \<and> pl_ConfigState pl = Some cc' \<and>
    pl_SmbShare pl = s \<and> storable cc' \<and>
    (if changed then \<exists>tr0 cm' r. tr = tr0 @ [(CUpdate (OConfigMap cm'), Inr r)] \<and> quiet tr0 \<and>
        getContainerConfig cm' = Inr cc' \<and> cm_meta cm' = cm_meta cm
     else quiet tr \<and> cc' = cc)"
proof -
  obtain inst tr1 tr3 rs2 where 1: "quiet tr1" "tr = tr1 @ tr3" "ic_SmbShare inst = Some s"
    "replay (finish_config cm inst cc) rs2 = (tr3, Returned (Inr (pl, changed)))"
    using assms(1,3) by (rule updateConfiguration_run)
  then obtain pl0 where pl0: "New inst (Some cc) = Some pl0" "pl_SmbShare pl0 = s" "pl_ConfigState pl0 = Some cc"
    by (auto simp: New_def)
  then obtain ch cc' where upd: "Update pl0 = Some (ch, cc')"
    using 1(4) by (cases "Update pl0") (auto simp: finish_config_def eval_def)
  let ?pl = "pl0\<lparr>pl_ConfigState := Some cc'\<rparr>"
  have fin: "replay (if \<not> ch then Ret (Inr (?pl, False))
      else store_config cm cc' (\<lambda>err. Ret (Inl err)) (Ret (Inr (?pl, True)))) rs2 = (tr3, Returned (Inr (pl, changed)))"
    using 1(4) pl0(1) upd by (simp add: finish_config_def eval_def Let_def)
  have again: "Update (pl0\<lparr>pl_ConfigState := Some cc\<rparr>) = Some (ch, cc')"
    using upd pl0(3) by (simp add: Update_again Update_steps)
  have stored: "storable cc'" if "pl = ?pl"
    using update_steps_storable [of pl0 False cc ch cc'] upd pl0(3) assms(2,4) that by (simp add: Update_steps utf8_inputs_def)
  show ?thesis
  proof (cases ch)
    case True
    obtain cm' r where written: "(pl, changed) = (?pl, True)" "setContainerConfig cm cc' = Some cm'"
      "tr3 = [(CUpdate (OConfigMap cm'), Inr r)]"
      using replay_store_config [of cm cc' "(?pl, True)" rs2 tr3 "(pl, changed)"] fin True by auto
    then have cc': "storable cc'" "getContainerConfig cm' = Inr cc'" "cm_meta cm' = cm_meta cm"
      using stored set_get_config [OF written(2)] by auto
    have "Update (pl\<lparr>pl_ConfigState := Some cc\<rparr>) = Some (changed, cc')" "pl_ConfigState pl = Some cc'"
      "pl_SmbShare pl = s"
      using written(1) again True pl0 by auto
    then show ?thesis using written(1,3) 1(1,2) cc' by (intro exI [of _ cc']) auto
  next
    case False
    then have "pl = ?pl" "\<not> changed" "tr3 = []" using fin by auto
    moreover have "cc' = cc" using upd pl0(3) False upd.unchanged_run [of cc pl0 False cc'] assms(2) by (simp add: Update_steps storable_def)
    ultimately show ?thesis using again False pl0 1(1,2) stored by auto
  qed
qed


definition demo_config_map :: ConfigMap where
  "demo_config_map = newDefaultConfigMap ''samba'' ''ns1''"

definition demo_config_pass :: "(call \<times> resp) list \<times> (gerror + Planner \<times> bool) outcome" where
  "demo_config_pass = replay (updateConfiguration std_lib DefaultOperatorConfig demo_config_map demo_share)
     [Inr (OConfigMap demo_config_map)]"

lemma demo_config_pass_facts:
  "case snd demo_config_pass of Returned (Inr (pl, changed)) \<Rightarrow> changed \<and> utf8_inputs pl | _ \<Rightarrow> False"
  by code_simp

lemma updateConfiguration_refines_witness:
  "\<exists>pl cc' cm' r. snd demo_config_pass = Returned (Inr (pl, True)) \<and>
     Update (pl\<lparr>pl_ConfigState := Some smbcc_New\<rparr>) = Some (True, cc') \<and>
     last (fst demo_config_pass) = (CUpdate (OConfigMap cm'), Inr r) \<and> getContainerConfig cm' = Inr cc'"
proof -
  obtain pl where pl: "snd demo_config_pass = Returned (Inr (pl, True))" "utf8_inputs pl"
    using demo_config_pass_facts by (auto split: outcome.splits sum.splits)
  have "replay (updateConfiguration std_lib DefaultOperatorConfig demo_config_map demo_share) [Inr (OConfigMap demo_config_map)]
      = (fst demo_config_pass, Returned (Inr (pl, True)))"
    using pl(1) by (simp add: demo_config_pass_def prod_eq_iff)
  moreover have "getContainerConfig demo_config_map = Inr smbcc_New"
    by (simp add: demo_config_map_def newDefaultConfigMap_reads)
  ultimately show ?thesis
    using updateConfiguration_refines [OF _ storable_New _ pl(2)] pl(1) by fastforce
qed

end
