(* ===== verification/ShareProps.thy ===== *)
theory ShareProps
  imports Contracts
begin

text \<open>
  Properties of single steps of the share manager: claiming an object, handing it over to the
  next share, sizing the stateful set, where the shares of one server group live, and what
  happens when two of them have one name.
\<close>

section \<open>Claiming an object\<close>

lemma owned_by_append:
  "owned_by lib gvk name refs = Inr False \<Longrightarrow>
   owned_by lib gvk name (refs @ refs') = owned_by lib gvk name refs'"
  by (induction refs) (auto split: sum.splits if_splits)

text \<open>
  Claiming an object makes one call, which appends one owner reference to the share (name and
  UID, not as the controller) and changes nothing else; the object that was written is then
  seen as owned, so that claiming it again makes no call at all.
\<close>

theorem claimOwnership_once:
  assumes "kube_laws lib" "replay (claimOwnership lib s obj) rs = (tr, Returned (Inr True))"
  shows "\<exists>ref r. let obj' = map_kmeta (m_OwnerReferences_update (\<lambda>refs. refs @ [ref])) obj in
    tr = [(CUpdate obj', Inr r)] \<and> or_Name ref = m_Name (sh_meta s) \<and> or_UID ref = m_UID (sh_meta s) \<and>
    or_Controller ref = None \<and> claimOwnership lib s obj' = Ret (Inr False)"
proof -
  let ?refs = "m_OwnerReferences (kmeta obj)"
  let ?ref = "claim_ref lib share_gvk s"
  let ?claim = "CUpdate (map_kmeta (m_OwnerReferences_update (\<lambda>_. ?refs @ [?ref])) obj)"
  note gvk = kube_laws.gvk_share [OF assms(1)]
  have free: "owned_by lib share_gvk (m_Name (sh_meta s)) ?refs = Inr False"
    using assms(2) gvk by (auto simp: claimOwnership_def Let_def split: sum.splits bool.splits)
  then have "replay (on_ok (api_write ?claim) (\<lambda>err. Ret (Inl err)) (\<lambda>_. Ret (Inr True))) rs = (tr, Returned (Inr True))"
    using assms(2) gvk by (simp add: claimOwnership_def)
  then obtain r where tr: "tr = [(?claim, Inr r)]"
    by (cases rs) (auto simp: on_ok_def api_write_def split: sum.splits)
  have same: "map_kmeta (m_OwnerReferences_update (\<lambda>refs. refs @ [?ref])) obj =
      map_kmeta (m_OwnerReferences_update (\<lambda>_. ?refs @ [?ref])) obj"
    by (cases obj) (simp_all add: map_kmeta_def)
  have "owned_by lib share_gvk (m_Name (sh_meta s)) (?refs @ [?ref]) = Inr True"
    using owned_by_append [OF free, of "[?ref]"] kube_laws.parse_string [OF assms(1)]
    by (simp add: claim_ref_def)
  then have "claimOwnership lib s (map_kmeta (m_OwnerReferences_update (\<lambda>refs. refs @ [?ref])) obj) = Ret (Inr False)"
    using gvk by (simp add: claimOwnership_def)
  then show ?thesis
    using tr same by (intro exI [of _ ?ref] exI [of _ r]) (simp add: claim_ref_def Let_def)
qed

definition demo_claim :: "(call \<times> resp) list \<times> (gerror + bool) outcome" where
  "demo_claim = replay (claimOwnership std_lib demo_share (OConfigMap (newDefaultConfigMap ''cm'' ''ns1'')))
     [Inr (OShare demo_share)]"

lemma demo_claim_done: "snd demo_claim = Returned (Inr True)"
  by code_simp

lemma claimOwnership_once_witness:
  "\<exists>obj' r. fst demo_claim = [(CUpdate obj', Inr r)] \<and> claimOwnership std_lib demo_share obj' = Ret (Inr False)"
  using claimOwnership_once [OF std.kube_laws_axioms, of demo_share "OConfigMap (newDefaultConfigMap ''cm'' ''ns1'')"
      "[Inr (OShare demo_share)]" "fst demo_claim"] demo_claim_done
  by (auto simp: demo_claim_def prod_eq_iff Let_def)

section \<open>Handing an object over\<close>

text \<open>
  The answer to the read of one owner says that it cannot take over: it is gone or going.
\<close>

fun cannot_own :: "resp \<Rightarrow> bool" where
  "cannot_own (Inl err) = IsNotFound err"
| "cannot_own (Inr x) = (case as_share x of None \<Rightarrow> False | Some s \<Rightarrow> m_DeletionTimestamp (sh_meta s) \<noteq> None)"

fun can_own :: "resp \<Rightarrow> bool" where
  "can_own (Inl err) = False"
| "can_own (Inr x) = (case as_share x of None \<Rightarrow> False | Some s \<Rightarrow> m_DeletionTimestamp (sh_meta s) = None)"

lemma choose_owner_first:
  assumes "replay (choose_owner ns refs) rs = (tr, Returned (Inr chosen))"
  shows "case chosen of
      None \<Rightarrow> map fst tr = map (\<lambda>ref. CGet KShare (nsname ns (or_Name ref))) refs \<and> list_all (\<lambda>e. cannot_own (snd e)) tr
    | Some ref \<Rightarrow> \<exists>before after r. refs = before @ ref # after \<and>
        map fst tr = map (\<lambda>ref. CGet KShare (nsname ns (or_Name ref))) (before @ [ref]) \<and>
        list_all (\<lambda>e. cannot_own (snd e)) (butlast tr) \<and> last tr = (CGet KShare (nsname ns (or_Name ref)), r) \<and> can_own r"
  using assms
proof (induction refs arbitrary: rs tr)
  case (Cons ref refs)
  from Cons.prems obtain a rs' where rs: "rs = a # rs'"
    by (cases rs) (auto simp: getSmbShareByName_def get_as_def)
  let ?get = "CGet KShare (nsname ns (or_Name ref))"
  show ?case
  proof (cases "can_own a")
    case True
    then show ?thesis using Cons.prems rs
      by (cases a) (auto simp: getSmbShareByName_def get_as_def typed_def split: option.splits)
  next
    case False
    then obtain tr' where tr': "cannot_own a" "replay (choose_owner ns refs) rs' = (tr', Returned (Inr chosen))" "tr = (?get, a) # tr'"
      using Cons.prems rs
      by (cases a) (auto simp: getSmbShareByName_def get_as_def typed_def IsNotFound_def Let_def split: option.splits if_splits prod.splits)
    show ?thesis
    proof (cases chosen)
      case None
      then show ?thesis using Cons.IH [OF tr'(2)] tr' by simp
    next
      case (Some c)
      then obtain before after r where "refs = before @ c # after"
        "map fst tr' = map (\<lambda>ref. CGet KShare (nsname ns (or_Name ref))) (before @ [c])"
        "list_all (\<lambda>e. cannot_own (snd e)) (butlast tr')" "last tr' = (CGet KShare (nsname ns (or_Name c)), r)" "can_own r"
        using Cons.IH [OF tr'(2)] by auto
      moreover from this have "tr' \<noteq> []" by auto
      ultimately show ?thesis using Some tr' unfolding Some option.case
        by (intro exI [of _ "ref # before"] exI [of _ after] exI [of _ r]) simp
    qed
  qed
qed simp


text \<open>
  C35. Handing over picks the first living owner: a transfer that has changed something has read
  the other owners one by one, in the order of the owner list without the share that goes;
  every one before the last was gone or being deleted, the last one is alive, and the one
  write made that owner the controller. None of the remaining owners was the controller
  before.
\<close>

theorem transferOwnership_first_live:
  assumes "replay (transferOwnership lib obj previous) rs = (tr, Returned Requeue)"
  shows "\<exists>before ref after reads r w.
    excludeOwnerRefs (filter (share_ref lib) (m_OwnerReferences (kmeta obj))) (m_Name (sh_meta previous)) (m_UID (sh_meta previous))
      = before @ ref # after \<and>
    tr = reads @ [(CGet KShare (nsname (m_Namespace (kmeta obj)) (or_Name ref)), r),
                  (CUpdate (map_kmeta (\<lambda>m. changeControllerOwnerTo m ref) obj), Inr w)] \<and>
    map fst reads = map (\<lambda>ref. CGet KShare (nsname (m_Namespace (kmeta obj)) (or_Name ref))) before \<and>
    list_all (\<lambda>e. cannot_own (snd e)) reads \<and> can_own r \<and> list_all (\<lambda>o1. \<not> is_controller o1) (before @ ref # after)"
proof -
  let ?ns = "m_Namespace (kmeta obj)"
  obtain refs0 where refs0: "smbShareOwnerRefs lib (kmeta obj) = Inr refs0"
    using assms by (cases "smbShareOwnerRefs lib (kmeta obj)") (simp_all add: transferOwnership_def)
  define refs where "refs = excludeOwnerRefs refs0 (m_Name (sh_meta previous)) (m_UID (sh_meta previous))"
  have no_controller: "\<not> (\<exists>ref \<in> set refs. or_Controller ref = Some True)"
    using assms refs0 by (auto simp: transferOwnership_def refs_def Let_def split: if_splits)
  obtain chosen tr1 tr2 where run: "replay (choose_owner ?ns refs) rs = (tr1, Returned (Inr (Some chosen)))" "tr = tr1 @ tr2"
    "replay (on_ok (api_write (CUpdate (map_kmeta (\<lambda>m. changeControllerOwnerTo m chosen) obj)))
       (\<lambda>err. Ret (ErrResult err)) (\<lambda>_. Ret Requeue)) (drop (length tr1) rs) = (tr2, Returned Requeue)"
    using assms refs0 no_controller
    unfolding transferOwnership_def refs_def [symmetric] Let_def on_ok_def [of "choose_owner _ _"] replay_andthen
    by (auto simp: refs_def [symmetric] Let_def replay_andthen on_ok_def [of "choose_owner _ _"]
        split: if_splits prod.splits outcome.splits sum.splits option.splits)
  obtain before after r where first: "refs = before @ chosen # after"
    "map fst tr1 = map (\<lambda>ref. CGet KShare (nsname ?ns (or_Name ref))) (before @ [chosen])"
    "list_all (\<lambda>e. cannot_own (snd e)) (butlast tr1)" "last tr1 = (CGet KShare (nsname ?ns (or_Name chosen)), r)" "can_own r"
    using choose_owner_first [OF run(1)] by auto
  obtain w where "tr2 = [(CUpdate (map_kmeta (\<lambda>m. changeControllerOwnerTo m chosen) obj), Inr w)]"
    using run(3) by (cases "drop (length tr1) rs") (auto simp: on_ok_def api_write_def split: sum.splits)
  moreover have "tr1 \<noteq> []" using first(2) by auto
  then have "tr1 = butlast tr1 @ [(CGet KShare (nsname ?ns (or_Name chosen)), r)]"
    using first(4) append_butlast_last_id [of tr1] by simp
  moreover from this have "map fst (butlast tr1) = map (\<lambda>ref. CGet KShare (nsname ?ns (or_Name ref))) before"
    using first(2) by (simp add: map_butlast)
  moreover have "list_all (\<lambda>o1. \<not> is_controller o1) (before @ chosen # after)"
    using no_controller first(1) by (auto simp: list_all_iff is_controller_def)
  moreover have "excludeOwnerRefs (filter (share_ref lib) (m_OwnerReferences (kmeta obj)))
      (m_Name (sh_meta previous)) (m_UID (sh_meta previous)) = before @ chosen # after"
    using smbShareOwnerRefs_filter [OF refs0] first(1) by (simp add: refs_def)
  ultimately show ?thesis
    using first(3,5) run(2)
    by (intro exI [of _ before] exI [of _ chosen] exI [of _ after] exI [of _ "butlast tr1"] exI [of _ r] exI [of _ w])
      simp
qed


definition demo_transfer :: "(call \<times> resp) list \<times> Result outcome" where
  "demo_transfer = replay (transferOwnership std_lib
       (OConfigMap ((newDefaultConfigMap ''cm'' ''ns1'')\<lparr>cm_meta := demo_owned\<rparr>))
       (demo_share\<lparr>sh_meta := (new_meta ''a'' ''ns1'')\<lparr>m_UID := ''1''\<rparr>\<rparr>))
     [Inr (OShare demo_share), Inr (OShare demo_share)]"

lemma demo_transfer_done: "snd demo_transfer = Returned Requeue"
  by code_simp

lemma transferOwnership_first_live_witness:
  "\<exists>ref w reads. fst demo_transfer = reads @ [(CUpdate (map_kmeta (\<lambda>m. changeControllerOwnerTo m ref)
     (OConfigMap ((newDefaultConfigMap ''cm'' ''ns1'')\<lparr>cm_meta := demo_owned\<rparr>))), Inr w)]"
  using transferOwnership_first_live [of std_lib "OConfigMap ((newDefaultConfigMap ''cm'' ''ns1'')\<lparr>cm_meta := demo_owned\<rparr>)"
      "demo_share\<lparr>sh_meta := (new_meta ''a'' ''ns1'')\<lparr>m_UID := ''1''\<rparr>\<rparr>" "[Inr (OShare demo_share), Inr (OShare demo_share)]"
      "fst demo_transfer"] demo_transfer_done
  by (auto simp: demo_transfer_def prod_eq_iff intro!: exI [of _ "_ @ [_]"])

section \<open>Cluster sizes\<close>

lemma updateStatefulSetSize_cases:
  "updateStatefulSetSize ss want = (case ss_Replicas ss of None \<Rightarrow> Panic | Some r \<Rightarrow>
     if sint r < sint want
     then Do (CUpdate (OStatefulSet (ss\<lparr>ss_Replicas := Some want\<rparr>))) (\<lambda>a. case a of Inl err \<Rightarrow> Ret (Inl err) | Inr _ \<Rightarrow> Ret (Inr True))
     else Ret (Inr False))"
  by (auto simp: updateStatefulSetSize_def eval_def on_ok_def api_write_def split: option.split)

lemma updateDeploymentSize_cases:
  "updateDeploymentSize dep = (case dep_Replicas dep of None \<Rightarrow> Panic | Some r \<Rightarrow>
     if r \<noteq> 1
     then Do (CUpdate (ODeployment (dep\<lparr>dep_Replicas := Some 1\<rparr>))) (\<lambda>a. case a of Inl err \<Rightarrow> Ret (Inl err) | Inr _ \<Rightarrow> Ret (Inr True))
     else Ret (Inr False))"
  by (auto simp: updateDeploymentSize_def eval_def on_ok_def api_write_def split: option.split)


text \<open>What the answer to the one write of a stage makes of it.\<close>

definition stage_answer :: "resp \<Rightarrow> Result" where
  "stage_answer w = (case w of Inl err \<Rightarrow> ErrResult err | Inr _ \<Rightarrow> Requeue)"

text \<open>
  C36. How the stages of a pass size a workload that exists and that the share owns, call by call.
  The clustered stage refuses to work, with an error and without a call, unless clustering is
  enabled. Otherwise it reads the state claim and the stateful set, and it panics when the
  share has no scaling section or the stateful set no number of replicas; it writes the
  stateful set exactly when it has fewer replicas than the share's cluster size, with that
  size and nothing else changed, and asks for another pass or reports the error of the write;
  and it is done, with no further call, when it has as many or more, so it never shrinks. The
  cluster size is the minimal cluster size of the share cut to 32 bits, which is the size
  itself exactly when it fits. The other stage writes the deployment, with one replica and
  nothing else changed, exactly when it does not have one.
\<close>

theorem replica_bounds:
  assumes "kube_laws lib" "kl_ParseQuantity lib (oc_StatePVCSize (pl_GlobalConfig pl)) = Inr q"
    and "owned_by lib share_gvk (m_Name (sh_meta (pl_SmbShare pl))) (m_OwnerReferences (ss_meta ss)) = Inr True"
    and "owned_by lib share_gvk (m_Name (sh_meta (pl_SmbShare pl))) (m_OwnerReferences (dep_meta dep)) = Inr True"
  shows "replay (updateClusteredState lib pl) [Inr (OPVC pvc), Inr (OStatefulSet ss), w] =
      (let ns = m_Namespace (sh_meta (pl_SmbShare pl));
           reads = [(CGet KPVC (nsname ns (sharedStatePVCName pl)), Inr (OPVC pvc)), (CGet KStatefulSet (nsname ns (InstanceName pl)), Inr (OStatefulSet ss))]
       in if \<not> MayCluster pl
          then ([], Returned (ErrResult (ErrorMsg (''CTDB clustering not enabled in ClusterSupport: '' @ oc_ClusterSupport (pl_GlobalConfig pl)))))
          else if sp_Scaling (sh_Spec (pl_SmbShare pl)) = None \<or> ss_Replicas ss = None then (reads, Panicked)
          else if sint (the (ss_Replicas ss)) < sint (ClusterSize pl)
          then (reads @ [(CUpdate (OStatefulSet (ss\<lparr>ss_Replicas := Some (ClusterSize pl)\<rparr>)), w)], Returned (stage_answer w))
          else (reads, Returned Done)) \<and>
    (case sp_Scaling (sh_Spec (pl_SmbShare pl)) of None \<Rightarrow> True | Some sc \<Rightarrow>
      sint (ClusterSize pl) = (sint (scal_MinClusterSize sc) + 2 ^ 31) mod 2 ^ 32 - 2 ^ 31 \<and>
      (sint (ClusterSize pl) = sint (scal_MinClusterSize sc) \<longleftrightarrow>
         - (2 ^ 31) \<le> sint (scal_MinClusterSize sc) \<and> sint (scal_MinClusterSize sc) < 2 ^ 31)) \<and>
    replay (updateNonClusteredState lib cfg pl) [Inr (ODeployment dep), w] =
      (let reads = [(CGet KDeployment (nsname (m_Namespace (sh_meta (pl_SmbShare pl))) (InstanceName pl)), Inr (ODeployment dep))]
       in case dep_Replicas dep of None \<Rightarrow> (reads, Panicked)
          | Some r \<Rightarrow> if r = 1 then (reads, Returned Done)
              else (reads @ [(CUpdate (ODeployment (dep\<lparr>dep_Replicas := Some 1\<rparr>)), w)], Returned (stage_answer w)))"
proof -
  have owned: "claimOwnership lib (pl_SmbShare pl) (OStatefulSet ss) = Ret (Inr False)"
    "claimOwnership lib (pl_SmbShare pl) (ODeployment dep) = Ret (Inr False)"
    using assms(3,4) kube_laws.gvk_share [OF assms(1)] by (simp_all add: claimOwnership_def)
  note stages = updateClusteredState_def updateNonClusteredState_def created_step_def changed_step_def getOrCreateStatePVC_def
    getOrCreateGenericPVC_def getExistingPVC_def getOrCreateStatefulSet_def getExistingStatefulSet_def getOrCreateDeployment_def
    getExistingDeployment_def get_or_create_def existing_def get_as_def on_ok_def typed_def as_simps
  have "replay (updateClusteredState lib pl) [Inr (OPVC pvc), Inr (OStatefulSet ss), w] =
      (let ns = m_Namespace (sh_meta (pl_SmbShare pl));
           reads = [(CGet KPVC (nsname ns (sharedStatePVCName pl)), Inr (OPVC pvc)), (CGet KStatefulSet (nsname ns (InstanceName pl)), Inr (OStatefulSet ss))]
       in if \<not> MayCluster pl
          then ([], Returned (ErrResult (ErrorMsg (''CTDB clustering not enabled in ClusterSupport: '' @ oc_ClusterSupport (pl_GlobalConfig pl)))))
          else if sp_Scaling (sh_Spec (pl_SmbShare pl)) = None \<or> ss_Replicas ss = None then (reads, Panicked)
          else if sint (the (ss_Replicas ss)) < sint (ClusterSize pl)
          then (reads @ [(CUpdate (OStatefulSet (ss\<lparr>ss_Replicas := Some (ClusterSize pl)\<rparr>)), w)], Returned (stage_answer w))
          else (reads, Returned Done))"
    using assms(2) owned(1)
    by (cases "sp_Scaling (sh_Spec (pl_SmbShare pl))"; cases "ss_Replicas ss"; cases w)
      (simp_all add: stages Let_def eval_def updateStatefulSetSize_cases ClusterSize_def stage_answer_def)
  moreover have "case sp_Scaling (sh_Spec (pl_SmbShare pl)) of None \<Rightarrow> True | Some sc \<Rightarrow>
      sint (ClusterSize pl) = (sint (scal_MinClusterSize sc) + 2 ^ 31) mod 2 ^ 32 - 2 ^ 31 \<and>
      (sint (ClusterSize pl) = sint (scal_MinClusterSize sc) \<longleftrightarrow>
         - (2 ^ 31) \<le> sint (scal_MinClusterSize sc) \<and> sint (scal_MinClusterSize sc) < 2 ^ 31)"
    using int32_of_int_wraps [of "scal_MinClusterSize (the (sp_Scaling (sh_Spec (pl_SmbShare pl))))"]
    by (cases "sp_Scaling (sh_Spec (pl_SmbShare pl))") (simp_all add: ClusterSize_def)
  moreover have "replay (updateNonClusteredState lib cfg pl) [Inr (ODeployment dep), w] =
      (let reads = [(CGet KDeployment (nsname (m_Namespace (sh_meta (pl_SmbShare pl))) (InstanceName pl)), Inr (ODeployment dep))]
       in case dep_Replicas dep of None \<Rightarrow> (reads, Panicked)
          | Some r \<Rightarrow> if r = 1 then (reads, Returned Done)
              else (reads @ [(CUpdate (ODeployment (dep\<lparr>dep_Replicas := Some 1\<rparr>)), w)], Returned (stage_answer w)))"
    using owned(2)
    by (cases "dep_Replicas dep"; cases w) (simp_all add: stages Let_def updateDeploymentSize_cases stage_answer_def)
  ultimately show ?thesis by (intro conjI)
qed

text \<open>A share of two nodes whose stateful set has one, on an operator with clustering enabled.\<close>

definition demo_cluster :: Planner where
  "demo_cluster = \<lparr>pl_SmbShare = demo_share\<lparr>sh_Spec := demo_spec\<lparr>sp_Scaling := Some \<lparr>scal_AvailabilityMode = ''clustered'',
       scal_MinClusterSize = 2, scal_Group = [], scal_GroupMode = GroupModeNever\<rparr>\<rparr>\<rparr>, pl_SecurityConfig = None, pl_CommonConfig = None,
     pl_GlobalConfig = DefaultOperatorConfig\<lparr>oc_ClusterSupport := ''ctdb-is-experimental''\<rparr>, pl_ConfigState = None\<rparr>"

definition demo_template :: PodTemplateSpec where
  "demo_template = \<lparr>pt_Labels = None, pt_Annotations = None, pt_Spec = \<lparr>pd_ServiceAccountName = [], pd_AutomountServiceAccountToken = None,
     pd_ShareProcessNamespace = None, pd_Volumes = [], pd_InitContainers = [], pd_Containers = [], pd_NodeSelector = None, pd_Affinity = None\<rparr>\<rparr>"

definition demo_owned_meta :: ObjectMeta where
  "demo_owned_meta = (new_meta ''share1'' ''ns1'')\<lparr>m_OwnerReferences := [demo_ref ''share1'' ''u1'' (Some True)]\<rparr>"

definition demo_set :: StatefulSet where
  "demo_set = \<lparr>ss_meta = demo_owned_meta, ss_Replicas = Some 1, ss_MatchLabels = None, ss_Template = demo_template\<rparr>"

definition demo_deployment :: Deployment where
  "demo_deployment = \<lparr>dep_meta = demo_owned_meta, dep_Replicas = Some 3, dep_MatchLabels = None, dep_Template = demo_template\<rparr>"

lemma demo_sizes:
  "kl_ParseQuantity std_lib (oc_StatePVCSize (pl_GlobalConfig demo_cluster)) = Inr ''1Gi''"
  "owned_by std_lib share_gvk (m_Name (sh_meta (pl_SmbShare demo_cluster))) (m_OwnerReferences (ss_meta demo_set)) = Inr True"
  "owned_by std_lib share_gvk (m_Name (sh_meta (pl_SmbShare demo_cluster))) (m_OwnerReferences (dep_meta demo_deployment)) = Inr True"
  "MayCluster demo_cluster" "sp_Scaling (sh_Spec (pl_SmbShare demo_cluster)) \<noteq> None" "ss_Replicas demo_set = Some 1"
  "sint (1::32 word) < sint (ClusterSize demo_cluster)" "ClusterSize demo_cluster = 2" "dep_Replicas demo_deployment = Some 3"
  by code_simp+

definition demo_claim_object :: PersistentVolumeClaim where
  "demo_claim_object = \<lparr>pvclaim_meta = new_meta ''share1-state'' ''ns1'', pvclaim_Spec = \<lparr>pvcs_AccessModes = [], pvcs_Requests = None, pvcs_other = []\<rparr>\<rparr>"

lemma replica_bounds_witness:
  "last (fst (replay (updateClusteredState std_lib demo_cluster) [Inr (OPVC demo_claim_object), Inr (OStatefulSet demo_set), Inr (OStatefulSet demo_set)])) =
     (CUpdate (OStatefulSet (demo_set\<lparr>ss_Replicas := Some 2\<rparr>)), Inr (OStatefulSet demo_set)) \<and>
   last (fst (replay (updateNonClusteredState std_lib DefaultOperatorConfig demo_cluster) [Inr (ODeployment demo_deployment), Inl NotFoundError])) =
     (CUpdate (ODeployment (demo_deployment\<lparr>dep_Replicas := Some 1\<rparr>)), Inl NotFoundError)"
proof -
  note sized = replica_bounds [OF std.kube_laws_axioms demo_sizes(1-3)]
  show ?thesis
    by (simp add: sized [THEN conjunct1] sized [THEN conjunct2, THEN conjunct2] demo_sizes Let_def)
qed

section \<open>Where the shares of a server group live\<close>

text \<open>The directory below \<open>/mnt\<close> that the data volume of a share is mounted on.\<close>

definition mount_elem :: "Planner \<Rightarrow> string" where
  "mount_elem pl =
     (if fst (Grouping pl) = GroupModeNever then m_UID (sh_meta (pl_SmbShare pl)) else snd (Grouping pl))"

lemma ShareMountPath_elem:
  assumes "plain_elem (mount_elem pl)"
  shows "ShareMountPath pl = ''/mnt/'' @ mount_elem pl"
proof -
  have "path_Join [''/mnt'', mount_elem pl] = ''/mnt/'' @ mount_elem pl"
    using path_Join_rooted_plain [of "''mnt''" "mount_elem pl"] assms by (simp add: plain_elem_def)
  then show ?thesis
    by (cases "Grouping pl"; cases "fst (Grouping pl) = GroupModeNever") (simp_all add: ShareMountPath_def mount_elem_def)
qed

text \<open>
  C37. The directory of a share stays inside the volume's mount point as long as the configured
  path has no \<open>..\<close> element: it is the mount point, or lies below it. Nothing checks that, and
  with the path \<open>../..\<close> the share is the root of the container's file system.
\<close>

theorem share_path_below_mount:
  assumes "plain_elem (mount_elem pl)" "st_Pvc (sp_Storage (sh_Spec (pl_SmbShare pl))) = Some pvc"
  shows "(''..'' \<notin> set (split_on (CHR ''/'') (pvc_Path pvc)) \<longrightarrow>
      (case Share_path pl of None \<Rightarrow> False
       | Some p \<Rightarrow> p = ShareMountPath pl \<or> hasPrefix p (ShareMountPath pl @ ''/''))) \<and>
    (pvc_Path pvc = ''../..'' \<longrightarrow> Share_path pl = Some ''/'')"
proof -
  let ?e = "mount_elem pl" and ?p = "pvc_Path pvc"
  have mnt: "plain_elem ''mnt''" by (simp add: plain_elem_def)
  have mount: "ShareMountPath pl = CHR ''/'' # ''mnt'' @ ''/'' @ ?e"
    using ShareMountPath_elem [OF assms(1)] by simp
  show ?thesis
  proof (intro conjI impI)
    assume p: "?p = ''../..''"
    have "split_on (CHR ''/'') (''mnt'' @ CHR ''/'' # ?e @ CHR ''/'' # CHR ''/'' # CHR ''/'' # ''../..'')
        = [''mnt'', ?e, [], [], ''..'', ''..'']"
      using assms(1) mnt by (simp add: split_on_append split_on_no_sep plain_elem_def)
    then have "path_Join [ShareMountPath pl, ''/'', ?p] = ''/''"
      using p assms(1) unfolding mount by (simp add: path_Join_def path_Clean_rooted plain_elem_def)
    then show "Share_path pl = Some ''/''" using p assms(2) by (simp add: Share_path_def)
  next
    assume no_up: "''..'' \<notin> set (split_on (CHR ''/'') ?p)"
    define segs where "segs = filter (\<lambda>s. s \<noteq> [] \<and> s \<noteq> ''.'') (split_on (CHR ''/'') ?p)"
    show "case Share_path pl of None \<Rightarrow> False
      | Some p \<Rightarrow> p = ShareMountPath pl \<or> hasPrefix p (ShareMountPath pl @ ''/'')"
    proof (cases "?p = []")
      case False
      then have "Share_path pl = Some (CHR ''/'' # join ''/'' ([''mnt'', ?e] @ segs))"
        using path_Join_relative [OF mnt assms(1) False no_up] assms(2) mount by (simp add: Share_path_def segs_def)
      then show ?thesis using mount by (cases segs) (simp_all add: hasPrefix_iff)
    qed (use assms(2) in \<open>simp add: Share_path_def\<close>)
  qed
qed

lemma demo_mount:
  "plain_elem (mount_elem (demo_planner demo_share smbcc_New))"
  "ShareMountPath (demo_planner demo_share smbcc_New) = ''/mnt/u1''"
  "''..'' \<notin> set (split_on (CHR ''/'') ''sub'')"
  by code_simp+

lemma share_path_below_mount_witness:
  "\<exists>p. Share_path (demo_planner demo_share smbcc_New) = Some p \<and> (p = ''/mnt/u1'' \<or> hasPrefix p ''/mnt/u1/'')"
  using share_path_below_mount [OF demo_mount(1), of "\<lparr>pvc_Name = ''vol'', pvc_Spec = None, pvc_Path = ''sub''\<rparr>"]
    demo_mount(2,3)
  by (simp add: demo_spec_def split: option.splits)

lemma replay_setServerGroup:
  assumes "sst_ServerGroup (sh_Status s) = ''''" "requested_group s = Inr g"
  shows "replay (setServerGroup s) [Inr r] = ([(CStatusUpdate (OShare (set_group g s)), Inr r)], Returned (Inr True))"
  using assms by (simp add: setServerGroup_def on_ok_def api_write_def)

text \<open>A share that asks not to be grouped, and one that asks for the explicit group of the name.\<close>

definition ungrouped :: "SmbShare \<Rightarrow> bool" where
  "ungrouped s = (case sp_Scaling (sh_Spec s) of None \<Rightarrow> True
     | Some sc \<Rightarrow> scal_GroupMode sc \<in> {GroupModeNever, GroupModeUnset} \<and> scal_Group sc = '''')"

definition in_explicit_group :: "string \<Rightarrow> SmbShare \<Rightarrow> bool" where
  "in_explicit_group g s = (case sp_Scaling (sh_Spec s) of None \<Rightarrow> False
     | Some sc \<Rightarrow> scal_GroupMode sc = GroupModeExplicit \<and> scal_Group sc = g)"

lemma group_modes: "GroupModeNever = ''never''" "GroupModeExplicit = ''explicit''" "GroupModeUnset = ''''"
  by (simp_all add: GroupModeNever_def GroupModeExplicit_def GroupModeUnset_def)

lemma requested_groups:
  "ungrouped s \<Longrightarrow> requested_group s = Inr (m_Name (sh_meta s))"
  "in_explicit_group g s \<Longrightarrow> g \<noteq> '''' \<Longrightarrow> requested_group s = Inr g"
  by (auto simp: ungrouped_def in_explicit_group_def requested_group_def group_modes split: option.splits)

lemma mount_elem_group:
  "ungrouped (pl_SmbShare pl) \<Longrightarrow> mount_elem pl = m_UID (sh_meta (pl_SmbShare pl))"
  "in_explicit_group g (pl_SmbShare pl) \<Longrightarrow> mount_elem pl = g"
  by (auto simp: ungrouped_def in_explicit_group_def mount_elem_def Grouping_def group_modes split: option.splits)

text \<open>
  C25. An ungrouped share and an explicit group can take the same server group: a share that asks
  never to be grouped is assigned the server group of its own name, and nothing looks whether
  another share, in the same namespace, asks for the explicit group of that name. For two such
  shares that have no server group yet, the assignment writes the same group into the status
  of both; then each is accepted next to the other, as the compatibility check does not look
  at the grouping, when they have the same volume and configurations. Both have the same
  instance name, hence one config map and one server, but their mount paths differ, so that
  the server, which mounts the volume once, cannot find the directory of one of them.
\<close>

theorem group_name_collision:
  assumes "sst_ServerGroup (sh_Status a) = ''''" "sst_ServerGroup (sh_Status b) = ''''"
    and "ungrouped a" "in_explicit_group (m_Name (sh_meta a)) b" "m_Namespace (sh_meta a) = m_Namespace (sh_meta b)"
    and "st_Pvc (sp_Storage (sh_Spec a)) = Some pa" "st_Pvc (sp_Storage (sh_Spec b)) = Some pb" "pvc_Name pa = pvc_Name pb"
    and "sp_SecurityConfig (sh_Spec a) = sp_SecurityConfig (sh_Spec b)" "sp_CommonConfig (sh_Spec a) = sp_CommonConfig (sh_Spec b)"
    and "plain_elem (m_UID (sh_meta a))" "plain_elem (m_Name (sh_meta a))" "m_UID (sh_meta a) \<noteq> m_Name (sh_meta a)"
  shows "\<exists>a' b'. replay (setServerGroup a) [Inr r] = ([(CStatusUpdate (OShare a'), Inr r)], Returned (Inr True)) \<and>
    replay (setServerGroup b) [Inr r] = ([(CStatusUpdate (OShare b'), Inr r)], Returned (Inr True)) \<and>
    CheckCompatible (inst\<lparr>ic_SmbShare := Some a'\<rparr>) (inst\<lparr>ic_SmbShare := Some b'\<rparr>) = Some (Inr ()) \<and>
    CheckCompatible (inst\<lparr>ic_SmbShare := Some b'\<rparr>) (inst\<lparr>ic_SmbShare := Some a'\<rparr>) = Some (Inr ()) \<and>
    InstanceName (pl\<lparr>pl_SmbShare := a'\<rparr>) = InstanceName (pl\<lparr>pl_SmbShare := b'\<rparr>) \<and>
    ShareMountPath (pl\<lparr>pl_SmbShare := a'\<rparr>) \<noteq> ShareMountPath (pl\<lparr>pl_SmbShare := b'\<rparr>)"
proof -
  let ?g = "m_Name (sh_meta a)" let ?a = "set_group ?g a" and ?b = "set_group ?g b"
  have set: "ungrouped ?a" "in_explicit_group ?g ?b" "m_UID (sh_meta ?a) = m_UID (sh_meta a)"
    using assms(3,4) by (simp_all add: set_group_def ungrouped_def in_explicit_group_def)
  have "mount_elem (pl\<lparr>pl_SmbShare := ?a\<rparr>) = m_UID (sh_meta a)" "mount_elem (pl\<lparr>pl_SmbShare := ?b\<rparr>) = ?g"
    using mount_elem_group(1) [of "pl\<lparr>pl_SmbShare := ?a\<rparr>"] mount_elem_group(2) [of ?g "pl\<lparr>pl_SmbShare := ?b\<rparr>"] set by simp_all
  then have paths: "ShareMountPath (pl\<lparr>pl_SmbShare := ?a\<rparr>) \<noteq> ShareMountPath (pl\<lparr>pl_SmbShare := ?b\<rparr>)"
    using ShareMountPath_elem [of "pl\<lparr>pl_SmbShare := ?a\<rparr>"] ShareMountPath_elem [of "pl\<lparr>pl_SmbShare := ?b\<rparr>"] assms(11-13) by simp
  have names: "InstanceName (pl\<lparr>pl_SmbShare := ?a\<rparr>) = InstanceName (pl\<lparr>pl_SmbShare := ?b\<rparr>)"
    by (simp add: InstanceName_def set_group_def)
  have "server_inputs (inst\<lparr>ic_SmbShare := Some ?a\<rparr>) = server_inputs (inst\<lparr>ic_SmbShare := Some ?b\<rparr>)"
    "server_inputs (inst\<lparr>ic_SmbShare := Some ?a\<rparr>) \<noteq> None"
    using assms(5-10) by (simp_all add: server_inputs_def security_uid_def common_uid_def set_group_def)
  then have ok: "CheckCompatible (inst\<lparr>ic_SmbShare := Some ?a\<rparr>) (inst\<lparr>ic_SmbShare := Some ?b\<rparr>) = Some (Inr ())"
    "CheckCompatible (inst\<lparr>ic_SmbShare := Some ?b\<rparr>) (inst\<lparr>ic_SmbShare := Some ?a\<rparr>) = Some (Inr ())"
    by (metis CheckCompatible_iff)+
  have "?g \<noteq> ''''" using assms(12) by (simp add: plain_elem_def)
  then show ?thesis
    using replay_setServerGroup [OF assms(1) requested_groups(1) [OF assms(3)]]
      replay_setServerGroup [OF assms(2) requested_groups(2) [OF assms(4)]] ok names paths by blast
qed

definition fresh_share :: SmbShare where
  "fresh_share = demo_share\<lparr>sh_Status := \<lparr>sst_ServerGroup = ''''\<rparr>\<rparr>"

definition fresh_rival :: SmbShare where
  "fresh_rival = fresh_share\<lparr>sh_meta := (new_meta ''share2'' ''ns1'')\<lparr>m_UID := ''u2''\<rparr>, sh_Spec := demo_spec\<lparr>sp_Scaling := Some
     \<lparr>scal_AvailabilityMode = '''', scal_MinClusterSize = 1, scal_Group = ''share1'', scal_GroupMode = GroupModeExplicit\<rparr>\<rparr>\<rparr>"

lemma group_name_collision_witness:
  "\<exists>a' b'. replay (setServerGroup fresh_share) [Inr (OShare fresh_share)] = ([(CStatusUpdate (OShare a'), Inr (OShare fresh_share))], Returned (Inr True)) \<and>
     replay (setServerGroup fresh_rival) [Inr (OShare fresh_share)] = ([(CStatusUpdate (OShare b'), Inr (OShare fresh_share))], Returned (Inr True)) \<and>
     ShareMountPath (demo_planner a' smbcc_New) \<noteq> ShareMountPath (demo_planner b' smbcc_New)"
proof -
  let ?pvc = "\<lparr>pvc_Name = ''vol'', pvc_Spec = None, pvc_Path = ''sub''\<rparr>"
  have pvc: "st_Pvc (sp_Storage (sh_Spec fresh_share)) = Some ?pvc" "st_Pvc (sp_Storage (sh_Spec fresh_rival)) = Some ?pvc"
    by (simp_all add: fresh_share_def fresh_rival_def demo_share_def demo_spec_def)
  have again: "(demo_planner demo_share smbcc_New)\<lparr>pl_SmbShare := s\<rparr> = demo_planner s smbcc_New" for s by (simp add: demo_planner_def)
  have facts: "sst_ServerGroup (sh_Status fresh_share) = ''''" "sst_ServerGroup (sh_Status fresh_rival) = ''''" "ungrouped fresh_share"
    "in_explicit_group (m_Name (sh_meta fresh_share)) fresh_rival" "m_Namespace (sh_meta fresh_share) = m_Namespace (sh_meta fresh_rival)"
    "sp_SecurityConfig (sh_Spec fresh_share) = sp_SecurityConfig (sh_Spec fresh_rival)"
    "sp_CommonConfig (sh_Spec fresh_share) = sp_CommonConfig (sh_Spec fresh_rival)"
    "plain_elem (m_UID (sh_meta fresh_share))" "plain_elem (m_Name (sh_meta fresh_share))" "m_UID (sh_meta fresh_share) \<noteq> m_Name (sh_meta fresh_share)"
    by code_simp+
  from group_name_collision [OF facts(1-5) pvc refl facts(6-10),
      of "OShare fresh_share" "\<lparr>ic_SmbShare = None, ic_SecurityConfig = None, ic_CommonConfig = None, ic_GlobalConfig = DefaultOperatorConfig\<rparr>"
         "demo_planner demo_share smbcc_New"]
  show ?thesis unfolding again by blast
qed

section \<open>The namespace on OpenShift\<close>

text \<open>
  C38. Labelling the namespace of a share, by what the read returned: a namespace that has the
  labels is left alone; one without any label at all makes the operator panic (it writes to
  a nil map); any other is replaced by an object with its name, its spec and its labels plus
  the operator's, which has all wanted labels, but none of the annotations, owners or
  finalizers that the namespace had.
\<close>

theorem namespace_labels_update:
  "let read = (CGet KNamespace (nsname [] (m_Namespace (sh_meta s))), Inr (ONamespace n)) in
   case replay (getOrUpdateNamespaceOf s) [Inr (ONamespace n), w] of (tr, out) \<Rightarrow>
     (if hasNamespaceLabels n then tr = [read] \<and> out = Returned (Inr (n, False))
      else if m_Labels (ns_meta n) = None then tr = [read] \<and> out = Panicked
      else \<exists>n'. tr = [read, (CUpdate (ONamespace n'), w)] \<and> m_Name (ns_meta n') = m_Namespace (sh_meta s) \<and>
        ns_Finalizers n' = ns_Finalizers n \<and> hasNamespaceLabels n' \<and>
        mlookup (m_Labels (ns_meta n')) k =
          (case map_of namespaceLabels k of Some v \<Rightarrow> Some v | None \<Rightarrow> mlookup (m_Labels (ns_meta n)) k) \<and>
        m_Annotations (ns_meta n') = None \<and> m_OwnerReferences (ns_meta n') = [] \<and> m_Finalizers (ns_meta n') = [])"
proof (cases "hasNamespaceLabels n")
  case False
  show ?thesis
  proof (cases "m_Labels (ns_meta n)")
    case None
    then show ?thesis using False
      by (simp add: getOrUpdateNamespaceOf_def getNamespace_def get_as_def on_ok_def typed_def addNamespaceLabels_def
          namespaceLabels_def eval_def Let_def)
  next
    case (Some m)
    then obtain m' where m': "add_labels namespaceLabels (Some m) = Some m'" "\<And>k. mlookup m' k =
        (case map_of namespaceLabels k of Some v \<Rightarrow> Some v | None \<Rightarrow> mlookup (Some m) k)"
      by (simp add: namespaceLabels_def mlookup_Some)
    then have "\<forall>(k, v) \<in> set namespaceLabels. mlookup m' k = Some v"
      by (simp add: namespaceLabels_def)
    then show ?thesis using False Some m'
      by (cases w) (simp_all add: getOrUpdateNamespaceOf_def getNamespace_def get_as_def on_ok_def typed_def
          addNamespaceLabels_def hasNamespaceLabels_def eval_def Let_def api_write_def new_meta_def cong: option.case_cong)
  qed
qed (simp add: getOrUpdateNamespaceOf_def getNamespace_def get_as_def on_ok_def typed_def Let_def)

section \<open>Two shares of one name\<close>

lemma CheckCompatible_ignores_ShareName:
  "CheckCompatible (inst\<lparr>ic_SmbShare := Some (a\<lparr>sh_Spec := (sh_Spec a)\<lparr>sp_ShareName := n\<rparr>\<rparr>)\<rparr>) other = Some (Inr ()) \<longleftrightarrow>
   CheckCompatible (inst\<lparr>ic_SmbShare := Some a\<rparr>) other = Some (Inr ())"
  unfolding CheckCompatible_iff by (simp add: server_inputs_def security_uid_def common_uid_def)

lemma share_target_path:
  assumes "distinct (map fst (share_customs spec))" "map_of (share_customs spec) ''path'' = None"
  shows "map_of (share_target spec os) ''path'' = map_of os ''path''"
  using share_target_lookup [OF assms(1), of os "''path''"] assms(2)
  by (simp add: ReadOnlyParam_def BrowseableParam_def)

lemma update_steps_keep_path:
  assumes "wf_scc st" "wf_customs pl" "map_of (share_customs (sh_Spec (pl_SmbShare pl))) ''path'' = None"
    and "update_steps pl (False, st) = Some (ch, st')" "mlookup (c_Shares st) (shareName pl) = Some s"
  shows "\<exists>s'. mlookup (c_Shares st') (shareName pl) = Some s' \<and> mlookup (sc_Options s') ''path'' = mlookup (sc_Options s) ''path''"
proof -
  have "base_share pl st = Some s" using assms(5) by (simp add: base_share_def)
  then have "mlookup (c_Shares st') (shareName pl) =
      Some (s\<lparr>sc_Options := Some (share_target (sh_Spec (pl_SmbShare pl)) (entries (sc_Options s)))\<rparr>)"
    using update_steps_share [OF assms(1,2,4)] by simp
  moreover have "map_of (share_target (sh_Spec (pl_SmbShare pl)) (entries (sc_Options s))) ''path'' = mlookup (sc_Options s) ''path''"
    using share_target_path assms(2,3) by (simp add: wf_customs_def mlookup_def)
  ultimately show ?thesis by (simp add: mlookup_Some)
qed

lemma prune_steps_unlisted:
  assumes "prune_steps pl (ch, st) = Some (ch', st')" "sections_distinct st" "mlookup (c_Configs st') (instanceID pl) = Some cfg"
  shows "\<not> hasShare cfg (shareName pl)"
  using prune_steps_result(2) [OF assms(1)] assms(2,3)
  by (cases "mlookup (c_Configs st) (instanceID pl)")
    (auto simp: sections_distinct_def removeShare_def hasShare_def split: if_split_asm)

text \<open>
  C22. Nothing keeps two shares of one server group from having the same SMB name: the name is
  not among what the compatibility check compares. Such shares have one entry in the
  configuration between them. The update of the second leaves the path that the first one put there, so
  that its clients are served the first share's directory; and the clean-up of the second
  removes the entry and the listing, so that the first share is served no more.
\<close>

theorem share_name_collision:
  assumes "shareName pa = shareName pb" "instanceID pa = instanceID pb" "wf_scc st" "sections_distinct st"
    and "wf_customs pa" "wf_customs pb" "has_pvc (pl_SmbShare pa)" "has_pvc (pl_SmbShare pb)"
    and "map_of (share_customs (sh_Spec (pl_SmbShare pb))) ''path'' = None"
  shows "(\<forall>n inst other a. CheckCompatible (inst\<lparr>ic_SmbShare := Some (a\<lparr>sh_Spec := (sh_Spec a)\<lparr>sp_ShareName := n\<rparr>\<rparr>)\<rparr>) other = Some (Inr ()) \<longleftrightarrow>
        CheckCompatible (inst\<lparr>ic_SmbShare := Some a\<rparr>) other = Some (Inr ())) \<and>
    (\<exists>c1 st1 s1 c2 st2 s2 c3 st3. Update (pa\<lparr>pl_ConfigState := Some st\<rparr>) = Some (c1, st1) \<and>
       mlookup (c_Shares st1) (shareName pa) = Some s1 \<and>
       Update (pb\<lparr>pl_ConfigState := Some st1\<rparr>) = Some (c2, st2) \<and>
       mlookup (c_Shares st2) (shareName pa) = Some s2 \<and>
       mlookup (sc_Options s2) ''path'' = mlookup (sc_Options s1) ''path'' \<and>
       Prune (pb\<lparr>pl_ConfigState := Some st2\<rparr>) = Some (c3, st3) \<and>
       mlookup (c_Shares st3) (shareName pa) = None \<and>
       (\<forall>cfg. mlookup (c_Configs st3) (instanceID pa) = Some cfg \<longrightarrow> \<not> hasShare cfg (shareName pa)))"
proof -
  obtain c1 st1 where 1: "update_steps pa (False, st) = Some (c1, st1)" "wf_scc st1"
    using update_steps_run [OF assms(3,7,5)] by blast
  obtain c2 st2 where 2: "update_steps pb (False, st1) = Some (c2, st2)" "wf_scc st2"
    using update_steps_run [OF 1(2) assms(8,6)] by blast
  obtain c3 st3 where 3: "prune_steps pb (False, st2) = Some (c3, st3)" using prune_steps_run [OF 2(2)] by blast
  obtain s1 where s1: "mlookup (c_Shares st1) (shareName pa) = Some s1"
    using update_steps_share [OF assms(3,5) 1(1)] by blast
  obtain s2 where s2: "mlookup (c_Shares st2) (shareName pa) = Some s2"
    "mlookup (sc_Options s2) ''path'' = mlookup (sc_Options s1) ''path''"
    using update_steps_keep_path [OF 1(2) assms(6,9) 2(1)] s1 assms(1) by auto
  have "sections_distinct st2" using update_steps_distinct 1(1) 2(1) assms(4) by blast
  then have "\<forall>cfg. mlookup (c_Configs st3) (instanceID pa) = Some cfg \<longrightarrow> \<not> hasShare cfg (shareName pa)"
    using prune_steps_unlisted [OF 3] assms(1,2) by simp
  moreover have "mlookup (c_Shares st3) (shareName pa) = None" using prune_steps_result(1) [OF 3] assms(1) by simp
  ultimately show ?thesis
    using 1 2 3 s1 s2 unfolding Update_again Prune_again CheckCompatible_ignores_ShareName by blast
qed

lemma share_name_collision_witness:
  "\<exists>st1 s1 c2 st2 s2. Update (demo_planner demo_share smbcc_New) = Some (True, st1) \<and>
     mlookup (c_Shares st1) ''docs'' = Some s1 \<and>
     Update (demo_planner (demo_share\<lparr>sh_meta := (new_meta ''share2'' ''ns1'')\<lparr>m_UID := ''u2''\<rparr>\<rparr>) st1) = Some (c2, st2) \<and>
     mlookup (c_Shares st2) ''docs'' = Some s2 \<and> mlookup (sc_Options s2) ''path'' = mlookup (sc_Options s1) ''path''"
proof -
  let ?b = "demo_share\<lparr>sh_meta := (new_meta ''share2'' ''ns1'')\<lparr>m_UID := ''u2''\<rparr>\<rparr>"
  let ?pa = "demo_planner demo_share smbcc_New" and ?pb = "demo_planner ?b smbcc_New"
  have again: "(demo_planner s st)\<lparr>pl_ConfigState := Some st'\<rparr> = demo_planner s st'" for s st st' by (simp add: demo_planner_def)
  have names: "shareName ?pa = ''docs''" "shareName ?pb = ''docs''" by (simp_all add: shareName_def demo_spec_def)
  have "instanceID ?pa = instanceID ?pb" by (simp add: instanceID_def InstanceName_def demo_share_def)
  moreover have "wf_customs ?pb" "has_pvc ?b" "map_of (share_customs (sh_Spec ?b)) ''path'' = None"
    by (simp_all add: wf_customs_def global_customs_def demo_planner_def has_pvc_def share_customs_def demo_spec_def mlit_def)
  ultimately show ?thesis
    using share_name_collision [of ?pa ?pb smbcc_New] names demo_settled_facts(3) unfolding again by auto
qed

end
