(* ===== verification/ApiServer.thy ===== *)
theory ApiServer
  imports KubeLib Getters
begin

text \<open>
  A Kubernetes API server as far as the operator relies on it, for runs in which nobody else
  writes: a locale with the documented effect of each call on the stored objects, and an
  in-memory server that satisfies it. The server assigns UIDs, keeps the status of a share
  out of updates, and changes nothing else in an object. Programs are evaluated against such
  a server by \<open>exec\<close>, which collects the calls that write.
\<close>

section \<open>Evaluating a program against a server\<close>

named_theorems exec_simps \<open>evaluation of programs against a server\<close>

definition exec :: "('w \<Rightarrow> call \<Rightarrow> resp \<times> 'w) \<Rightarrow> 'a prog \<Rightarrow> 'w \<Rightarrow> call list \<times> 'a option \<times> 'w" where
  "exec api p w = (case run_prog api p w of (tr, out, w') \<Rightarrow> (filter is_write (map fst tr), out, w'))"

lemma exec_basic [exec_simps]:
  "exec api (Ret x) w = ([], Some x, w)"
  "exec api Panic w = ([], None, w)"
  "exec api (Do c k) w = (case exec api (k (fst (api w c))) (snd (api w c)) of
     (ws, out, w') \<Rightarrow> ((if is_write c then c # ws else ws), out, w'))"
  by (auto simp: exec_def Let_def split: prod.split)

lemma exec_andthen [exec_simps]:
  "exec api (andthen p f) w = (case exec api p w of
     (ws, Some x, w1) \<Rightarrow> (case exec api (f x) w1 of (ws', out, w2) \<Rightarrow> (ws @ ws', out, w2))
   | (ws, None, w1) \<Rightarrow> (ws, None, w1))"
  by (auto simp: exec_def run_andthen Let_def split: prod.splits option.splits)

lemma exec_on_ok [exec_simps]:
  "exec api (on_ok p e f) w = (case exec api p w of
     (ws, Some r, w1) \<Rightarrow> (case exec api (case r of Inl err \<Rightarrow> e err | Inr x \<Rightarrow> f x) w1 of
        (ws', out, w2) \<Rightarrow> (ws @ ws', out, w2))
   | (ws, None, w1) \<Rightarrow> (ws, None, w1))"
  unfolding on_ok_def by (rule exec_andthen)

lemma exec_eval [exec_simps]: "exec api (eval x f) w = (case x of None \<Rightarrow> ([], None, w) | Some v \<Rightarrow> exec api (f v) w)"
  by (cases x) (simp_all add: eval_def exec_simps)

lemma exec_api_write [exec_simps]:
  "is_write c \<Longrightarrow> exec api (api_write c) w = ([c], Some (fst (api w c)), snd (api w c))"
  by (simp add: api_write_def exec_simps)

lemma exec_emit [exec_simps]:
  "exec api (emit about t reason msg) w = ([], Some (), snd (api w (CEvent about t reason msg)))"
  by (simp add: emit_def exec_simps)

section \<open>The server\<close>

type_synonym store = "okind \<Rightarrow> NamespacedName \<Rightarrow> kobj option"

definition key_of :: "kobj \<Rightarrow> NamespacedName" where
  "key_of x = nsname_of (kmeta x)"

definition put :: "kobj \<Rightarrow> store \<Rightarrow> store" where
  "put x st = (\<lambda>k nn. if k = kind_of x \<and> nn = key_of x then Some x else st k nn)"

lemma put_same [simp]: "put x st (kind_of x) (key_of x) = Some x"
  by (simp add: put_def)

lemma put_other: "k \<noteq> kind_of x \<or> nn \<noteq> key_of x \<Longrightarrow> put x st k nn = st k nn"
  by (auto simp: put_def)

text \<open>An update of a share leaves its status alone, a status update all the rest.\<close>

fun with_status_of :: "kobj \<Rightarrow> kobj \<Rightarrow> kobj" where
  "with_status_of (OShare new) (OShare old) = OShare (new\<lparr>sh_Status := sh_Status old\<rparr>)"
| "with_status_of new old = new"

lemma with_status_of_kmeta [simp]:
  "kind_of (with_status_of x y) = kind_of x" "key_of (with_status_of x y) = key_of x" "kmeta (with_status_of x y) = kmeta x"
  by (cases x; cases y; simp add: key_of_def)+

definition with_uid :: "string \<Rightarrow> kobj \<Rightarrow> kobj" where
  "with_uid uid x = map_kmeta (m_UID_update (\<lambda>_. uid)) x"

lemma with_uid_simps [simp]:
  "kind_of (with_uid uid x) = kind_of x" "key_of (with_uid uid x) = key_of x"
  "with_uid uid (OConfigMap cm) = OConfigMap (cm\<lparr>cm_meta := (cm_meta cm)\<lparr>m_UID := uid\<rparr>\<rparr>)"
  "with_uid uid (ODeployment dep) = ODeployment (dep\<lparr>dep_meta := (dep_meta dep)\<lparr>m_UID := uid\<rparr>\<rparr>)"
  "with_uid uid (OService svc) = OService (svc\<lparr>svc_meta := (svc_meta svc)\<lparr>m_UID := uid\<rparr>\<rparr>)"
  by (auto simp: with_uid_def map_kmeta_def key_of_def nsname_of_def)

text \<open>What a call that writes does to the stored objects; the server chooses the UIDs.\<close>

fun takes_effect :: "call \<Rightarrow> store \<Rightarrow> store \<Rightarrow> bool" where
  "takes_effect (CCreate x) st st' = (st (kind_of x) (key_of x) = None \<and> (\<exists>uid. st' = put (with_uid uid x) st))"
| "takes_effect (CUpdate x) st st' =
     (case st (kind_of x) (key_of x) of None \<Rightarrow> False | Some old \<Rightarrow> st' = put (with_status_of x old) st)"
| "takes_effect (CStatusUpdate x) st st' =
     (case st (kind_of x) (key_of x) of None \<Rightarrow> False | Some old \<Rightarrow> st' = put (with_status_of old x) st)"
| "takes_effect (CDelete x) st st' =
     (st (kind_of x) (key_of x) \<noteq> None \<and> st' = (\<lambda>k nn. if k = kind_of x \<and> nn = key_of x then None else st k nn))"
| "takes_effect _ st st' = (st' = st)"

text \<open>The end of a share that is being deleted: it goes when its last finalizer is removed.\<close>

definition with_finalizers :: "string list \<Rightarrow> SmbShare \<Rightarrow> SmbShare" where
  "with_finalizers fs s = s\<lparr>sh_meta := (sh_meta s)\<lparr>m_Finalizers := fs\<rparr>\<rparr>"

definition without :: "kobj \<Rightarrow> store \<Rightarrow> store" where
  "without x st = (\<lambda>k nn. if k = kind_of x \<and> nn = key_of x then None else st k nn)"

text \<open>
  The laws: a read returns what is stored; objects are stored under their own name; a
  creation under a free name, and an update of an object that is there and not on its way
  out, succeed and take effect; the deletion of an object that is there, without finalizers
  and not on its way out, succeeds and removes it; a share that is on its way out may still lose finalizers, and
  with the last one it is gone; an event stores nothing the operator reads.
\<close>

locale api_server =
  fixes api :: "'w \<Rightarrow> call \<Rightarrow> resp \<times> 'w" and look :: "'w \<Rightarrow> store"
  assumes get: "api w (CGet k nn) = ((case look w k nn of None \<Rightarrow> Inl NotFoundError | Some x \<Rightarrow> Inr x), w)"
    and filed: "look w k nn = Some x \<Longrightarrow> kind_of x = k \<and> key_of x = nn"
    and create: "look w (kind_of x) (key_of x) = None \<Longrightarrow>
      \<not> isl (fst (api w (CCreate x))) \<and> takes_effect (CCreate x) (look w) (look (snd (api w (CCreate x))))"
    and update: "look w (kind_of x) (key_of x) = Some old \<Longrightarrow> m_DeletionTimestamp (kmeta old) = None \<Longrightarrow>
      \<not> isl (fst (api w (CUpdate x))) \<and> takes_effect (CUpdate x) (look w) (look (snd (api w (CUpdate x))))"
    and status: "look w (kind_of x) (key_of x) = Some old \<Longrightarrow> m_DeletionTimestamp (kmeta old) = None \<Longrightarrow>
      \<not> isl (fst (api w (CStatusUpdate x))) \<and>
      takes_effect (CStatusUpdate x) (look w) (look (snd (api w (CStatusUpdate x))))"
    and dying: "look w KShare (nsname_of (sh_meta s)) = Some (OShare s) \<Longrightarrow> m_DeletionTimestamp (sh_meta s) \<noteq> None \<Longrightarrow>
      set fs \<subseteq> set (m_Finalizers (sh_meta s)) \<Longrightarrow>
      \<not> isl (fst (api w (CUpdate (OShare (with_finalizers fs s))))) \<and>
      look (snd (api w (CUpdate (OShare (with_finalizers fs s))))) =
        (if fs = [] then without (OShare s) (look w) else put (OShare (with_finalizers fs s)) (look w))"
    and delete: "look w (kind_of x) (key_of x) = Some x \<Longrightarrow> m_DeletionTimestamp (kmeta x) = None \<Longrightarrow> m_Finalizers (kmeta x) = [] \<Longrightarrow>
      \<not> isl (fst (api w (CDelete x))) \<and> takes_effect (CDelete x) (look w) (look (snd (api w (CDelete x))))"
    and event: "look (snd (api w (CEvent about t reason msg))) = look w"
begin

lemma exec_get_as [exec_simps]:
  "exec api (get_as k proj nn) w =
     ([], Some (case look w k nn of None \<Rightarrow> Inl NotFoundError | Some x \<Rightarrow> typed proj (Inr x)), w)"
  by (simp add: get_as_def exec_basic get typed_def split: option.split)

lemma exec_existing [exec_simps]:
  "exec api (existing k proj nn) w = ([], Some (case look w k nn of None \<Rightarrow> Inr None
     | Some x \<Rightarrow> (case proj x of None \<Rightarrow> Inl (ApiError ''unexpected object'') | Some y \<Rightarrow> Inr (Some y))), w)"
  by (simp add: existing_def exec_andthen exec_get_as exec_basic typed_def IsNotFound_def split: option.split)

end

section \<open>An in-memory server\<close>

text \<open>The objects in a list, the newest version first; UIDs count the objects.\<close>

definition mem_look :: "kobj list \<Rightarrow> store" where
  "mem_look objs k nn = find (\<lambda>x. kind_of x = k \<and> key_of x = nn) objs"

definition mem_drop :: "kobj \<Rightarrow> kobj list \<Rightarrow> kobj list" where
  "mem_drop x objs = filter (\<lambda>y. \<not> (kind_of y = kind_of x \<and> key_of y = key_of x)) objs"

definition mem_put :: "kobj \<Rightarrow> kobj list \<Rightarrow> kobj list" where
  "mem_put x objs = x # mem_drop x objs"

fun mem_api :: "kobj list \<Rightarrow> call \<Rightarrow> resp \<times> kobj list" where
  "mem_api objs (CGet k nn) = ((case mem_look objs k nn of None \<Rightarrow> Inl NotFoundError | Some x \<Rightarrow> Inr x), objs)"
| "mem_api objs (CCreate x) = (case mem_look objs (kind_of x) (key_of x) of
     None \<Rightarrow> (let x' = with_uid (''uid-'' @ itoa (int (length objs))) x in (Inr x', mem_put x' objs))
   | Some _ \<Rightarrow> (Inl AlreadyExistsError, objs))"
| "mem_api objs (CUpdate x) = (case mem_look objs (kind_of x) (key_of x) of
     None \<Rightarrow> (Inl NotFoundError, objs)
   | Some old \<Rightarrow> (let x' = with_status_of x old in
       if m_DeletionTimestamp (kmeta old) \<noteq> None \<and> m_Finalizers (kmeta x) = [] then (Inr x', mem_drop x objs)
       else (Inr x', mem_put x' objs)))"
| "mem_api objs (CStatusUpdate x) = (case mem_look objs (kind_of x) (key_of x) of
     None \<Rightarrow> (Inl NotFoundError, objs)
   | Some old \<Rightarrow> (let x' = with_status_of old x in (Inr x', mem_put x' objs)))"
| "mem_api objs (CDelete x) = (case mem_look objs (kind_of x) (key_of x) of
     None \<Rightarrow> (Inl NotFoundError, objs)
   | Some old \<Rightarrow> (Inr old, mem_drop x objs))"
| "mem_api objs (CEvent about t reason msg) = (Inl (ApiError ''events are not answered''), objs)"

lemma mem_look_drop: "mem_look (mem_drop x objs) = without x (mem_look objs)"
proof (intro ext)
  fix k nn
  have skip: "find P (filter Q xs) = find P xs" if "\<And>y. P y \<Longrightarrow> Q y" for P Q and xs :: "kobj list"
    by (induction xs) (auto dest: that)
  show "mem_look (mem_drop x objs) k nn = without x (mem_look objs) k nn"
  proof (cases "k = kind_of x \<and> nn = key_of x")
    case False
    then have "find (\<lambda>y. kind_of y = k \<and> key_of y = nn) (filter (\<lambda>y. \<not> (kind_of y = kind_of x \<and> key_of y = key_of x)) objs) =
        find (\<lambda>y. kind_of y = k \<and> key_of y = nn) objs"
      by (intro skip) auto
    then show ?thesis using False by (simp only: mem_look_def mem_drop_def without_def if_False)
  qed (auto simp: mem_look_def mem_drop_def without_def find_None_iff)
qed

lemma mem_look_put: "mem_look (mem_put x objs) = put x (mem_look objs)"
proof -
  have "mem_look (mem_put x objs) k nn = (if k = kind_of x \<and> nn = key_of x then Some x else mem_look (mem_drop x objs) k nn)" for k nn
    by (auto simp: mem_look_def mem_put_def)
  then show ?thesis unfolding mem_look_drop by (auto simp: put_def without_def fun_eq_iff)
qed

lemma mem_look_filed: "mem_look objs k nn = Some x \<Longrightarrow> kind_of x = k \<and> key_of x = nn"
  by (auto simp: mem_look_def find_Some_iff)

lemma with_finalizers_meta [simp]: "nsname_of (sh_meta (with_finalizers fs s)) = nsname_of (sh_meta s)"
  "m_Finalizers (sh_meta (with_finalizers fs s)) = fs" "with_finalizers fs s\<lparr>sh_Status := sh_Status s\<rparr> = with_finalizers fs s"
  by (simp_all add: with_finalizers_def nsname_of_def)

lemma without_same_key: "kind_of x = kind_of y \<Longrightarrow> key_of x = key_of y \<Longrightarrow> without x = without y"
  by (simp add: without_def fun_eq_iff)

interpretation mem: api_server mem_api mem_look
proof unfold_locales
  fix w s fs
  assume "mem_look w KShare (nsname_of (sh_meta s)) = Some (OShare s)" "m_DeletionTimestamp (sh_meta s) \<noteq> None"
  then show "\<not> isl (fst (mem_api w (CUpdate (OShare (with_finalizers fs s))))) \<and>
      mem_look (snd (mem_api w (CUpdate (OShare (with_finalizers fs s))))) =
        (if fs = [] then without (OShare s) (mem_look w) else put (OShare (with_finalizers fs s)) (mem_look w))"
    using without_same_key [of "OShare (with_finalizers fs s)" "OShare s"]
    by (auto simp: mem_look_put mem_look_drop Let_def key_of_def)
qed (auto simp: mem_look_put mem_look_drop without_def fun_eq_iff Let_def split: option.splits dest: mem_look_filed)

end
