(* ===== verification/NextChange.thy ===== *)
theory NextChange
  imports ApiServer Controllers Storable
begin

text \<open>
  What a pass of the reconcile loop is meant to do, as a function of the stored objects: the
  next change towards the state the share asks for, or none. It covers a share that is live,
  not clustered, alone in its server group and stored on an existing claim, on a cluster
  that is not OpenShift. \<open>Convergence\<close> shows that \<open>Reconcile\<close> implements it.
\<close>

section \<open>Objects of a share\<close>

definition sec_of :: "store \<Rightarrow> SmbShare \<Rightarrow> SmbSecurityConfig option" where
  "sec_of st s =
     (if sp_SecurityConfig (sh_Spec s) = '''' then None
      else case st KSecurity (nsname (m_Namespace (sh_meta s)) (sp_SecurityConfig (sh_Spec s))) of
        Some (OSecurity c) \<Rightarrow> Some c | _ \<Rightarrow> None)"

definition common_of :: "store \<Rightarrow> SmbShare \<Rightarrow> SmbCommonConfig option" where
  "common_of st s =
     (if sp_CommonConfig (sh_Spec s) = '''' then None
      else case st KCommon (nsname (m_Namespace (sh_meta s)) (sp_CommonConfig (sh_Spec s))) of
        Some (OCommon c) \<Rightarrow> Some c | _ \<Rightarrow> None)"

definition planner_at :: "OperatorConfig \<Rightarrow> store \<Rightarrow> SmbShare \<Rightarrow> SambaContainerConfig \<Rightarrow> Planner" where
  "planner_at cfg st s cc = \<lparr>pl_SmbShare = s, pl_SecurityConfig = sec_of st s, pl_CommonConfig = common_of st s,
     pl_GlobalConfig = cfg, pl_ConfigState = Some cc\<rparr>"

definition server_key :: "SmbShare \<Rightarrow> NamespacedName" where
  "server_key s = nsname (m_Namespace (sh_meta s)) (sst_ServerGroup (sh_Status s))"

text \<open>The document in the config map of the server group.\<close>

definition doc_at :: "store \<Rightarrow> SmbShare \<Rightarrow> SambaContainerConfig" where
  "doc_at st s = (case st KConfigMap (server_key s) of
     Some (OConfigMap cm) \<Rightarrow> (case getContainerConfig cm of Inr cc \<Rightarrow> cc | Inl _ \<Rightarrow> smbcc_New)
   | _ \<Rightarrow> smbcc_New)"

definition is_owned :: "kube_lib \<Rightarrow> SmbShare \<Rightarrow> ObjectMeta \<Rightarrow> bool" where
  "is_owned lib s m = (owned_by lib share_gvk (m_Name (sh_meta s)) (m_OwnerReferences m) = Inr True)"

definition claimed :: "kube_lib \<Rightarrow> SmbShare \<Rightarrow> ObjectMeta \<Rightarrow> ObjectMeta" where
  "claimed lib s m = m\<lparr>m_OwnerReferences := m_OwnerReferences m @ [claim_ref lib share_gvk s]\<rparr>"

definition first_owned :: "kube_lib \<Rightarrow> SmbShare \<Rightarrow> ObjectMeta \<Rightarrow> ObjectMeta" where
  "first_owned lib s m = (case kl_SetControllerReference lib (sh_meta s) m of Inl _ \<Rightarrow> m | Inr m' \<Rightarrow> m')"

section \<open>The next change\<close>

definition finalizer_change :: "kube_lib \<Rightarrow> SmbShare \<Rightarrow> call option" where
  "finalizer_change lib s =
     (if kl_ContainsFinalizer lib (m_Finalizers (sh_meta s)) shareFinalizer then None
      else Some (CUpdate (OShare (s\<lparr>sh_meta := (sh_meta s)
        \<lparr>m_Finalizers := kl_AddFinalizer lib (m_Finalizers (sh_meta s)) shareFinalizer\<rparr>\<rparr>))))"

definition group_change :: "SmbShare \<Rightarrow> call option" where
  "group_change s =
     (if sst_ServerGroup (sh_Status s) \<noteq> '''' then None
      else case requested_group s of Inl _ \<Rightarrow> None | Inr g \<Rightarrow> Some (CStatusUpdate (OShare (set_group g s))))"

definition config_change :: "kube_lib \<Rightarrow> OperatorConfig \<Rightarrow> store \<Rightarrow> SmbShare \<Rightarrow> call option" where
  "config_change lib cfg st s =
     (case st KConfigMap (server_key s) of
        Some (OConfigMap cm) \<Rightarrow>
          if \<not> is_owned lib s (cm_meta cm) then Some (CUpdate (OConfigMap (cm\<lparr>cm_meta := claimed lib s (cm_meta cm)\<rparr>)))
          else (case Update (planner_at cfg st s (doc_at st s)) of
             Some (True, cc') \<Rightarrow> map_option (\<lambda>cm'. CUpdate (OConfigMap cm')) (setContainerConfig cm cc')
           | _ \<Rightarrow> None)
      | _ \<Rightarrow> (let cm = newDefaultConfigMap (sst_ServerGroup (sh_Status s)) (m_Namespace (sh_meta s))
              in Some (CCreate (OConfigMap (cm\<lparr>cm_meta := first_owned lib s (cm_meta cm)\<rparr>)))))"

definition backend_change :: "SmbShare \<Rightarrow> call option" where
  "backend_change s =
     (if mget (m_Annotations (sh_meta s)) serverBackend \<noteq> '''' then None
      else Some (CUpdate (OShare (s\<lparr>sh_meta := (sh_meta s)\<lparr>m_Annotations :=
        Some (ins serverBackend standardBackend (entries (m_Annotations (sh_meta s))))\<rparr>\<rparr>))))"

definition deployment_change :: "kube_lib \<Rightarrow> store \<Rightarrow> Planner \<Rightarrow> call option" where
  "deployment_change lib st pl =
     (let s = pl_SmbShare pl in
      case st KDeployment (server_key s) of
        Some (ODeployment dep) \<Rightarrow>
          if \<not> is_owned lib s (dep_meta dep) then Some (CUpdate (ODeployment (dep\<lparr>dep_meta := claimed lib s (dep_meta dep)\<rparr>)))
          else if dep_Replicas dep \<noteq> Some 1 then Some (CUpdate (ODeployment (dep\<lparr>dep_Replicas := Some 1\<rparr>)))
          else None
      | _ \<Rightarrow> do { pvc \<leftarrow> st_Pvc (sp_Storage (sh_Spec s));
                dep \<leftarrow> buildDeployment (pl_GlobalConfig pl) pl (pvc_Name pvc) (m_Namespace (sh_meta s));
                Some (CCreate (ODeployment (dep\<lparr>dep_meta := first_owned lib s (dep_meta dep)\<rparr>))) })"

definition service_change :: "kube_lib \<Rightarrow> store \<Rightarrow> Planner \<Rightarrow> call option" where
  "service_change lib st pl =
     (let s = pl_SmbShare pl in
      case st KService (server_key s) of
        Some (OService svc) \<Rightarrow>
          if \<not> is_owned lib s (svc_meta svc) then Some (CUpdate (OService (svc\<lparr>svc_meta := claimed lib s (svc_meta svc)\<rparr>)))
          else None
      | _ \<Rightarrow> do { svc \<leftarrow> newServiceForSmb pl (m_Namespace (sh_meta s));
                Some (CCreate (OService (svc\<lparr>svc_meta := first_owned lib s (svc_meta svc)\<rparr>))) })"

fun first_some :: "'a option list \<Rightarrow> 'a option" where
  "first_some [] = None"
| "first_some (None # xs) = first_some xs"
| "first_some (Some x # xs) = Some x"

definition next_change :: "kube_lib \<Rightarrow> OperatorConfig \<Rightarrow> store \<Rightarrow> NamespacedName \<Rightarrow> call option" where
  "next_change lib cfg st nn =
     (case st KShare nn of
        Some (OShare s) \<Rightarrow>
          (let pl = planner_at cfg st s (doc_at st s) in
           first_some [finalizer_change lib s, group_change s, config_change lib cfg st s, backend_change s,
             deployment_change lib st pl, service_change lib st pl])
      | _ \<Rightarrow> None)"

section \<open>The situations covered\<close>

text \<open>The share with the server group it has or will have.\<close>

definition grouped :: "SmbShare \<Rightarrow> SmbShare" where
  "grouped s = (if sst_ServerGroup (sh_Status s) \<noteq> '''' then s
     else case requested_group s of Inl _ \<Rightarrow> s | Inr g \<Rightarrow> set_group g s)"

text \<open>An object that stays and whose owner references can be read.\<close>

definition manageable :: "kube_lib \<Rightarrow> SmbShare \<Rightarrow> ObjectMeta \<Rightarrow> bool" where
  "manageable lib s m \<longleftrightarrow> m_DeletionTimestamp m = None \<and>
     \<not> isl (owned_by lib share_gvk (m_Name (sh_meta s)) (m_OwnerReferences m))"

definition share_in_scope :: "SmbShare \<Rightarrow> bool" where
  "share_in_scope s \<longleftrightarrow> m_DeletionTimestamp (sh_meta s) = None \<and> has_pvc s \<and> \<not> shareNeedsPvc s \<and>
     (case sp_Scaling (sh_Spec s) of None \<Rightarrow> True | Some sc \<Rightarrow> scal_AvailabilityMode sc \<noteq> ''clustered'') \<and>
     sst_ServerGroup (sh_Status (grouped s)) \<noteq> '''' \<and>
     mget (m_Annotations (sh_meta s)) serverBackend \<in> {'''', standardBackend} \<and>
     \<not> conflicting (sh_Spec s)"

definition configs_stored :: "store \<Rightarrow> SmbShare \<Rightarrow> bool" where
  "configs_stored st s \<longleftrightarrow> (sp_SecurityConfig (sh_Spec s) = '''' \<or> sec_of st s \<noteq> None) \<and>
     (sp_CommonConfig (sh_Spec s) = '''' \<or> common_of st s \<noteq> None)"

definition config_map_ok :: "kube_lib \<Rightarrow> store \<Rightarrow> SmbShare \<Rightarrow> bool" where
  "config_map_ok lib st s = (case st KConfigMap (server_key s) of
     None \<Rightarrow> True
   | Some (OConfigMap cm) \<Rightarrow> manageable lib s (cm_meta cm) \<and> cm_Data cm \<noteq> None \<and>
       (case getContainerConfig cm of Inr cc \<Rightarrow> storable cc | Inl _ \<Rightarrow> False) \<and>
       ownerSharesExcluding lib (cm_meta cm) s = Inr []
   | _ \<Rightarrow> False)"

definition deployment_ok :: "kube_lib \<Rightarrow> store \<Rightarrow> SmbShare \<Rightarrow> bool" where
  "deployment_ok lib st s = (case st KDeployment (server_key s) of
     None \<Rightarrow> True
   | Some (ODeployment dep) \<Rightarrow> manageable lib s (dep_meta dep) \<and> dep_Replicas dep \<noteq> None
   | _ \<Rightarrow> False)"

definition service_ok :: "kube_lib \<Rightarrow> store \<Rightarrow> SmbShare \<Rightarrow> bool" where
  "service_ok lib st s = (case st KService (server_key s) of
     None \<Rightarrow> True | Some (OService svc) \<Rightarrow> manageable lib s (svc_meta svc) | _ \<Rightarrow> False)"

text \<open>The operator knows that it is not on OpenShift, and its own pod says the same.\<close>

definition plain_cluster :: "OperatorConfig \<Rightarrow> store \<Rightarrow> bool" where
  "plain_cluster cfg st \<longleftrightarrow> oc_ClusterType cfg = ClusterTypeDefault \<and>
     (case st KPod (nsname (oc_PodNamespace cfg) (oc_PodName cfg)) of
        None \<Rightarrow> True
      | Some (OPod pod) \<Rightarrow> \<not> list_ex (\<lambda>(k, v). contains k ClusterTypeOpenShift) (entries (m_Annotations (pod_meta pod)))
      | _ \<Rightarrow> False)"

definition in_scope :: "kube_lib \<Rightarrow> OperatorConfig \<Rightarrow> store \<Rightarrow> NamespacedName \<Rightarrow> bool" where
  "in_scope lib cfg st nn \<longleftrightarrow> plain_cluster cfg st \<and>
     (case st KShare nn of
        Some (OShare s) \<Rightarrow> share_in_scope s \<and> configs_stored st s \<and>
          wf_customs (planner_at cfg st s smbcc_New) \<and> utf8_inputs (planner_at cfg st (grouped s) smbcc_New) \<and>
          config_map_ok lib st (grouped s) \<and> deployment_ok lib st (grouped s) \<and> service_ok lib st (grouped s)
      | _ \<Rightarrow> False)"

text \<open>How many changes are still to be made at most: to the share, and to each object.\<close>

definition share_rank :: "kube_lib \<Rightarrow> SmbShare \<Rightarrow> nat" where
  "share_rank lib s = of_bool (\<not> kl_ContainsFinalizer lib (m_Finalizers (sh_meta s)) shareFinalizer) +
     of_bool (sst_ServerGroup (sh_Status s) = []) + of_bool (mget (m_Annotations (sh_meta s)) serverBackend = [])"

definition config_rank :: "kube_lib \<Rightarrow> OperatorConfig \<Rightarrow> store \<Rightarrow> SmbShare \<Rightarrow> nat" where
  "config_rank lib cfg st s = (case st KConfigMap (server_key s) of
     Some (OConfigMap cm) \<Rightarrow> of_bool (\<not> is_owned lib s (cm_meta cm)) +
       of_bool (\<not> settled (planner_at cfg st s (doc_at st s)) (doc_at st s))
   | _ \<Rightarrow> 3)"

definition deployment_rank :: "kube_lib \<Rightarrow> store \<Rightarrow> SmbShare \<Rightarrow> nat" where
  "deployment_rank lib st s = (case st KDeployment (server_key s) of
     Some (ODeployment dep) \<Rightarrow> of_bool (\<not> is_owned lib s (dep_meta dep)) + of_bool (dep_Replicas dep \<noteq> Some 1)
   | _ \<Rightarrow> 3)"

definition service_rank :: "kube_lib \<Rightarrow> store \<Rightarrow> SmbShare \<Rightarrow> nat" where
  "service_rank lib st s = (case st KService (server_key s) of
     Some (OService svc) \<Rightarrow> of_bool (\<not> is_owned lib s (svc_meta svc)) | _ \<Rightarrow> 2)"

definition rank :: "kube_lib \<Rightarrow> OperatorConfig \<Rightarrow> store \<Rightarrow> NamespacedName \<Rightarrow> nat" where
  "rank lib cfg st nn = (case st KShare nn of
     Some (OShare s) \<Rightarrow> share_rank lib s + config_rank lib cfg st (grouped s) +
       deployment_rank lib st (grouped s) + service_rank lib st (grouped s)
   | _ \<Rightarrow> 0)"

lemma rank_parts: "share_rank lib s \<le> 3" "config_rank lib cfg st s \<le> 3" "deployment_rank lib st s \<le> 3"
  "service_rank lib st s \<le> 2"
  by (simp_all add: share_rank_def config_rank_def deployment_rank_def service_rank_def of_bool_def split: option.split kobj.split)

lemma rank_bound: "rank lib cfg st nn \<le> 11"
proof -
  have "share_rank lib s + config_rank lib cfg st s' + deployment_rank lib st s' + service_rank lib st s' \<le> 11" for s s'
    using rank_parts(1) [of lib s] rank_parts(2) [of lib cfg st s'] rank_parts(3,4) [of lib st s'] by linarith
  then show ?thesis by (simp add: rank_def split: option.split kobj.split)
qed

end
