(* ===== verification/Convergence.thy ===== *)
theory Convergence
  imports NextChange
begin

text \<open>
  A pass makes exactly the change that \<open>next_change\<close> names, or none when it names none, on
  every server that satisfies the laws of \<open>ApiServer\<close>: stage by stage along
  \<open>SmbShareManager.Update\<close>, then for the whole pass. That the changes come to an end is in
  \<open>Settling\<close>.
\<close>

section \<open>Programs that do nothing or one thing\<close>

definition idle :: "('w \<Rightarrow> call \<Rightarrow> resp \<times> 'w) \<Rightarrow> 'a prog \<Rightarrow> 'w \<Rightarrow> 'a \<Rightarrow> bool" where
  "idle api p w y \<longleftrightarrow> exec api p w = ([], Some y, w)"

definition does :: "('w \<Rightarrow> call \<Rightarrow> resp \<times> 'w) \<Rightarrow> ('w \<Rightarrow> store) \<Rightarrow> 'a prog \<Rightarrow> 'w \<Rightarrow> call \<Rightarrow> 'a \<Rightarrow> bool" where
  "does api look p w c y \<longleftrightarrow> (\<exists>w'. exec api p w = ([c], Some y, w') \<and> takes_effect c (look w) (look w'))"

lemma idle_Ret [intro]: "x = y \<Longrightarrow> idle api (Ret x) w y"
  by (simp add: idle_def exec_simps)

lemma idle_andthen: "idle api p w x \<Longrightarrow> idle api (f x) w y \<Longrightarrow> idle api (andthen p f) w y"
  by (simp add: idle_def exec_simps)

lemma does_later: "idle api p w x \<Longrightarrow> does api look (f x) w c y \<Longrightarrow> does api look (andthen p f) w c y"
  by (auto simp: idle_def does_def exec_simps)

lemma does_now: "does api look p w c x \<Longrightarrow> f x = Ret y \<Longrightarrow> does api look (andthen p f) w c y"
  by (auto simp: does_def exec_simps)

text \<open>What follows a creation: perhaps an event, and a request for another pass.\<close>

definition only_events :: "('w \<Rightarrow> call \<Rightarrow> resp \<times> 'w) \<Rightarrow> ('w \<Rightarrow> store) \<Rightarrow> 'a prog \<Rightarrow> 'a \<Rightarrow> bool" where
  "only_events api look p y \<longleftrightarrow> (\<forall>w. \<exists>w'. exec api p w = ([], Some y, w') \<and> look w' = look w)"

lemma does_then_events:
  assumes "does api look p w c x" "only_events api look (f x) y"
  shows "does api look (andthen p f) w c y"
proof -
  obtain w' where "exec api p w = ([c], Some x, w')" "takes_effect c (look w) (look w')"
    using assms(1) by (auto simp: does_def)
  moreover obtain w'' where "exec api (f x) w' = ([], Some y, w'')" "look w'' = look w'"
    using assms(2) by (auto simp: only_events_def)
  ultimately show ?thesis by (auto simp: does_def exec_simps)
qed

lemma idle_created_step: "idle api p w (Inr (x, False)) \<Longrightarrow> idle api (next_step x) w r \<Longrightarrow> idle api (created_step p made next_step) w r"
  unfolding created_step_def on_ok_def by (rule idle_andthen) (assumption, simp)

lemma does_created_step:
  "idle api p w (Inr (x, False)) \<Longrightarrow> does api look (next_step x) w c r \<Longrightarrow> does api look (created_step p made next_step) w c r"
  "does api look p w c (Inr (x, True)) \<Longrightarrow> only_events api look (made x) r \<Longrightarrow>
   does api look (created_step p made next_step) w c r"
  unfolding created_step_def on_ok_def by (auto intro: does_later does_then_events)

lemma idle_changed_step: "idle api p w (Inr False) \<Longrightarrow> idle api next_step w r \<Longrightarrow> idle api (changed_step p next_step) w r"
  unfolding changed_step_def on_ok_def by (rule idle_andthen) (assumption, simp)

lemma does_changed_step:
  "idle api p w (Inr False) \<Longrightarrow> does api look next_step w c r \<Longrightarrow> does api look (changed_step p next_step) w c r"
  "does api look p w c (Inr True) \<Longrightarrow> does api look (changed_step p next_step) w c Requeue"
  unfolding changed_step_def on_ok_def by (auto intro: does_later does_now)

lemma idle_unless_yield: "idle api p w Done \<Longrightarrow> idle api n w y \<Longrightarrow> idle api (unless_yield p out n) w y"
  unfolding unless_yield_def by (rule idle_andthen) (assumption, simp)

lemma does_unless_yield:
  "idle api p w Done \<Longrightarrow> does api look n w c y \<Longrightarrow> does api look (unless_yield p out n) w c y"
  "does api look p w c Requeue \<Longrightarrow> does api look (unless_yield p out n) w c (out Requeue)"
  unfolding unless_yield_def by (auto intro: does_later does_now)

section \<open>A pass makes the next change\<close>

locale cluster = kube_laws lib + api_server api look
  for lib :: kube_lib and api :: "'w \<Rightarrow> call \<Rightarrow> resp \<times> 'w" and look :: "'w \<Rightarrow> store"
begin

lemma does_write:
  assumes "\<not> isl (fst (api w c))" "takes_effect c (look w) (look (snd (api w c)))" "is_write c"
  shows "does api look (on_ok (api_write c) e (\<lambda>_. Ret y)) w c y"
  using assms by (cases "fst (api w c)") (auto simp: does_def exec_simps)

lemma does_update:
  assumes "look w (kind_of x) (key_of x) = Some old" "m_DeletionTimestamp (kmeta old) = None"
  shows "does api look (on_ok (api_write (CUpdate x)) e (\<lambda>_. Ret y)) w (CUpdate x) y"
  using update [OF assms] by (intro does_write) auto

lemma does_claim:
  assumes "look w (kind_of obj) (key_of obj) = Some obj" "manageable lib s (kmeta obj)" "\<not> is_owned lib s (kmeta obj)"
  shows "does api look (claimOwnership lib s obj) w (CUpdate (map_kmeta (claimed lib s) obj)) (Inr True)"
proof -
  have "owned_by lib share_gvk (m_Name (sh_meta s)) (m_OwnerReferences (kmeta obj)) = Inr False"
    using assms(2,3) by (cases "owned_by lib share_gvk (m_Name (sh_meta s)) (m_OwnerReferences (kmeta obj))")
      (auto simp: manageable_def is_owned_def)
  moreover have "map_kmeta (claimed lib s) obj =
      map_kmeta (m_OwnerReferences_update (\<lambda>_. m_OwnerReferences (kmeta obj) @ [claim_ref lib share_gvk s])) obj"
    by (simp add: map_kmeta_def claimed_def)
  moreover have "kind_of (map_kmeta f obj) = kind_of obj" for f by (simp add: map_kmeta_def)
  moreover have "key_of (map_kmeta (claimed lib s) obj) = key_of obj"
    by (simp add: key_of_def claimed_def nsname_of_def)
  ultimately show ?thesis
    using assms(1,2) does_update [of w "map_kmeta (claimed lib s) obj" obj]
    by (simp add: claimOwnership_def gvk_share manageable_def)
qed

lemma idle_claim: "is_owned lib s (kmeta obj) \<Longrightarrow> idle api (claimOwnership lib s obj) w (Inr False)"
  by (simp add: claimOwnership_def gvk_share is_owned_def idle_Ret)

lemma first_owned_meta:
  assumes "m_Namespace m = m_Namespace (sh_meta s)" "m_OwnerReferences m = []"
  obtains ref where "kl_SetControllerReference lib (sh_meta s) m = Inr (first_owned lib s m)"
    "first_owned lib s m = m\<lparr>m_OwnerReferences := [ref]\<rparr>" "or_Name ref = m_Name (sh_meta s)"
    "or_UID ref = m_UID (sh_meta s)" "or_APIVersion ref = kl_GroupVersionString lib share_gvk" "or_Kind ref = gvk_Kind share_gvk"
  using controller_fresh [OF assms] by (auto simp: first_owned_def)

lemma does_create_owned:
  assumes "m_Namespace m = m_Namespace (sh_meta s)" "m_OwnerReferences m = []"
    and "\<And>m. kind_of (wrap (f m)) = k" "\<And>m. kmeta (wrap (f m)) = m" "look w k (nsname_of m) = None"
  shows "does api look (create_owned lib s f wrap m) w (CCreate (wrap (f (first_owned lib s m)))) (Inr (f (first_owned lib s m)))"
proof -
  obtain ref where ref: "kl_SetControllerReference lib (sh_meta s) m = Inr (first_owned lib s m)"
    "first_owned lib s m = m\<lparr>m_OwnerReferences := [ref]\<rparr>"
    using assms(1,2) by (rule first_owned_meta)
  have "look w (kind_of (wrap (f (first_owned lib s m)))) (key_of (wrap (f (first_owned lib s m)))) = None"
    using assms(3-5) ref(2) by (simp add: key_of_def nsname_of_def)
  from create [OF this] show ?thesis using ref(1) by (simp add: create_owned_def does_write)
qed

lemma get_or_create_cases:
  "look w k nn = Some x \<Longrightarrow> proj x = Some y \<Longrightarrow> idle api (get_or_create (existing k proj nn) mk) w (Inr (y, False))"
  "look w k nn = None \<Longrightarrow> does api look mk w c (Inr z) \<Longrightarrow> does api look (get_or_create (existing k proj nn) mk) w c (Inr (z, True))"
  by (auto simp: idle_def does_def get_or_create_def exec_simps exec_existing)

text \<open>The stages on the share and on the config map.\<close>

lemma addFinalizer_change:
  assumes "look w KShare (nsname_of (sh_meta s)) = Some (OShare s)" "m_DeletionTimestamp (sh_meta s) = None"
  shows "case finalizer_change lib s of None \<Rightarrow> idle api (addFinalizer lib s) w (Inr False)
    | Some c \<Rightarrow> does api look (addFinalizer lib s) w c (Inr True)"
  using assms by (auto simp: finalizer_change_def addFinalizer_def key_of_def nsname_of_def intro!: does_update)

lemma setServerGroup_change:
  assumes "look w KShare (nsname_of (sh_meta s)) = Some (OShare s)" "m_DeletionTimestamp (sh_meta s) = None"
    and "sst_ServerGroup (sh_Status (grouped s)) \<noteq> ''''"
  shows "case group_change s of None \<Rightarrow> idle api (setServerGroup s) w (Inr False)
    | Some c \<Rightarrow> does api look (setServerGroup s) w c (Inr True)"
proof (cases "sst_ServerGroup (sh_Status s) = ''''")
  case True
  then obtain g where g: "requested_group s = Inr g"
    using assms(3) by (cases "requested_group s") (simp_all add: grouped_def)
  have "look w (kind_of (OShare (set_group g s))) (key_of (OShare (set_group g s))) = Some (OShare s)"
    using assms(1) by (simp add: key_of_def set_group_def)
  then show ?thesis
    using status [of w "OShare (set_group g s)" "OShare s"] assms(2) True g
    by (auto simp: group_change_def setServerGroup_def intro!: does_write)
qed (simp add: group_change_def setServerGroup_def idle_Ret)

lemma idle_getShareInstance:
  assumes "configs_stored (look w) s"
  shows "idle api (getShareInstance cfg s) w (Inr \<lparr>ic_SmbShare = Some s, ic_SecurityConfig = sec_of (look w) s,
    ic_CommonConfig = common_of (look w) s, ic_GlobalConfig = cfg\<rparr>)"
proof -
  have "idle api (getSecurityConfig s) w (Inr (sec_of (look w) s))"
    using assms by (auto simp: idle_def getSecurityConfig_def sec_of_def configs_stored_def exec_simps exec_get_as typed_def
        split: option.splits kobj.splits)
  moreover have "idle api (getCommonConfig s) w (Inr (common_of (look w) s))"
    using assms by (auto simp: idle_def getCommonConfig_def common_of_def configs_stored_def exec_simps exec_get_as typed_def
        split: option.splits kobj.splits)
  ultimately show ?thesis by (simp add: getShareInstance_def idle_def exec_simps)
qed

lemma updateConfiguration_change:
  assumes "config_map_ok lib (look w) s" "look w KConfigMap (server_key s) = Some (OConfigMap cm)"
    and "configs_stored (look w) s" "m_DeletionTimestamp (sh_meta s) = None" "has_pvc s"
    and "wf_customs (planner_at cfg (look w) s smbcc_New)"
  defines "pl \<equiv> planner_at cfg (look w) s (doc_at (look w) s)"
  shows "case Update pl of
      Some (False, cc) \<Rightarrow> cc = doc_at (look w) s \<and> idle api (updateConfiguration lib cfg cm s) w (Inr (pl, False))
    | Some (True, cc') \<Rightarrow> \<exists>cm' pl'. setContainerConfig cm cc' = Some cm' \<and>
        does api look (updateConfiguration lib cfg cm s) w (CUpdate (OConfigMap cm')) (Inr (pl', True))
    | None \<Rightarrow> False"
proof -
  obtain cc where cc: "getContainerConfig cm = Inr cc" "storable cc" "doc_at (look w) s = cc" "cm_Data cm \<noteq> None"
    "ownerSharesExcluding lib (cm_meta cm) s = Inr []" "m_DeletionTimestamp (cm_meta cm) = None"
    using assms(1,2) by (auto simp: config_map_ok_def doc_at_def manageable_def split: sum.splits)
  let ?inst = "\<lparr>ic_SmbShare = Some s, ic_SecurityConfig = sec_of (look w) s, ic_CommonConfig = common_of (look w) s,
    ic_GlobalConfig = cfg\<rparr>"
  have pl: "New ?inst (Some cc) = Some pl" "pl_ConfigState pl = Some cc" "pl_SmbShare pl = s"
    using cc(3) by (simp_all add: New_def pl_def planner_at_def)
  have run: "updateConfiguration lib cfg cm s = on_ok (getShareInstance cfg s) (\<lambda>err. Ret (Inl err)) (\<lambda>inst.
      on_ok (check_group cfg s inst []) (\<lambda>err. Ret (Inl err)) (\<lambda>_. finish_config cm inst cc))"
    using cc(1,5) assms(4) by (simp add: updateConfiguration_def finish_config_def)
  have "wf_customs pl" using assms(6) by (simp add: wf_customs_def pl_def planner_at_def global_customs_def)
  then obtain ch cc' where upd: "Update pl = Some (ch, cc')"
    using update_steps_run [of cc pl False] cc(2) assms(5) pl(2,3) by (auto simp: Update_steps storable_def)
  show ?thesis
  proof (cases ch)
    case False
    have "cc' = cc" using upd False upd.unchanged_run [of cc pl False cc'] cc(2) pl(2) by (simp add: Update_steps storable_def)
    moreover have "pl\<lparr>pl_ConfigState := Some cc\<rparr> = pl" using pl(2) by (cases pl) simp
    ultimately have "finish_config cm ?inst cc = Ret (Inr (pl, False))"
      using pl(1) upd False by (simp add: finish_config_def eval_def Let_def)
    then have "idle api (updateConfiguration lib cfg cm s) w (Inr (pl, False))"
      unfolding run using idle_getShareInstance [OF assms(3), of cfg] by (simp add: idle_def exec_simps check_group_def)
    then show ?thesis using upd False \<open>cc' = cc\<close> cc(3) by simp
  next
    case True
    obtain d where d: "cm_Data cm = Some d" using cc(4) by blast
    then obtain cm' where cm': "setContainerConfig cm cc' = Some cm'" "cm_meta cm' = cm_meta cm"
      by (simp add: setContainerConfig_def)
    let ?pl' = "pl\<lparr>pl_ConfigState := Some cc'\<rparr>"
    have fin: "finish_config cm ?inst cc = on_ok (api_write (CUpdate (OConfigMap cm'))) (\<lambda>err. Ret (Inl err)) (\<lambda>_. Ret (Inr (?pl', True)))"
      using pl(1) upd True cm'(1) by (simp add: finish_config_def eval_def Let_def store_config_def)
    have "key_of (OConfigMap cm') = server_key s"
      using filed [OF assms(2)] cm'(2) by (simp add: key_of_def)
    then have "does api look (finish_config cm ?inst cc) w (CUpdate (OConfigMap cm')) (Inr (?pl', True))"
      unfolding fin using assms(2) cc(6) by (intro does_update [where old = "OConfigMap cm"]) simp_all
    then have "does api look (updateConfiguration lib cfg cm s) w (CUpdate (OConfigMap cm')) (Inr (?pl', True))"
      unfolding run using idle_getShareInstance [OF assms(3), of cfg]
      by (auto simp: idle_def does_def exec_simps check_group_def)
    then show ?thesis using upd True cm'(1) by auto
  qed
qed

lemma updateConfigMap_change:
  assumes "config_map_ok lib (look w) s" "configs_stored (look w) s" "m_DeletionTimestamp (sh_meta s) = None" "has_pvc s"
    and "wf_customs (planner_at cfg (look w) s smbcc_New)"
  shows "case config_change lib cfg (look w) s of
      None \<Rightarrow> idle api (updateConfigMap lib cfg s) w (Some (planner_at cfg (look w) s (doc_at (look w) s)), Done)
    | Some c \<Rightarrow> does api look (updateConfigMap lib cfg s) w c (None, Requeue)"
proof -
  let ?pl = "planner_at cfg (look w) s (doc_at (look w) s)"
  let ?get = "getOrCreateConfigMap lib cfg s (m_Namespace (sh_meta s))"
  have get: "?get = get_or_create (existing KConfigMap as_configmap (server_key s))
      (let cm = newDefaultConfigMap (sst_ServerGroup (sh_Status s)) (m_Namespace (sh_meta s))
       in create_owned lib s (\<lambda>m. cm\<lparr>cm_meta := m\<rparr>) OConfigMap (cm_meta cm))"
    by (simp add: getOrCreateConfigMap_def server_key_def share_planner_def InstanceName_def nsname_def Let_def)
  show ?thesis
  proof (cases "look w KConfigMap (server_key s)")
    case None
    let ?cm = "newDefaultConfigMap (sst_ServerGroup (sh_Status s)) (m_Namespace (sh_meta s))"
    have "does api look (create_owned lib s (\<lambda>m. ?cm\<lparr>cm_meta := m\<rparr>) OConfigMap (cm_meta ?cm)) w
        (CCreate (OConfigMap (?cm\<lparr>cm_meta := first_owned lib s (cm_meta ?cm)\<rparr>))) (Inr (?cm\<lparr>cm_meta := first_owned lib s (cm_meta ?cm)\<rparr>))"
      using None by (intro does_create_owned [where k = KConfigMap])
        (simp_all add: newDefaultConfigMap_def new_meta_def nsname_of_def server_key_def nsname_def)
    then have "does api look ?get w (CCreate (OConfigMap (?cm\<lparr>cm_meta := first_owned lib s (cm_meta ?cm)\<rparr>)))
        (Inr (?cm\<lparr>cm_meta := first_owned lib s (cm_meta ?cm)\<rparr>, True))"
      unfolding get Let_def using None by (intro get_or_create_cases(2))
    then show ?thesis using None
      by (auto simp: config_change_def updateConfigMap_def on_ok_def Let_def intro!: does_now)
  next
    case (Some x)
    then obtain cm where x: "x = OConfigMap cm" "manageable lib s (cm_meta cm)"
      using assms(1) by (auto simp: config_map_ok_def split: kobj.splits)
    note stored = Some [unfolded x(1)]
    have found: "idle api ?get w (Inr (cm, False))"
      unfolding get using stored by (intro get_or_create_cases(1)) (simp_all add: as_simps)
    have key: "key_of (OConfigMap cm) = server_key s" using filed [OF stored] by simp
    show ?thesis
    proof (cases "is_owned lib s (cm_meta cm)")
      case False
      have "does api look (claimOwnership lib s (OConfigMap cm)) w (CUpdate (OConfigMap (cm\<lparr>cm_meta := claimed lib s (cm_meta cm)\<rparr>))) (Inr True)"
        using does_claim [of w "OConfigMap cm" s] stored key x(2) False by (simp add: map_kmeta_def)
      then show ?thesis using stored False found
        by (auto simp: config_change_def updateConfigMap_def on_ok_def intro!: does_later [OF found] does_now)
    next
      case True
      note claim = idle_claim [of s "OConfigMap cm" w, simplified, OF True]
      note upd = updateConfiguration_change [OF assms(1) stored assms(2-5)]
      obtain ch cc' where run: "Update ?pl = Some (ch, cc')" using upd by (auto split: option.splits)
      show ?thesis
      proof (cases ch)
        case True
        then obtain cm' pl' where "setContainerConfig cm cc' = Some cm'"
          "does api look (updateConfiguration lib cfg cm s) w (CUpdate (OConfigMap cm')) (Inr (pl', True))"
          using upd run by auto
        note change = this
        have "does api look (updateConfigMap lib cfg s) w (CUpdate (OConfigMap cm')) (None, Requeue)"
          unfolding updateConfigMap_def on_ok_def
          by (rule does_later [OF found], simp, rule does_later [OF claim], simp, rule does_now [OF change(2)], simp)
        then show ?thesis using stored run True change(1) \<open>is_owned lib s (cm_meta cm)\<close>
          by (simp add: config_change_def)
      next
        case False
        then have rest: "idle api (updateConfiguration lib cfg cm s) w (Inr (?pl, False))" using upd run by simp
        have "idle api (updateConfigMap lib cfg s) w (Some ?pl, Done)"
          unfolding updateConfigMap_def on_ok_def
          by (rule idle_andthen [OF found], simp, rule idle_andthen [OF claim], simp, rule idle_andthen [OF rest], simp add: idle_Ret)
        then show ?thesis using stored run False \<open>is_owned lib s (cm_meta cm)\<close>
          by (simp add: config_change_def)
      qed
    qed
  qed
qed

text \<open>The stages on the server.\<close>

lemma created_event_only: "only_events api look (created_event pl reason msg) Requeue"
  by (simp add: only_events_def created_event_def exec_simps event)

lemma Requeue_only: "only_events api look (Ret y) y"
  by (simp add: only_events_def exec_simps)

lemma updateNonClusteredState_change:
  assumes "deployment_ok lib (look w) (pl_SmbShare pl)" "has_pvc (pl_SmbShare pl)"
    and "InstanceName pl = sst_ServerGroup (sh_Status (pl_SmbShare pl))" "pl_GlobalConfig pl = cfg"
  shows "case deployment_change lib (look w) pl of
      None \<Rightarrow> idle api (updateNonClusteredState lib cfg pl) w Done
    | Some c \<Rightarrow> does api look (updateNonClusteredState lib cfg pl) w c Requeue"
proof -
  let ?s = "pl_SmbShare pl"
  let ?ns = "m_Namespace (sh_meta ?s)"
  obtain pvc where pvc: "st_Pvc (sp_Storage (sh_Spec ?s)) = Some pvc" using assms(2) by (auto simp: has_pvc_def)
  obtain ps where "buildPodSpec pl (pvc_Name pvc) = Some ps" using buildPodSpec_total by blast
  then obtain dep where dep: "buildDeployment cfg pl (pvc_Name pvc) ?ns = Some dep" "m_Namespace (dep_meta dep) = ?ns"
    "m_Name (dep_meta dep) = InstanceName pl" "m_OwnerReferences (dep_meta dep) = []"
    by (simp add: buildDeployment_def Let_def new_meta_def)
  have get: "getOrCreateDeployment lib cfg pl ?ns = get_or_create (existing KDeployment as_deployment (server_key ?s))
      (create_owned lib ?s (\<lambda>m. dep\<lparr>dep_meta := m\<rparr>) ODeployment (dep_meta dep))"
    using dep(1) pvc assms(3) by (simp add: getOrCreateDeployment_def getExistingDeployment_def server_key_def eval_def)
  show ?thesis
  proof (cases "look w KDeployment (server_key ?s)")
    case None
    have "does api look (create_owned lib ?s (\<lambda>m. dep\<lparr>dep_meta := m\<rparr>) ODeployment (dep_meta dep)) w
        (CCreate (ODeployment (dep\<lparr>dep_meta := first_owned lib ?s (dep_meta dep)\<rparr>))) (Inr (dep\<lparr>dep_meta := first_owned lib ?s (dep_meta dep)\<rparr>))"
      using None dep assms(3)
      by (intro does_create_owned [where k = KDeployment]) (simp_all add: nsname_of_def server_key_def nsname_def)
    from get_or_create_cases(2) [where proj = as_deployment, OF None this]
    show ?thesis using None dep(1) pvc assms(4) created_event_only
      by (auto simp: deployment_change_def updateNonClusteredState_def get Let_def intro!: does_created_step(2))
  next
    case (Some x)
    then obtain dep' where x: "x = ODeployment dep'" "manageable lib ?s (dep_meta dep')" "dep_Replicas dep' \<noteq> None"
      using assms(1) by (auto simp: deployment_ok_def split: kobj.splits)
    note stored = Some [unfolded x(1)]
    have found: "idle api (getOrCreateDeployment lib cfg pl ?ns) w (Inr (dep', False))"
      unfolding get using stored by (intro get_or_create_cases(1)) (simp_all add: as_simps)
    have key: "key_of (ODeployment dep') = server_key ?s" using filed [OF stored] by simp
    show ?thesis
    proof (cases "is_owned lib ?s (dep_meta dep')")
      case False
      have "does api look (claimOwnership lib ?s (ODeployment dep')) w (CUpdate (ODeployment (dep'\<lparr>dep_meta := claimed lib ?s (dep_meta dep')\<rparr>))) (Inr True)"
        using does_claim [of w "ODeployment dep'" ?s] stored key x(2) False by (simp add: map_kmeta_def)
      then show ?thesis using stored False
        by (auto simp: deployment_change_def updateNonClusteredState_def Let_def
            intro!: does_created_step(1) [OF found] does_changed_step(2))
    next
      case True
      note claim = idle_claim [of ?s "ODeployment dep'" w, simplified, OF True]
      obtain r where r: "dep_Replicas dep' = Some r" using x(3) by blast
      have "case deployment_change lib (look w) pl of
          None \<Rightarrow> idle api (updateDeploymentSize dep') w (Inr False)
        | Some c \<Rightarrow> does api look (updateDeploymentSize dep') w c (Inr True)"
        using stored True r key x(2)
        by (auto simp: deployment_change_def updateDeploymentSize_def eval_def key_of_def manageable_def
            intro!: does_update [where old = "ODeployment dep'"])
      then show ?thesis
        by (cases "deployment_change lib (look w) pl")
          (auto simp: updateNonClusteredState_def Let_def
            intro: idle_created_step [OF found] idle_changed_step [OF claim] idle_changed_step
              does_created_step(1) [OF found] does_changed_step(1) [OF claim] does_changed_step(2))
    qed
  qed
qed

lemma updateSmbService_change:
  assumes "service_ok lib (look w) (pl_SmbShare pl)"
    and "InstanceName pl = sst_ServerGroup (sh_Status (pl_SmbShare pl))"
  shows "case service_change lib (look w) pl of
      None \<Rightarrow> idle api (updateSmbService lib pl) w Done
    | Some c \<Rightarrow> does api look (updateSmbService lib pl) w c Requeue"
proof -
  let ?s = "pl_SmbShare pl"
  let ?ns = "m_Namespace (sh_meta ?s)"
  have "toServiceType (ServiceType pl) = Some (ServiceType pl)"
    by (auto simp: toServiceType_def ServiceType_def split: option.splits)
  then obtain svc where svc: "newServiceForSmb pl ?ns = Some svc" "m_Namespace (svc_meta svc) = ?ns"
    "m_Name (svc_meta svc) = InstanceName pl" "m_OwnerReferences (svc_meta svc) = []"
    by (simp add: newServiceForSmb_def Let_def new_meta_def)
  have get: "getOrCreateService lib pl ?ns = get_or_create (existing KService as_service (server_key ?s))
      (create_owned lib ?s (\<lambda>m. svc\<lparr>svc_meta := m\<rparr>) OService (svc_meta svc))"
    using svc(1) assms(2) by (simp add: getOrCreateService_def server_key_def eval_def)
  show ?thesis
  proof (cases "look w KService (server_key ?s)")
    case None
    have "does api look (create_owned lib ?s (\<lambda>m. svc\<lparr>svc_meta := m\<rparr>) OService (svc_meta svc)) w
        (CCreate (OService (svc\<lparr>svc_meta := first_owned lib ?s (svc_meta svc)\<rparr>))) (Inr (svc\<lparr>svc_meta := first_owned lib ?s (svc_meta svc)\<rparr>))"
      using None svc assms(2)
      by (intro does_create_owned [where k = KService]) (simp_all add: nsname_of_def server_key_def nsname_def)
    from get_or_create_cases(2) [where proj = as_service, OF None this]
    show ?thesis using None svc(1) Requeue_only
      by (auto simp: service_change_def updateSmbService_def get Let_def intro!: does_created_step(2))
  next
    case (Some x)
    then obtain svc' where x: "x = OService svc'" "manageable lib ?s (svc_meta svc')"
      using assms(1) by (auto simp: service_ok_def split: kobj.splits)
    note stored = Some [unfolded x(1)]
    have found: "idle api (getOrCreateService lib pl ?ns) w (Inr (svc', False))"
      unfolding get using stored by (intro get_or_create_cases(1)) (simp_all add: as_simps)
    have key: "key_of (OService svc') = server_key ?s" using filed [OF stored] by simp
    show ?thesis
    proof (cases "is_owned lib ?s (svc_meta svc')")
      case False
      have "does api look (claimOwnership lib ?s (OService svc')) w (CUpdate (OService (svc'\<lparr>svc_meta := claimed lib ?s (svc_meta svc')\<rparr>))) (Inr True)"
        using does_claim [of w "OService svc'" ?s] stored key x(2) False by (simp add: map_kmeta_def)
      then show ?thesis using stored False
        by (auto simp: service_change_def updateSmbService_def Let_def
            intro!: does_created_step(1) [OF found] does_changed_step(2))
    next
      case True
      note claim = idle_claim [of ?s "OService svc'" w, simplified, OF True]
      then show ?thesis using stored True
        by (auto simp: service_change_def updateSmbService_def Let_def
            intro!: idle_created_step [OF found] idle_changed_step [OF claim])
    qed
  qed
qed

lemma idle_metrics:
  assumes "plain_cluster cfg (look w)"
  shows "idle api (updateMetricsService cfg pl) w Done" "idle api (updateMetricsServiceMonitor cfg pl) w Done"
    "updateForOpenshift cfg s = Ret (Done, s, cfg)"
proof -
  let ?pod = "nsname (oc_PodNamespace cfg) (oc_PodName cfg)"
  have type: "oc_ClusterType cfg \<noteq> ''''" "oc_ClusterType cfg \<noteq> ClusterTypeOpenShift"
    using assms by (simp_all add: plain_cluster_def ClusterTypeDefault_def ClusterTypeOpenShift_def)
  have "idle api (IsOpenShiftCluster cfg) w False"
    using assms
    by (auto simp: plain_cluster_def IsOpenShiftCluster_def resolveClusterTypeByPod_def getPod_def idle_def exec_simps exec_get_as
        typed_def list_ex_iff ClusterTypeDefault_def ClusterTypeOpenShift_def split: option.splits kobj.splits)
  then have "idle api (getOrCreateMetricsService cfg pl ns) w (Inr (None, False)) \<and>
    idle api (getOrCreateMetricsServiceMonitor cfg pl ns) w (Inr (None, False))" for ns
    unfolding getOrCreateMetricsService_def getOrCreateMetricsServiceMonitor_def by (simp add: idle_def exec_simps)
  then show "idle api (updateMetricsService cfg pl) w Done" "idle api (updateMetricsServiceMonitor cfg pl) w Done"
    unfolding updateMetricsService_def updateMetricsServiceMonitor_def by (auto intro: idle_created_step)
  show "updateForOpenshift cfg s = Ret (Done, s, cfg)"
    using type by (simp add: updateForOpenshift_def updateClusterType_def)
qed

lemma update_resources_change:
  assumes "look w KShare (nsname_of (sh_meta s)) = Some (OShare s)" "share_in_scope s" "sst_ServerGroup (sh_Status s) \<noteq> ''''"
    and "deployment_ok lib (look w) s" "service_ok lib (look w) s" "plain_cluster cfg (look w)"
    and "pl_SmbShare pl = s" "pl_GlobalConfig pl = cfg"
  shows "case first_some [backend_change s, deployment_change lib (look w) pl, service_change lib (look w) pl] of
      None \<Rightarrow> idle api (update_resources lib cfg pl) w Done
    | Some c \<Rightarrow> does api look (update_resources lib cfg pl) w c Requeue"
proof -
  have name: "InstanceName pl = sst_ServerGroup (sh_Status (pl_SmbShare pl))" by (simp add: InstanceName_def)
  have plain: "\<not> IsClustered pl" using assms(2,7) by (auto simp: IsClustered_def share_in_scope_def split: option.splits)
  have pvc: "has_pvc (pl_SmbShare pl)" using assms(2,7) by (simp add: share_in_scope_def)
  let ?first = "if mget (m_Annotations (sh_meta (pl_SmbShare pl))) serverBackend = '''' then updateBackend pl else Ret (validateBackend pl)"
  have backend: "case backend_change s of None \<Rightarrow> idle api ?first w Done | Some c \<Rightarrow> does api look ?first w c Requeue"
  proof (cases "mget (m_Annotations (sh_meta s)) serverBackend = ''''")
    case True
    let ?s' = "s\<lparr>sh_meta := (sh_meta s)\<lparr>m_Annotations := Some (ins serverBackend standardBackend (entries (m_Annotations (sh_meta s))))\<rparr>\<rparr>"
    have "key_of (OShare ?s') = nsname_of (sh_meta s)" by (simp add: key_of_def nsname_of_def)
    then show ?thesis
      using True plain assms(1,2,7)
      by (auto simp: backend_change_def updateBackend_def backend_of_def Let_def share_in_scope_def
          intro!: does_update [where old = "OShare s"])
  next
    case False
    then show ?thesis using plain assms(2,7)
      by (auto simp: backend_change_def validateBackend_def share_in_scope_def Let_def)
  qed
  note dep = updateNonClusteredState_change [where w = w, OF _ pvc name assms(8), unfolded assms(7), OF assms(4)]
  note svc = updateSmbService_change [where w = w, OF _ name, unfolded assms(7), OF assms(5)]
  note met = idle_metrics(1,2) [OF assms(6), of pl]
  show ?thesis
  proof (cases "backend_change s")
    case (Some c)
    then have "does api look ?first w c Requeue" using backend by simp
    from does_unless_yield(2) [where out = id, OF this] show ?thesis using Some by (simp add: update_resources_def)
  next
    case None
    then have b: "idle api ?first w Done" using backend by simp
    show ?thesis
    proof (cases "deployment_change lib (look w) pl")
      case (Some c)
      then have "does api look (updateNonClusteredState lib cfg pl) w c Requeue" using dep by simp
      from does_unless_yield(1) [OF b does_unless_yield(2) [where out = id, OF this]]
      show ?thesis using Some \<open>backend_change s = None\<close> plain by (simp add: update_resources_def)
    next
      case None
      then have d: "idle api (updateNonClusteredState lib cfg pl) w Done" using dep by simp
      show ?thesis
      proof (cases "service_change lib (look w) pl")
        case (Some c)
        then have "does api look (updateSmbService lib pl) w c Requeue" using svc by simp
        from does_unless_yield(1) [OF b does_unless_yield(1) [OF d does_unless_yield(2) [where out = id, OF this]]]
        show ?thesis using Some \<open>backend_change s = None\<close> None plain by (simp add: update_resources_def)
      next
        case None
        then have v: "idle api (updateSmbService lib pl) w Done" using svc by simp
        have "idle api (Ret Done) w Done" by (rule idle_Ret) simp
        from idle_unless_yield [OF b idle_unless_yield [OF d idle_unless_yield [OF v idle_unless_yield [OF met(1)
            idle_unless_yield [OF met(2) this]]]]]
        show ?thesis using \<open>backend_change s = None\<close> \<open>deployment_change lib (look w) pl = None\<close> None plain
          by (simp add: update_resources_def)
      qed
    qed
  qed
qed

text \<open>The stages of \<open>Update\<close> in their order, and the whole pass.\<close>

lemma grouped_id: "sst_ServerGroup (sh_Status s) \<noteq> '''' \<Longrightarrow> grouped s = s"
  by (simp add: grouped_def)

lemma share_Update_change:
  assumes "look w KShare (nsname_of (sh_meta s)) = Some (OShare s)" "share_in_scope s" "configs_stored (look w) s"
    and "wf_customs (planner_at cfg (look w) s smbcc_New)" "plain_cluster cfg (look w)"
    and "config_map_ok lib (look w) (grouped s)" "deployment_ok lib (look w) (grouped s)" "service_ok lib (look w) (grouped s)"
  defines "pl \<equiv> planner_at cfg (look w) s (doc_at (look w) s)"
  shows "case first_some [finalizer_change lib s, group_change s, config_change lib cfg (look w) s, backend_change s,
        deployment_change lib (look w) pl, service_change lib (look w) pl] of
      None \<Rightarrow> idle api (share_Update lib cfg s) w (Done, cfg)
    | Some c \<Rightarrow> does api look (share_Update lib cfg s) w c (Requeue, cfg)"
proof -
  have live: "m_DeletionTimestamp (sh_meta s) = None" "has_pvc s" "sst_ServerGroup (sh_Status (grouped s)) \<noteq> ''''"
    "\<not> shareNeedsPvc s" using assms(2) by (simp_all add: share_in_scope_def)
  note fin = addFinalizer_change [OF assms(1) live(1)]
  note grp = setServerGroup_change [OF assms(1) live(1,3)]
  note openshift = idle_metrics(3) [OF assms(5)]
  define after_config where "after_config = (\<lambda>(planner, r2). if Yield r2 then Ret (r2, cfg) else
     eval planner (\<lambda>pl. andthen (if shareNeedsPvc s then updatePVC lib s else Ret (s, Done)) (\<lambda>(s', r3).
     if Yield r3 then Ret (r3, cfg) else
     andthen (update_resources lib cfg (pl\<lparr>pl_SmbShare := s'\<rparr>)) (\<lambda>r. Ret (r, cfg)))))"
  define after_group where "after_group = (\<lambda>assigned. if assigned then Ret (Requeue, cfg) else
     andthen (updateConfigMap lib cfg s) after_config)"
  define after_fin where "after_fin = (\<lambda>added. if added then Ret (Requeue, cfg) else
     on_ok (setServerGroup s) (\<lambda>err. Ret (ErrResult err, cfg)) after_group)"
  have upd: "share_Update lib cfg s = on_ok (addFinalizer lib s) (\<lambda>err. Ret (ErrResult err, cfg)) after_fin"
    by (simp add: share_Update_def after_fin_def after_group_def after_config_def openshift cong: if_cong)
  show ?thesis
  proof (cases "finalizer_change lib s")
    case (Some c)
    then have "does api look (addFinalizer lib s) w c (Inr True)" using fin by simp
    then have "does api look (share_Update lib cfg s) w c (Requeue, cfg)"
      unfolding upd on_ok_def by (rule does_now) (simp add: after_fin_def)
    then show ?thesis using Some by simp
  next
    case no_fin: None
    then have f: "idle api (addFinalizer lib s) w (Inr False)" using fin by simp
    show ?thesis
    proof (cases "group_change s")
      case (Some c)
      then have "does api look (setServerGroup s) w c (Inr True)" using grp by simp
      then have "does api look (after_fin False) w c (Requeue, cfg)"
        unfolding after_fin_def on_ok_def by (simp, rule does_now) (simp add: after_group_def)
      then have "does api look (share_Update lib cfg s) w c (Requeue, cfg)"
        unfolding upd on_ok_def by (intro does_later [OF f]) simp
      then show ?thesis using Some no_fin by simp
    next
      case no_group: None
      then have g: "idle api (setServerGroup s) w (Inr False)" using grp by simp
      have set: "sst_ServerGroup (sh_Status s) \<noteq> ''''"
        using no_group live(3) by (auto simp: group_change_def grouped_def split: if_splits sum.splits)
      note same = grouped_id [OF set]
      note ok = assms(6-8) [unfolded same]
      note cm = updateConfigMap_change [OF ok(1) assms(3) live(1,2) assms(4)]
      have reach: "share_Update lib cfg s = on_ok (addFinalizer lib s) (\<lambda>err. Ret (ErrResult err, cfg)) after_fin"
        "after_fin False = on_ok (setServerGroup s) (\<lambda>err. Ret (ErrResult err, cfg)) after_group"
        "after_group False = andthen (updateConfigMap lib cfg s) after_config"
        by (simp_all add: upd after_fin_def after_group_def)
      have does_reach: "does api look (share_Update lib cfg s) w c y" if "does api look (after_group False) w c y" for c y
        unfolding reach(1) on_ok_def using that
        by (intro does_later [OF f]) (simp add: reach(2) on_ok_def does_later [OF g])
      have idle_reach: "idle api (share_Update lib cfg s) w y" if "idle api (after_group False) w y" for y
        unfolding reach(1) on_ok_def using that
        by (intro idle_andthen [OF f]) (simp add: reach(2) on_ok_def idle_andthen [OF g])
      show ?thesis
      proof (cases "config_change lib cfg (look w) s")
        case (Some c)
        then have "does api look (updateConfigMap lib cfg s) w c (None, Requeue)" using cm by simp
        then have "does api look (after_group False) w c (Requeue, cfg)"
          unfolding reach(3) by (rule does_now) (simp add: after_config_def)
        then show ?thesis using Some no_fin no_group does_reach by simp
      next
        case no_config: None
        then have m: "idle api (updateConfigMap lib cfg s) w (Some pl, Done)" using cm by (simp add: pl_def)
        have pl: "pl_SmbShare pl = s" "pl_GlobalConfig pl = cfg" "pl\<lparr>pl_SmbShare := s\<rparr> = pl"
          by (simp_all add: pl_def planner_at_def)
        have after: "after_config (Some pl, Done) = andthen (update_resources lib cfg pl) (\<lambda>r. Ret (r, cfg))"
          using live(4) pl(3) by (simp add: after_config_def eval_def)
        note res = update_resources_change [OF assms(1,2) set ok(2,3) assms(5) pl(1,2)]
        show ?thesis
        proof (cases "first_some [backend_change s, deployment_change lib (look w) pl, service_change lib (look w) pl]")
          case (Some c)
          then have "does api look (update_resources lib cfg pl) w c Requeue" using res by simp
          then have "does api look (after_config (Some pl, Done)) w c (Requeue, cfg)" unfolding after by (rule does_now) simp
          then have "does api look (after_group False) w c (Requeue, cfg)" unfolding reach(3) by (rule does_later [OF m])
          then show ?thesis using Some no_fin no_group no_config does_reach by simp
        next
          case None
          then have "idle api (update_resources lib cfg pl) w Done" using res by simp
          then have "idle api (after_config (Some pl, Done)) w (Done, cfg)" unfolding after by (rule idle_andthen) (simp add: idle_Ret)
          then have "idle api (after_group False) w (Done, cfg)" unfolding reach(3) by (rule idle_andthen [OF m])
          then show ?thesis using None no_fin no_group no_config idle_reach by simp
        qed
      qed
    qed
  qed
qed

lemma Reconcile_change:
  assumes "in_scope lib cfg (look w) nn"
  shows "case next_change lib cfg (look w) nn of
      None \<Rightarrow> idle api (Reconcile lib cfg nn) w (\<lparr>cr_Requeue = False\<rparr>, None, cfg)
    | Some c \<Rightarrow> does api look (Reconcile lib cfg nn) w c (\<lparr>cr_Requeue = True\<rparr>, None, cfg)"
proof -
  obtain s where s: "look w KShare nn = Some (OShare s)" "share_in_scope s" "configs_stored (look w) s"
    "wf_customs (planner_at cfg (look w) s smbcc_New)" "plain_cluster cfg (look w)"
    "config_map_ok lib (look w) (grouped s)" "deployment_ok lib (look w) (grouped s)" "service_ok lib (look w) (grouped s)"
    using assms by (auto simp: in_scope_def split: option.splits kobj.splits)
  have nn: "nn = nsname_of (sh_meta s)" using filed [OF s(1)] by (simp add: key_of_def)
  have live: "m_DeletionTimestamp (sh_meta s) = None" using s(2) by (simp add: share_in_scope_def)
  have read: "idle api (getSmbShareByName nn) w (Inr s)"
    using s(1) by (simp add: getSmbShareByName_def idle_def exec_get_as typed_def)
  note upd = share_Update_change [OF s(1) [unfolded nn] s(2-8)]
  let ?next = "next_change lib cfg (look w) nn"
  have proc: "case ?next of None \<Rightarrow> idle api (Process lib cfg nn) w (Done, cfg)
    | Some c \<Rightarrow> does api look (Process lib cfg nn) w c (Requeue, cfg)"
    using upd live unfolding Process_def
    by (cases ?next) (simp_all add: next_change_def s(1) Let_def idle_andthen [OF read] does_later [OF read])
  show ?thesis
  proof (cases ?next)
    case None
    then have "idle api (Process lib cfg nn) w (Done, cfg)" using proc by simp
    then show ?thesis using None unfolding Reconcile_def by (simp add: idle_def exec_simps Done_def Let_def)
  next
    case (Some c)
    then have "does api look (Process lib cfg nn) w c (Requeue, cfg)" using proc by simp
    then show ?thesis using Some unfolding Reconcile_def by (auto intro!: does_now simp: Requeue_def Let_def)
  qed
qed

end

text \<open>The laws hold together: for the library and the server of the witnesses.\<close>

interpretation mem_cluster: cluster std_lib mem_api mem_look
  by unfold_locales

end
