(* ===== verification/Settling.thy ===== *)
theory Settling
  imports Convergence ShareProps
begin

text \<open>
  Every change that \<open>next_change\<close> names keeps the situation in scope and lowers \<open>rank\<close>, so
  the loop that reconciles until no further pass is asked for comes to an end, with the
  objects of the share in place.
\<close>

section \<open>Ownership\<close>

lemma is_owned_name: "m_Name (sh_meta s') = m_Name (sh_meta s) \<Longrightarrow> is_owned lib s' = is_owned lib s"
  "m_Name (sh_meta s') = m_Name (sh_meta s) \<Longrightarrow> manageable lib s' = manageable lib s"
  by (auto simp: is_owned_def manageable_def)

context kube_laws
begin

lemma claimed_owned:
  assumes "manageable lib s m" "\<not> is_owned lib s m"
  shows "is_owned lib s (claimed lib s m)" "manageable lib s (claimed lib s m)"
proof -
  have free: "owned_by lib share_gvk (m_Name (sh_meta s)) (m_OwnerReferences m) = Inr False"
    using assms by (cases "owned_by lib share_gvk (m_Name (sh_meta s)) (m_OwnerReferences m)") (auto simp: manageable_def is_owned_def)
  have "owned_by lib share_gvk (m_Name (sh_meta s)) (m_OwnerReferences (claimed lib s m)) = Inr True"
    using owned_by_append [OF free, of "[claim_ref lib share_gvk s]"] parse_string by (simp add: claimed_def claim_ref_def)
  then show "is_owned lib s (claimed lib s m)" "manageable lib s (claimed lib s m)"
    using assms(1) by (simp_all add: is_owned_def manageable_def, simp add: claimed_def)
qed

lemma owner_ref_parts:
  assumes "or_APIVersion ref = kl_GroupVersionString lib share_gvk" "or_Kind ref = gvk_Kind share_gvk"
    and "or_Name ref = m_Name (sh_meta s)" "or_UID ref = m_UID (sh_meta s)"
  shows "owned_by lib share_gvk (m_Name (sh_meta s)) [ref] = Inr True"
    and "ownerSharesExcluding lib m s = Inr [] \<Longrightarrow>
      ownerSharesExcluding lib (m\<lparr>m_OwnerReferences := m_OwnerReferences m @ [ref]\<rparr>) s = Inr []"
proof -
  show "owned_by lib share_gvk (m_Name (sh_meta s)) [ref] = Inr True"
    using assms parse_string by simp
  have snoc: "share_refs_loop lib (refs @ [ref]) found = Inr (out @ [ref])"
    if "share_refs_loop lib refs found = Inr out" for refs found out
    using that assms(1,2) parse_string
    by (induction refs arbitrary: found) (auto simp: share_gvk_def split: sum.splits if_splits)
  assume "ownerSharesExcluding lib m s = Inr []"
  then obtain out where "smbShareOwnerRefs lib m = Inr out" "excludeOwnerRefs out (m_Name (sh_meta s)) (m_UID (sh_meta s)) = []"
    by (auto simp: ownerSharesExcluding_def ownerRefsToNames_def split: sum.splits)
  then show "ownerSharesExcluding lib (m\<lparr>m_OwnerReferences := m_OwnerReferences m @ [ref]\<rparr>) s = Inr []"
    using snoc [of "m_OwnerReferences m" "[]" out] assms(3,4)
    by (simp add: ownerSharesExcluding_def smbShareOwnerRefs_def excludeOwnerRefs_def ownerRefsToNames_def)
qed

lemma claimed_excluding:
  "ownerSharesExcluding lib m s = Inr [] \<Longrightarrow> ownerSharesExcluding lib (claimed lib s m) s = Inr []"
  unfolding claimed_def by (rule owner_ref_parts(2)) (simp_all add: claim_ref_def)

lemma fresh_owned:
  assumes "m_Namespace m = m_Namespace (sh_meta s)" "m_OwnerReferences m = []" "m_DeletionTimestamp m = None"
  shows "is_owned lib s ((first_owned lib s m)\<lparr>m_UID := uid\<rparr>)" "manageable lib s ((first_owned lib s m)\<lparr>m_UID := uid\<rparr>)"
    "ownerSharesExcluding lib ((first_owned lib s m)\<lparr>m_UID := uid\<rparr>) s = Inr []"
proof -
  obtain ref where ref: "first_owned lib s m = m\<lparr>m_OwnerReferences := [ref]\<rparr>"
    "or_Name ref = m_Name (sh_meta s)" "or_UID ref = m_UID (sh_meta s)"
    "or_APIVersion ref = kl_GroupVersionString lib share_gvk" "or_Kind ref = gvk_Kind share_gvk"
    using controller_fresh [OF assms(1,2)] by (auto simp: first_owned_def)
  show "is_owned lib s ((first_owned lib s m)\<lparr>m_UID := uid\<rparr>)" "manageable lib s ((first_owned lib s m)\<lparr>m_UID := uid\<rparr>)"
    using owner_ref_parts(1) [OF ref(4,5,2,3)] assms(3) by (simp_all add: ref(1) is_owned_def manageable_def)
  let ?m = "m\<lparr>m_OwnerReferences := [], m_UID := uid\<rparr>"
  have "ownerSharesExcluding lib ?m s = Inr []"
    by (simp add: ownerSharesExcluding_def smbShareOwnerRefs_def excludeOwnerRefs_def ownerRefsToNames_def)
  from owner_ref_parts(2) [OF ref(4,5,2,3) this] show "ownerSharesExcluding lib ((first_owned lib s m)\<lparr>m_UID := uid\<rparr>) s = Inr []"
    unfolding ref(1) by (cases m) simp
qed

end

section \<open>Changes to the share\<close>

lemma planner_inputs_put:
  "kind_of x \<noteq> KSecurity \<Longrightarrow> sec_of (put x st) s = sec_of st s"
  "kind_of x \<noteq> KCommon \<Longrightarrow> common_of (put x st) s = common_of st s"
  by (simp_all add: sec_of_def common_of_def put_other)

text \<open>A version of the share with the same spec and identity, and the same server group.\<close>

definition same_intent :: "SmbShare \<Rightarrow> SmbShare \<Rightarrow> bool" where
  "same_intent s s' \<longleftrightarrow> sh_Spec s' = sh_Spec s \<and> m_Name (sh_meta s') = m_Name (sh_meta s) \<and>
     m_Namespace (sh_meta s') = m_Namespace (sh_meta s) \<and> m_UID (sh_meta s') = m_UID (sh_meta s) \<and>
     sst_ServerGroup (sh_Status (grouped s')) = sst_ServerGroup (sh_Status (grouped s))"

lemma grouped_parts [simp]: "sh_meta (grouped s) = sh_meta s" "sh_Spec (grouped s) = sh_Spec s"
  by (simp_all add: grouped_def set_group_def split: sum.split)

lemma grouped_meta:
  assumes "m_Name m = m_Name (sh_meta s)"
  shows "sst_ServerGroup (sh_Status (grouped (s\<lparr>sh_meta := m\<rparr>))) = sst_ServerGroup (sh_Status (grouped s))"
proof -
  have "requested_group (s\<lparr>sh_meta := m\<rparr>) = requested_group s"
    using assms by (auto simp: requested_group_def split: prod.split)
  then show ?thesis by (simp add: grouped_def set_group_def split: sum.split)
qed

lemma same_intent_ranks:
  assumes "same_intent s s'"
  shows "config_map_ok lib (put (OShare s') st) (grouped s') = config_map_ok lib st (grouped s)"
    "deployment_ok lib (put (OShare s') st) (grouped s') = deployment_ok lib st (grouped s)"
    "service_ok lib (put (OShare s') st) (grouped s') = service_ok lib st (grouped s)"
    "config_rank lib cfg (put (OShare s') st) (grouped s') = config_rank lib cfg st (grouped s)"
    "deployment_rank lib (put (OShare s') st) (grouped s') = deployment_rank lib st (grouped s)"
    "service_rank lib (put (OShare s') st) (grouped s') = service_rank lib st (grouped s)"
proof -
  have other: "put (OShare s') st k nn = st k nn" if "k \<noteq> KShare" for k nn using that by (simp add: put_other)
  have parts: "server_key (grouped s') = server_key (grouped s)" "sh_Spec s' = sh_Spec s"
    "m_Name (sh_meta s') = m_Name (sh_meta s)" "m_UID (sh_meta s') = m_UID (sh_meta s)"
    "m_Namespace (sh_meta s') = m_Namespace (sh_meta s)"
    using assms by (simp_all add: same_intent_def server_key_def)
  note owned = is_owned_name [of "grouped s'" "grouped s" lib, simplified, OF parts(3)]
  have excl: "ownerSharesExcluding lib m (grouped s') = ownerSharesExcluding lib m (grouped s)" for m
    using parts by (simp add: ownerSharesExcluding_def split: sum.split)
  have doc: "doc_at (put (OShare s') st) (grouped s') = doc_at st (grouped s)"
    using parts(1) by (simp add: doc_at_def other)
  have configs: "sec_of (put (OShare s') st) (grouped s') = sec_of st (grouped s)"
    "common_of (put (OShare s') st) (grouped s') = common_of st (grouped s)"
    using parts by (simp_all add: sec_of_def common_of_def other)
  have "settled (planner_at cfg (put (OShare s') st) (grouped s') cc) cc = settled (planner_at cfg st (grouped s) cc) cc" for cc
    using parts configs assms
    by (simp add: settled_def planner_at_def global_customs_def shareName_def instanceID_def InstanceName_def SecurityMode_def
        Realm_def same_intent_def cong: option.case_cong if_cong)
  then show "config_rank lib cfg (put (OShare s') st) (grouped s') = config_rank lib cfg st (grouped s)"
    by (simp add: config_rank_def parts other owned doc cong: option.case_cong kobj.case_cong)
  show "config_map_ok lib (put (OShare s') st) (grouped s') = config_map_ok lib st (grouped s)"
    "deployment_ok lib (put (OShare s') st) (grouped s') = deployment_ok lib st (grouped s)"
    "service_ok lib (put (OShare s') st) (grouped s') = service_ok lib st (grouped s)"
    "deployment_rank lib (put (OShare s') st) (grouped s') = deployment_rank lib st (grouped s)"
    "service_rank lib (put (OShare s') st) (grouped s') = service_rank lib st (grouped s)"
    by (simp_all add: config_map_ok_def deployment_ok_def service_ok_def deployment_rank_def service_rank_def
        parts other owned excl cong: option.case_cong kobj.case_cong)
qed

text \<open>A change for the better, with the situation still in scope.\<close>

definition settles :: "kube_lib \<Rightarrow> OperatorConfig \<Rightarrow> NamespacedName \<Rightarrow> store \<Rightarrow> store \<Rightarrow> bool" where
  "settles lib cfg nn st st' \<longleftrightarrow> in_scope lib cfg st' nn \<and> rank lib cfg st' nn < rank lib cfg st nn"

lemma share_step:
  assumes "in_scope lib cfg st nn" "st KShare nn = Some (OShare s)" "nn = nsname_of (sh_meta s)" "same_intent s s'" "share_in_scope s'"
    and "share_rank lib s' < share_rank lib s"
  shows "settles lib cfg nn st (put (OShare s') st)"
proof -
  let ?st = "put (OShare s') st"
  have "nsname_of (sh_meta s') = nn" using assms(3,4) by (simp add: nsname_of_def same_intent_def)
  then have now: "?st KShare nn = Some (OShare s')" using put_same [of "OShare s'" st] by (simp add: key_of_def)
  have other: "?st k n = st k n" if "k \<noteq> KShare" for k n using that by (simp add: put_other)
  have configs: "configs_stored ?st s' = configs_stored st s"
    "wf_customs (planner_at cfg ?st s' smbcc_New) = wf_customs (planner_at cfg st s smbcc_New)"
    "utf8_inputs (planner_at cfg ?st (grouped s') smbcc_New) = utf8_inputs (planner_at cfg st (grouped s) smbcc_New)"
    using assms(4)
    by (simp_all add: configs_stored_def sec_of_def common_of_def other wf_customs_def global_customs_def planner_at_def
        utf8_inputs_def utf8_share_def same_intent_def cong: option.case_cong if_cong)
  have plain: "plain_cluster cfg ?st = plain_cluster cfg st" by (simp add: plain_cluster_def other)
  show ?thesis
    using assms(1,2,5,6) now configs plain same_intent_ranks(1,2,3,5,6) [OF assms(4), of lib st] same_intent_ranks(4) [OF assms(4), of lib cfg st]
    by (simp add: settles_def in_scope_def rank_def)
qed

context kube_laws
begin

lemma share_settles:
  assumes "in_scope lib cfg st nn" "st KShare nn = Some (OShare s)" "nn = nsname_of (sh_meta s)"
    and "c \<in> {finalizer_change lib s, group_change s, backend_change s}" "c = Some w" "takes_effect w st st'"
  shows "settles lib cfg nn st st'"
proof -
  have scope: "share_in_scope s" using assms(1,2) by (simp add: in_scope_def)
  consider (finalizer) "finalizer_change lib s = Some w" | (group) "group_change s = Some w" | (backend) "backend_change s = Some w"
    using assms(4,5) by auto
  then obtain s' where "w = CUpdate (OShare s') \<or> w = CStatusUpdate (OShare s')" "st' = put (OShare s') st"
    and s': "same_intent s s'" "share_in_scope s'" "share_rank lib s' < share_rank lib s"
  proof cases
    case finalizer
    let ?s' = "s\<lparr>sh_meta := (sh_meta s)\<lparr>m_Finalizers := kl_AddFinalizer lib (m_Finalizers (sh_meta s)) shareFinalizer\<rparr>\<rparr>"
    have w: "w = CUpdate (OShare ?s')" "\<not> kl_ContainsFinalizer lib (m_Finalizers (sh_meta s)) shareFinalizer"
      using finalizer by (auto simp: finalizer_change_def split: if_splits)
    have "st' = put (OShare ?s') st" using assms(2,3,6) w(1) by (simp add: key_of_def nsname_of_def)
    moreover have g: "sst_ServerGroup (sh_Status (grouped ?s')) = sst_ServerGroup (sh_Status (grouped s))"
      by (simp add: grouped_meta)
    moreover have "share_in_scope ?s'" using scope g by (simp add: share_in_scope_def has_pvc_def shareNeedsPvc_def)
    ultimately show thesis using that [of ?s'] w contains_add by (simp add: same_intent_def share_rank_def)
  next
    case group
    then obtain g where g: "requested_group s = Inr g" "w = CStatusUpdate (OShare (set_group g s))" "sst_ServerGroup (sh_Status s) = ''''"
      by (auto simp: group_change_def split: if_splits sum.splits)
    have ne: "g \<noteq> ''''" using scope g(1,3) by (simp add: share_in_scope_def grouped_def set_group_def)
    have eq: "grouped (set_group g s) = set_group g s" "grouped s = set_group g s"
      using g ne by (simp_all add: grouped_def, simp add: set_group_def)
    have "st' = put (OShare (set_group g s)) st"
      using assms(2,3,6) g(2) by (simp add: key_of_def nsname_of_def set_group_def)
    moreover have "share_in_scope (set_group g s)"
      using scope eq by (simp add: share_in_scope_def) (simp add: set_group_def has_pvc_def shareNeedsPvc_def)
    moreover have "same_intent s (set_group g s)" using eq by (simp add: same_intent_def) (simp add: set_group_def)
    ultimately show thesis using that [of "set_group g s"] g ne by (simp add: share_rank_def) (simp add: set_group_def)
  next
    case backend
    let ?s' = "s\<lparr>sh_meta := (sh_meta s)\<lparr>m_Annotations := Some (ins serverBackend standardBackend (entries (m_Annotations (sh_meta s))))\<rparr>\<rparr>"
    have w: "w = CUpdate (OShare ?s')" "mget (m_Annotations (sh_meta s)) serverBackend = ''''"
      using backend by (auto simp: backend_change_def split: if_splits)
    have "st' = put (OShare ?s') st" using assms(2,3,6) w(1) by (simp add: key_of_def nsname_of_def)
    moreover have g: "sst_ServerGroup (sh_Status (grouped ?s')) = sst_ServerGroup (sh_Status (grouped s))"
      by (simp add: grouped_meta)
    moreover have now: "mget (m_Annotations (sh_meta ?s')) serverBackend = standardBackend"
      by (simp add: mget_def mlookup_Some)
    moreover have "share_in_scope ?s'" using scope g now by (simp add: share_in_scope_def has_pvc_def shareNeedsPvc_def)
    ultimately show thesis using that [of ?s'] w by (simp add: same_intent_def share_rank_def standardBackend_def)
  qed
  then show ?thesis using share_step [OF assms(1-3) s'] by simp
qed

end

section \<open>Changes to the other objects\<close>

text \<open>What is read for a share does not depend on the objects made for it, except as listed.\<close>

lemma object_step:
  assumes "in_scope lib cfg st nn" "st KShare nn = Some (OShare s)" "kind_of x \<in> {KConfigMap, KDeployment, KService}"
    and "config_map_ok lib (put x st) (grouped s)" "deployment_ok lib (put x st) (grouped s)" "service_ok lib (put x st) (grouped s)"
    and "config_rank lib cfg (put x st) (grouped s) + deployment_rank lib (put x st) (grouped s) + service_rank lib (put x st) (grouped s)
      < config_rank lib cfg st (grouped s) + deployment_rank lib st (grouped s) + service_rank lib st (grouped s)"
  shows "settles lib cfg nn st (put x st)"
proof -
  have other: "put x st k n = st k n" if "k \<notin> {KConfigMap, KDeployment, KService}" for k n
    using that assms(3) by (auto simp: put_other)
  have "configs_stored (put x st) s = configs_stored st s" "planner_at cfg (put x st) s' cc = planner_at cfg st s' cc"
    "plain_cluster cfg (put x st) = plain_cluster cfg st" for s' cc
    by (simp_all add: configs_stored_def sec_of_def common_of_def planner_at_def plain_cluster_def other)
  then show ?thesis using assms(1,2,4-7) other [of KShare] by (simp add: settles_def in_scope_def rank_def)
qed

text \<open>Objects are stored under their own name.\<close>

definition keyed :: "store \<Rightarrow> bool" where
  "keyed st \<longleftrightarrow> (\<forall>k nn x. st k nn = Some x \<longrightarrow> key_of x = nn)"

lemma keyedD: "keyed st \<Longrightarrow> st k nn = Some x \<Longrightarrow> key_of x = nn"
  by (simp add: keyed_def)

lemma put_kind: "kind_of x \<noteq> k \<Longrightarrow> put x st k nn = st k nn"
  by (auto simp: put_other)

lemma object_ranks:
  "kind_of x \<noteq> KConfigMap \<Longrightarrow> config_map_ok lib (put x st) s = config_map_ok lib st s"
  "kind_of x \<notin> {KConfigMap, KSecurity, KCommon} \<Longrightarrow> config_rank lib cfg (put x st) s = config_rank lib cfg st s"
  "kind_of x \<noteq> KDeployment \<Longrightarrow> deployment_ok lib (put x st) s = deployment_ok lib st s"
  "kind_of x \<noteq> KDeployment \<Longrightarrow> deployment_rank lib (put x st) s = deployment_rank lib st s"
  "kind_of x \<noteq> KService \<Longrightarrow> service_ok lib (put x st) s = service_ok lib st s"
  "kind_of x \<noteq> KService \<Longrightarrow> service_rank lib (put x st) s = service_rank lib st s"
  by (simp_all add: config_map_ok_def deployment_ok_def service_ok_def config_rank_def deployment_rank_def service_rank_def
      doc_at_def planner_at_def sec_of_def common_of_def put_kind)

lemma settled_planner_at: "settled (planner_at cfg st s c1) cc = settled (planner_at cfg st s c2) cc"
  by (simp add: settled_def planner_at_def global_customs_def shareName_def instanceID_def InstanceName_def SecurityMode_def
      Realm_def cong: option.case_cong if_cong)

lemma config_put:
  assumes "in_scope lib cfg st nn" "st KShare nn = Some (OShare s)" "sst_ServerGroup (sh_Status s) \<noteq> ''''"
    and "key_of (OConfigMap cm) = server_key s" "manageable lib s (cm_meta cm)" "is_owned lib s (cm_meta cm)"
    and "ownerSharesExcluding lib (cm_meta cm) s = Inr []" "cm_Data cm \<noteq> None" "getContainerConfig cm = Inr cc" "storable cc"
    and "of_bool (\<not> settled (planner_at cfg st s cc) cc) < config_rank lib cfg st s"
  shows "settles lib cfg nn st (put (OConfigMap cm) st)"
proof -
  have same: "grouped s = s" using assms(3) by (simp add: grouped_def)
  have now: "put (OConfigMap cm) st KConfigMap (server_key s) = Some (OConfigMap cm)"
    using put_same [of "OConfigMap cm" st] assms(4) by simp
  have plan: "planner_at cfg (put (OConfigMap cm) st) s c = planner_at cfg st s c" for c
    by (simp add: planner_at_def sec_of_def common_of_def put_kind)
  have "config_rank lib cfg (put (OConfigMap cm) st) s < config_rank lib cfg st s"
    using assms(6,9,11) by (simp add: config_rank_def [of lib cfg "put (OConfigMap cm) st"] now doc_at_def plan)
  moreover have "config_map_ok lib (put (OConfigMap cm) st) s"
    using assms(5,7-10) by (simp add: config_map_ok_def now)
  ultimately show ?thesis
    using assms(1,2) by (intro object_step) (auto simp: in_scope_def same object_ranks)
qed

context kube_laws
begin

lemma config_settles:
  assumes "in_scope lib cfg st nn" "st KShare nn = Some (OShare s)" "sst_ServerGroup (sh_Status s) \<noteq> ''''"
    and "config_change lib cfg st s = Some w" "takes_effect w st st'" "keyed st"
  shows "settles lib cfg nn st st'"
proof -
  have same: "grouped s = s" using assms(3) by (simp add: grouped_def)
  have scope: "share_in_scope s" "config_map_ok lib st s" "wf_customs (planner_at cfg st s c)" "utf8_inputs (planner_at cfg st s c)" for c
    using assms(1,2) by (simp_all add: in_scope_def same) (simp_all add: wf_customs_def global_customs_def utf8_inputs_def planner_at_def)
  show ?thesis
  proof (cases "st KConfigMap (server_key s)")
    case None
    let ?new = "newDefaultConfigMap (sst_ServerGroup (sh_Status s)) (m_Namespace (sh_meta s))"
    obtain uid where st': "st' = put (OConfigMap (?new\<lparr>cm_meta := (first_owned lib s (cm_meta ?new))\<lparr>m_UID := uid\<rparr>\<rparr>)) st"
      using assms(4,5) None by (auto simp: config_change_def Let_def)
    have meta: "m_Namespace (cm_meta ?new) = m_Namespace (sh_meta s)" "m_OwnerReferences (cm_meta ?new) = []"
      "m_DeletionTimestamp (cm_meta ?new) = None" "m_Name (cm_meta ?new) = sst_ServerGroup (sh_Status s)"
      by (simp_all add: newDefaultConfigMap_def new_meta_def)
    have keeps: "m_Name (first_owned lib s (cm_meta ?new)) = sst_ServerGroup (sh_Status s)"
      "m_Namespace (first_owned lib s (cm_meta ?new)) = m_Namespace (sh_meta s)"
      using controller_fresh [OF meta(1,2)] meta by (auto simp: first_owned_def)
    have reads: "getContainerConfig (?new\<lparr>cm_meta := m\<rparr>) = Inr smbcc_New" for m
      using newDefaultConfigMap_reads [of "sst_ServerGroup (sh_Status s)" "m_Namespace (sh_meta s)"]
      by (simp add: getContainerConfig_def)
    let ?cm = "?new\<lparr>cm_meta := (first_owned lib s (cm_meta ?new))\<lparr>m_UID := uid\<rparr>\<rparr>"
    have key: "key_of (OConfigMap ?cm) = server_key s"
      using keeps by (simp add: key_of_def server_key_def nsname_of_def nsname_def)
    have data: "cm_Data ?cm \<noteq> None" by (simp add: newDefaultConfigMap_def mlit_def)
    have rank: "of_bool (\<not> settled (planner_at cfg st s smbcc_New) smbcc_New) < config_rank lib cfg st s"
      using None by (simp add: config_rank_def)
    show ?thesis
      unfolding st'
      by (rule config_put [OF assms(1-3) key _ _ _ data reads storable_New rank]) (simp_all add: fresh_owned meta)
  next
    case (Some x)
    then obtain cm cc where cm: "x = OConfigMap cm" "manageable lib s (cm_meta cm)" "cm_Data cm \<noteq> None"
      "getContainerConfig cm = Inr cc" "storable cc" "ownerSharesExcluding lib (cm_meta cm) s = Inr []"
      using scope(2) by (auto simp: config_map_ok_def split: kobj.splits sum.splits)
    have doc: "doc_at st s = cc" using Some cm(1,4) by (simp add: doc_at_def)
    have key: "key_of (OConfigMap cm) = server_key s" using keyedD [OF assms(6) Some] cm(1) by simp
    show ?thesis
    proof (cases "is_owned lib s (cm_meta cm)")
      case False
      let ?cm = "cm\<lparr>cm_meta := claimed lib s (cm_meta cm)\<rparr>"
      have "key_of (OConfigMap ?cm) = server_key s" using key by (simp add: key_of_def nsname_of_def claimed_def)
      moreover have "getContainerConfig ?cm = Inr cc" using cm(4) by (simp add: getContainerConfig_def)
      moreover have "st' = put (OConfigMap ?cm) st"
        using assms(4,5) Some cm(1) False \<open>key_of (OConfigMap ?cm) = server_key s\<close> by (auto simp: config_change_def)
      ultimately show ?thesis
        using assms(1-3) claimed_owned [OF cm(2) False] claimed_excluding [OF cm(6)] cm(3,5) Some cm(1) False doc
        by (auto simp: config_rank_def intro!: config_put [where cc = cc])
    next
      case True
      let ?pl = "planner_at cfg st s cc"
      obtain cc' cm' where upd: "Update ?pl = Some (True, cc')" "setContainerConfig cm cc' = Some cm'" "w = CUpdate (OConfigMap cm')"
        using assms(4) Some cm(1) True doc by (auto simp: config_change_def split: option.splits bool.splits)
      have steps: "update_steps ?pl (False, cc) = Some (True, cc')" using upd(1) by (simp add: Update_steps planner_at_def)
      have wf: "wf_scc cc" using cm(5) by (simp add: storable_def)
      have "\<not> settled ?pl cc"
        using update_steps_settled [OF wf _ scope(3), of cc False] steps scope(1)
        by (auto simp: share_in_scope_def planner_at_def)
      moreover have "settled ?pl cc'"
        using update_steps_run [OF wf _ scope(3), of cc False] steps scope(1) by (auto simp: share_in_scope_def planner_at_def)
      moreover have "storable cc'" using update_steps_storable [OF steps scope(4) cm(5)] .
      moreover note set_get_config [OF upd(2) this]
      moreover have "cm_Data cm' \<noteq> None" using upd(2) by (auto simp: setContainerConfig_def bind_eq_Some_conv mset_def split: option.splits)
      moreover have "st' = put (OConfigMap cm') st"
        using assms(5) upd(3) Some cm(1) key calculation(5) by (simp add: key_of_def)
      ultimately show ?thesis
        using assms(1-3) cm(1,2,6) Some key True doc settled_planner_at [of cfg st s cc' cc' cc]
        by (auto simp: config_rank_def key_of_def intro!: config_put [where cc = cc'])
    qed
  qed
qed

end

lemma deployment_put:
  assumes "in_scope lib cfg st nn" "st KShare nn = Some (OShare s)" "sst_ServerGroup (sh_Status s) \<noteq> ''''"
    and "key_of (ODeployment dep) = server_key s" "manageable lib s (dep_meta dep)" "is_owned lib s (dep_meta dep)"
    and "dep_Replicas dep \<noteq> None" "of_bool (dep_Replicas dep \<noteq> Some 1) < deployment_rank lib st s"
  shows "settles lib cfg nn st (put (ODeployment dep) st)"
proof -
  have same: "grouped s = s" using assms(3) by (simp add: grouped_def)
  have now: "put (ODeployment dep) st KDeployment (server_key s) = Some (ODeployment dep)"
    using put_same [of "ODeployment dep" st] assms(4) by simp
  have "deployment_rank lib (put (ODeployment dep) st) s < deployment_rank lib st s"
    using assms(6,8) by (simp add: deployment_rank_def [of lib "put (ODeployment dep) st"] now)
  moreover have "deployment_ok lib (put (ODeployment dep) st) s" using assms(5,7) by (simp add: deployment_ok_def now)
  ultimately show ?thesis
    using assms(1,2) by (intro object_step) (auto simp: in_scope_def same object_ranks)
qed

lemma service_put:
  assumes "in_scope lib cfg st nn" "st KShare nn = Some (OShare s)" "sst_ServerGroup (sh_Status s) \<noteq> ''''"
    and "key_of (OService svc) = server_key s" "manageable lib s (svc_meta svc)" "is_owned lib s (svc_meta svc)"
    and "0 < service_rank lib st s"
  shows "settles lib cfg nn st (put (OService svc) st)"
proof -
  have same: "grouped s = s" using assms(3) by (simp add: grouped_def)
  have now: "put (OService svc) st KService (server_key s) = Some (OService svc)"
    using put_same [of "OService svc" st] assms(4) by simp
  have "service_rank lib (put (OService svc) st) s < service_rank lib st s"
    using assms(6,7) by (simp add: service_rank_def [of lib "put (OService svc) st"] now)
  moreover have "service_ok lib (put (OService svc) st) s" using assms(5) by (simp add: service_ok_def now)
  ultimately show ?thesis
    using assms(1,2) by (intro object_step) (auto simp: in_scope_def same object_ranks)
qed

context kube_laws
begin

lemma first_owned_keeps:
  assumes "m_Namespace m = m_Namespace (sh_meta s)" "m_OwnerReferences m = []"
  shows "nsname_of ((first_owned lib s m)\<lparr>m_UID := uid\<rparr>) = nsname_of m"
  using controller_fresh [OF assms] by (auto simp: first_owned_def nsname_of_def)

lemma deployment_settles:
  assumes "in_scope lib cfg st nn" "st KShare nn = Some (OShare s)" "sst_ServerGroup (sh_Status s) \<noteq> ''''"
    and "deployment_change lib st pl = Some w" "takes_effect w st st'" "keyed st"
    and "pl_SmbShare pl = s"
  shows "settles lib cfg nn st st'"
proof -
  have same: "grouped s = s" using assms(3) by (simp add: grouped_def)
  have ok: "deployment_ok lib st s" using assms(1,2) by (simp add: in_scope_def same)
  show ?thesis
  proof (cases "st KDeployment (server_key s)")
    case None
    obtain claim dep where dep: "buildDeployment (pl_GlobalConfig pl) pl claim (m_Namespace (sh_meta s)) = Some dep"
      "w = CCreate (ODeployment (dep\<lparr>dep_meta := first_owned lib s (dep_meta dep)\<rparr>))"
      using assms(4,7) None by (auto simp: deployment_change_def Let_def bind_eq_Some_conv)
    then obtain uid where st': "st' = put (ODeployment (dep\<lparr>dep_meta := (first_owned lib s (dep_meta dep))\<lparr>m_UID := uid\<rparr>\<rparr>)) st"
      using assms(5) by auto
    have meta: "m_Namespace (dep_meta dep) = m_Namespace (sh_meta s)" "m_OwnerReferences (dep_meta dep) = []"
      "m_DeletionTimestamp (dep_meta dep) = None" "nsname_of (dep_meta dep) = server_key s" "dep_Replicas dep \<noteq> None"
      using dep(1) assms(7) by (auto simp: buildDeployment_def new_meta_def bind_eq_Some_conv Let_def nsname_of_def server_key_def
          nsname_def InstanceName_def)
    have rank: "of_bool (dep_Replicas (dep\<lparr>dep_meta := m\<rparr>) \<noteq> Some 1) < deployment_rank lib st s" for m
      using None by (simp add: deployment_rank_def)
    show ?thesis unfolding st'
      by (rule deployment_put [OF assms(1-3) _ _ _ _ rank]) (use meta in \<open>simp_all add: fresh_owned key_of_def first_owned_keeps\<close>)
  next
    case (Some x)
    then obtain dep where dep: "x = ODeployment dep" "manageable lib s (dep_meta dep)" "dep_Replicas dep \<noteq> None"
      using ok by (auto simp: deployment_ok_def split: kobj.splits)
    have key: "key_of (ODeployment dep) = server_key s" using keyedD [OF assms(6) Some] dep(1) by simp
    show ?thesis
    proof (cases "is_owned lib s (dep_meta dep)")
      case False
      let ?dep = "dep\<lparr>dep_meta := claimed lib s (dep_meta dep)\<rparr>"
      have key': "key_of (ODeployment ?dep) = server_key s" using key by (simp add: key_of_def nsname_of_def claimed_def)
      have "st' = put (ODeployment ?dep) st" using assms(4,5,7) Some dep(1) False key' by (auto simp: deployment_change_def)
      then show ?thesis
        using assms(1-3) key' claimed_owned [OF dep(2) False] dep Some False
        by (auto simp: deployment_rank_def intro!: deployment_put)
    next
      case True
      let ?dep = "dep\<lparr>dep_Replicas := Some 1\<rparr>"
      have grow: "w = CUpdate (ODeployment ?dep)" "dep_Replicas dep \<noteq> Some 1"
        using assms(4,7) Some dep(1) True by (auto simp: deployment_change_def split: if_splits)
      have key': "key_of (ODeployment ?dep) = server_key s" using key by (simp add: key_of_def)
      have "st' = put (ODeployment ?dep) st" using assms(5) grow(1) Some dep(1) key' by auto
      then show ?thesis
        using assms(1-3) key' dep Some True grow(2)
        by (auto simp: deployment_rank_def intro!: deployment_put)
    qed
  qed
qed

lemma service_settles:
  assumes "in_scope lib cfg st nn" "st KShare nn = Some (OShare s)" "sst_ServerGroup (sh_Status s) \<noteq> ''''"
    and "service_change lib st pl = Some w" "takes_effect w st st'" "keyed st"
    and "pl_SmbShare pl = s"
  shows "settles lib cfg nn st st'"
proof -
  have same: "grouped s = s" using assms(3) by (simp add: grouped_def)
  have ok: "service_ok lib st s" using assms(1,2) by (simp add: in_scope_def same)
  show ?thesis
  proof (cases "st KService (server_key s)")
    case None
    obtain svc where svc: "newServiceForSmb pl (m_Namespace (sh_meta s)) = Some svc"
      "w = CCreate (OService (svc\<lparr>svc_meta := first_owned lib s (svc_meta svc)\<rparr>))"
      using assms(4,7) None by (auto simp: service_change_def Let_def bind_eq_Some_conv)
    then obtain uid where st': "st' = put (OService (svc\<lparr>svc_meta := (first_owned lib s (svc_meta svc))\<lparr>m_UID := uid\<rparr>\<rparr>)) st"
      using assms(5) by auto
    have meta: "m_Namespace (svc_meta svc) = m_Namespace (sh_meta s)" "m_OwnerReferences (svc_meta svc) = []"
      "m_DeletionTimestamp (svc_meta svc) = None" "nsname_of (svc_meta svc) = server_key s"
      using svc(1) assms(7) by (auto simp: newServiceForSmb_def new_meta_def bind_eq_Some_conv Let_def nsname_of_def server_key_def
          nsname_def InstanceName_def)
    have rank: "0 < service_rank lib st s" using None by (simp add: service_rank_def)
    show ?thesis unfolding st'
      by (rule service_put [OF assms(1-3) _ _ _ rank]) (use meta in \<open>simp_all add: fresh_owned key_of_def first_owned_keeps\<close>)
  next
    case (Some x)
    then obtain svc where svc: "x = OService svc" "manageable lib s (svc_meta svc)"
      using ok by (auto simp: service_ok_def split: kobj.splits)
    have key: "key_of (OService svc) = server_key s" using keyedD [OF assms(6) Some] svc(1) by simp
    let ?svc = "svc\<lparr>svc_meta := claimed lib s (svc_meta svc)\<rparr>"
    have new: "w = CUpdate (OService ?svc)" "\<not> is_owned lib s (svc_meta svc)"
      using assms(4,7) Some svc(1) by (auto simp: service_change_def split: if_splits)
    have key': "key_of (OService ?svc) = server_key s" using key by (simp add: key_of_def nsname_of_def claimed_def)
    have "st' = put (OService ?svc) st" using assms(5) new(1) Some svc(1) key' by auto
    then show ?thesis
      using assms(1-3) key' claimed_owned [OF svc(2) new(2)] svc Some new(2)
      by (auto simp: service_rank_def intro!: service_put)
  qed
qed

text \<open>Every change that is next settles something.\<close>

lemma next_change_settles:
  assumes "in_scope lib cfg st nn" "next_change lib cfg st nn = Some w" "takes_effect w st st'"
    and "keyed st"
  shows "settles lib cfg nn st st'"
proof -
  obtain s where s: "st KShare nn = Some (OShare s)" "share_in_scope s"
    using assms(1) by (auto simp: in_scope_def split: option.splits kobj.splits)
  have nn: "nn = nsname_of (sh_meta s)" using keyedD [OF assms(4) s(1)] by (simp add: key_of_def)
  let ?pl = "planner_at cfg st s (doc_at st s)"
  let ?rest = "[config_change lib cfg st s, backend_change s, deployment_change lib st ?pl, service_change lib st ?pl]"
  have first: "first_some (finalizer_change lib s # group_change s # ?rest) = Some w"
    using assms(2) s(1) by (simp add: next_change_def Let_def)
  note on_share = share_settles [OF assms(1) s(1) nn _ _ assms(3)]
  show ?thesis
  proof (cases "finalizer_change lib s = None \<and> group_change s = None")
    case False
    then show ?thesis using first on_share by (cases "finalizer_change lib s"; cases "group_change s"; auto)
  next
    case True
    then have set: "sst_ServerGroup (sh_Status s) \<noteq> ''''"
      using s(2) by (auto simp: group_change_def share_in_scope_def grouped_def split: if_splits sum.splits)
    note steps = config_settles [OF assms(1) s(1) set _ assms(3,4)] deployment_settles [OF assms(1) s(1) set _ assms(3,4), of ?pl]
      service_settles [OF assms(1) s(1) set _ assms(3,4), of ?pl]
    have "pl_SmbShare ?pl = s" by (simp add: planner_at_def)
    then show ?thesis
      using first True steps on_share [of "backend_change s"]
      by (cases "config_change lib cfg st s"; cases "backend_change s"; cases "deployment_change lib st ?pl";
          cases "service_change lib st ?pl") auto
  qed
qed

end

end
