(* ===== verification/SettledProps.thy ===== *)
theory SettledProps
  imports Settling
begin

text \<open>
  The reconcile loop: a pass makes the next change, it makes none exactly when everything is
  in place, and repeated passes get there.
\<close>

section \<open>Everything in place\<close>

text \<open>The share and its objects as the operator wants them.\<close>

definition in_place :: "kube_lib \<Rightarrow> OperatorConfig \<Rightarrow> store \<Rightarrow> NamespacedName \<Rightarrow> bool" where
  "in_place lib cfg st nn = (case st KShare nn of
     Some (OShare s) \<Rightarrow>
       kl_ContainsFinalizer lib (m_Finalizers (sh_meta s)) shareFinalizer \<and> sst_ServerGroup (sh_Status s) \<noteq> [] \<and>
       mget (m_Annotations (sh_meta s)) serverBackend \<noteq> [] \<and>
       (case st KConfigMap (server_key s) of
          Some (OConfigMap cm) \<Rightarrow> is_owned lib s (cm_meta cm) \<and> settled (planner_at cfg st s (doc_at st s)) (doc_at st s)
        | _ \<Rightarrow> False) \<and>
       (case st KDeployment (server_key s) of
          Some (ODeployment dep) \<Rightarrow> is_owned lib s (dep_meta dep) \<and> dep_Replicas dep = Some 1
        | _ \<Rightarrow> False) \<and>
       (case st KService (server_key s) of
          Some (OService svc) \<Rightarrow> is_owned lib s (svc_meta svc)
        | _ \<Rightarrow> False)
   | _ \<Rightarrow> False)"

lemma first_some_None: "first_some xs = None \<longleftrightarrow> (\<forall>x \<in> set xs. x = None)"
  by (induction xs rule: first_some.induct) auto

lemma config_change_None:
  assumes "config_map_ok lib st s" "share_in_scope s" "wf_customs (planner_at cfg st s smbcc_New)"
  shows "config_change lib cfg st s = None \<longleftrightarrow> (case st KConfigMap (server_key s) of
     Some (OConfigMap cm) \<Rightarrow> is_owned lib s (cm_meta cm) \<and> settled (planner_at cfg st s (doc_at st s)) (doc_at st s)
   | _ \<Rightarrow> False)"
proof (cases "st KConfigMap (server_key s)")
  case (Some x)
  then obtain cm cc where cm: "x = OConfigMap cm" "cm_Data cm \<noteq> None" "getContainerConfig cm = Inr cc" "storable cc"
    using assms(1) by (auto simp: config_map_ok_def split: kobj.splits sum.splits)
  have doc: "doc_at st s = cc" using Some cm(1,3) by (simp add: doc_at_def)
  let ?pl = "planner_at cfg st s cc"
  have wf: "wf_scc cc" "has_pvc (pl_SmbShare ?pl)" "wf_customs ?pl"
    using cm(4) assms(2,3) by (auto simp: storable_def share_in_scope_def planner_at_def wf_customs_def global_customs_def)
  obtain c cc' where run: "update_steps ?pl (False, cc) = Some (c, cc')" "settled ?pl cc'"
    using update_steps_run [OF wf] by blast
  have "c \<longleftrightarrow> \<not> settled ?pl cc"
  proof
    assume c
    then show "\<not> settled ?pl cc"
      using update_steps_settled [OF wf(1) _ wf(3), of False] run(1) assms(2) by (auto simp: share_in_scope_def planner_at_def)
  next
    assume "\<not> settled ?pl cc"
    then show c using upd.unchanged_run [of cc ?pl False cc'] run wf(1) by auto
  qed
  then show ?thesis
    using Some cm(1,2) doc run(1)
    by (auto simp: config_change_def Update_steps planner_at_def setContainerConfig_def mset_def split: option.splits)
qed (simp add: config_change_def Let_def)

lemma next_change_None:
  assumes "in_scope lib cfg st nn"
  shows "next_change lib cfg st nn = None \<longleftrightarrow> in_place lib cfg st nn"
proof -
  obtain s where s: "st KShare nn = Some (OShare s)" "share_in_scope s" "wf_customs (planner_at cfg st s smbcc_New)"
    "config_map_ok lib st (grouped s)" "deployment_ok lib st (grouped s)" "service_ok lib st (grouped s)"
    using assms by (auto simp: in_scope_def split: option.splits kobj.splits)
  let ?pl = "planner_at cfg st s (doc_at st s)"
  show ?thesis
  proof (cases "sst_ServerGroup (sh_Status s) = []")
    case True
    then have "group_change s \<noteq> None" using s(2) by (auto simp: group_change_def share_in_scope_def grouped_def split: sum.splits)
    then show ?thesis using s(1) True by (auto simp: next_change_def in_place_def Let_def first_some_None)
  next
    case False
    then have same: "grouped s = s" by (simp add: grouped_def)
    obtain pvc ps where "st_Pvc (sp_Storage (sh_Spec s)) = Some pvc" "buildPodSpec ?pl (pvc_Name pvc) = Some ps"
      using s(2) buildPodSpec_total by (fastforce simp: share_in_scope_def has_pvc_def)
    then have dep: "deployment_change lib st ?pl = None \<longleftrightarrow> (case st KDeployment (server_key s) of
        Some (ODeployment dep) \<Rightarrow> is_owned lib s (dep_meta dep) \<and> dep_Replicas dep = Some 1 | _ \<Rightarrow> False)"
      using s(5) same
      by (auto simp: deployment_change_def deployment_ok_def planner_at_def buildDeployment_def Let_def split: option.splits kobj.splits)
    have "toServiceType (ServiceType ?pl) = Some (ServiceType ?pl)"
      by (auto simp: toServiceType_def ServiceType_def split: option.splits)
    then have svc: "service_change lib st ?pl = None \<longleftrightarrow> (case st KService (server_key s) of
        Some (OService svc) \<Rightarrow> is_owned lib s (svc_meta svc) | _ \<Rightarrow> False)"
      using s(6) same
      by (auto simp: service_change_def service_ok_def newServiceForSmb_def Let_def planner_at_def split: option.splits kobj.splits)
    show ?thesis
      using s(1) False config_change_None [OF s(4) [unfolded same] s(2,3)] dep svc
      by (simp add: next_change_def in_place_def Let_def first_some_None finalizer_change_def group_change_def backend_change_def)
  qed
qed

section \<open>The loop\<close>

text \<open>
  What the controller runtime does with the result of a pass: run the next one while one is
  asked for. None stands for an error, a panic or no end within the given number of passes;
  otherwise the writes of each pass are returned, and the state after the last.
\<close>

fun drive :: "kube_lib \<Rightarrow> ('w \<Rightarrow> call \<Rightarrow> resp \<times> 'w) \<Rightarrow> nat \<Rightarrow> OperatorConfig \<Rightarrow> NamespacedName \<Rightarrow> 'w \<Rightarrow>
    (call list list \<times> 'w) option" where
  "drive lib api 0 cfg nn w = None"
| "drive lib api (Suc n) cfg nn w = (case exec api (Reconcile lib cfg nn) w of
     (ws, Some (res, None, cfg'), w') \<Rightarrow>
       if cr_Requeue res
       then (case drive lib api n cfg' nn w' of None \<Rightarrow> None | Some (passes, w'') \<Rightarrow> Some (ws # passes, w''))
       else Some ([ws], w')
   | _ \<Rightarrow> None)"

context cluster
begin

lemma keyed_look: "keyed (look w)"
  using filed by (auto simp: keyed_def)

lemma drive_settles:
  assumes "in_scope lib cfg (look w) nn" "rank lib cfg (look w) nn < n"
  shows "\<exists>passes w'. drive lib api n cfg nn w = Some (map (\<lambda>c. [c]) passes @ [[]], w') \<and>
    length passes \<le> rank lib cfg (look w) nn \<and> in_scope lib cfg (look w') nn \<and> in_place lib cfg (look w') nn"
  using assms
proof (induction n arbitrary: w)
  case (Suc n)
  show ?case
  proof (cases "next_change lib cfg (look w) nn")
    case None
    then have "idle api (Reconcile lib cfg nn) w (\<lparr>cr_Requeue = False\<rparr>, None, cfg)"
      using Reconcile_change [OF Suc.prems(1)] by simp
    then have "drive lib api (Suc n) cfg nn w = Some (map (\<lambda>c. [c]) [] @ [[]], w)" by (simp add: idle_def)
    then show ?thesis using None Suc.prems(1) next_change_None by (metis le0 list.size(3))
  next
    case (Some c)
    then have "does api look (Reconcile lib cfg nn) w c (\<lparr>cr_Requeue = True\<rparr>, None, cfg)"
      using Reconcile_change [OF Suc.prems(1)] by simp
    then obtain w1 where w1: "exec api (Reconcile lib cfg nn) w = ([c], Some (\<lparr>cr_Requeue = True\<rparr>, None, cfg), w1)"
      "takes_effect c (look w) (look w1)" by (auto simp: does_def)
    have better: "in_scope lib cfg (look w1) nn" "rank lib cfg (look w1) nn < rank lib cfg (look w) nn"
      using next_change_settles [OF Suc.prems(1) Some w1(2) keyed_look] by (simp_all add: settles_def)
    then have "rank lib cfg (look w1) nn < n" using Suc.prems(2) by linarith
    from Suc.IH [OF better(1) this] obtain passes w' where ih:
      "drive lib api n cfg nn w1 = Some (map (\<lambda>c. [c]) passes @ [[]], w')" "length passes \<le> rank lib cfg (look w1) nn"
      "in_scope lib cfg (look w') nn" "in_place lib cfg (look w') nn" by blast
    have "drive lib api (Suc n) cfg nn w = Some (map (\<lambda>c. [c]) (c # passes) @ [[]], w')" using w1(1) ih(1) by simp
    moreover have "length (c # passes) \<le> rank lib cfg (look w) nn" using ih(2) better(2) by simp
    ultimately show ?thesis using ih(3,4) by blast
  qed
qed simp

end

section \<open>Properties\<close>

text \<open>
  C4. A pass of \<open>Reconcile\<close> implements the abstract plan: when \<open>next_change\<close>, a function of the
  stored objects alone, names a change, the pass performs exactly that one write, it takes
  effect, and another pass is asked for; when it names none, the pass writes nothing, leaves
  the server as it is and asks for no further one. No branch of the pass ends in an error or
  a panic. This holds on every server and for every Kubernetes library that satisfy the
  laws, for a share that is live, not clustered, alone in its server group and stored on an
  existing claim.
\<close>

theorem reconcile_makes_next_change:
  assumes "cluster lib api look" "in_scope lib cfg (look w) nn"
  shows "case next_change lib cfg (look w) nn of
      None \<Rightarrow> exec api (Reconcile lib cfg nn) w = ([], Some (\<lparr>cr_Requeue = False\<rparr>, None, cfg), w)
    | Some c \<Rightarrow> \<exists>w'. exec api (Reconcile lib cfg nn) w = ([c], Some (\<lparr>cr_Requeue = True\<rparr>, None, cfg), w') \<and>
        takes_effect c (look w) (look w')"
  using cluster.Reconcile_change [OF assms] unfolding idle_def does_def .

text \<open>
  C10. The reconcile loop is quiet exactly when it is done: for a share in scope a pass writes
  nothing if and only if the share carries the finalizer, a server group and a backend, its
  config map holds a document that serves it, and its config map, deployment (of one
  replica) and service exist and are owned by it.
\<close>

theorem reconcile_quiet_iff_in_place:
  assumes "cluster lib api look" "in_scope lib cfg (look w) nn"
  shows "fst (exec api (Reconcile lib cfg nn) w) = [] \<longleftrightarrow> in_place lib cfg (look w) nn"
  using cluster.Reconcile_change [OF assms] next_change_None [OF assms(2)]
  by (cases "next_change lib cfg (look w) nn") (auto simp: idle_def does_def)

text \<open>
  C2. The reconcile loop converges: from every state in scope, whatever is missing, not owned,
  not up to date or not yet assigned, it ends within twelve passes. Every pass but the last
  makes exactly one change, the last makes none, no pass fails, and at the end everything
  is in place.
\<close>

theorem reconcile_converges:
  assumes "cluster lib api look" "in_scope lib cfg (look w) nn"
  shows "\<exists>changes w'. drive lib api 12 cfg nn w = Some (map (\<lambda>c. [c]) changes @ [[]], w') \<and> length changes \<le> 11 \<and>
    in_place lib cfg (look w') nn"
  using cluster.drive_settles [OF assms, of 12] rank_bound [of lib cfg "look w" nn] by fastforce

text \<open>A new share in the store, with the security config it names; nothing else exists yet.\<close>

definition new_share :: SmbShare where
  "new_share = \<lparr>sh_meta = (new_meta ''share1'' ''ns1'')\<lparr>m_UID := ''u1''\<rparr>, sh_Spec = demo_spec\<lparr>sp_SecurityConfig := ''sec''\<rparr>,
     sh_Status = \<lparr>sst_ServerGroup = ''''\<rparr>\<rparr>"

definition plain_config :: OperatorConfig where
  "plain_config = DefaultOperatorConfig\<lparr>oc_ClusterType := ClusterTypeDefault\<rparr>"

definition new_store :: "kobj list" where
  "new_store = [OShare new_share, OSecurity demo_security]"

lemma new_store_in_scope: "in_scope std_lib plain_config (mem_look new_store) (nsname ''ns1'' ''share1'')"
  by code_simp

lemma new_store_change: "next_change std_lib plain_config (mem_look new_store) (nsname ''ns1'' ''share1'') \<noteq> None"
  by code_simp

lemma reconcile_makes_next_change_witness:
  "\<exists>c w'. next_change std_lib plain_config (mem_look new_store) (nsname ''ns1'' ''share1'') = Some c \<and>
     exec mem_api (Reconcile std_lib plain_config (nsname ''ns1'' ''share1'')) new_store =
       ([c], Some (\<lparr>cr_Requeue = True\<rparr>, None, plain_config), w')"
  using reconcile_makes_next_change [OF mem_cluster.cluster_axioms new_store_in_scope] new_store_change
  by (auto split: option.splits)

lemma reconcile_quiet_iff_in_place_witness:
  "fst (exec mem_api (Reconcile std_lib plain_config (nsname ''ns1'' ''share1'')) new_store) \<noteq> []"
  using reconcile_quiet_iff_in_place [OF mem_cluster.cluster_axioms new_store_in_scope]
    next_change_None [OF new_store_in_scope] new_store_change by simp

lemma reconcile_converges_witness:
  "\<exists>changes w'. drive std_lib mem_api 12 plain_config (nsname ''ns1'' ''share1'') new_store =
     Some (map (\<lambda>c. [c]) changes @ [[]], w') \<and> in_place std_lib plain_config (mem_look w') (nsname ''ns1'' ''share1'')"
  using reconcile_converges [OF mem_cluster.cluster_axioms new_store_in_scope] by blast

end
