(* ===== verification/TypedDocs.thy ===== *)
theory TypedDocs
  imports ConfigMaps ConfigurationTheorems
begin

text \<open>
  Documents as they are read from a config map that anybody may have written: a JSON null or a
  missing member leaves a nil map, and the exact condition is given under which \<open>Update\<close>
  panics on one.
\<close>

section \<open>When \<open>Update\<close> panics\<close>

text \<open>A nil map in the way of a write.\<close>

definition nil_globals :: "Planner \<Rightarrow> SambaContainerConfig \<Rightarrow> bool" where
  "nil_globals pl st = (case mlookup (c_Globals st) Globals_key of
     None \<Rightarrow> c_Globals st = None
   | Some g \<Rightarrow> gc_Options g = None \<and> global_customs pl \<noteq> [])"

definition nil_share :: "Planner \<Rightarrow> SambaContainerConfig \<Rightarrow> bool" where
  "nil_share pl st = (case mlookup (c_Shares st) (shareName pl) of
     None \<Rightarrow> (if has_pvc (pl_SmbShare pl) then c_Shares st = None else True)
   | Some s \<Rightarrow> sc_Options s = None)"

lemma bind_None_iff: "Option.bind x f = None \<longleftrightarrow> x = None \<or> (\<exists>y. x = Some y \<and> f y = None)"
  by (cases x) auto

lemma ensure_globals_runs:
  "ensure_globals pl (ch, st) = None \<longleftrightarrow> mlookup (c_Globals st) Globals_key = None \<and> c_Globals st = None"
  "ensure_globals pl (ch, st) = Some (ch', st') \<Longrightarrow> (\<exists>g. mlookup (c_Globals st') Globals_key = Some g \<and>
     (gc_Options g = None \<longleftrightarrow> (case mlookup (c_Globals st) Globals_key of None \<Rightarrow> False | Some g \<Rightarrow> gc_Options g = None))) \<and>
     c_Globals st' \<noteq> None \<and> c_Shares st' = c_Shares st \<and> c_Configs st' = c_Configs st"
  using wf_opts_NewGlobals
  by (cases "c_Globals st"; auto simp: ensure_globals_def mlookup_Some wf_opts_def split: option.splits)+

lemma ensure_share_runs:
  "ensure_share pl (ch, st) = None \<longleftrightarrow> mlookup (c_Shares st) (shareName pl) = None \<and> (c_Shares st = None \<or> \<not> has_pvc (pl_SmbShare pl))"
  "ensure_share pl (ch, st) = Some (ch', st') \<Longrightarrow> (\<exists>s. mlookup (c_Shares st') (shareName pl) = Some s \<and>
     (sc_Options s = None \<longleftrightarrow> (case mlookup (c_Shares st) (shareName pl) of None \<Rightarrow> False | Some s \<Rightarrow> sc_Options s = None))) \<and>
     c_Shares st' \<noteq> None \<and> c_Globals st' = c_Globals st \<and> c_Configs st' = c_Configs st"
  using wf_opts_NewSimpleShare
  by (cases "c_Shares st"; cases "st_Pvc (sp_Storage (sh_Spec (pl_SmbShare pl)))";
      auto simp: ensure_share_def mlookup_Some wf_opts_def has_pvc_def Share_path_def split: option.splits if_splits)+

lemma apply_configs_Some: "\<exists>m c. apply_configs kvs (Some xs) ch = Some (Some m, c)"
  by (induction kvs arbitrary: xs ch) (auto simp: mlookup_Some split: option.split)

lemma apply_configs_panics: "apply_configs kvs opts ch = None \<longleftrightarrow> opts = None \<and> kvs \<noteq> []"
proof (cases opts)
  case (Some xs)
  then show ?thesis using apply_configs_Some [of kvs xs ch] by auto
qed (simp add: apply_configs_None)

lemma custom_globals_runs:
  assumes "mlookup (c_Globals st) Globals_key = Some g"
  shows "custom_globals pl (ch, st) = None \<longleftrightarrow> gc_Options g = None \<and> global_customs pl \<noteq> []"
    "custom_globals pl (ch, st) = Some (ch', st') \<Longrightarrow> c_Shares st' = c_Shares st \<and> c_Configs st' = c_Configs st \<and> c_Globals st' \<noteq> None"
proof -
  have map: "c_Globals st \<noteq> None" using assms by (cases "c_Globals st") auto
  then show "custom_globals pl (ch, st) = None \<longleftrightarrow> gc_Options g = None \<and> global_customs pl \<noteq> []"
    using assms
    by (auto simp: custom_globals_def applyCustomGlobal_def global_customs_def apply_configs_panics bind_None_iff
        split: option.splits if_splits)
  show "custom_globals pl (ch, st) = Some (ch', st') \<Longrightarrow> c_Shares st' = c_Shares st \<and> c_Configs st' = c_Configs st \<and> c_Globals st' \<noteq> None"
    using map by (auto simp: custom_globals_def bind_eq_Some_conv mset_eq_Some split: option.splits)
qed

lemma set_param_panics: "set_param k v opts = None \<longleftrightarrow> opts = None \<and> v \<noteq> []"
  by (cases opts) (auto simp: set_param_def mget_def bind_None_iff)

lemma set_param_not_nil: "set_param k v opts = Some (m, c) \<Longrightarrow> opts \<noteq> None \<Longrightarrow> m \<noteq> None"
  by (auto simp: set_param_def bind_eq_Some_conv split: if_splits)

lemma apply_configs_not_nil: "apply_configs kvs opts ch = Some (m, c) \<Longrightarrow> m = None \<longleftrightarrow> opts = None"
  using apply_configs_Some [of kvs "the opts" ch] by (cases opts) (auto simp: apply_configs_None split: if_splits)

lemma share_values_runs:
  assumes "mlookup (c_Shares st) (shareName pl) = Some s"
  shows "share_values pl (ch, st) = None \<longleftrightarrow> sc_Options s = None"
    "share_values pl (ch, st) = Some (ch', st') \<Longrightarrow> c_Configs st' = c_Configs st \<and> c_Globals st' = c_Globals st"
proof -
  let ?spec = "sh_Spec (pl_SmbShare pl)"
  have map: "c_Shares st \<noteq> None" using assms by (cases "c_Shares st") auto
  have custom: "applyCustomShare s ?spec = None \<longrightarrow> sc_Options s = None"
    "applyCustomShare s ?spec = Some (s1, c) \<Longrightarrow> sc_Options s1 = None \<longleftrightarrow> sc_Options s = None" for s1 c
    by (auto simp: applyCustomShare_def bind_None_iff bind_eq_Some_conv apply_configs_panics dest: apply_configs_not_nil
        split: option.splits if_splits)
  have vals: "applyShareValues s1 ?spec = None \<longleftrightarrow> sc_Options s1 = None" for s1
    using set_param_not_nil [of BrowseableParam "browseable_value ?spec" "sc_Options s1"]
    by (cases "sc_Options s1") (auto simp: applyShareValues_def bind_None_iff set_param_panics)
  show "share_values pl (ch, st) = None \<longleftrightarrow> sc_Options s = None"
  proof (cases "applyCustomShare s ?spec")
    case (Some r)
    obtain s1 c1 where r: "applyCustomShare s ?spec = Some (s1, c1)" using Some by (cases r) auto
    then show ?thesis
      using assms map vals [of s1] custom(2) [OF r]
      by (cases "applyShareValues s1 ?spec") (auto simp: share_values_def mset_eq_Some)
  qed (use assms custom(1) in \<open>simp add: share_values_def\<close>)
  show "share_values pl (ch, st) = Some (ch', st') \<Longrightarrow> c_Configs st' = c_Configs st \<and> c_Globals st' = c_Globals st"
    by (auto simp: share_values_def bind_eq_Some_conv)
qed

lemma ensure_section_runs:
  "ensure_section pl (ch, st) = None \<longleftrightarrow> c_Configs st = None"
  "ensure_section pl (ch, st) = Some (ch', st') \<Longrightarrow> c_Globals st' = c_Globals st"
proof -
  obtain cfg where "new_section pl = Some cfg" using new_section_run [of pl] by blast
  then show "ensure_section pl (ch, st) = None \<longleftrightarrow> c_Configs st = None"
    by (cases "c_Configs st") (auto simp: ensure_section_def Let_def split: option.split)
  show "ensure_section pl (ch, st) = Some (ch', st') \<Longrightarrow> c_Globals st' = c_Globals st"
    by (auto simp: ensure_section_def bind_eq_Some_conv Let_def split: if_splits)
qed

lemma ensure_realm_total: "c_Globals st \<noteq> None \<Longrightarrow> ensure_realm pl (ch, st) \<noteq> None"
proof -
  assume "c_Globals st \<noteq> None"
  moreover have "\<exists>sc. pl_SecurityConfig pl = Some sc" if "SecurityMode pl = ADMode"
    using that by (auto simp: SecurityMode_def ADMode_def UserMode_def split: option.splits)
  moreover have "idmapOptions pl \<noteq> None" using wf_opts_idmap [of pl] by (simp add: wf_opts_def)
  ultimately show ?thesis
    by (auto simp: ensure_realm_def realm_options_def Realm_def Workgroup_def mset_eq_Some split: option.splits)
      (rule exI [of _ True], simp)+
qed

lemma update_steps_panics:
  "update_steps pl (ch, st) = None \<longleftrightarrow> nil_globals pl st \<or> nil_share pl st \<or> c_Configs st = None"
proof (cases "ensure_globals pl (ch, st)")
  case None
  then show ?thesis using ensure_globals_runs(1) [of pl ch st] by (auto simp: update_steps_def nil_globals_def)
next
  case (Some p1)
  obtain c1 s1 where p1: "ensure_globals pl (ch, st) = Some (c1, s1)" using Some by (cases p1) auto
  obtain g where g: "mlookup (c_Globals s1) Globals_key = Some g"
    "(gc_Options g = None \<and> global_customs pl \<noteq> []) = nil_globals pl st" "c_Shares s1 = c_Shares st" "c_Configs s1 = c_Configs st"
    using ensure_globals_runs(2) [OF p1] ensure_globals_runs(1) [of pl ch st] p1
    by (auto simp: nil_globals_def split: option.splits)
  show ?thesis
  proof (cases "ensure_share pl (c1, s1)")
    case None
    then show ?thesis using ensure_share_runs(1) [of pl c1 s1] p1 g(3) by (auto simp: update_steps_def nil_share_def)
  next
    case (Some p2)
    obtain c2 s2 where p2: "ensure_share pl (c1, s1) = Some (c2, s2)" using Some by (cases p2) auto
    obtain s where s: "mlookup (c_Shares s2) (shareName pl) = Some s" "(sc_Options s = None) = nil_share pl st"
      "c_Globals s2 = c_Globals s1" "c_Configs s2 = c_Configs st"
      using ensure_share_runs(2) [OF p2] ensure_share_runs(1) [of pl c1 s1] p2 g(3,4)
      by (auto simp: nil_share_def split: option.splits)
    have g2: "mlookup (c_Globals s2) Globals_key = Some g" using g(1) s(3) by simp
    show ?thesis
    proof (cases "custom_globals pl (c2, s2)")
      case None
      then show ?thesis using custom_globals_runs(1) [OF g2, of pl c2] p1 p2 g(2) by (simp add: update_steps_def)
    next
      case (Some p3)
      obtain c3 s3 where p3: "custom_globals pl (c2, s2) = Some (c3, s3)" using Some by (cases p3) auto
      note keep3 = custom_globals_runs(2) [OF g2 p3]
      have s3: "mlookup (c_Shares s3) (shareName pl) = Some s" using s(1) keep3 by simp
      have ng: "\<not> nil_globals pl st" using custom_globals_runs(1) [OF g2, of pl c2] p3 g(2) by simp
      show ?thesis
      proof (cases "share_values pl (c3, s3)")
        case None
        then show ?thesis using share_values_runs(1) [OF s3, of c3] p1 p2 p3 s(2) by (simp add: update_steps_def)
      next
        case (Some p4)
        obtain c4 s4 where p4: "share_values pl (c3, s3) = Some (c4, s4)" using Some by (cases p4) auto
        note keep4 = share_values_runs(2) [OF s3 p4]
        have ns: "\<not> nil_share pl st" using share_values_runs(1) [OF s3, of c3] p4 s(2) by simp
        have run: "update_steps pl (ch, st) = do { s5 \<leftarrow> ensure_section pl (c4, s4); s6 \<leftarrow> ensure_users s5; ensure_realm pl s6 }"
          using p1 p2 p3 p4 by (simp add: update_steps_def)
        show ?thesis
        proof (cases "ensure_section pl (c4, s4)")
          case None
          then show ?thesis using ensure_section_runs(1) [of pl c4 s4] run keep4 keep3 s(4) by simp
        next
          case (Some p5)
          obtain c5 s5 where p5: "ensure_section pl (c4, s4) = Some (c5, s5)" using Some by (cases p5) auto
          obtain c6 s6 where p6: "ensure_users (c5, s5) = Some (c6, s6)" "c_Globals s6 = c_Globals s5"
            by (cases "mlen (c_Users s5) = 0") (auto simp: ensure_users_def)
          have "c_Globals s6 \<noteq> None" using p6(2) ensure_section_runs(2) [OF p5] keep4 keep3 by simp
          then show ?thesis
            using ensure_realm_total [of s6 pl c6] run p5 p6(1) ng ns ensure_section_runs(1) [of pl c4 s4] keep4 keep3 s(4) by auto
        qed
      qed
    qed
  qed
qed

section \<open>Properties\<close>

text \<open>
  C13. Exactly when \<open>Update\<close> panics, for any document whatever: if the map of globals or of
  config sections is nil; if the share is not in the document yet and the map of shares is
  nil or the share has no \<open>storage.pvc\<close>; if it is there with a nil option map; or if the
  globals section has a nil option map and custom global options are to be written. In
  every other case it returns. The code never looks for a nil map, and the decoder makes one
  of a JSON null and of a missing \<open>options\<close> member.
\<close>

theorem Update_panics_iff:
  "Update (pl\<lparr>pl_ConfigState := Some st\<rparr>) = None \<longleftrightarrow>
     c_Configs st = None \<or>
     (case mlookup (c_Globals st) Globals_key of
        None \<Rightarrow> c_Globals st = None
      | Some g \<Rightarrow> gc_Options g = None \<and> global_customs pl \<noteq> []) \<or>
     (case mlookup (c_Shares st) (shareName pl) of
        None \<Rightarrow> (if has_pvc (pl_SmbShare pl) then c_Shares st = None else True)
      | Some s \<Rightarrow> sc_Options s = None)"
proof -
  have same: "global_customs (pl\<lparr>pl_ConfigState := Some st\<rparr>) = global_customs pl" "shareName (pl\<lparr>pl_ConfigState := Some st\<rparr>) = shareName pl"
    by (simp_all add: global_customs_def shareName_def)
  show ?thesis
    using update_steps_panics [of "pl\<lparr>pl_ConfigState := Some st\<rparr>" False st]
    by (simp add: Update_steps nil_globals_def nil_share_def same disj_ac cong: option.case_cong)
qed

text \<open>Two texts that make the next pass over a share panic.\<close>

lemma null_texts_panic:
  "list_all (\<lambda>text. case getContainerConfig \<lparr>cm_meta = new_meta ''samba'' ''ns1'', cm_Data = Some [(ConfigJSONKey, text)]\<rparr> of
       Inl _ \<Rightarrow> False | Inr cc \<Rightarrow> Update (demo_planner demo_share cc) = None)
     [''{\"shares\":null}'', ''{\"shares\":{\"docs\":{}}}'']"
  by code_simp

end
