(* ===== verification/Deletion.thy ===== *)
theory Deletion
  imports Settling Permissions
begin

text \<open>
  The other half of the reconcile loop: a share that is being deleted is taken out of the
  configuration of its server group, the objects it shares with other shares are handed
  over, and its finalizer is removed. As for an update, what a pass is meant to do is a
  function of the stored objects; the pass implements it, and the loop comes to an end.
  It covers clustered and other shares, alone in their group or not, on OpenShift and elsewhere.
\<close>

section \<open>The next change\<close>

definition live_at :: "store \<Rightarrow> string \<Rightarrow> OwnerReference \<Rightarrow> bool" where
  "live_at st ns ref = (case st KShare (nsname ns (or_Name ref)) of
     Some (OShare s) \<Rightarrow> m_DeletionTimestamp (sh_meta s) = None | _ \<Rightarrow> False)"

text \<open>The share that an object is to be handed to: the first other owner that stays.\<close>

definition heir :: "kube_lib \<Rightarrow> store \<Rightarrow> SmbShare \<Rightarrow> ObjectMeta \<Rightarrow> OwnerReference option" where
  "heir lib st s m = (case smbShareOwnerRefs lib m of
     Inl _ \<Rightarrow> None
   | Inr refs0 \<Rightarrow>
       (let refs = excludeOwnerRefs refs0 (m_Name (sh_meta s)) (m_UID (sh_meta s)) in
        if list_ex is_controller refs then None
        else case find (live_at st (m_Namespace m)) refs of
          Some ref \<Rightarrow> if or_Name ref = '''' then None else Some ref
        | None \<Rightarrow> None))"

definition handover :: "kube_lib \<Rightarrow> store \<Rightarrow> SmbShare \<Rightarrow> okind \<Rightarrow> NamespacedName \<Rightarrow> call option" where
  "handover lib st s k nn = (case st k nn of
     None \<Rightarrow> None
   | Some x \<Rightarrow> map_option (\<lambda>ref. CUpdate (map_kmeta (\<lambda>m. changeControllerOwnerTo m ref) x)) (heir lib st s (kmeta x)))"

definition prune_planner :: "OperatorConfig \<Rightarrow> SmbShare \<Rightarrow> SambaContainerConfig \<Rightarrow> Planner" where
  "prune_planner cfg s cc = \<lparr>pl_SmbShare = s, pl_SecurityConfig = None, pl_CommonConfig = None,
     pl_GlobalConfig = cfg, pl_ConfigState = Some cc\<rparr>"

definition prune_change :: "OperatorConfig \<Rightarrow> store \<Rightarrow> SmbShare \<Rightarrow> call option" where
  "prune_change cfg st s = (case st KConfigMap (server_key s) of
     Some (OConfigMap cm) \<Rightarrow> (case Prune (prune_planner cfg s (doc_at st s)) of
         Some (True, cc') \<Rightarrow> map_option (\<lambda>cm'. CUpdate (OConfigMap cm')) (setContainerConfig cm cc')
       | _ \<Rightarrow> None)
   | _ \<Rightarrow> None)"

definition is_clustered :: "SmbShare \<Rightarrow> bool" where
  "is_clustered s = (case sp_Scaling (sh_Spec s) of None \<Rightarrow> False | Some sc \<Rightarrow> scal_AvailabilityMode sc = ''clustered'')"

definition state_key :: "SmbShare \<Rightarrow> NamespacedName" where
  "state_key s = nsname (m_Namespace (sh_meta s)) (sst_ServerGroup (sh_Status s) @ ''-state'')"

definition data_handover :: "kube_lib \<Rightarrow> store \<Rightarrow> SmbShare \<Rightarrow> call option" where
  "data_handover lib st s = (if shareNeedsPvc s
     then (case pvcName s of None \<Rightarrow> None | Some n \<Rightarrow> handover lib st s KPVC (nsname (m_Namespace (sh_meta s)) n)) else None)"

text \<open>
  The cluster type the pass acts on: the one the configuration names, or, when it is still
  empty, the one \<open>updateClusterType\<close> finds by the operator's own pod and keeps.
\<close>

definition pod_on_openshift :: "OperatorConfig \<Rightarrow> store \<Rightarrow> bool" where
  "pod_on_openshift cfg st = (case st KPod (nsname (oc_PodNamespace cfg) (oc_PodName cfg)) of
     Some (OPod pod) \<Rightarrow> list_ex (\<lambda>(key, v). contains key ClusterTypeOpenShift) (entries (m_Annotations (pod_meta pod)))
   | _ \<Rightarrow> False)"

definition on_openshift :: "OperatorConfig \<Rightarrow> store \<Rightarrow> bool" where
  "on_openshift cfg st \<longleftrightarrow>
     (if oc_ClusterType cfg = '''' then pod_on_openshift cfg st else oc_ClusterType cfg = ClusterTypeOpenShift)"

definition resolved :: "OperatorConfig \<Rightarrow> store \<Rightarrow> OperatorConfig" where
  "resolved cfg st = (if oc_ClusterType cfg = ''''
     then cfg\<lparr>oc_ClusterType := if pod_on_openshift cfg st then ClusterTypeOpenShift else ClusterTypeDefault\<rparr> else cfg)"

text \<open>On OpenShift the service account of the namespace goes, with its roles and bindings.\<close>

definition removals :: "OperatorConfig \<Rightarrow> store \<Rightarrow> SmbShare \<Rightarrow> call option list" where
  "removals cfg st s = (if on_openshift cfg st then map (\<lambda>(k, nn). map_option CDelete (st k nn)) (access_keys s) else [])"

text \<open>The changes before the finalizer goes, in the order of the code.\<close>

definition releases :: "kube_lib \<Rightarrow> OperatorConfig \<Rightarrow> store \<Rightarrow> SmbShare \<Rightarrow> call option list" where
  "releases lib cfg st s =
     [handover lib st s KConfigMap (server_key s), prune_change cfg st s,
      (if is_clustered s then handover lib st s KStatefulSet (server_key s) else handover lib st s KDeployment (server_key s)),
      (if is_clustered s then handover lib st s KPVC (state_key s) else None)] @
     removals cfg st s @ [data_handover lib st s]"

section \<open>The situations covered\<close>

text \<open>The objects that a finalization hands over.\<close>

definition handed_keys :: "SmbShare \<Rightarrow> (okind \<times> NamespacedName) list" where
  "handed_keys s = [(KConfigMap, server_key s)] @
     (if is_clustered s then [(KStatefulSet, server_key s), (KPVC, state_key s)] else [(KDeployment, server_key s)]) @
     (if shareNeedsPvc s then (case pvcName s of None \<Rightarrow> [] | Some n \<Rightarrow> [(KPVC, nsname (m_Namespace (sh_meta s)) n)]) else [])"

definition readable :: "kube_lib \<Rightarrow> store \<Rightarrow> okind \<Rightarrow> NamespacedName \<Rightarrow> bool" where
  "readable lib st k nn = (case st k nn of
     None \<Rightarrow> True | Some x \<Rightarrow> m_DeletionTimestamp (kmeta x) = None \<and> \<not> isl (smbShareOwnerRefs lib (kmeta x)))"

text \<open>An object that a deletion takes away at once, if it is there.\<close>

definition removable :: "store \<Rightarrow> okind \<Rightarrow> NamespacedName \<Rightarrow> bool" where
  "removable st k nn = (case st k nn of
     None \<Rightarrow> True | Some x \<Rightarrow> m_DeletionTimestamp (kmeta x) = None \<and> m_Finalizers (kmeta x) = [])"

definition doc_ok :: "store \<Rightarrow> SmbShare \<Rightarrow> bool" where
  "doc_ok st s = (case st KConfigMap (server_key s) of
     Some (OConfigMap cm) \<Rightarrow> cm_Data cm \<noteq> None \<and> (case getContainerConfig cm of Inl _ \<Rightarrow> False
       | Inr cc \<Rightarrow> storable cc \<and> list_all (\<lambda>(k, cfg). distinct (cs_Shares cfg)) (entries (c_Configs cc)))
   | _ \<Rightarrow> True)"

text \<open>
  The share is stored, on its way out and has the operator's finalizer; its fields are UTF-8;
  the objects it hands over are not themselves on their way out and the API versions of their
  owners can be parsed; the document in its config map can be parsed and stored and lists no
  share twice in a section; on OpenShift, the service account, roles and bindings have no
  finalizers and are not on their way out.
\<close>

definition leaving :: "kube_lib \<Rightarrow> OperatorConfig \<Rightarrow> store \<Rightarrow> SmbShare \<Rightarrow> bool" where
  "leaving lib cfg st s \<longleftrightarrow> st KShare (nsname_of (sh_meta s)) = Some (OShare s) \<and>
     m_DeletionTimestamp (sh_meta s) \<noteq> None \<and> kl_ContainsFinalizer lib (m_Finalizers (sh_meta s)) shareFinalizer \<and>
     utf8_share s \<and> list_all (\<lambda>(k, nn). readable lib st k nn) (handed_keys s) \<and> doc_ok st s \<and>
     (on_openshift cfg st \<longrightarrow> list_all (\<lambda>(k, nn). removable st k nn) (access_keys s))"

lemma resolved_type: "on_openshift (resolved cfg st) st' = (if oc_ClusterType cfg = '''' then pod_on_openshift cfg st else on_openshift cfg st')"
  by (simp add: resolved_def on_openshift_def ClusterTypeOpenShift_def ClusterTypeDefault_def)

lemma resolved_on: "on_openshift (resolved cfg st) st = on_openshift cfg st"
  unfolding resolved_type by (simp add: on_openshift_def)

lemma leaving_resolved: "leaving lib (resolved cfg st) st s = leaving lib cfg st s"
  by (simp add: leaving_def resolved_on)

lemma prune_change_cfg: "prune_change cfg st s = prune_change cfg' st s"
proof -
  have names: "shareName (prune_planner cfg s cc) = shareName (prune_planner cfg' s cc)"
    "instanceID (prune_planner cfg s cc) = instanceID (prune_planner cfg' s cc)" for cc
    by (simp_all add: prune_planner_def shareName_def instanceID_def InstanceName_def)
  have "prune_steps (prune_planner cfg s cc) = prune_steps (prune_planner cfg' s cc)" for cc
    unfolding prune_steps_def prune_section_def prune_share_def names ..
  then have "Prune (prune_planner cfg s cc) = Prune (prune_planner cfg' s cc)" for cc
    by (simp add: Prune_steps [of _ cc] prune_planner_def)
  then show ?thesis unfolding prune_change_def by (simp only:)
qed

lemma removals_resolved: "removals (resolved cfg st) st s = removals cfg st s"
  by (simp add: removals_def resolved_on)
lemma first_some_Cons: "first_some (x # xs) = (case x of None \<Rightarrow> first_some xs | Some c \<Rightarrow> Some c)"
  by (cases x) simp_all

lemma first_some_append: "first_some (xs @ ys) = (case first_some xs of None \<Rightarrow> first_some ys | Some c \<Rightarrow> Some c)"
  by (induction xs) (simp_all add: first_some_Cons split: option.split)

section \<open>A pass makes the next change\<close>

context cluster
begin

lemma stored_kind:
  "look w KShare nn = Some x \<Longrightarrow> \<exists>s. x = OShare s" "look w KConfigMap nn = Some x \<Longrightarrow> \<exists>cm. x = OConfigMap cm"
  "look w KDeployment nn = Some x \<Longrightarrow> \<exists>d. x = ODeployment d" "look w KStatefulSet nn = Some x \<Longrightarrow> \<exists>t. x = OStatefulSet t"
  "look w KPVC nn = Some x \<Longrightarrow> \<exists>p. x = OPVC p"
  by (drule filed, cases x; simp)+

lemma stored_access:
  "look w KRole nn = Some x \<Longrightarrow> \<exists>r. x = ORole r" "look w KRoleBinding nn = Some x \<Longrightarrow> \<exists>b. x = ORoleBinding b"
  "look w KServiceAccount nn = Some x \<Longrightarrow> \<exists>a. x = OServiceAccount a"
  by (drule filed, cases x; simp)+

lemma idle_choose_owner: "idle api (choose_owner ns refs) w (Inr (find (live_at (look w) ns) refs))"
proof (induction refs)
  case (Cons ref refs)
  let ?nn = "nsname ns (or_Name ref)"
  show ?case
  proof (cases "look w KShare ?nn")
    case None
    then have "idle api (getSmbShareByName ?nn) w (Inl NotFoundError)"
      by (simp add: getSmbShareByName_def idle_def exec_get_as)
    moreover have "\<not> live_at (look w) ns ref" using None by (simp add: live_at_def)
    ultimately show ?thesis using Cons.IH by (simp add: IsNotFound_def) (erule idle_andthen, simp)
  next
    case (Some x)
    then obtain o' where x: "x = OShare o'" using stored_kind(1) by blast
    then have "idle api (getSmbShareByName ?nn) w (Inr o')"
      using Some by (simp add: getSmbShareByName_def idle_def exec_get_as typed_def)
    moreover have "live_at (look w) ns ref \<longleftrightarrow> m_DeletionTimestamp (sh_meta o') = None" using Some x by (simp add: live_at_def)
    ultimately show ?thesis using Cons.IH
      by (cases "m_DeletionTimestamp (sh_meta o')") (simp, erule idle_andthen, simp add: idle_Ret)+
  qed
qed (simp add: idle_Ret)

lemma transfer_change:
  assumes "look w (kind_of x) (key_of x) = Some x" "m_DeletionTimestamp (kmeta x) = None" "\<not> isl (smbShareOwnerRefs lib (kmeta x))"
  shows "case heir lib (look w) s (kmeta x) of
      None \<Rightarrow> idle api (transferOwnership lib x s) w Done
    | Some ref \<Rightarrow> does api look (transferOwnership lib x s) w (CUpdate (map_kmeta (\<lambda>m. changeControllerOwnerTo m ref) x)) Requeue"
proof -
  obtain refs0 where refs0: "smbShareOwnerRefs lib (kmeta x) = Inr refs0"
    using assms(3) by (cases "smbShareOwnerRefs lib (kmeta x)") auto
  let ?refs = "excludeOwnerRefs refs0 (m_Name (sh_meta s)) (m_UID (sh_meta s))"
  note choose = idle_choose_owner [of "m_Namespace (kmeta x)" ?refs w]
  have upd: "does api look (on_ok (api_write (CUpdate (map_kmeta (\<lambda>m. changeControllerOwnerTo m ref) x))) e (\<lambda>_. Ret Requeue)) w
      (CUpdate (map_kmeta (\<lambda>m. changeControllerOwnerTo m ref) x)) Requeue" for ref and e :: "gerror \<Rightarrow> Result prog"
    using assms(1,2) by (intro does_update [where old = x]) (simp_all add: key_of_def changeControllerOwnerTo_def nsname_of_def)
  show ?thesis
  proof (cases "?refs = [] \<or> list_ex is_controller ?refs")
    case True
    then show ?thesis
      using refs0 by (auto simp: transferOwnership_def heir_def Let_def list_ex_iff is_controller_def intro!: idle_Ret)
  next
    case False
    then have run: "transferOwnership lib x s = andthen (choose_owner (m_Namespace (kmeta x)) ?refs) (\<lambda>r. case r of
        Inl err \<Rightarrow> Ret (ErrResult err)
      | Inr None \<Rightarrow> Ret Done
      | Inr (Some ref) \<Rightarrow> if or_Name ref = '''' then Ret Done
          else on_ok (api_write (CUpdate (map_kmeta (\<lambda>m. changeControllerOwnerTo m ref) x)))
            (\<lambda>err. Ret (ErrResult err)) (\<lambda>_. Ret Requeue))"
      using refs0 by (auto simp: transferOwnership_def Let_def list_ex_iff is_controller_def on_ok_def split: option.split
          intro!: arg_cong [where f = "andthen _"])
    show ?thesis
      using False refs0 upd
      by (cases "find (live_at (look w) (m_Namespace (kmeta x))) ?refs")
        (auto simp: run heir_def Let_def intro!: idle_andthen [OF choose] does_later [OF choose] idle_Ret)
  qed
qed

text \<open>A stage on an object that may be there or not.\<close>

lemma handover_stage:
  assumes "readable lib (look w) k nn" "\<forall>x. look w k nn = Some x \<longrightarrow> (\<exists>y. x = wrap y \<and> proj x = Some y)"
  shows "handover lib (look w) s k nn = None \<Longrightarrow> idle api nxt w r \<Longrightarrow>
      idle api (transfer_existing lib s wrap (existing k proj nn) nxt) w r"
    and "handover lib (look w) s k nn = None \<Longrightarrow> does api look nxt w c r' \<Longrightarrow>
      does api look (transfer_existing lib s wrap (existing k proj nn) nxt) w c r'"
    and "handover lib (look w) s k nn = Some c' \<Longrightarrow>
      does api look (transfer_existing lib s wrap (existing k proj nn) nxt) w c' Requeue"
proof -
  let ?stage = "transfer_existing lib s wrap (existing k proj nn) nxt"
  have "(handover lib (look w) s k nn = None \<longrightarrow> (idle api nxt w r \<longrightarrow> idle api ?stage w r) \<and>
      (does api look nxt w c r' \<longrightarrow> does api look ?stage w c r')) \<and>
    (handover lib (look w) s k nn = Some c' \<longrightarrow> does api look ?stage w c' Requeue)"
  proof (cases "look w k nn")
    case None
    then have "idle api (existing k proj nn) w (Inr None)" by (simp add: idle_def exec_existing)
    note get = idle_andthen [OF this] does_later [OF this]
    show ?thesis using None by (simp add: handover_def transfer_existing_def on_ok_def get)
  next
    case (Some x)
    then obtain y where y: "x = wrap y" "proj x = Some y" using assms(2) by blast
    then have "idle api (existing k proj nn) w (Inr (Some y))" using Some by (simp add: idle_def exec_existing)
    note get = idle_andthen [OF this] does_later [OF this]
    have stage: "idle api (unless_yield (transferOwnership lib x s) id nxt) w r \<Longrightarrow> idle api ?stage w r"
      "does api look (unless_yield (transferOwnership lib x s) id nxt) w d q \<Longrightarrow> does api look ?stage w d q" for d q
      using y(1) by (simp_all add: transfer_existing_def on_ok_def get)
    have change: "case heir lib (look w) s (kmeta x) of
        None \<Rightarrow> idle api (transferOwnership lib x s) w Done
      | Some ref \<Rightarrow> does api look (transferOwnership lib x s) w (CUpdate (map_kmeta (\<lambda>m. changeControllerOwnerTo m ref) x)) Requeue"
      using transfer_change [of w x s] Some assms(1) filed [OF Some] by (simp add: readable_def)
    show ?thesis
    proof (cases "heir lib (look w) s (kmeta x)")
      case None
      then have "idle api (transferOwnership lib x s) w Done" using change by simp
      note go = idle_unless_yield [OF this] does_unless_yield(1) [OF this]
      show ?thesis using Some None by (simp add: handover_def stage go)
    next
      case (Some ref)
      then have "does api look (transferOwnership lib x s) w (CUpdate (map_kmeta (\<lambda>m. changeControllerOwnerTo m ref) x)) Requeue"
        using change by simp
      from does_unless_yield(2) [where out = id, OF this] show ?thesis
        using Some \<open>look w k nn = Some x\<close> by (auto simp: handover_def intro!: stage(2))
    qed
  qed
  then show "handover lib (look w) s k nn = None \<Longrightarrow> idle api nxt w r \<Longrightarrow> idle api ?stage w r"
    "handover lib (look w) s k nn = None \<Longrightarrow> does api look nxt w c r' \<Longrightarrow> does api look ?stage w c r'"
    "handover lib (look w) s k nn = Some c' \<Longrightarrow> does api look ?stage w c' Requeue" by simp_all
qed


lemma prune_stage:
  assumes "leaving lib cfg (look w) s" "look w KConfigMap (server_key s) = Some (OConfigMap cm)"
  shows "case prune_change cfg (look w) s of
      None \<Rightarrow> idle api (pruneConfiguration cfg cm s) w (Inr False)
    | Some c \<Rightarrow> does api look (pruneConfiguration cfg cm s) w c (Inr True)"
proof -
  obtain cc d t where cc: "getContainerConfig cm = Inr cc" "storable cc" "cm_Data cm = Some d" "m_DeletionTimestamp (cm_meta cm) = None"
    "m_DeletionTimestamp (sh_meta s) = Some t"
    using assms by (auto simp: leaving_def doc_ok_def readable_def handed_keys_def split: sum.splits)
  let ?pl = "prune_planner cfg s cc"
  have doc: "doc_at (look w) s = cc" using assms(2) cc(1) by (simp add: doc_at_def)
  obtain ch cc' where run: "Prune ?pl = Some (ch, cc')"
    using prune_steps_run [of cc ?pl False] cc(2) by (auto simp: Prune_steps prune_planner_def storable_def)
  have prog: "pruneConfiguration cfg cm s = (if \<not> ch then Ret (Inr False)
      else store_config cm cc' (\<lambda>err. Ret (Inl err)) (Ret (Inr True)))"
    using cc(1,5) run by (simp add: pruneConfiguration_def New_def eval_def prune_planner_def)
  show ?thesis
  proof (cases ch)
    case True
    obtain cm' where cm': "setContainerConfig cm cc' = Some cm'" "cm_meta cm' = cm_meta cm"
      using cc(3) by (simp add: setContainerConfig_def)
    have key: "key_of (OConfigMap cm') = server_key s" using filed [OF assms(2)] cm'(2) by (simp add: key_of_def)
    have "does api look (on_ok (api_write (CUpdate (OConfigMap cm'))) (\<lambda>err. Ret (Inl err)) (\<lambda>_. Ret (Inr True))) w
        (CUpdate (OConfigMap cm')) (Inr True)"
      using assms(2) cc(4) key by (intro does_update [where old = "OConfigMap cm"]) simp_all
    then show ?thesis using True assms(2) run cm'(1) doc prog by (simp add: prune_change_def store_config_def eval_def)
  qed (use assms(2) run doc prog in \<open>simp add: prune_change_def idle_Ret\<close>)
qed

lemma finalizeConfigMap_change:
  assumes "leaving lib cfg (look w) s"
  shows "case first_some [handover lib (look w) s KConfigMap (server_key s), prune_change cfg (look w) s] of
      None \<Rightarrow> idle api (finalizeConfigMap lib cfg s) w Done
    | Some c \<Rightarrow> does api look (finalizeConfigMap lib cfg s) w c Requeue"
proof (cases "look w KConfigMap (server_key s)")
  case None
  then have "idle api (getConfigMap cfg s (m_Namespace (sh_meta s))) w (Inl NotFoundError)"
    by (simp add: getConfigMap_def share_planner_def InstanceName_def server_key_def idle_def exec_get_as)
  note get = idle_andthen [OF this]
  show ?thesis using None by (auto simp: handover_def prune_change_def finalizeConfigMap_def IsNotFound_def intro!: get idle_Ret)
next
  case (Some x)
  then obtain cm where x: "x = OConfigMap cm" using stored_kind(2) by blast
  note stored = Some [unfolded x]
  have "idle api (getConfigMap cfg s (m_Namespace (sh_meta s))) w (Inr cm)"
    using stored by (simp add: getConfigMap_def share_planner_def InstanceName_def server_key_def idle_def exec_get_as typed_def)
  note get = idle_andthen [OF this] does_later [OF this]
  let ?rest = "unless_yield (transferOwnership lib (OConfigMap cm) s) id (changed_step (pruneConfiguration cfg cm s) (Ret Done))"
  have stage: "idle api ?rest w r \<Longrightarrow> idle api (finalizeConfigMap lib cfg s) w r"
    "does api look ?rest w c r \<Longrightarrow> does api look (finalizeConfigMap lib cfg s) w c r" for r c
    by (simp_all add: finalizeConfigMap_def get)
  have change: "case heir lib (look w) s (cm_meta cm) of
      None \<Rightarrow> idle api (transferOwnership lib (OConfigMap cm) s) w Done
    | Some ref \<Rightarrow> does api look (transferOwnership lib (OConfigMap cm) s) w
        (CUpdate (map_kmeta (\<lambda>m. changeControllerOwnerTo m ref) (OConfigMap cm))) Requeue"
    using transfer_change [of w "OConfigMap cm" s] stored assms filed [OF stored] by (simp add: leaving_def readable_def handed_keys_def)
  note prune = prune_stage [OF assms stored]
  show ?thesis
  proof (cases "heir lib (look w) s (cm_meta cm)")
    case None
    then have "idle api (transferOwnership lib (OConfigMap cm) s) w Done" using change by simp
    note go = idle_unless_yield [OF this] does_unless_yield(1) [OF this]
    have first: "first_some [handover lib (look w) s KConfigMap (server_key s), prune_change cfg (look w) s] = prune_change cfg (look w) s"
      using stored None by (cases "prune_change cfg (look w) s") (simp_all add: handover_def)
    show ?thesis
    proof (cases "prune_change cfg (look w) s")
      case None
      then have "idle api (pruneConfiguration cfg cm s) w (Inr False)" using prune by simp
      from idle_changed_step [OF this idle_Ret] show ?thesis unfolding first using None by (simp add: stage go)
    next
      case (Some c)
      then have "does api look (pruneConfiguration cfg cm s) w c (Inr True)" using prune by simp
      from does_changed_step(2) [OF this] show ?thesis unfolding first using Some by (simp add: stage go)
    qed
  next
    case (Some ref)
    then have "does api look (transferOwnership lib (OConfigMap cm) s) w
        (CUpdate (map_kmeta (\<lambda>m. changeControllerOwnerTo m ref) (OConfigMap cm))) Requeue" using change by simp
    from does_unless_yield(2) [where out = id, OF this] show ?thesis
      using Some stored by (auto simp: handover_def intro!: stage(2))
  qed
qed


lemma handover_stages:
  assumes "leaving lib cfg (look w) s"
  shows "case first_some [if is_clustered s then handover lib (look w) s KStatefulSet (server_key s) else handover lib (look w) s KDeployment (server_key s),
        if is_clustered s then handover lib (look w) s KPVC (state_key s) else None] of
      None \<Rightarrow> idle api (finalizeServerResources lib cfg s) w Done
    | Some c \<Rightarrow> does api look (finalizeServerResources lib cfg s) w c Requeue"
    and "case data_handover lib (look w) s of
      None \<Rightarrow> idle api (if shareNeedsPvc s then finalizeDataPVC lib s else Ret Done) w Done
    | Some c \<Rightarrow> does api look (if shareNeedsPvc s then finalizeDataPVC lib s else Ret Done) w c Requeue"
proof -
  have kinds: "\<forall>x. look w KStatefulSet nn = Some x \<longrightarrow> (\<exists>y. x = OStatefulSet y \<and> as_statefulset x = Some y)"
    "\<forall>x. look w KDeployment nn = Some x \<longrightarrow> (\<exists>y. x = ODeployment y \<and> as_deployment x = Some y)"
    "\<forall>x. look w KPVC nn = Some x \<longrightarrow> (\<exists>y. x = OPVC y \<and> as_pvc x = Some y)"
    for nn using stored_kind by (fastforce simp: as_simps)+
  note done_last = idle_Ret [OF refl, of api Done w]
  have prog: "finalizeServerResources lib cfg s =
      (if is_clustered s
       then transfer_existing lib s OStatefulSet (existing KStatefulSet as_statefulset (server_key s))
         (transfer_existing lib s OPVC (existing KPVC as_pvc (state_key s)) (Ret Done))
       else transfer_existing lib s ODeployment (existing KDeployment as_deployment (server_key s)) (Ret Done))"
    by (simp add: finalizeServerResources_def Let_def IsClustered_def is_clustered_def share_planner_def InstanceName_def
        getExistingStatefulSet_def getExistingPVC_def getExistingDeployment_def server_key_def state_key_def sharedStatePVCName_def)
  show "case first_some [if is_clustered s then handover lib (look w) s KStatefulSet (server_key s) else handover lib (look w) s KDeployment (server_key s),
        if is_clustered s then handover lib (look w) s KPVC (state_key s) else None] of
      None \<Rightarrow> idle api (finalizeServerResources lib cfg s) w Done
    | Some c \<Rightarrow> does api look (finalizeServerResources lib cfg s) w c Requeue"
  proof (cases "is_clustered s")
    case True
    then have read: "readable lib (look w) KStatefulSet (server_key s)" "readable lib (look w) KPVC (state_key s)"
      using assms by (simp_all add: leaving_def handed_keys_def)
    note sts = handover_stage [OF read(1) kinds(1), where s = s] and state = handover_stage [OF read(2) kinds(3), where s = s]
    show ?thesis
    proof (cases "handover lib (look w) s KStatefulSet (server_key s)")
      case None
      then show ?thesis unfolding prog using True sts(1,2) state(1,3) done_last
        by (cases "handover lib (look w) s KPVC (state_key s)") simp_all
    qed (use True sts(3) in \<open>simp add: prog\<close>)
  next
    case False
    then have read: "readable lib (look w) KDeployment (server_key s)" using assms by (simp add: leaving_def handed_keys_def)
    note dep = handover_stage [OF read kinds(2), where s = s]
    show ?thesis unfolding prog using False dep(1,3) done_last
      by (cases "handover lib (look w) s KDeployment (server_key s)") simp_all
  qed
  show "case data_handover lib (look w) s of
      None \<Rightarrow> idle api (if shareNeedsPvc s then finalizeDataPVC lib s else Ret Done) w Done
    | Some c \<Rightarrow> does api look (if shareNeedsPvc s then finalizeDataPVC lib s else Ret Done) w c Requeue"
  proof (cases "shareNeedsPvc s")
    case True
    then obtain n where n: "pvcName s = Some n" by (auto simp: shareNeedsPvc_def pvcName_def split: option.splits)
    have "readable lib (look w) KPVC (nsname (m_Namespace (sh_meta s)) n)" using assms True n by (simp add: leaving_def handed_keys_def)
    note data = handover_stage [OF this kinds(3), where s = s]
    show ?thesis using True n data(1,3) done_last
      by (cases "handover lib (look w) s KPVC (nsname (m_Namespace (sh_meta s)) n)")
        (simp_all add: data_handover_def finalizeDataPVC_def eval_def getExistingPVC_def)
  qed (simp add: data_handover_def idle_Ret)
qed

lemma exec_after: "idle api p w x \<Longrightarrow> exec api (andthen p f) w = exec api (f x) w"
  by (simp add: idle_def exec_simps split: prod.split)

lemma exec_unless_yield: "idle api p w Done \<Longrightarrow> exec api (unless_yield p out n) w = exec api n w"
  unfolding unless_yield_def by (simp add: exec_after)

lemma does_last:
  assumes "leaving lib cfg (look w) s"
  shows "\<exists>w'. exec api (on_ok (api_write (CUpdate (OShare (remove_finalizer lib s)))) e (\<lambda>_. Ret y)) w =
      ([CUpdate (OShare (remove_finalizer lib s))], Some y, w') \<and>
    look w' = (let fs = kl_RemoveFinalizer lib (m_Finalizers (sh_meta s)) shareFinalizer
      in if fs = [] then without (OShare s) (look w) else put (OShare (remove_finalizer lib s)) (look w))"
proof -
  let ?fs = "kl_RemoveFinalizer lib (m_Finalizers (sh_meta s)) shareFinalizer"
  have eq: "remove_finalizer lib s = with_finalizers ?fs s" by (simp add: remove_finalizer_def with_finalizers_def)
  have "look w KShare (nsname_of (sh_meta s)) = Some (OShare s)" "m_DeletionTimestamp (sh_meta s) \<noteq> None"
    using assms by (simp_all add: leaving_def)
  note last = dying [OF this remove_subset [of "m_Finalizers (sh_meta s)" shareFinalizer]]
  then show ?thesis
    by (cases "fst (api w (CUpdate (OShare (with_finalizers ?fs s))))") (auto simp: eq exec_simps Let_def)
qed

lemma idle_updateClusterType: "idle api (updateClusterType cfg) w (resolved cfg (look w))"
proof -
  have "idle api (IsOpenShiftCluster cfg) w (pod_on_openshift cfg (look w))"
    by (auto simp: IsOpenShiftCluster_def resolveClusterTypeByPod_def getPod_def pod_on_openshift_def idle_def exec_simps exec_get_as
        typed_def as_simps list_ex_iff ClusterTypeDefault_def ClusterTypeOpenShift_def split: option.splits kobj.splits)
  then show ?thesis
    by (auto simp: updateClusterType_def resolved_def intro!: idle_andthen idle_Ret)
qed

text \<open>One object of the list: it goes, or was gone and the pass looks at the next.\<close>

lemma finalize_one_change:
  assumes "\<forall>x. look w k nn = Some x \<longrightarrow> (\<exists>y. x = wrap y \<and> proj x = Some y)" "removable (look w) k nn"
    and "case first_some cs of None \<Rightarrow> idle api nxt w y | Some c \<Rightarrow> does api look nxt w c (out Requeue)"
  shows "case first_some (map_option CDelete (look w k nn) # cs) of
      None \<Rightarrow> idle api (finalize_one (get_as k proj nn) wrap out nxt) w y
    | Some c \<Rightarrow> does api look (finalize_one (get_as k proj nn) wrap out nxt) w c (out Requeue)"
proof (cases "look w k nn")
  case None
  then have "idle api (get_as k proj nn) w (Inl NotFoundError)" by (simp add: idle_def exec_get_as)
  note go = idle_andthen [OF this] does_later [OF this]
  show ?thesis using None assms(3) by (auto simp: finalize_one_def first_some_Cons go split: option.splits)
next
  case (Some x)
  then obtain y' where x: "x = wrap y'" "proj x = Some y'" using assms(1) by blast
  then have read: "idle api (get_as k proj nn) w (Inr y')" using Some by (simp add: idle_def exec_get_as typed_def)
  have "does api look (on_ok (api_write (CDelete x)) e (\<lambda>_. Ret (out Requeue))) w (CDelete x) (out Requeue)" for e
    using delete [of w x] Some filed [OF Some] assms(2) by (intro does_write) (auto simp: removable_def)
  then have "does api look (finalize_one (get_as k proj nn) wrap out nxt) w (CDelete x) (out Requeue)"
    unfolding finalize_one_def x(1) by (intro does_later [OF read]) simp
  then show ?thesis using Some by (simp add: first_some_Cons)
qed

lemma finalizeForOpenshift_change:
  assumes "leaving lib cfg (look w) s"
  shows "case first_some (removals cfg (look w) s) of
      None \<Rightarrow> idle api (finalizeForOpenshift cfg s) w (Done, resolved cfg (look w))
    | Some c \<Rightarrow> does api look (finalizeForOpenshift cfg s) w c (Requeue, resolved cfg (look w))"
proof -
  let ?cfg = "resolved cfg (look w)"
  note type = idle_andthen [OF idle_updateClusterType] does_later [OF idle_updateClusterType]
  have osh: "oc_ClusterType ?cfg = ClusterTypeOpenShift \<longleftrightarrow> on_openshift cfg (look w)"
    by (simp add: resolved_def on_openshift_def ClusterTypeOpenShift_def ClusterTypeDefault_def)
  show ?thesis
  proof (cases "on_openshift cfg (look w)")
    case True
    let ?out = "\<lambda>r. (r, ?cfg)"
    let ?all = "finalize_one (getMetricsRoleBindingOf s) ORoleBinding ?out
       (finalize_one (getMetricsRoleOf s) ORole ?out
       (finalize_one (getSCCRoleBindingOf s) ORoleBinding ?out
       (finalize_one (getSCCRoleOf s) ORole ?out
       (finalize_one (getServiceAccountOf s) OServiceAccount ?out
       (Ret (?out Done))))))"
    have kinds: "\<forall>x. look w KRoleBinding nn = Some x \<longrightarrow> (\<exists>y. x = ORoleBinding y \<and> as_rolebinding x = Some y)"
      "\<forall>x. look w KRole nn = Some x \<longrightarrow> (\<exists>y. x = ORole y \<and> as_role x = Some y)"
      "\<forall>x. look w KServiceAccount nn = Some x \<longrightarrow> (\<exists>y. x = OServiceAccount y \<and> as_serviceaccount x = Some y)" for nn
      using stored_access by (fastforce simp: as_simps)+
    have ok: "list_all (\<lambda>(k, nn). removable (look w) k nn) (access_keys s)" using assms True by (simp add: leaving_def)
    have "case first_some (removals cfg (look w) s) of
        None \<Rightarrow> idle api ?all w (?out Done) | Some c \<Rightarrow> does api look ?all w c (?out Requeue)"
      unfolding removals_def getMetricsRoleBindingOf_def getMetricsRoleOf_def getSCCRoleBindingOf_def getSCCRoleOf_def getServiceAccountOf_def
      using True ok kinds
      by (simp only: access_keys_def list.map prod.case if_True list.pred_inject)
        (intro finalize_one_change; simp add: idle_Ret)
    then show ?thesis
      using True by (auto simp: finalizeForOpenshift_def osh Let_def split: option.splits intro!: type)
  next
    case False
    then show ?thesis by (auto simp: removals_def finalizeForOpenshift_def osh intro!: type idle_Ret)
  qed
qed

lemma share_Finalize_change:
  assumes "leaving lib cfg (look w) s"
  shows "case first_some (releases lib cfg (look w) s) of
      Some c \<Rightarrow> \<exists>cfg'\<in>{cfg, resolved cfg (look w)}. does api look (share_Finalize lib cfg s) w c (Requeue, cfg')
    | None \<Rightarrow> exec api (share_Finalize lib cfg s) w =
        exec api (on_ok (api_write (CUpdate (OShare (remove_finalizer lib s))))
          (\<lambda>err. Ret (ErrResult err, resolved cfg (look w))) (\<lambda>_. Ret (Done, resolved cfg (look w)))) w"
proof -
  let ?a = "handover lib (look w) s KConfigMap (server_key s)" and ?b = "prune_change cfg (look w) s" and ?cfg = "resolved cfg (look w)"
  let ?c = "if is_clustered s then handover lib (look w) s KStatefulSet (server_key s) else handover lib (look w) s KDeployment (server_key s)"
  let ?d = "if is_clustered s then handover lib (look w) s KPVC (state_key s) else None" and ?e = "data_handover lib (look w) s"
  have rel: "first_some (releases lib cfg (look w) s) =
      (case first_some [?a, ?b] of None \<Rightarrow> (case first_some [?c, ?d] of
         None \<Rightarrow> (case first_some (removals cfg (look w) s) of None \<Rightarrow> ?e | Some c \<Rightarrow> Some c) | Some c \<Rightarrow> Some c) | Some c \<Rightarrow> Some c)"
    by (simp add: releases_def first_some_Cons first_some_append split: option.split)
  let ?data = "if shareNeedsPvc s then finalizeDataPVC lib s else Ret Done"
  define last where "last cfg = on_ok (api_write (CUpdate (OShare (remove_finalizer lib s)))) (\<lambda>err. Ret (ErrResult err, cfg)) (\<lambda>_. Ret (Done, cfg))"
    for cfg :: OperatorConfig
  define after where "after = (\<lambda>(r1, cfg). if Yield r1 then Ret (r1, cfg) else unless_yield ?data (\<lambda>r. (r, cfg)) (last cfg))"
  have prog: "share_Finalize lib cfg s = unless_yield (finalizeConfigMap lib cfg s) (\<lambda>r. (r, cfg))
      (unless_yield (finalizeServerResources lib cfg s) (\<lambda>r. (r, cfg)) (andthen (finalizeForOpenshift cfg s) after))"
    unfolding share_Finalize_def after_def last_def ..
  have after: "after (Done, ?cfg) = unless_yield ?data (\<lambda>r. (r, ?cfg)) (last ?cfg)" "after (Requeue, ?cfg) = Ret (Requeue, ?cfg)"
    by (simp_all add: after_def)
  note cm = finalizeConfigMap_change [OF assms] and res = handover_stages(1) [OF assms] and osh = finalizeForOpenshift_change [OF assms]
    and data = handover_stages(2) [OF assms]
  show ?thesis
  proof (cases "first_some [?a, ?b]")
    case (Some c)
    then have "does api look (finalizeConfigMap lib cfg s) w c Requeue" using cm by simp
    from does_unless_yield(2) [OF this, of "\<lambda>r. (r, cfg)"] show ?thesis unfolding rel Some by (simp add: prog)
  next
    case no_cm: None
    then have cm': "idle api (finalizeConfigMap lib cfg s) w Done" using cm by simp
    show ?thesis
    proof (cases "first_some [?c, ?d]")
      case (Some c)
      then have "does api look (finalizeServerResources lib cfg s) w c Requeue" using res by simp
      from does_unless_yield(1) [OF cm' does_unless_yield(2) [OF this, of "\<lambda>r. (r, cfg)"]]
      show ?thesis unfolding rel no_cm Some by (simp add: prog)
    next
      case no_res: None
      then have res': "idle api (finalizeServerResources lib cfg s) w Done" using res by simp
      note front = does_unless_yield(1) [OF cm' does_unless_yield(1) [OF res']]
      show ?thesis
      proof (cases "first_some (removals cfg (look w) s)")
        case (Some c)
        then have "does api look (finalizeForOpenshift cfg s) w c (Requeue, ?cfg)" using osh by simp
        from front [OF does_now [where f = after, OF this after(2)]] show ?thesis unfolding rel no_cm no_res Some by (simp add: prog)
      next
        case no_osh: None
        then have osh': "idle api (finalizeForOpenshift cfg s) w (Done, ?cfg)" using osh by simp
        show ?thesis
        proof (cases ?e)
          case (Some c)
          then have "does api look ?data w c Requeue" using data by simp
          from does_unless_yield(2) [OF this, of "\<lambda>r. (r, ?cfg)"]
          have "does api look (after (Done, ?cfg)) w c (Requeue, ?cfg)" by (simp add: after(1))
          from front [OF does_later [where f = after, OF osh' this]] show ?thesis unfolding rel no_cm no_res no_osh Some by (simp add: prog)
        next
          case None
          then have "idle api ?data w Done" using data by simp
          then show ?thesis unfolding rel no_cm no_res no_osh None
            by (simp add: prog exec_unless_yield [OF cm'] exec_unless_yield [OF res'] exec_after [OF osh'] after(1) exec_unless_yield last_def)
        qed
      qed
    qed
  qed
qed

lemma Reconcile_release:
  assumes "leaving lib cfg (look w) s" "nn = nsname_of (sh_meta s)"
  shows "case first_some (releases lib cfg (look w) s) of
      Some c \<Rightarrow> \<exists>cfg'\<in>{cfg, resolved cfg (look w)}. does api look (Reconcile lib cfg nn) w c (\<lparr>cr_Requeue = True\<rparr>, None, cfg')
    | None \<Rightarrow> \<exists>w'. exec api (Reconcile lib cfg nn) w =
          ([CUpdate (OShare (remove_finalizer lib s))], Some (\<lparr>cr_Requeue = False\<rparr>, None, resolved cfg (look w)), w') \<and>
        look w' = (let fs = kl_RemoveFinalizer lib (m_Finalizers (sh_meta s)) shareFinalizer
          in if fs = [] then without (OShare s) (look w) else put (OShare (remove_finalizer lib s)) (look w))"
proof -
  let ?cfg = "resolved cfg (look w)"
  have s: "look w KShare nn = Some (OShare s)" "m_DeletionTimestamp (sh_meta s) \<noteq> None"
    "kl_ContainsFinalizer lib (m_Finalizers (sh_meta s)) shareFinalizer"
    using assms by (simp_all add: leaving_def)
  have "idle api (getSmbShareByName nn) w (Inr s)"
    using s(1) by (simp add: getSmbShareByName_def idle_def exec_get_as typed_def)
  note read = exec_after [OF this] does_later [OF this]
  have proc: "exec api (Process lib cfg nn) w = exec api (share_Finalize lib cfg s) w"
    "does api look (share_Finalize lib cfg s) w c y \<Longrightarrow> does api look (Process lib cfg nn) w c y" for c y
    using s(2,3) by (auto simp: Process_def read)
  note fin = share_Finalize_change [OF assms(1)]
  show ?thesis
  proof (cases "first_some (releases lib cfg (look w) s)")
    case (Some c)
    then obtain cfg' where "cfg' \<in> {cfg, ?cfg}" "does api look (Process lib cfg nn) w c (Requeue, cfg')" using fin proc(2) by auto
    moreover from this(2) have "does api look (Reconcile lib cfg nn) w c (\<lparr>cr_Requeue = True\<rparr>, None, cfg')"
      unfolding Reconcile_def by (auto intro!: does_now simp: Requeue_def Let_def)
    ultimately show ?thesis using Some by auto
  next
    case None
    then show ?thesis
      using fin does_last [OF assms(1), of "\<lambda>err. Ret (ErrResult err, ?cfg)" "(Done, ?cfg)"] proc(1)
      unfolding Reconcile_def by (auto simp: exec_simps Done_def Let_def)
  qed
qed

end

end
