(* ===== verification/FinalizerLast.thy ===== *)
theory FinalizerLast
  imports Deletion PassProperties ShareProps
begin

text \<open>
  What has happened before a finalization removes the finalizer, whatever the API server
  answers: every object the share may have to hand over was read and needs no handing over,
  the configuration does not need pruning, and on OpenShift the service account, roles and
  bindings were looked for in vain.
\<close>

section \<open>What the answers show\<close>

text \<open>
  The answers in a trace show that an object needs no new controller: it has one among its
  other owners, or every other owner, up to one of the empty name, is gone or going.
\<close>

definition taken_care :: "kube_lib \<Rightarrow> SmbShare \<Rightarrow> (call \<times> resp) list \<Rightarrow> ObjectMeta \<Rightarrow> bool" where
  "taken_care lib s tr m = (case smbShareOwnerRefs lib m of
     Inl _ \<Rightarrow> False
   | Inr refs0 \<Rightarrow>
       (let refs = excludeOwnerRefs refs0 (m_Name (sh_meta s)) (m_UID (sh_meta s)) in
        list_ex is_controller refs \<or>
        list_all (\<lambda>ref. list_ex (\<lambda>(c, r). c = CGet KShare (nsname (m_Namespace m) (or_Name ref)) \<and> cannot_own r) tr)
          (takeWhile (\<lambda>ref. or_Name ref \<noteq> '''') refs)))"

text \<open>The object was read, and is not there or taken care of.\<close>

definition looked_after :: "kube_lib \<Rightarrow> SmbShare \<Rightarrow> (call \<times> resp) list \<Rightarrow> okind \<times> NamespacedName \<Rightarrow> bool" where
  "looked_after lib s tr key = list_ex (\<lambda>(c, r). c = CGet (fst key) (snd key) \<and>
     (case r of Inl e \<Rightarrow> IsNotFound e | Inr x \<Rightarrow> kind_of x = fst key \<and> taken_care lib s tr (kmeta x))) tr"

definition nothing_to_prune :: "OperatorConfig \<Rightarrow> SmbShare \<Rightarrow> resp \<Rightarrow> bool" where
  "nothing_to_prune cfg s r = (case r of
     Inl e \<Rightarrow> IsNotFound e
   | Inr (OConfigMap cm) \<Rightarrow> (case getContainerConfig cm of
       Inl _ \<Rightarrow> False
     | Inr cc \<Rightarrow> (case Prune (prune_planner cfg s cc) of Some (changed, _) \<Rightarrow> \<not> changed | None \<Rightarrow> False))
   | _ \<Rightarrow> False)"

text \<open>The read of one object of the list gave no object of its kind.\<close>

definition not_found :: "(call \<times> resp) list \<Rightarrow> okind \<times> NamespacedName \<Rightarrow> bool" where
  "not_found tr key = list_ex (\<lambda>(c, r). c = CGet (fst key) (snd key) \<and>
     (case r of Inl _ \<Rightarrow> True | Inr x \<Rightarrow> kind_of x \<noteq> fst key)) tr"

definition pod_answer :: "resp \<Rightarrow> bool" where
  "pod_answer r = (case r of
     Inr (OPod pod) \<Rightarrow> list_ex (\<lambda>(key, v). contains key ClusterTypeOpenShift) (entries (m_Annotations (pod_meta pod)))
   | _ \<Rightarrow> False)"

definition type_found :: "OperatorConfig \<Rightarrow> OperatorConfig \<Rightarrow> (call \<times> resp) list \<Rightarrow> bool" where
  "type_found cfg cfg' tr \<longleftrightarrow> (if oc_ClusterType cfg \<noteq> '''' then cfg' = cfg
     else list_ex (\<lambda>(c, r). c = CGet KPod (nsname (oc_PodNamespace cfg) (oc_PodName cfg)) \<and>
       cfg' = cfg\<lparr>oc_ClusterType := if pod_answer r then ClusterTypeOpenShift else ClusterTypeDefault\<rparr>) tr)"

lemma taken_care_mono: "taken_care lib s tr m \<Longrightarrow> set tr \<subseteq> set tr' \<Longrightarrow> taken_care lib s tr' m"
  unfolding taken_care_def Let_def
  by (cases "smbShareOwnerRefs lib m") (auto simp: list_all_iff list_ex_iff, blast)

lemma looked_after_mono: "looked_after lib s tr key \<Longrightarrow> set tr \<subseteq> set tr' \<Longrightarrow> looked_after lib s tr' key"
  unfolding looked_after_def list_ex_iff
  by (fastforce split: sum.splits intro: taken_care_mono)

lemma not_found_mono: "not_found tr key \<Longrightarrow> set tr \<subseteq> set tr' \<Longrightarrow> not_found tr' key"
  unfolding not_found_def list_ex_iff by blast

section \<open>The stages\<close>

lemma choose_owner_reads:
  assumes "replay (choose_owner ns refs) rs = (tr, Returned (Inr chosen))" "\<And>c. chosen = Some c \<Longrightarrow> or_Name c = ''''"
  shows "list_all (\<lambda>ref. list_ex (\<lambda>(c, r). c = CGet KShare (nsname ns (or_Name ref)) \<and> cannot_own r) tr)
    (takeWhile (\<lambda>ref. or_Name ref \<noteq> '''') refs)"
proof -
  have read: "list_ex (\<lambda>(c, r). c = CGet KShare (nsname ns (or_Name ref)) \<and> cannot_own r) tr'"
    if "map fst tr' = map (\<lambda>ref. CGet KShare (nsname ns (or_Name ref))) refs'" "list_all (\<lambda>e. cannot_own (snd e)) tr'" "ref \<in> set refs'"
    for tr' refs' and ref :: OwnerReference
  proof -
    have "CGet KShare (nsname ns (or_Name ref)) \<in> set (map fst tr')" using that(1,3) by simp
    then show ?thesis using that(2) by (auto simp: list_ex_iff list_all_iff)
  qed
  show ?thesis
  proof (cases chosen)
    case None
    then show ?thesis using choose_owner_first [OF assms(1)] read [of tr refs]
      by (auto simp: list_all_iff dest: set_takeWhileD)
  next
    case (Some c')
    then have empty: "or_Name c' = ''''" using assms(2) by simp
    obtain before after r where first: "refs = before @ c' # after"
      "map fst tr = map (\<lambda>ref. CGet KShare (nsname ns (or_Name ref))) (before @ [c'])" "list_all (\<lambda>e. cannot_own (snd e)) (butlast tr)"
      using choose_owner_first [OF assms(1)] Some by auto
    have "map fst (butlast tr) = map (\<lambda>ref. CGet KShare (nsname ns (or_Name ref))) before" using first(2) by (simp add: map_butlast)
    note dead = read [OF this first(3)]
    have "set (takeWhile (\<lambda>ref. or_Name ref \<noteq> '''') refs) \<subseteq> set before"
      using empty by (auto simp: first(1) takeWhile_append dest: set_takeWhileD split: if_splits)
    then show ?thesis using dead by (fastforce simp: list_all_iff list_ex_iff dest: in_set_butlastD)
  qed
qed

lemma transfer_done:
  assumes "replay (transferOwnership lib x s) rs = (tr, Returned res)" "\<not> Yield res"
  shows "taken_care lib s tr (kmeta x)"
proof -
  obtain refs0 where refs0: "smbShareOwnerRefs lib (kmeta x) = Inr refs0"
    using assms by (cases "smbShareOwnerRefs lib (kmeta x)") (auto simp: transferOwnership_def)
  define refs where "refs = excludeOwnerRefs refs0 (m_Name (sh_meta s)) (m_UID (sh_meta s))"
  show ?thesis
  proof (cases "refs = [] \<or> list_ex is_controller refs")
    case False
    then have "replay (on_ok (choose_owner (m_Namespace (kmeta x)) refs) (\<lambda>err. Ret (ErrResult err)) (\<lambda>chosen. case chosen of
        None \<Rightarrow> Ret Done
      | Some ref \<Rightarrow> if or_Name ref = '''' then Ret Done
          else on_ok (api_write (CUpdate (map_kmeta (\<lambda>m. changeControllerOwnerTo m ref) x))) (\<lambda>err. Ret (ErrResult err)) (\<lambda>_. Ret Requeue)))
        rs = (tr, Returned res)"
      using assms(1) refs0 by (simp add: transferOwnership_def Let_def refs_def list_ex_iff is_controller_def)
    then obtain r tr1 tr2 rs' where run: "replay (choose_owner (m_Namespace (kmeta x)) refs) rs = (tr1, Returned r)" "tr = tr1 @ tr2"
      "replay (case r of Inl err \<Rightarrow> Ret (ErrResult err) | Inr chosen \<Rightarrow> (case chosen of
          None \<Rightarrow> Ret Done
        | Some ref \<Rightarrow> if or_Name ref = '''' then Ret Done
            else on_ok (api_write (CUpdate (map_kmeta (\<lambda>m. changeControllerOwnerTo m ref) x))) (\<lambda>err. Ret (ErrResult err)) (\<lambda>_. Ret Requeue)))
        rs' = (tr2, Returned res)"
      unfolding on_ok_def [of "choose_owner _ _"] replay_andthen by (auto simp: Let_def split: prod.splits outcome.splits)
    obtain chosen where chosen: "r = Inr chosen" using run(3) assms(2) by (cases r) auto
    have "or_Name c = ''''" if "chosen = Some c" for c
    proof (rule ccontr)
      assume "or_Name c \<noteq> ''''"
      then have "replay (on_ok (api_write (CUpdate (map_kmeta (\<lambda>m. changeControllerOwnerTo m c) x))) (\<lambda>err. Ret (ErrResult err)) (\<lambda>_. Ret Requeue))
          rs' = (tr2, Returned res)" using run(3) chosen that by simp
      then have "Yield res" by (auto simp: on_ok_def api_write_def Let_def split: list.splits sum.splits)
      then show False using assms(2) by simp
    qed
    then have "list_all (\<lambda>ref. list_ex (\<lambda>(c, r). c = CGet KShare (nsname (m_Namespace (kmeta x)) (or_Name ref)) \<and> cannot_own r) tr1)
        (takeWhile (\<lambda>ref. or_Name ref \<noteq> '''') refs)"
      using choose_owner_reads [of "m_Namespace (kmeta x)" refs rs tr1 chosen] run(1) chosen by blast
    then have "taken_care lib s tr1 (kmeta x)" using refs0 by (simp add: taken_care_def refs_def Let_def)
    then show ?thesis using run(2) by (auto intro: taken_care_mono)
  qed (use refs0 in \<open>auto simp: taken_care_def refs_def\<close>)
qed

lemma replay_existing:
  assumes "replay (existing k proj nn) rs = (tr, Returned (Inr y))"
  shows "\<exists>r. tr = [(CGet k nn, r)] \<and>
    (case y of None \<Rightarrow> \<exists>e. r = Inl e \<and> IsNotFound e | Some z \<Rightarrow> \<exists>x. r = Inr x \<and> proj x = Some z)"
proof -
  obtain r rs' where "rs = r # rs'" using assms by (cases rs) (auto simp: existing_def get_as_def)
  then show ?thesis
    using assms by (cases r) (auto simp: existing_def get_as_def typed_def IsNotFound_def split: option.splits if_splits)
qed

lemma replay_unless_done:
  assumes "replay (unless_yield p out n) rs = (tr, Returned y)" "\<And>r. Yield r \<Longrightarrow> y \<noteq> out r"
  obtains tr1 r tr2 rs' where "replay p rs = (tr1, Returned r)" "\<not> Yield r" "tr = tr1 @ tr2" "replay n rs' = (tr2, Returned y)"
  using assms(1) by (rule replay_unless_yield) (use assms(2) that in blast)+

lemma replay_on_ok_done:
  assumes "replay (on_ok p (\<lambda>err. Ret (ErrResult err)) f) rs = (tr, Returned res)" "\<not> Yield res"
  obtains x tr1 tr2 rs' where "replay p rs = (tr1, Returned (Inr x))" "tr = tr1 @ tr2" "replay (f x) rs' = (tr2, Returned res)"
proof -
  obtain r tr1 tr2 rs' where r: "replay p rs = (tr1, Returned r)" "tr = tr1 @ tr2"
    "replay (case r of Inl err \<Rightarrow> Ret (ErrResult err) | Inr x \<Rightarrow> f x) rs' = (tr2, Returned res)"
    using assms(1) unfolding on_ok_def replay_andthen by (auto simp: Let_def split: prod.splits outcome.splits)
  then show thesis using assms(2) that by (cases r) auto
qed

lemma transfer_existing_done:
  assumes "replay (transfer_existing lib s wrap (existing k proj nn) n) rs = (tr, Returned res)" "\<not> Yield res"
    and "\<And>x y. proj x = Some y \<Longrightarrow> x = wrap y \<and> kind_of x = k"
  obtains tr1 tr2 rs' where "looked_after lib s tr1 (k, nn)" "tr = tr1 @ tr2" "replay n rs' = (tr2, Returned res)"
proof -
  obtain found tr1 tr2 rs1 where run: "replay (existing k proj nn) rs = (tr1, Returned (Inr found))" "tr = tr1 @ tr2"
    "replay (case found of None \<Rightarrow> n | Some x \<Rightarrow> unless_yield (transferOwnership lib (wrap x) s) id n) rs1 = (tr2, Returned res)"
    using assms(1,2) unfolding transfer_existing_def by (rule replay_on_ok_done)
  obtain r where r: "tr1 = [(CGet k nn, r)]"
    "case found of None \<Rightarrow> \<exists>e. r = Inl e \<and> IsNotFound e | Some z \<Rightarrow> \<exists>x. r = Inr x \<and> proj x = Some z"
    using replay_existing [OF run(1)] by blast
  show thesis
  proof (cases found)
    case None
    then have "looked_after lib s tr1 (k, nn)" using r by (auto simp: looked_after_def)
    then show thesis using that run(2,3) None by simp
  next
    case (Some z)
    then obtain x where x: "r = Inr x" "x = wrap z" "kind_of x = k" using r(2) assms(3) by auto
    from run(3) Some have "replay (unless_yield (transferOwnership lib (wrap z) s) id n) rs1 = (tr2, Returned res)" by simp
    then obtain tr3 res' tr4 rs2 where 2: "replay (transferOwnership lib (wrap z) s) rs1 = (tr3, Returned res')" "\<not> Yield res'"
      "tr2 = tr3 @ tr4" "replay n rs2 = (tr4, Returned res)"
      by (rule replay_unless_done) (use assms(2) in auto)
    have "taken_care lib s (tr1 @ tr3) (kmeta x)"
      using taken_care_mono [OF transfer_done [OF 2(1,2)], of "tr1 @ tr3"] x(2) by simp
    then have "looked_after lib s (tr1 @ tr3) (k, nn)" using r(1) x(1,3) by (simp add: looked_after_def)
    then show thesis using that [of "tr1 @ tr3" tr4 rs2] run(2) 2(3,4) by simp
  qed
qed

lemma replay_after:
  assumes "replay (andthen p f) rs = (tr, Returned y)"
  obtains x tr1 tr2 rs' where "replay p rs = (tr1, Returned x)" "tr = tr1 @ tr2" "replay (f x) rs' = (tr2, Returned y)"
  using assms unfolding replay_andthen by (auto simp: Let_def split: prod.splits outcome.splits)

lemma replay_get_as: "replay (andthen (get_as k proj nn) f) rs = (tr, Returned y) \<Longrightarrow>
  \<exists>r tr' rs'. tr = (CGet k nn, r) # tr' \<and> replay (f (typed proj r)) rs' = (tr', Returned y)"
  by (cases rs) (auto simp: get_as_def Let_def split: prod.splits)

lemma prune_done:
  assumes "replay (changed_step (pruneConfiguration cfg cm s) (Ret Done)) rs = (tr, Returned res)" "\<not> Yield res"
  shows "nothing_to_prune cfg s (Inr (OConfigMap cm))"
proof -
  obtain changed tr1 tr2 rs' where run: "replay (pruneConfiguration cfg cm s) rs = (tr1, Returned (Inr changed))"
    "replay (if changed then Ret Requeue else Ret Done) rs' = (tr2, Returned res)"
    using assms unfolding changed_step_def by (rule replay_on_ok_done)
  then have "\<not> changed" using assms(2) by (auto split: if_splits)
  then show ?thesis
    using run(1)
    by (auto simp: pruneConfiguration_def nothing_to_prune_def eval_def New_def prune_planner_def store_config_def on_ok_def api_write_def
        Let_def split: sum.splits option.splits if_splits list.splits prod.splits)
qed

lemma finalizeConfigMap_done:
  assumes "replay (finalizeConfigMap lib cfg s) rs = (tr, Returned res)" "\<not> Yield res"
  shows "looked_after lib s tr (KConfigMap, server_key s)"
    "list_ex (\<lambda>(c, r). c = CGet KConfigMap (server_key s) \<and> nothing_to_prune cfg s r) tr"
proof -
  have key: "getConfigMap cfg s (m_Namespace (sh_meta s)) = get_as KConfigMap as_configmap (server_key s)"
    by (simp add: getConfigMap_def share_planner_def InstanceName_def server_key_def)
  obtain r tr' rs' where run: "tr = (CGet KConfigMap (server_key s), r) # tr'"
    "replay (case typed as_configmap r of
       Inr cm \<Rightarrow> unless_yield (transferOwnership lib (OConfigMap cm) s) id (changed_step (pruneConfiguration cfg cm s) (Ret Done))
     | Inl err \<Rightarrow> if \<not> IsNotFound err then Ret (ErrResult err) else Ret Done) rs' = (tr', Returned res)"
    using replay_get_as [OF assms(1) [unfolded finalizeConfigMap_def key]] by blast
  have "looked_after lib s tr (KConfigMap, server_key s) \<and> list_ex (\<lambda>(c, r). c = CGet KConfigMap (server_key s) \<and> nothing_to_prune cfg s r) tr"
  proof (cases "typed as_configmap r")
    case (Inl err)
    then have "IsNotFound err" using run(2) assms(2) by (auto split: if_splits)
    then have "\<exists>e. r = Inl e \<and> IsNotFound e" using Inl by (auto simp: typed_def IsNotFound_def split: sum.splits option.splits)
    then show ?thesis using run(1) by (auto simp: looked_after_def nothing_to_prune_def)
  next
    case (Inr cm)
    then have r: "r = Inr (OConfigMap cm)" by (auto simp: typed_def as_simps split: sum.splits option.splits)
    from run(2) Inr have "replay (unless_yield (transferOwnership lib (OConfigMap cm) s) id (changed_step (pruneConfiguration cfg cm s) (Ret Done)))
        rs' = (tr', Returned res)" by simp
    then obtain tr1 res' tr2 rs2 where 2: "replay (transferOwnership lib (OConfigMap cm) s) rs' = (tr1, Returned res')" "\<not> Yield res'"
      "tr' = tr1 @ tr2" "replay (changed_step (pruneConfiguration cfg cm s) (Ret Done)) rs2 = (tr2, Returned res)"
      by (rule replay_unless_done) (use assms(2) in auto)
    have "taken_care lib s tr (cm_meta cm)"
      using taken_care_mono [OF transfer_done [OF 2(1,2)], of tr] run(1) 2(3) by auto
    then show ?thesis using run(1) r prune_done [OF 2(4) assms(2)] by (simp add: looked_after_def)
  qed
  then show "looked_after lib s tr (KConfigMap, server_key s)"
    "list_ex (\<lambda>(c, r). c = CGet KConfigMap (server_key s) \<and> nothing_to_prune cfg s r) tr" by simp_all
qed

lemma projections:
  "as_statefulset x = Some y1 \<Longrightarrow> x = OStatefulSet y1 \<and> kind_of x = KStatefulSet"
  "as_deployment x = Some y2 \<Longrightarrow> x = ODeployment y2 \<and> kind_of x = KDeployment"
  "as_pvc x = Some y3 \<Longrightarrow> x = OPVC y3 \<and> kind_of x = KPVC"
  by (cases x; simp add: as_simps)+

definition server_keys :: "SmbShare \<Rightarrow> (okind \<times> NamespacedName) list" where
  "server_keys s = (if is_clustered s then [(KStatefulSet, server_key s), (KPVC, state_key s)] else [(KDeployment, server_key s)])"

definition data_keys :: "SmbShare \<Rightarrow> (okind \<times> NamespacedName) list" where
  "data_keys s = (if shareNeedsPvc s
     then (case pvcName s of None \<Rightarrow> [] | Some n \<Rightarrow> [(KPVC, nsname (m_Namespace (sh_meta s)) n)]) else [])"

lemma handed_keys_split: "handed_keys s = (KConfigMap, server_key s) # server_keys s @ data_keys s"
  by (simp add: handed_keys_def server_keys_def data_keys_def)

lemma finalizeServerResources_done:
  assumes "replay (finalizeServerResources lib cfg s) rs = (tr, Returned res)" "\<not> Yield res"
  shows "list_all (looked_after lib s tr) (server_keys s)"
proof -
  have prog: "finalizeServerResources lib cfg s =
      (if is_clustered s
       then transfer_existing lib s OStatefulSet (existing KStatefulSet as_statefulset (server_key s))
         (transfer_existing lib s OPVC (existing KPVC as_pvc (state_key s)) (Ret Done))
       else transfer_existing lib s ODeployment (existing KDeployment as_deployment (server_key s)) (Ret Done))"
    by (simp add: finalizeServerResources_def Let_def IsClustered_def is_clustered_def share_planner_def InstanceName_def
        getExistingStatefulSet_def getExistingPVC_def getExistingDeployment_def server_key_def state_key_def sharedStatePVCName_def)
  show ?thesis
  proof (cases "is_clustered s")
    case True
    then have "replay (transfer_existing lib s OStatefulSet (existing KStatefulSet as_statefulset (server_key s))
         (transfer_existing lib s OPVC (existing KPVC as_pvc (state_key s)) (Ret Done))) rs = (tr, Returned res)"
      using assms(1) by (simp add: prog)
    then obtain tr1 tr2 rs' where 1: "looked_after lib s tr1 (KStatefulSet, server_key s)" "tr = tr1 @ tr2"
      "replay (transfer_existing lib s OPVC (existing KPVC as_pvc (state_key s)) (Ret Done)) rs' = (tr2, Returned res)"
      using assms(2) projections(1) by (rule transfer_existing_done)
    from 1(3) obtain tr3 tr4 rs'' where 2: "looked_after lib s tr3 (KPVC, state_key s)" "tr2 = tr3 @ tr4"
      using assms(2) projections(3) by (rule transfer_existing_done)
    show ?thesis using True 1(2) 2(2) looked_after_mono [OF 1(1), of tr] looked_after_mono [OF 2(1), of tr] by (auto simp: server_keys_def)
  next
    case False
    then have "replay (transfer_existing lib s ODeployment (existing KDeployment as_deployment (server_key s)) (Ret Done)) rs = (tr, Returned res)"
      using assms(1) by (simp add: prog)
    then obtain tr1 tr2 rs' where 1: "looked_after lib s tr1 (KDeployment, server_key s)" "tr = tr1 @ tr2"
      using assms(2) projections(2) by (rule transfer_existing_done)
    show ?thesis using False 1(2) looked_after_mono [OF 1(1), of tr] by (simp add: server_keys_def)
  qed
qed

lemma finalizeDataPVC_done:
  assumes "replay (if shareNeedsPvc s then finalizeDataPVC lib s else Ret Done) rs = (tr, Returned res)" "\<not> Yield res"
  shows "list_all (looked_after lib s tr) (data_keys s)"
proof (cases "shareNeedsPvc s")
  case True
  then obtain n where n: "pvcName s = Some n" by (auto simp: shareNeedsPvc_def pvcName_def split: option.splits)
  then have "replay (transfer_existing lib s OPVC (existing KPVC as_pvc (nsname (m_Namespace (sh_meta s)) n)) (Ret Done)) rs = (tr, Returned res)"
    using assms(1) True by (simp add: finalizeDataPVC_def eval_def getExistingPVC_def)
  then obtain tr1 tr2 rs' where 1: "looked_after lib s tr1 (KPVC, nsname (m_Namespace (sh_meta s)) n)" "tr = tr1 @ tr2"
    using assms(2) projections(3) by (rule transfer_existing_done)
  show ?thesis using True n 1(2) looked_after_mono [OF 1(1), of tr] by (simp add: data_keys_def)
qed (simp add: data_keys_def)

section \<open>OpenShift\<close>

lemma finalize_one_done:
  assumes "replay (finalize_one (get_as k proj nn) wrap out n) rs = (tr, Returned y)" "\<And>r. Yield r \<Longrightarrow> y \<noteq> out r"
    and "\<And>x. kind_of x = k \<Longrightarrow> proj x \<noteq> None"
  obtains r tr' rs' where "tr = (CGet k nn, r) # tr'" "not_found tr (k, nn)" "replay n rs' = (tr', Returned y)"
proof -
  obtain r tr' rs' where run: "tr = (CGet k nn, r) # tr'"
    "replay (case typed proj r of Inr x \<Rightarrow> on_ok (api_write (CDelete (wrap x))) (\<lambda>err. Ret (out (ErrResult err))) (\<lambda>_. Ret (out Requeue))
      | Inl err \<Rightarrow> n) rs' = (tr', Returned y)"
    using replay_get_as [OF assms(1) [unfolded finalize_one_def]] by blast
  have "isl (typed proj r)"
  proof (rule ccontr)
    assume "\<not> isl (typed proj r)"
    then obtain x where "typed proj r = Inr x" by (cases "typed proj r") auto
    then have "\<exists>res. Yield res \<and> y = out res" using run(2)
      by (auto simp: on_ok_def api_write_def Let_def split: list.splits sum.splits) (metis Yield_simps(2,3))+
    then show False using assms(2) by blast
  qed
  then obtain e where e: "typed proj r = Inl e" by (cases "typed proj r") auto
  then have "kind_of x \<noteq> k" if "r = Inr x" for x using that assms(3) [of x] by (auto simp: typed_def split: option.splits)
  then have "not_found tr (k, nn)" using run(1) by (simp add: not_found_def split: sum.split)
  then show thesis using that run e by simp
qed

lemma access_projections:
  "kind_of x = KRole \<Longrightarrow> as_role x \<noteq> None" "kind_of x = KRoleBinding \<Longrightarrow> as_rolebinding x \<noteq> None"
  "kind_of x = KServiceAccount \<Longrightarrow> as_serviceaccount x \<noteq> None"
  by (cases x; simp add: as_simps)+

lemma replay_IsOpenShiftCluster:
  assumes "replay (IsOpenShiftCluster cfg) rs = (tr, Returned b)"
  shows "\<exists>r. tr = [(CGet KPod (nsname (oc_PodNamespace cfg) (oc_PodName cfg)), r)] \<and> b = pod_answer r"
proof -
  obtain r rs' where rs: "rs = r # rs'"
    using assms by (cases rs) (simp_all add: IsOpenShiftCluster_def resolveClusterTypeByPod_def getPod_def get_as_def on_ok_def)
  have "b = pod_answer r \<and> tr = [(CGet KPod (nsname (oc_PodNamespace cfg) (oc_PodName cfg)), r)]"
  proof (cases "typed as_pod r")
    case (Inl e)
    moreover from this have "\<not> pod_answer r" by (auto simp: typed_def pod_answer_def as_simps split: sum.splits option.splits kobj.splits)
    ultimately show ?thesis using assms rs
      by (simp add: IsOpenShiftCluster_def resolveClusterTypeByPod_def getPod_def get_as_def on_ok_def)
  next
    case (Inr pod)
    moreover from this have "r = Inr (OPod pod)" by (auto simp: typed_def as_simps split: sum.splits option.splits)
    ultimately show ?thesis using assms rs
      by (auto simp: IsOpenShiftCluster_def resolveClusterTypeByPod_def getPod_def get_as_def on_ok_def pod_answer_def list_ex_iff
          ClusterTypeOpenShift_def ClusterTypeDefault_def split: if_splits)
  qed
  then show ?thesis by blast
qed

lemma updateClusterType_found:
  assumes "replay (updateClusterType cfg) rs = (tr, Returned cfg')"
  shows "type_found cfg cfg' tr"
proof (cases "oc_ClusterType cfg = ''''")
  case True
  then have "replay (andthen (IsOpenShiftCluster cfg) (\<lambda>b. Ret (cfg\<lparr>oc_ClusterType := if b then ClusterTypeOpenShift else ClusterTypeDefault\<rparr>))) rs
      = (tr, Returned cfg')" using assms by (simp add: updateClusterType_def)
  then obtain b tr1 tr2 rs' where "replay (IsOpenShiftCluster cfg) rs = (tr1, Returned b)" "tr = tr1 @ tr2"
    "replay (Ret (cfg\<lparr>oc_ClusterType := if b then ClusterTypeOpenShift else ClusterTypeDefault\<rparr>)) rs' = (tr2, Returned cfg')"
    by (rule replay_after)
  then show ?thesis using True replay_IsOpenShiftCluster [of cfg rs tr1 b] by (auto simp: type_found_def)
qed (use assms in \<open>simp add: updateClusterType_def type_found_def\<close>)

lemma finalize_one_step:
  assumes "replay (finalize_one (get_as k proj nn) wrap (\<lambda>r. (r, c)) n) rs = (tr, Returned (res, cfg'))" "\<not> Yield res"
    and "\<And>x. kind_of x = k \<Longrightarrow> proj x \<noteq> None"
  shows "\<exists>r tr' rs'. tr = (CGet k nn, r) # tr' \<and> not_found tr (k, nn) \<and> replay n rs' = (tr', Returned (res, cfg'))"
  by (rule finalize_one_done [OF assms(1)]) (use assms(2,3) in blast)+

lemma finalizeForOpenshift_done:
  assumes "replay (finalizeForOpenshift cfg s) rs = (tr, Returned (res, cfg'))" "\<not> Yield res"
  shows "type_found cfg cfg' tr \<and> (oc_ClusterType cfg' = ClusterTypeOpenShift \<longrightarrow> list_all (not_found tr) (access_keys s))"
proof -
  obtain c tr1 tr2 rs' where run: "replay (updateClusterType cfg) rs = (tr1, Returned c)" "tr = tr1 @ tr2"
    "replay (if oc_ClusterType c \<noteq> ClusterTypeOpenShift then Ret (Done, c)
       else finalize_one (getMetricsRoleBindingOf s) ORoleBinding (\<lambda>r. (r, c))
       (finalize_one (getMetricsRoleOf s) ORole (\<lambda>r. (r, c))
       (finalize_one (getSCCRoleBindingOf s) ORoleBinding (\<lambda>r. (r, c))
       (finalize_one (getSCCRoleOf s) ORole (\<lambda>r. (r, c))
       (finalize_one (getServiceAccountOf s) OServiceAccount (\<lambda>r. (r, c)) (Ret (Done, c))))))) rs' = (tr2, Returned (res, cfg'))"
    using assms(1) unfolding finalizeForOpenshift_def Let_def by (rule replay_after)
  have type: "type_found cfg c tr"
    using updateClusterType_found [OF run(1)] run(2) by (auto simp: type_found_def split: if_splits)
  have no: "(res, cfg') \<noteq> (r, c)" if "Yield r" for r using that assms(2) by auto
  show ?thesis
  proof (cases "oc_ClusterType c = ClusterTypeOpenShift")
    case True
    note getters = getMetricsRoleBindingOf_def getMetricsRoleOf_def getSCCRoleBindingOf_def getSCCRoleOf_def getServiceAccountOf_def
    note step = finalize_one_step [OF _ assms(2)]
    have "replay (finalize_one (getMetricsRoleBindingOf s) ORoleBinding (\<lambda>r. (r, c))
       (finalize_one (getMetricsRoleOf s) ORole (\<lambda>r. (r, c))
       (finalize_one (getSCCRoleBindingOf s) ORoleBinding (\<lambda>r. (r, c))
       (finalize_one (getSCCRoleOf s) ORole (\<lambda>r. (r, c))
       (finalize_one (getServiceAccountOf s) OServiceAccount (\<lambda>r. (r, c)) (Ret (Done, c))))))) rs' = (tr2, Returned (res, cfg'))"
      using run(3) True by simp
    from step [OF this [unfolded getters] access_projections(2)]
    obtain r1 t1 rs1 where 1: "tr2 = (CGet KRoleBinding (metricsRoleBindingNsnameOf s), r1) # t1"
      "not_found tr2 (KRoleBinding, metricsRoleBindingNsnameOf s)"
      "replay (finalize_one (get_as KRole as_role (metricsRoleNsnameOf s)) ORole (\<lambda>r. (r, c))
       (finalize_one (get_as KRoleBinding as_rolebinding (sccRoleBindingNsnameOf s)) ORoleBinding (\<lambda>r. (r, c))
       (finalize_one (get_as KRole as_role (sccRoleNsnameOf s)) ORole (\<lambda>r. (r, c))
       (finalize_one (get_as KServiceAccount as_serviceaccount (serviceAccountNsname s)) OServiceAccount (\<lambda>r. (r, c)) (Ret (Done, c))))))
       rs1 = (t1, Returned (res, cfg'))" by blast
    from step [OF 1(3) access_projections(1)] obtain r2 t2 rs2 where 2: "t1 = (CGet KRole (metricsRoleNsnameOf s), r2) # t2"
      "not_found t1 (KRole, metricsRoleNsnameOf s)"
      "replay (finalize_one (get_as KRoleBinding as_rolebinding (sccRoleBindingNsnameOf s)) ORoleBinding (\<lambda>r. (r, c))
       (finalize_one (get_as KRole as_role (sccRoleNsnameOf s)) ORole (\<lambda>r. (r, c))
       (finalize_one (get_as KServiceAccount as_serviceaccount (serviceAccountNsname s)) OServiceAccount (\<lambda>r. (r, c)) (Ret (Done, c)))))
       rs2 = (t2, Returned (res, cfg'))" by blast
    from step [OF 2(3) access_projections(2)] obtain r3 t3 rs3 where 3: "t2 = (CGet KRoleBinding (sccRoleBindingNsnameOf s), r3) # t3"
      "not_found t2 (KRoleBinding, sccRoleBindingNsnameOf s)"
      "replay (finalize_one (get_as KRole as_role (sccRoleNsnameOf s)) ORole (\<lambda>r. (r, c))
       (finalize_one (get_as KServiceAccount as_serviceaccount (serviceAccountNsname s)) OServiceAccount (\<lambda>r. (r, c)) (Ret (Done, c))))
       rs3 = (t3, Returned (res, cfg'))" by blast
    from step [OF 3(3) access_projections(1)] obtain r4 t4 rs4 where 4: "t3 = (CGet KRole (sccRoleNsnameOf s), r4) # t4"
      "not_found t3 (KRole, sccRoleNsnameOf s)"
      "replay (finalize_one (get_as KServiceAccount as_serviceaccount (serviceAccountNsname s)) OServiceAccount (\<lambda>r. (r, c)) (Ret (Done, c)))
       rs4 = (t4, Returned (res, cfg'))" by blast
    from step [OF 4(3) access_projections(3)] obtain r5 t5 rs5 where 5: "t4 = (CGet KServiceAccount (serviceAccountNsname s), r5) # t5"
      "not_found t4 (KServiceAccount, serviceAccountNsname s)" "replay (Ret (Done, c)) rs5 = (t5, Returned (res, cfg'))" by blast
    have "set t4 \<subseteq> set tr" "set t3 \<subseteq> set tr" "set t2 \<subseteq> set tr" "set t1 \<subseteq> set tr" "set tr2 \<subseteq> set tr"
      using run(2) 1(1) 2(1) 3(1) 4(1) by auto
    then have "list_all (not_found tr) (access_keys s)"
      using not_found_mono [OF 1(2)] not_found_mono [OF 2(2)] not_found_mono [OF 3(2)] not_found_mono [OF 4(2)] not_found_mono [OF 5(2)]
      by (simp add: access_keys_def)
    then show ?thesis using type 5(3) by simp
  qed (use run(3) type in simp)
qed

section \<open>The property\<close>

lemma last_write:
  assumes "replay (on_ok (api_write (CUpdate x)) (\<lambda>err. Ret (ErrResult err, c)) (\<lambda>_. Ret (Done, c))) rs = (tr, Returned (Done, cfg'))"
  shows "c = cfg' \<and> (\<exists>r. tr = [(CUpdate x, Inr r)])"
proof -
  have "Done \<noteq> ErrResult err" for err by (simp add: Done_def ErrResult_def)
  then show ?thesis using assms by (auto simp: on_ok_def api_write_def Let_def split: list.splits sum.splits)
qed

text \<open>
  C12. The finalizer goes last, whatever the API server answers: a finalization that reports
  that it is done has written the share without its finalizer in its very last call, after no
  other successful write, and its reads before that show that nothing was left to do. The
  config map, the workload and the claims that the share may have to hand over were each read
  and are missing, or have a controller among their other owners, or have no other owner that
  stays: each of these, up to one of the empty name, was read and is gone or being deleted.
  The config map is missing or \<open>Prune\<close> finds nothing of the share in its document. And when the
  cluster type, which is the configured one or follows from the read of the operator's pod, is
  OpenShift, then the reads of the service account, the two roles and the two bindings gave no
  such object; as in the code, an error of such a read counts like a missing object.
\<close>

theorem finalizer_removed_last:
  assumes "kube_laws lib" "replay (share_Finalize lib cfg s) rs = (tr, Returned (Done, cfg'))"
  shows "\<exists>tr0 r. tr = tr0 @ [(CUpdate (OShare (remove_finalizer lib s)), Inr r)] \<and>
    list_all (\<lambda>e. \<not> ok_write e) tr0 \<and>
    \<not> kl_ContainsFinalizer lib (m_Finalizers (sh_meta (remove_finalizer lib s))) shareFinalizer \<and>
    list_all (looked_after lib s tr0) (handed_keys s) \<and>
    list_ex (\<lambda>(c, r). c = CGet KConfigMap (server_key s) \<and> nothing_to_prune cfg s r) tr0 \<and>
    type_found cfg cfg' tr0 \<and> (oc_ClusterType cfg' = ClusterTypeOpenShift \<longrightarrow> list_all (not_found tr0) (access_keys s))"
proof -
  define last_steps where "last_steps c = unless_yield (if shareNeedsPvc s then finalizeDataPVC lib s else Ret Done)
    (\<lambda>r. (r, c)) (on_ok (api_write (CUpdate (OShare (remove_finalizer lib s))))
      (\<lambda>err. Ret (ErrResult err, c)) (\<lambda>_. Ret (Done, c)))" for c :: OperatorConfig
  define openshift where "openshift = andthen (finalizeForOpenshift cfg s)
    (\<lambda>(r1, c). if Yield r1 then Ret (r1, c) else last_steps c)"
  have no_yield: "(Done, cfg') \<noteq> (r, c)" if "Yield r" for r c using that by auto
  from assms(2) obtain tr1 r1 tr' rs1 where 1: "replay (finalizeConfigMap lib cfg s) rs = (tr1, Returned r1)" "\<not> Yield r1" "tr = tr1 @ tr'"
    "replay (unless_yield (finalizeServerResources lib cfg s) (\<lambda>r. (r, cfg)) openshift) rs1 = (tr', Returned (Done, cfg'))"
    unfolding share_Finalize_def last_steps_def openshift_def by (rule replay_unless_done) (use no_yield in blast)+
  from 1(4) obtain tr2 r2 tr'' rs2 where 2: "replay (finalizeServerResources lib cfg s) rs1 = (tr2, Returned r2)" "\<not> Yield r2" "tr' = tr2 @ tr''"
    "replay openshift rs2 = (tr'', Returned (Done, cfg'))" by (rule replay_unless_done) (use no_yield in blast)+
  from 2(4) obtain res tr3 tr4 rs3 where 3: "replay (finalizeForOpenshift cfg s) rs2 = (tr3, Returned res)" "tr'' = tr3 @ tr4"
    "replay (case res of (r1, c) \<Rightarrow> if Yield r1 then Ret (r1, c) else last_steps c) rs3 = (tr4, Returned (Done, cfg'))"
    unfolding openshift_def by (rule replay_after)
  obtain r3 c where res: "res = (r3, c)" by force
  have r3: "\<not> Yield r3" using 3(3) res by (auto split: if_splits)
  then have "replay (last_steps c) rs3 = (tr4, Returned (Done, cfg'))" using 3(3) res by simp
  then obtain tr5 r5 tr6 rs5 where 4: "replay (if shareNeedsPvc s then finalizeDataPVC lib s else Ret Done) rs3 = (tr5, Returned r5)" "\<not> Yield r5"
    "tr4 = tr5 @ tr6" "replay (on_ok (api_write (CUpdate (OShare (remove_finalizer lib s)))) (\<lambda>err. Ret (ErrResult err, c)) (\<lambda>_. Ret (Done, c)))
       rs5 = (tr6, Returned (Done, cfg'))" unfolding last_steps_def by (rule replay_unless_done) (use no_yield in blast)+
  obtain r where last: "c = cfg'" "tr6 = [(CUpdate (OShare (remove_finalizer lib s)), Inr r)]" using last_write [OF 4(4)] by blast
  have data: "stage Yield (if shareNeedsPvc s then finalizeDataPVC lib s else Ret Done)" by (simp add: stage_finalizers stage_Ret)
  have quiet: "quiet tr1" "quiet tr2" "quiet tr3" "quiet tr5"
    using stage.still [OF stage_finalizeConfigMap 1(1)] stage.still [OF stage_finalizers(1) 2(1)]
      stage.still [OF stage_finalizeForOpenshift 3(1)] stage.still [OF data 4(1)] 1(2) 2(2) 4(2) res r3 by simp_all
  let ?tr0 = "tr1 @ tr2 @ tr3 @ tr5"
  have "tr = ?tr0 @ [(CUpdate (OShare (remove_finalizer lib s)), Inr r)]" using 1(3) 2(3) 3(2) 4(3) last(2) by simp
  moreover have "list_all (\<lambda>e. \<not> ok_write e) ?tr0" using quiet by (simp add: quiet_def list_all_iff ball_Un)
  moreover have "\<not> kl_ContainsFinalizer lib (m_Finalizers (sh_meta (remove_finalizer lib s))) shareFinalizer"
    using kube_laws.contains_remove [OF assms(1)] by (simp add: remove_finalizer_def)
  moreover have "list_all (looked_after lib s ?tr0) (handed_keys s)"
    using finalizeConfigMap_done(1) [OF 1(1,2)] finalizeServerResources_done [OF 2(1,2)] finalizeDataPVC_done [OF 4(1,2)]
    by (auto simp: handed_keys_split list_all_iff elim!: looked_after_mono)
  moreover have "list_ex (\<lambda>(c, r). c = CGet KConfigMap (server_key s) \<and> nothing_to_prune cfg s r) ?tr0"
    using finalizeConfigMap_done(2) [OF 1(1,2)] by (simp add: list_ex_append)
  moreover have "type_found cfg cfg' ?tr0 \<and> (oc_ClusterType cfg' = ClusterTypeOpenShift \<longrightarrow> list_all (not_found ?tr0) (access_keys s))"
    using finalizeForOpenshift_done [OF 3(1) [unfolded res] r3] last(1)
    by (auto simp: type_found_def list_all_iff elim!: not_found_mono split: if_splits)
  ultimately show ?thesis by blast
qed

lemma finalizer_removed_last_witness:
  "(\<exists>r. last (fst demo_finalization) = (CUpdate (OShare (remove_finalizer std_lib demo_gone)), Inr r)) \<and>
   list_all (looked_after std_lib demo_gone (butlast (fst demo_finalization))) (handed_keys demo_gone)"
proof -
  obtain cfg' where "snd demo_finalization = Returned (Done, cfg')"
    using demo_finalization_done by (auto split: outcome.splits)
  then have "replay (share_Finalize std_lib DefaultOperatorConfig demo_gone)
     [Inl NotFoundError, Inl NotFoundError, Inl NotFoundError, Inr (OShare demo_gone)] = (fst demo_finalization, Returned (Done, cfg'))"
    by (simp add: demo_finalization_def prod_eq_iff)
  from finalizer_removed_last [OF std.kube_laws_axioms this] show ?thesis by auto
qed

end
