(* ===== verification/Released.thy ===== *)
theory Released
  imports Deletion SettledProps PassProperties
begin

text \<open>
  Every change of a finalization leaves one thing less to do, so a deletion comes to its end:
  nothing is left to hand over, the configuration does not mention the share, and the
  finalizer is gone.
\<close>

section \<open>What a change leaves\<close>

definition pending :: "kube_lib \<Rightarrow> OperatorConfig \<Rightarrow> store \<Rightarrow> SmbShare \<Rightarrow> nat" where
  "pending lib cfg st s = length (filter (\<lambda>(k, nn). handover lib st s k nn \<noteq> None) (handed_keys s)) +
     of_bool (prune_change cfg st s \<noteq> None) +
     (if on_openshift cfg st then length (filter (\<lambda>(k, nn). st k nn \<noteq> None) (access_keys s)) else 0)"

lemma pending_bound: "pending lib cfg st s \<le> (if on_openshift cfg st then 10 else 5)"
proof -
  have "length (handed_keys s) \<le> 4" by (simp add: handed_keys_def split: option.split)
  then have hand: "length (filter (\<lambda>(k, nn). handover lib st s k nn \<noteq> None) (handed_keys s)) \<le> 4"
    by (rule order_trans [OF length_filter_le])
  have "length (filter (\<lambda>(k, nn). st k nn \<noteq> None) (access_keys s)) \<le> length (access_keys s)" by (rule length_filter_le)
  then have gone: "length (filter (\<lambda>(k, nn). st k nn \<noteq> None) (access_keys s)) \<le> 5" by (simp add: access_keys_def)
  have sum: "a \<le> 4 \<Longrightarrow> b \<le> 1 \<Longrightarrow> c \<le> 5 \<Longrightarrow> a + b + (if p then c else 0) \<le> (if p then 10 else 5)" for a b c :: nat and p
    by simp
  show ?thesis unfolding pending_def by (rule sum [OF hand _ gone]) simp
qed

text \<open>The changes before the last leave the shares and the operator's pod alone.\<close>

definition same_shares :: "store \<Rightarrow> store \<Rightarrow> bool" where
  "same_shares st st' \<longleftrightarrow> st' KPod = st KPod \<and> st' KShare = st KShare"

text \<open>Caching the cluster type changes nothing, as long as the operator's pod stays as it is.\<close>

lemma on_openshift_pod: "st' KPod = st KPod \<Longrightarrow> on_openshift cfg st' = on_openshift cfg st"
  by (simp add: on_openshift_def pod_on_openshift_def)

lemma on_openshift_cached:
  "st' KPod = st KPod \<Longrightarrow> cfg' \<in> {cfg, resolved cfg st} \<Longrightarrow> on_openshift cfg' st' = on_openshift cfg st'"
  by (auto simp: resolved_type) (auto simp: on_openshift_def pod_on_openshift_def)

lemma leaving_cached:
  assumes "st' KPod = st KPod" "cfg' \<in> {cfg, resolved cfg st}"
  shows "leaving lib cfg' st' s = leaving lib cfg st' s" "pending lib cfg' st' s = pending lib cfg st' s"
  using on_openshift_cached [of st' st cfg' cfg] assms prune_change_cfg [of cfg' st' s cfg] by (simp_all add: leaving_def pending_def)

lemma with_status_of_other: "kind_of x \<noteq> KShare \<Longrightarrow> with_status_of x y = x"
  by (cases x; cases y; simp)

lemma handed_kind: "(k, nn) \<in> set (handed_keys s) \<Longrightarrow> k \<in> {KConfigMap, KStatefulSet, KDeployment, KPVC}"
  by (cases "is_clustered s"; cases "shareNeedsPvc s"; cases "pvcName s") (auto simp: handed_keys_def)

lemma heir_put: "kind_of x \<noteq> KShare \<Longrightarrow> heir lib (put x st) s m = heir lib st s m"
proof -
  assume "kind_of x \<noteq> KShare"
  then have "live_at (put x st) = live_at st" by (intro ext) (simp add: live_at_def put_kind)
  then show ?thesis unfolding heir_def by (simp only:)
qed

text \<open>Handing over changes nothing that reading the owners depends on, and leaves no heir.\<close>

definition set_flags :: "OwnerReference \<Rightarrow> OwnerReference \<Rightarrow> OwnerReference" where
  "set_flags target ref = (if same_owner ref target
     then ref\<lparr>or_Controller := Some True, or_BlockOwnerDeletion := Some True\<rparr>
     else ref\<lparr>or_Controller := None, or_BlockOwnerDeletion := None\<rparr>)"

lemma set_flags_keeps [simp]: "or_Name (set_flags t r) = or_Name r" "or_UID (set_flags t r) = or_UID r"
  "or_APIVersion (set_flags t r) = or_APIVersion r" "or_Kind (set_flags t r) = or_Kind r"
  by (simp_all add: set_flags_def)

lemma changeController_flags: "changeControllerOwnerTo m t = m\<lparr>m_OwnerReferences := map (set_flags t) (m_OwnerReferences m)\<rparr>"
  by (simp add: changeControllerOwnerTo_def set_flags_def [abs_def])

lemma share_refs_flags:
  "share_refs_loop lib refs found = Inr out \<Longrightarrow>
   share_refs_loop lib (map (set_flags t) refs) (map (set_flags t) found) = Inr (map (set_flags t) out)"
proof (induction refs arbitrary: found)
  case (Cons ref refs)
  then show ?case using Cons.IH [of "found @ [ref]"] by (auto split: sum.splits if_splits)
qed simp

lemma changed_refs:
  assumes "smbShareOwnerRefs lib m = Inr refs"
  shows "smbShareOwnerRefs lib (changeControllerOwnerTo m t) = Inr (map (set_flags t) refs)"
  using share_refs_flags [of lib "m_OwnerReferences m" "[]" refs t] assms
  by (simp add: smbShareOwnerRefs_def changeController_flags)

lemma heir_settled:
  assumes "heir lib st s m = Some ref"
  shows "heir lib st' s (changeControllerOwnerTo m ref) = None"
proof -
  obtain refs where refs: "smbShareOwnerRefs lib m = Inr refs"
    "ref \<in> set (excludeOwnerRefs refs (m_Name (sh_meta s)) (m_UID (sh_meta s)))"
    using assms by (auto simp: heir_def Let_def find_Some_iff split: sum.splits if_splits option.splits)
  let ?new = "excludeOwnerRefs (map (set_flags ref) refs) (m_Name (sh_meta s)) (m_UID (sh_meta s))"
  have "set_flags ref ref \<in> set ?new" "is_controller (set_flags ref ref)"
    using refs(2) by (auto simp: excludeOwnerRefs_def is_controller_def set_flags_def same_owner_def)
  then have "list_ex is_controller ?new" by (auto simp: list_ex_iff)
  then show ?thesis using changed_refs [OF refs(1)] by (simp add: heir_def Let_def)
qed

section \<open>Changes keep the situation in scope\<close>

lemma access_kind: "(k, nn) \<in> set (access_keys s) \<Longrightarrow> k \<in> {KRole, KRoleBinding, KServiceAccount}"
  by (auto simp: access_keys_def)

lemma leaving_put:
  assumes "leaving lib cfg st s" "kind_of x \<in> {KConfigMap, KStatefulSet, KDeployment, KPVC}"
    and "m_DeletionTimestamp (kmeta x) = None" "\<not> isl (smbShareOwnerRefs lib (kmeta x))" "doc_ok (put x st) s"
  shows "leaving lib cfg (put x st) s"
proof -
  have other: "put x st k = st k" if "k \<notin> {KConfigMap, KStatefulSet, KDeployment, KPVC}" for k
    using assms(2) that by (auto simp: put_kind)
  have "on_openshift cfg (put x st) = on_openshift cfg st" using other [of KPod] by (intro on_openshift_pod) simp
  moreover have "put x st KShare nn = st KShare nn" for nn using other [of KShare] by simp
  moreover have "removable (put x st) k nn = removable st k nn" if "(k, nn) \<in> set (access_keys s)" for k nn
    using other [of k] access_kind [OF that] by (auto simp: removable_def)
  then have "list_all (\<lambda>(k, nn). removable (put x st) k nn) (access_keys s) = list_all (\<lambda>(k, nn). removable st k nn) (access_keys s)"
    by (auto simp: list_all_iff)
  moreover have "readable lib (put x st) k nn" if "readable lib st k nn" for k nn
    using that assms(3,4) by (auto simp: readable_def put_def)
  then have "list_all (\<lambda>(k, nn). readable lib (put x st) k nn) (handed_keys s)"
    using assms(1) by (auto simp: leaving_def list_all_iff)
  ultimately show ?thesis using assms(1,5) by (simp add: leaving_def)
qed

lemma access_put:
  assumes "kind_of x \<in> {KConfigMap, KStatefulSet, KDeployment, KPVC}"
  shows "filter (\<lambda>(k, nn). put x st k nn \<noteq> None) (access_keys s) = filter (\<lambda>(k, nn). st k nn \<noteq> None) (access_keys s)"
    "on_openshift cfg (put x st) = on_openshift cfg st" "same_shares st (put x st)"
proof -
  have "put x st k = st k" if "(k, nn) \<in> set (access_keys s)" for k nn
    using assms access_kind [OF that] by (auto simp: put_kind)
  then show "filter (\<lambda>(k, nn). put x st k nn \<noteq> None) (access_keys s) = filter (\<lambda>(k, nn). st k nn \<noteq> None) (access_keys s)"
    by (intro filter_cong) auto
  have pod: "put x st KPod = st KPod" using assms by (auto simp: put_kind)
  then show "on_openshift cfg (put x st) = on_openshift cfg st" by (rule on_openshift_pod)
  show "same_shares st (put x st)" using assms pod by (auto simp: same_shares_def put_kind)
qed

lemma filter_mono: "(\<And>x. x \<in> set xs \<Longrightarrow> P' x \<Longrightarrow> P x) \<Longrightarrow> length (filter P' xs) \<le> length (filter P xs)"
  by (induction xs) (auto intro: le_SucI)

lemma filter_less:
  assumes "\<And>x. x \<in> set xs \<Longrightarrow> P' x \<Longrightarrow> P x" "y \<in> set xs" "P y" "\<not> P' y"
  shows "length (filter P' xs) < length (filter P xs)"
proof -
  obtain us vs where xs: "xs = us @ y # vs" using assms(2) by (auto simp: in_set_conv_decomp)
  have "length (filter P' us) \<le> length (filter P us)" "length (filter P' vs) \<le> length (filter P vs)"
    using assms(1) xs by (auto intro!: filter_mono)
  then show ?thesis using assms(3,4) xs by simp
qed

lemma handover_step:
  assumes "leaving lib cfg st s" "keyed st" "(k, nn) \<in> set (handed_keys s)" "handover lib st s k nn = Some c" "takes_effect c st st'"
    and "\<And>x. st k nn = Some x \<Longrightarrow> kind_of x = k"
  shows "leaving lib cfg st' s \<and> pending lib cfg st' s < pending lib cfg st s \<and> same_shares st st'"
proof -
  obtain x ref where x: "st k nn = Some x" "heir lib st s (kmeta x) = Some ref"
    "c = CUpdate (map_kmeta (\<lambda>m. changeControllerOwnerTo m ref) x)"
    using assms(4) by (auto simp: handover_def split: option.splits)
  let ?x = "map_kmeta (\<lambda>m. changeControllerOwnerTo m ref) x"
  have kind: "kind_of x = k" "k \<in> {KConfigMap, KStatefulSet, KDeployment, KPVC}" using assms(6) [OF x(1)] handed_kind [OF assms(3)] by auto
  have key: "key_of ?x = nn" using keyedD [OF assms(2) x(1)] by (simp add: key_of_def changeController_flags nsname_of_def)
  have st': "st' = put ?x st"
    using assms(5) x key kind by (auto simp: with_status_of_other)
  have "readable lib st k nn" using assms(1,3) by (auto simp: leaving_def list_all_iff)
  then obtain refs where read: "m_DeletionTimestamp (kmeta x) = None" "smbShareOwnerRefs lib (kmeta x) = Inr refs"
    using \<open>readable lib st k nn\<close> x(1) by (cases "smbShareOwnerRefs lib (kmeta x)") (auto simp: readable_def)
  have read': "m_DeletionTimestamp (kmeta ?x) = None" "\<not> isl (smbShareOwnerRefs lib (kmeta ?x))"
    using read changed_refs [OF read(2), of ref] by (simp_all add: changeController_flags)
  have cm: "\<exists>cm. x = OConfigMap cm \<and> ?x = OConfigMap (cm\<lparr>cm_meta := changeControllerOwnerTo (cm_meta cm) ref\<rparr>)" if "k = KConfigMap"
    using that kind(1) by (cases x) (auto simp: map_kmeta_def)
  have same_doc: "getContainerConfig (cm\<lparr>cm_meta := m\<rparr>) = getContainerConfig cm" for cm m
    by (simp add: getContainerConfig_def)
  have at: "put ?x st j n = (if j = k \<and> n = nn then Some ?x else st j n)" for j n
    using key kind(1) by (simp add: put_def)
  have docs: "doc_ok (put ?x st) s = doc_ok st s" "(prune_change cfg (put ?x st) s = None) = (prune_change cfg st s = None)"
  proof -
    have nil: "setContainerConfig cm cc = None \<longleftrightarrow> cm_Data cm = None" for cm cc
      by (simp add: setContainerConfig_def mset_def split: option.split)
    have "doc_ok (put ?x st) s = doc_ok st s \<and> (prune_change cfg (put ?x st) s = None) = (prune_change cfg st s = None)"
    proof (cases "k = KConfigMap \<and> nn = server_key s")
      case True
      then obtain cm where "st KConfigMap (server_key s) = Some (OConfigMap cm)"
        "put ?x st KConfigMap (server_key s) = Some (OConfigMap (cm\<lparr>cm_meta := changeControllerOwnerTo (cm_meta cm) ref\<rparr>))"
        using cm x(1) at by auto
      then show ?thesis by (simp add: doc_ok_def prune_change_def doc_at_def same_doc nil split: option.split bool.split prod.split)
    next
      case False
      then have "put ?x st KConfigMap (server_key s) = st KConfigMap (server_key s)" using at by auto
      then show ?thesis unfolding doc_ok_def prune_change_def doc_at_def by (simp only:)
    qed
    then show "doc_ok (put ?x st) s = doc_ok st s" "(prune_change cfg (put ?x st) s = None) = (prune_change cfg st s = None)" by simp_all
  qed
  have "leaving lib cfg st' s"
    unfolding st' using assms(1) kind read' docs(1)
    by (intro leaving_put) (auto simp: leaving_def)
  moreover have hand: "handover lib st' s j n = (if j = k \<and> n = nn then None else handover lib st s j n)" for j n
    using heir_settled [OF x(2), of st'] kind heir_put [of ?x lib st s] by (auto simp: handover_def st' at split: option.split)
  have "length (filter (\<lambda>(j, n). handover lib st' s j n \<noteq> None) (handed_keys s))
      < length (filter (\<lambda>(j, n). handover lib st s j n \<noteq> None) (handed_keys s))"
    using assms(3,4) hand by (intro filter_less [of _ _ _ "(k, nn)"]) (auto split: if_splits)
  ultimately show ?thesis using docs(2) access_put(1) [of ?x st s] access_put(2) [of ?x cfg st] access_put(3) [of ?x st] kind by (simp add: pending_def st')
qed

lemma entry_found: "(k, v) \<in> set (entries m) \<Longrightarrow> wf_map m \<Longrightarrow> mlookup m k = Some v"
  by (cases m) (simp_all add: mlookup_def wf_map_def entries_def, metis map_of_is_SomeI sorted_keys_distinct)

lemma prune_step:
  assumes "leaving lib cfg st s" "keyed st" "prune_change cfg st s = Some c" "takes_effect c st st'"
  shows "leaving lib cfg st' s \<and> pending lib cfg st' s < pending lib cfg st s \<and> same_shares st st'"
proof -
  obtain cm cc cc' cm' where stored: "st KConfigMap (server_key s) = Some (OConfigMap cm)" "getContainerConfig cm = Inr cc" "storable cc"
      "list_all (\<lambda>(k, cfg). distinct (cs_Shares cfg)) (entries (c_Configs cc))"
    and run: "Prune (prune_planner cfg s cc) = Some (True, cc')" "setContainerConfig cm cc' = Some cm'" "c = CUpdate (OConfigMap cm')"
    using assms(1,3)
    by (auto simp: leaving_def doc_ok_def prune_change_def doc_at_def split: option.splits kobj.splits bool.splits sum.splits)
  let ?pl = "prune_planner cfg s cc"
  have steps: "prune_steps ?pl (False, cc) = Some (True, cc')" using run(1) by (simp add: Prune_steps prune_planner_def)
  have inputs: "utf8_inputs ?pl" using assms(1) by (simp add: leaving_def utf8_inputs_def prune_planner_def)
  have ok: "storable cc'" using prune_steps_storable [OF steps inputs stored(3)] .
  note reads = set_get_config [OF run(2) ok]
  have old: "sections_distinct cc"
    using stored(4) by (fastforce simp: sections_distinct_def mlookup_def list_all_iff dest!: map_of_SomeD)
  then have dist: "sections_distinct cc'" using prune_steps_distinct [OF steps] by simp
  have "shareName ?pl \<notin> set (cs_Shares cfg')" if there: "mlookup (c_Configs cc') (instanceID ?pl) = Some cfg'" for cfg'
  proof -
    obtain cfg0 where cfg0: "mlookup (c_Configs cc) (instanceID ?pl) = Some cfg0" "cfg' = fst (removeShare cfg0 (shareName ?pl))"
      using prune_steps_result(2) [OF steps] there by (cases "mlookup (c_Configs cc) (instanceID ?pl)") auto
    then have "distinct (cs_Shares cfg0)" using old by (auto simp: sections_distinct_def)
    then show ?thesis using cfg0(2) by (simp add: removeShare_def)
  qed
  from prune_steps_absent [OF prune_steps_result(1) [OF steps] this, of False]
  have again: "Prune (prune_planner cfg s cc') = Some (False, cc')"
    using Prune_again [where pl = ?pl and st = cc'] by (simp add: prune_planner_def)
  have key: "key_of (OConfigMap cm') = server_key s" using keyedD [OF assms(2) stored(1)] reads(2) by (simp add: key_of_def)
  have st': "st' = put (OConfigMap cm') st" using assms(4) run(3) stored(1) key by simp
  have at: "st' j n = (if j = KConfigMap \<and> n = server_key s then Some (OConfigMap cm') else st j n)" for j n
    using key by (simp add: put_def st')
  have dist': "list_all (\<lambda>(k, cfg). distinct (cs_Shares cfg)) (entries (c_Configs cc'))"
    using dist ok by (auto simp: sections_distinct_def list_all_iff mlookup_def storable_def wf_scc_def wf_map_def dest!: entry_found)
  have read: "readable lib st KConfigMap (server_key s)" using assms(1) by (simp add: leaving_def handed_keys_def)
  have data: "cm_Data cm' \<noteq> None" using run(2) by (auto simp: setContainerConfig_def bind_eq_Some_conv mset_def split: option.splits)
  have "doc_ok (put (OConfigMap cm') st) s"
    using reads(1) ok dist' data at by (simp add: doc_ok_def st' [symmetric])
  then have "leaving lib cfg st' s"
    unfolding st' using assms(1) read stored(1) reads(2) by (intro leaving_put) (simp_all add: readable_def)
  moreover have "prune_change cfg st' s = None"
    using again at reads(1) by (simp add: prune_change_def doc_at_def)
  moreover have "handover lib st' s j n = None \<longleftrightarrow> handover lib st s j n = None" for j n
    using heir_put [of "OConfigMap cm'" lib st s] stored(1) reads(2) by (auto simp: handover_def at st' [symmetric] split: option.split)
  ultimately show ?thesis using assms(3) access_put(1) [of "OConfigMap cm'" st s] access_put(2) [of "OConfigMap cm'" cfg st]
      access_put(3) [of "OConfigMap cm'" st] by (simp add: pending_def st')
qed

lemma removal_step:
  assumes "leaving lib cfg st s" "keyed st" "on_openshift cfg st" "(k, nn) \<in> set (access_keys s)" "map_option CDelete (st k nn) = Some c"
    and "takes_effect c st st'" "\<And>x. st k nn = Some x \<Longrightarrow> kind_of x = k"
  shows "leaving lib cfg st' s \<and> pending lib cfg st' s < pending lib cfg st s \<and> same_shares st st'"
proof -
  obtain x where x: "st k nn = Some x" "c = CDelete x" using assms(5) by auto
  then have at: "st' j n = (if j = k \<and> n = nn then None else st j n)" for j n
    using assms(6) assms(7) [OF x(1)] keyedD [OF assms(2) x(1)] by (auto simp: key_of_def)
  have other: "st' j = st j" if "j \<notin> {KRole, KRoleBinding, KServiceAccount}" for j
    using that access_kind [OF assms(4)] at by (intro ext) auto
  have pod: "st' KPod = st KPod" and shares: "same_shares st st'" by (simp_all add: same_shares_def other)
  have live: "live_at st' = live_at st" by (intro ext) (simp add: live_at_def other)
  have heir: "heir lib st' s = heir lib st s" unfolding heir_def live ..
  have hand: "handover lib st' s j n = handover lib st s j n" if "(j, n) \<in> set (handed_keys s)" for j n
    using other [of j] handed_kind [OF that] by (auto simp: handover_def heir split: option.split)
  have "doc_at st' s = doc_at st s" by (simp add: doc_at_def other)
  moreover have "st' KConfigMap = st KConfigMap" by (rule other) simp
  ultimately have prune: "prune_change cfg st' s = prune_change cfg st s" unfolding prune_change_def by (simp only:)
  have read: "readable lib st' j n = readable lib st j n" if "(j, n) \<in> set (handed_keys s)" for j n
    using other [of j] handed_kind [OF that] by (auto simp: readable_def)
  have gone: "removable st j n \<Longrightarrow> removable st' j n" for j n by (simp add: removable_def at)
  have "leaving lib cfg st' s"
    using assms(1,3) read gone on_openshift_pod [of st' st cfg] pod
    by (auto simp: leaving_def doc_ok_def other list_all_iff)
  moreover have "length (filter (\<lambda>(j, n). st' j n \<noteq> None) (access_keys s)) < length (filter (\<lambda>(j, n). st j n \<noteq> None) (access_keys s))"
    using assms(4) x(1) at by (intro filter_less [of _ _ _ "(k, nn)"]) (auto split: if_splits)
  moreover have "filter (\<lambda>(j, n). handover lib st' s j n \<noteq> None) (handed_keys s) = filter (\<lambda>(j, n). handover lib st s j n \<noteq> None) (handed_keys s)"
    using hand by (intro filter_cong) auto
  ultimately show ?thesis using prune pod shares on_openshift_pod [of st' st cfg] pod assms(3) by (simp add: pending_def)
qed

lemma first_some_member: "first_some xs = Some c \<Longrightarrow> Some c \<in> set xs"
  by (induction xs rule: first_some.induct) simp_all

lemma releases_cases:
  "Some c \<in> set (releases lib cfg st s) \<Longrightarrow>
   Some c = prune_change cfg st s \<or> list_ex (\<lambda>(k, nn). Some c = handover lib st s k nn) (handed_keys s) \<or>
   (on_openshift cfg st \<and> list_ex (\<lambda>(k, nn). map_option CDelete (st k nn) = Some c) (access_keys s))"
proof -
  assume some: "Some c \<in> set (releases lib cfg st s)"
  have "on_openshift cfg st \<and> list_ex (\<lambda>(k, nn). map_option CDelete (st k nn) = Some c) (access_keys s)"
    if there: "Some c \<in> set (removals cfg st s)"
  proof -
    have on: "on_openshift cfg st" using there by (cases "on_openshift cfg st") (simp_all add: removals_def)
    then obtain k nn where "(k, nn) \<in> set (access_keys s)" "map_option CDelete (st k nn) = Some c"
      using there by (auto simp: removals_def simp del: map_option_eq_Some)
    then show ?thesis using on by (auto simp: list_ex_iff simp del: map_option_eq_Some)
  qed
  then show ?thesis using some
    by (cases "Some c \<in> set (removals cfg st s)"; cases "is_clustered s"; cases "shareNeedsPvc s"; cases "pvcName s";
        simp add: releases_def handed_keys_def data_handover_def; elim disjE; simp)
qed

lemma release_step:
  assumes "leaving lib cfg st s" "keyed st" "first_some (releases lib cfg st s) = Some c" "takes_effect c st st'"
    and "\<And>k nn x. st k nn = Some x \<Longrightarrow> kind_of x = k"
  shows "leaving lib cfg st' s \<and> pending lib cfg st' s < pending lib cfg st s \<and> same_shares st st'"
proof -
  have "Some c \<in> set (releases lib cfg st s)"
    using assms(3) by (rule first_some_member)
  from releases_cases [OF this] show ?thesis
  proof (elim disjE conjE)
    assume "Some c = prune_change cfg st s"
    then show ?thesis using prune_step [OF assms(1,2) _ assms(4)] by simp
  next
    assume "list_ex (\<lambda>(k, nn). Some c = handover lib st s k nn) (handed_keys s)"
    then obtain k nn where "(k, nn) \<in> set (handed_keys s)" "handover lib st s k nn = Some c" by (auto simp: list_ex_iff)
    then show ?thesis using handover_step [OF assms(1,2) _ _ assms(4)] assms(5) by blast
  next
    assume "on_openshift cfg st" "list_ex (\<lambda>(k, nn). map_option CDelete (st k nn) = Some c) (access_keys s)"
    moreover from this(2) obtain k nn where "(k, nn) \<in> set (access_keys s)" "map_option CDelete (st k nn) = Some c"
      by (fastforce simp: list_ex_iff)
    ultimately show ?thesis using removal_step [OF assms(1,2) _ _ _ assms(4)] assms(5) by blast
  qed
qed

section \<open>The end\<close>

text \<open>
  The share is gone, or kept by finalizers of others; the configuration of its server group
  does not mention it; and each object it has to hand over is missing, has a controller among
  its other owners, or has no other share that stays (the share of the empty name is none).
\<close>

definition handed_over :: "kube_lib \<Rightarrow> store \<Rightarrow> SmbShare \<Rightarrow> ObjectMeta \<Rightarrow> bool" where
  "handed_over lib st s m = (case smbShareOwnerRefs lib m of
     Inl _ \<Rightarrow> False
   | Inr refs0 \<Rightarrow>
       (let refs = excludeOwnerRefs refs0 (m_Name (sh_meta s)) (m_UID (sh_meta s)) in
        list_ex is_controller refs \<or>
        (case find (live_at st (m_Namespace m)) refs of None \<Rightarrow> True | Some ref \<Rightarrow> or_Name ref = '''')))"

definition unmentioned :: "OperatorConfig \<Rightarrow> SmbShare \<Rightarrow> SambaContainerConfig \<Rightarrow> bool" where
  "unmentioned cfg s cc \<longleftrightarrow> mlookup (c_Shares cc) (shareName (prune_planner cfg s cc)) = None \<and>
     (case mlookup (c_Configs cc) (instanceID (prune_planner cfg s cc)) of
        None \<Rightarrow> True | Some sec \<Rightarrow> shareName (prune_planner cfg s cc) \<notin> set (cs_Shares sec))"

definition released :: "kube_lib \<Rightarrow> OperatorConfig \<Rightarrow> store \<Rightarrow> SmbShare \<Rightarrow> bool" where
  "released lib cfg st s \<longleftrightarrow>
     (case st KShare (nsname_of (sh_meta s)) of
        Some (OShare s') \<Rightarrow> \<not> kl_ContainsFinalizer lib (m_Finalizers (sh_meta s')) shareFinalizer | _ \<Rightarrow> True) \<and>
     (case st KConfigMap (server_key s) of
        Some (OConfigMap cm) \<Rightarrow> (case getContainerConfig cm of Inl _ \<Rightarrow> False | Inr cc \<Rightarrow> unmentioned cfg s cc) | _ \<Rightarrow> True) \<and>
     list_all (\<lambda>(k, nn). case st k nn of None \<Rightarrow> True | Some x \<Rightarrow> handed_over lib st s (kmeta x)) (handed_keys s)"

text \<open>On OpenShift, the service account of the namespace is gone, with its roles and bindings.\<close>

definition access_gone :: "store \<Rightarrow> SmbShare \<Rightarrow> bool" where
  "access_gone st s = list_all (\<lambda>(k, nn). st k nn = None) (access_keys s)"

lemma released_cfg: "released lib cfg st s = released lib cfg' st s"
proof -
  have names: "shareName (prune_planner cfg s cc) = shareName (prune_planner cfg' s cc)"
    "instanceID (prune_planner cfg s cc) = instanceID (prune_planner cfg' s cc)" for cc
    by (simp_all add: prune_planner_def shareName_def instanceID_def InstanceName_def)
  have "unmentioned cfg s = unmentioned cfg' s" by (intro ext) (simp only: unmentioned_def names)
  then show ?thesis by (simp only: released_def)
qed

lemma handed_over_heir: "\<not> isl (smbShareOwnerRefs lib m) \<Longrightarrow> handed_over lib st s m \<longleftrightarrow> heir lib st s m = None"
  by (cases "smbShareOwnerRefs lib m") (auto simp: handed_over_def heir_def Let_def split: option.split)

lemma removeShare_misses: "distinct (cs_Shares sec) \<Longrightarrow> cs_Shares (fst (removeShare sec n)) = cs_Shares sec \<Longrightarrow> n \<notin> set (cs_Shares sec)"
  using set_remove1_eq [of "cs_Shares sec" n] by (cases "n \<in> set (cs_Shares sec)") (simp_all add: removeShare_def, blast)

lemma prune_none_unmentioned:
  assumes "leaving lib cfg st s" "prune_change cfg st s = None" "st KConfigMap (server_key s) = Some (OConfigMap cm)"
  shows "\<exists>cc. getContainerConfig cm = Inr cc \<and> unmentioned cfg s cc"
proof -
  obtain cc d where cc: "getContainerConfig cm = Inr cc" "storable cc" "cm_Data cm = Some d"
      "list_all (\<lambda>(k, cfg). distinct (cs_Shares cfg)) (entries (c_Configs cc))"
    using assms(1,3) by (auto simp: leaving_def doc_ok_def split: sum.splits)
  let ?pl = "prune_planner cfg s cc"
  have doc: "doc_at st s = cc" using assms(3) cc(1) by (simp add: doc_at_def)
  obtain ch cc' where run: "prune_steps ?pl (False, cc) = Some (ch, cc')"
    using prune_steps_run [of cc ?pl False] cc(2) by (auto simp: storable_def)
  then have "Prune ?pl = Some (ch, cc')" by (simp add: Prune_steps prune_planner_def)
  then have "\<not> ch" using assms(2,3) doc cc(3) by (cases ch) (simp_all add: prune_change_def setContainerConfig_def)
  then have same: "cc' = cc" using prn.unchanged_run [of cc ?pl False cc'] run cc(2) by (simp add: storable_def)
  have "shareName ?pl \<notin> set (cs_Shares sec)" if "mlookup (c_Configs cc) (instanceID ?pl) = Some sec" for sec
  proof -
    have "(instanceID ?pl, sec) \<in> set (entries (c_Configs cc))" using that by (auto simp: mlookup_def dest: map_of_SomeD)
    then have "distinct (cs_Shares sec)" using cc(4) by (auto simp: list_all_iff)
    moreover have "fst (removeShare sec (shareName ?pl)) = sec" using prune_steps_result(2) [OF run] that same by simp
    then have "cs_Shares (fst (removeShare sec (shareName ?pl))) = cs_Shares sec" by (simp only:)
    ultimately show ?thesis by (metis removeShare_misses)
  qed
  then show ?thesis using prune_steps_result(1) [OF run] same cc(1) by (simp add: unmentioned_def split: option.split)
qed

lemma releases_none:
  assumes "first_some (releases lib cfg st s) = None"
  shows "prune_change cfg st s = None" "list_all (\<lambda>(k, nn). handover lib st s k nn = None) (handed_keys s)"
    "on_openshift cfg st \<Longrightarrow> list_all (\<lambda>(k, nn). st k nn = None) (access_keys s)"
proof -
  have "\<forall>x \<in> set (releases lib cfg st s). x = None" using assms by (simp add: first_some_None)
  then have all: "handover lib st s KConfigMap (server_key s) = None" "prune_change cfg st s = None" "data_handover lib st s = None"
      "if is_clustered s then handover lib st s KStatefulSet (server_key s) = None \<and> handover lib st s KPVC (state_key s) = None
        else handover lib st s KDeployment (server_key s) = None"
      "\<forall>x \<in> set (removals cfg st s). x = None"
    by (auto simp: releases_def)
  show "prune_change cfg st s = None" by (rule all(2))
  show "list_all (\<lambda>(k, nn). handover lib st s k nn = None) (handed_keys s)"
    using all by (cases "is_clustered s"; cases "shareNeedsPvc s"; cases "pvcName s"; simp add: handed_keys_def data_handover_def)
  show "list_all (\<lambda>(k, nn). st k nn = None) (access_keys s)" if "on_openshift cfg st"
    using all(5) that by (auto simp: removals_def list_all_iff)
qed

text \<open>Dropping the share, or its finalizer, changes nothing else that was reached.\<close>

lemma last_released:
  assumes "leaving lib cfg st s" "first_some (releases lib cfg st s) = None"
    and "st' = without (OShare s) st \<or> (\<exists>fs. \<not> kl_ContainsFinalizer lib fs shareFinalizer \<and> st' = put (OShare (with_finalizers fs s)) st)"
  shows "released lib cfg st' s \<and> (on_openshift cfg st \<longrightarrow> access_gone st' s)"
proof -
  note none = releases_none [OF assms(2)]
  have dead: "m_DeletionTimestamp (sh_meta s) \<noteq> None" "st KShare (nsname_of (sh_meta s)) = Some (OShare s)"
    using assms(1) by (simp_all add: leaving_def)
  have other: "st' k nn = st k nn" if "k \<noteq> KShare \<or> nn \<noteq> nsname_of (sh_meta s)" for k nn
    using assms(3) that by (auto simp: without_def put_def key_of_def)
  have self: "case st' KShare (nsname_of (sh_meta s)) of Some (OShare s') \<Rightarrow>
      \<not> kl_ContainsFinalizer lib (m_Finalizers (sh_meta s')) shareFinalizer \<and> m_DeletionTimestamp (sh_meta s') \<noteq> None | _ \<Rightarrow> True"
    using assms(3) dead by (auto simp: without_def put_def key_of_def with_finalizers_def nsname_of_def)
  have "live_at st' ns ref = live_at st ns ref" for ns ref
    using other [of KShare "nsname ns (or_Name ref)"] self dead
    by (cases "nsname ns (or_Name ref) = nsname_of (sh_meta s)") (auto simp: live_at_def split: option.splits kobj.splits)
  then have live: "live_at st' = live_at st" by (intro ext)
  have "handed_over lib st' s (kmeta x)" if there: "(k, nn) \<in> set (handed_keys s)" "st' k nn = Some x" for k nn x
  proof -
    have x: "st k nn = Some x" using other [of k nn] there handed_kind [OF there(1)] by auto
    then have "\<not> isl (smbShareOwnerRefs lib (kmeta x))" using assms(1) there(1) by (auto simp: leaving_def readable_def list_all_iff)
    moreover have "heir lib st s (kmeta x) = None" using none(2) there(1) x by (auto simp: list_all_iff handover_def)
    ultimately have "handed_over lib st s (kmeta x)" by (simp add: handed_over_heir)
    then show ?thesis unfolding handed_over_def live .
  qed
  moreover have "\<exists>cc. getContainerConfig cm = Inr cc \<and> unmentioned cfg s cc" if "st' KConfigMap (server_key s) = Some (OConfigMap cm)" for cm
    using prune_none_unmentioned [OF assms(1) none(1)] other [of KConfigMap "server_key s"] that by simp
  ultimately have "released lib cfg st' s"
    using self by (fastforce simp: released_def list_all_iff split: option.split kobj.split)
  moreover have "st' k nn = None" if "on_openshift cfg st" "(k, nn) \<in> set (access_keys s)" for k nn
    using none(3) [OF that(1)] that(2) other [of k nn] access_kind [OF that(2)] by (auto simp: list_all_iff)
  ultimately show ?thesis by (auto simp: access_gone_def list_all_iff)
qed

section \<open>The loop\<close>

context cluster
begin

lemma drive_releases:
  assumes "leaving lib cfg (look w) s" "pending lib cfg (look w) s < n"
  shows "\<exists>changes w'. drive lib api n cfg (nsname_of (sh_meta s)) w =
      Some (map (\<lambda>c. [c]) changes @ [[CUpdate (OShare (remove_finalizer lib s))]], w') \<and>
    length changes \<le> pending lib cfg (look w) s \<and> released lib cfg (look w') s \<and>
    (on_openshift cfg (look w) \<longrightarrow> access_gone (look w') s) \<and>
    (\<forall>nn. nn \<noteq> nsname_of (sh_meta s) \<longrightarrow> look w' KShare nn = look w KShare nn)"
  using assms
proof (induction n arbitrary: cfg w)
  case (Suc n)
  let ?nn = "nsname_of (sh_meta s)" and ?last = "CUpdate (OShare (remove_finalizer lib s))"
  note pass = Reconcile_release [OF Suc.prems(1) refl]
  show ?case
  proof (cases "first_some (releases lib cfg (look w) s)")
    case None
    let ?fs = "kl_RemoveFinalizer lib (m_Finalizers (sh_meta s)) shareFinalizer"
    obtain w' where w': "exec api (Reconcile lib cfg ?nn) w = ([?last], Some (\<lparr>cr_Requeue = False\<rparr>, None, resolved cfg (look w)), w')"
      "look w' = (if ?fs = [] then without (OShare s) (look w) else put (OShare (with_finalizers ?fs s)) (look w))"
      using pass None by (auto simp: Let_def remove_finalizer_def with_finalizers_def)
    then have "released lib cfg (look w') s \<and> (on_openshift cfg (look w) \<longrightarrow> access_gone (look w') s)"
      using contains_remove by (intro last_released [OF Suc.prems(1) None]) (auto split: if_splits)
    moreover have "drive lib api (Suc n) cfg ?nn w = Some (map (\<lambda>c. [c]) [] @ [[?last]], w')" using w'(1) by simp
    moreover have "look w' KShare nn = look w KShare nn" if "nn \<noteq> ?nn" for nn
      using that w'(2) by (auto simp: without_def put_def key_of_def)
    ultimately show ?thesis by (metis le0 list.size(3))
  next
    case (Some c)
    then obtain cfg' w1 where cfg': "cfg' \<in> {cfg, resolved cfg (look w)}"
      and w1: "exec api (Reconcile lib cfg ?nn) w = ([c], Some (\<lparr>cr_Requeue = True\<rparr>, None, cfg'), w1)" "takes_effect c (look w) (look w1)"
      using pass by (auto simp: does_def)
    have better: "leaving lib cfg (look w1) s" "pending lib cfg (look w1) s < pending lib cfg (look w) s" "look w1 KPod = look w KPod"
        "look w1 KShare = look w KShare"
      using release_step [OF Suc.prems(1) keyed_look Some w1(2)] filed unfolding same_shares_def by blast+
    note cached = leaving_cached [of "look w1" "look w" cfg' cfg, OF better(3) cfg']
    have "leaving lib cfg' (look w1) s" "pending lib cfg' (look w1) s < n" using better(1,2) cached Suc.prems(2) by simp_all
    from Suc.IH [OF this] obtain changes w' where ih:
      "drive lib api n cfg' ?nn w1 = Some (map (\<lambda>c. [c]) changes @ [[?last]], w')"
      "length changes \<le> pending lib cfg' (look w1) s" "released lib cfg' (look w') s"
      "on_openshift cfg' (look w1) \<longrightarrow> access_gone (look w') s"
      "\<forall>nn. nn \<noteq> ?nn \<longrightarrow> look w' KShare nn = look w1 KShare nn" by blast
    have "drive lib api (Suc n) cfg ?nn w = Some (map (\<lambda>c. [c]) (c # changes) @ [[?last]], w')" using w1(1) ih(1) by simp
    moreover have "length (c # changes) \<le> pending lib cfg (look w) s" using ih(2) better(2) cached(2) by simp
    moreover have "on_openshift cfg' (look w1) = on_openshift cfg (look w)"
      using on_openshift_cached [of "look w1" "look w" cfg' cfg] better(3) cfg' on_openshift_pod [of "look w1" "look w" cfg] by simp
    moreover have "\<forall>nn. nn \<noteq> ?nn \<longrightarrow> look w' KShare nn = look w KShare nn" using ih(5) better(4) by simp
    ultimately show ?thesis using ih(3,4) released_cfg [of lib cfg' "look w'" s cfg] by blast
  qed
qed simp

end

section \<open>Properties\<close>

text \<open>
  C3. Deleting a share completes, on OpenShift and elsewhere: the loop that \<open>Reconcile\<close> drives
  for a share with a deletion timestamp ends, without an error or a panic, after at most five
  changes, or ten on OpenShift. Each pass makes one change, and one more pass, the last,
  removes the operator's finalizer. By then the configuration of the server group does not
  mention the share; the config map, workload and claims it has to hand over have found their
  next controller, if there is one; and on OpenShift the service account, roles and bindings
  of the namespace are gone. It holds for clustered and other shares, alone in their group or
  not, whether the cluster type is known or has yet to be found, on every server and for
  every Kubernetes library that satisfy the laws. The situation covered is \<open>leaving\<close>: the share
  is stored, has the finalizer, and its fields are UTF-8; the objects to hand over are not
  being deleted themselves and their owners' API versions can be parsed; the stored document
  can be parsed and stored and lists no share twice in a section; and, on OpenShift, the
  service account, roles and bindings are not being deleted and have no finalizers of others.
\<close>

theorem reconcile_deletion_completes:
  assumes "cluster lib api look" "leaving lib cfg (look w) s"
  shows "\<exists>changes w'. drive lib api 11 cfg (nsname_of (sh_meta s)) w =
      Some (map (\<lambda>c. [c]) changes @ [[CUpdate (OShare (remove_finalizer lib s))]], w') \<and>
    length changes \<le> (if on_openshift cfg (look w) then 10 else 5) \<and>
    released lib cfg (look w') s \<and> (on_openshift cfg (look w) \<longrightarrow> access_gone (look w') s)"
proof -
  have "pending lib cfg (look w) s < 11"
    using pending_bound [of lib cfg "look w" s] by (cases "on_openshift cfg (look w)") simp_all
  from cluster.drive_releases [OF assms this] show ?thesis
    using pending_bound [of lib cfg "look w" s] order_trans by blast
qed

text \<open>
  A share that is going, with a configuration it shares with another share of its group, on
  an OpenShift cluster the operator has yet to recognise by the annotations of its pod.
\<close>

definition other_share :: SmbShare where
  "other_share = new_share\<lparr>sh_meta := (sh_meta new_share)\<lparr>m_Name := ''share2'', m_UID := ''u2''\<rparr>\<rparr>"

definition going_doc :: SambaContainerConfig where
  "going_doc = smbcc_New\<lparr>c_Configs := mlit [(''share1'', \<lparr>cs_Shares = [''docs''], cs_Globals = [], cs_InstanceName = ''SAMBA'',
       cs_InstanceFeatures = [], cs_Permissions = \<lparr>pc_Method = '''', pc_StatusXAttr = '''', pc_Mode = ''''\<rparr>\<rparr>)], c_Shares := mlit [(''docs'', \<lparr>sc_Options = mlit [(''read only'', ''no'')]\<rparr>)]\<rparr>"

definition going_config_map :: ConfigMap where
  "going_config_map = (the (setContainerConfig (newDefaultConfigMap ''share1'' ''ns1'') going_doc))
     \<lparr>cm_meta := (new_meta ''share1'' ''ns1'')\<lparr>m_OwnerReferences :=
        [demo_ref ''share1'' ''u1'' (Some True), demo_ref ''share2'' ''u2'' None]\<rparr>\<rparr>"

definition unknown_cluster :: OperatorConfig where
  "unknown_cluster = DefaultOperatorConfig\<lparr>oc_ClusterType := '''', oc_PodName := ''operator'', oc_PodNamespace := ''system''\<rparr>"

definition operator_pod :: Pod where
  "operator_pod = \<lparr>pod_meta = (new_meta ''operator'' ''system'')\<lparr>m_Annotations := mlit [(''openshift.io/scc'', ''samba'')]\<rparr>\<rparr>"

definition going_account :: ServiceAccount where
  "going_account = \<lparr>sa_meta = meta_for (serviceAccountNsname demo_gone), sa_AutomountServiceAccountToken = Some True\<rparr>"

definition going_store :: "kobj list" where
  "going_store = [OShare demo_gone, OShare other_share, OPod operator_pod, OServiceAccount going_account, OConfigMap going_config_map]"

lemma going_doc_storable: "storable going_doc"
  by code_simp

lemma going_document: "getContainerConfig going_config_map = Inr going_doc" "cm_Data going_config_map \<noteq> None"
    "cm_meta going_config_map = (new_meta ''share1'' ''ns1'')\<lparr>m_OwnerReferences :=
        [demo_ref ''share1'' ''u1'' (Some True), demo_ref ''share2'' ''u2'' None]\<rparr>"
proof -
  obtain cm where cm: "setContainerConfig (newDefaultConfigMap ''share1'' ''ns1'') going_doc = Some cm"
    by (auto simp: setContainerConfig_def newDefaultConfigMap_def mlit_def mset_def)
  have "getContainerConfig (cm\<lparr>cm_meta := m\<rparr>) = getContainerConfig cm" for m by (simp add: getContainerConfig_def)
  then show "getContainerConfig going_config_map = Inr going_doc" "cm_Data going_config_map \<noteq> None"
    "cm_meta going_config_map = (new_meta ''share1'' ''ns1'')\<lparr>m_OwnerReferences :=
        [demo_ref ''share1'' ''u1'' (Some True), demo_ref ''share2'' ''u2'' None]\<rparr>"
    using set_get_config [OF cm going_doc_storable] cm
    by (auto simp: going_config_map_def setContainerConfig_def bind_eq_Some_conv mset_def split: option.splits)
qed

lemma going_parts:
  "nsname ''ns1'' ''share2'' \<noteq> nsname ''ns1'' ''share1''" "nsname_of (new_meta ''share1'' ''ns1'') = nsname ''ns1'' ''share1''"
  "key_of (OShare demo_gone) = nsname ''ns1'' ''share1''" "key_of (OShare other_share) = nsname ''ns1'' ''share2''"
  "nsname_of (sh_meta demo_gone) = nsname ''ns1'' ''share1''" "server_key demo_gone = nsname ''ns1'' ''share1''"
  "handed_keys demo_gone = [(KConfigMap, nsname ''ns1'' ''share1''), (KDeployment, nsname ''ns1'' ''share1'')]"
  "m_DeletionTimestamp (sh_meta demo_gone) = Some 0" "utf8_share demo_gone"
  "kl_ContainsFinalizer std_lib (m_Finalizers (sh_meta demo_gone)) shareFinalizer"
  "key_of (OPod operator_pod) = nsname ''system'' ''operator''" "key_of (OServiceAccount going_account) = serviceAccountNsname demo_gone"
  "m_DeletionTimestamp (sa_meta going_account) = None" "m_Finalizers (sa_meta going_account) = []"
  "nsname (oc_PodNamespace unknown_cluster) (oc_PodName unknown_cluster) = nsname ''system'' ''operator''"
  "list_ex (\<lambda>(key, v). contains key ClusterTypeOpenShift) (entries (m_Annotations (pod_meta operator_pod)))"
  "oc_ClusterType unknown_cluster = []"
  "list_all (\<lambda>(k, cfg). distinct (cs_Shares cfg)) (entries (c_Configs going_doc))"
  "\<not> isl (smbShareOwnerRefs std_lib ((new_meta ''share1'' ''ns1'')\<lparr>m_OwnerReferences :=
        [demo_ref ''share1'' ''u1'' (Some True), demo_ref ''share2'' ''u2'' None]\<rparr>))"
  by code_simp+

lemma going_leaving: "leaving std_lib unknown_cluster (mem_look going_store) demo_gone"
  by (simp add: leaving_def doc_ok_def readable_def removable_def access_keys_def mem_look_def going_store_def going_parts going_document
      going_doc_storable key_of_def [of "OConfigMap going_config_map"])

lemma going_openshift: "on_openshift unknown_cluster (mem_look going_store)"
  by (simp add: on_openshift_def pod_on_openshift_def mem_look_def going_store_def going_parts)

lemma reconcile_deletion_completes_witness:
  "\<exists>changes w'. drive std_lib mem_api 11 unknown_cluster (nsname ''ns1'' ''share1'') going_store =
      Some (map (\<lambda>c. [c]) changes @ [[CUpdate (OShare (remove_finalizer std_lib demo_gone))]], w') \<and>
    released std_lib unknown_cluster (mem_look w') demo_gone \<and> mem_look w' KServiceAccount (serviceAccountNsname demo_gone) = None"
  using reconcile_deletion_completes [OF mem_cluster.cluster_axioms going_leaving] going_openshift
  by (auto simp: going_parts access_gone_def access_keys_def)

text \<open>
  C23. On OpenShift, deleting one share takes the service account, roles and bindings from the
  other shares of its namespace: the names of these objects depend on the namespace alone, and
  the finalization does not look who else needs them. When the deletion of a share has come
  to its end, in the situations of C3, every other share is still stored as it was, but none
  of the five objects that its servers run with is left, and nothing watches them.
\<close>

theorem deletion_takes_shared_access:
  assumes "cluster lib api look" "leaving lib cfg (look w) s" "on_openshift cfg (look w)"
    and "look w KShare (nsname_of (sh_meta other)) = Some (OShare other)"
    and "m_Namespace (sh_meta other) = m_Namespace (sh_meta s)" "m_Name (sh_meta other) \<noteq> m_Name (sh_meta s)"
  shows "\<exists>passes w'. drive lib api 11 cfg (nsname_of (sh_meta s)) w = Some (passes, w') \<and>
    look w' KShare (nsname_of (sh_meta other)) = Some (OShare other) \<and>
    list_all (\<lambda>(k, nn). look w' k nn = None \<and> k \<notin> set (w_For SmbShare_SetupWithManager # w_Owns SmbShare_SetupWithManager)) (access_keys other)"
proof -
  have "pending lib cfg (look w) s < 11"
    using pending_bound [of lib cfg "look w" s] assms(3) by simp
  from cluster.drive_releases [OF assms(1,2) this] obtain passes w' where
    "drive lib api 11 cfg (nsname_of (sh_meta s)) w = Some (passes, w')" "access_gone (look w') s"
    "\<forall>nn. nn \<noteq> nsname_of (sh_meta s) \<longrightarrow> look w' KShare nn = look w KShare nn" using assms(3) by blast
  moreover have "nsname_of (sh_meta other) \<noteq> nsname_of (sh_meta s)" using assms(6) by (simp add: nsname_of_def)
  moreover have "k \<notin> set (w_For SmbShare_SetupWithManager # w_Owns SmbShare_SetupWithManager)" if "(k, nn) \<in> set (access_keys other)" for k nn
    using access_kind [OF that] by (auto simp: SmbShare_SetupWithManager_def)
  ultimately show ?thesis
    using assms(4) access_keys_namespace [OF assms(5)] by (auto simp: access_gone_def list_all_iff)
qed

lemma deletion_takes_shared_access_witness:
  "\<exists>passes w'. drive std_lib mem_api 11 unknown_cluster (nsname ''ns1'' ''share1'') going_store = Some (passes, w') \<and>
    mem_look going_store KServiceAccount (serviceAccountNsname other_share) \<noteq> None \<and>
    mem_look w' KServiceAccount (serviceAccountNsname other_share) = None"
proof -
  have other: "mem_look going_store KShare (nsname_of (sh_meta other_share)) = Some (OShare other_share)"
    "m_Namespace (sh_meta other_share) = m_Namespace (sh_meta demo_gone)" "m_Name (sh_meta other_share) \<noteq> m_Name (sh_meta demo_gone)"
    "mem_look going_store KServiceAccount (serviceAccountNsname other_share) \<noteq> None"
    by code_simp+
  show ?thesis
    using deletion_takes_shared_access [OF mem_cluster.cluster_axioms going_leaving going_openshift other(1-3)] other(4)
    by (auto simp: going_parts access_keys_def)
qed

end
