(* ===== verification/ObjectContracts.thy ===== *)
theory ObjectContracts
  imports PassProperties
begin

text \<open>
  Passes that keep objects in order, for any notion of order: if every object that a pass reads
  is in order, so is every object it writes. What is known of the calls of an update and of a
  finalization (\<open>Permissions\<close>, \<open>PassProperties\<close>) is put together for a whole pass.
\<close>

fun answers_ok :: "(kobj \<Rightarrow> bool) \<Rightarrow> call \<times> resp \<Rightarrow> bool" where
  "answers_ok ok (CGet k nn, Inr x) = (kind_of x = k \<and> nsname_of (kmeta x) = nn \<and> ok x)"
| "answers_ok ok _ = True"

fun keeps_ok :: "(kobj \<Rightarrow> bool) \<Rightarrow> call \<Rightarrow> bool" where
  "keeps_ok ok (CCreate x) = (kind_of x \<noteq> KShare \<and> ok x)"
| "keeps_ok ok (CUpdate x) = ok x"
| "keeps_ok ok (CStatusUpdate x) = ok x"
| "keeps_ok ok _ = True"

lemma answers_ok_honest: "answers_ok ok e \<Longrightarrow> honest e"
  by (cases "(ok, e)" rule: answers_ok.cases) auto

lemma contract_read_ok:
  assumes "guar (CGet k nn)" "\<And>e. post (Inl e)" "\<And>y x. ok y \<Longrightarrow> proj y = Some x \<Longrightarrow> post (Inr x)"
  shows "contract (answers_ok ok) guar (get_as k proj nn) post"
  using assms by (auto simp: contract_get_as typed_def split: sum.splits option.splits)

text \<open>\<open>extra\<close> is what is known of the calls besides \<open>update_may\<close> and \<open>finalize_may\<close>.\<close>

lemma contract_with_extra:
  assumes "contract (answers_ok ok) extra p (\<lambda>_. True)" "contract honest may p (\<lambda>_. True)"
    and "\<And>c. may c \<Longrightarrow> extra c \<Longrightarrow> keeps_ok ok c"
  shows "contract (answers_ok ok) (keeps_ok ok) p (\<lambda>_. True)"
proof (rule contract_guar_mono)
  show "contract (answers_ok ok) (\<lambda>c. extra c \<and> may c) p (\<lambda>_. True)"
    using contract_conj [OF assms(1) contract_rely_mono [OF assms(2) answers_ok_honest]] by simp
qed (use assms(3) in blast)

lemma Reconcile_ok:
  assumes "kube_laws lib"
    and "\<And>s cfg. ok (OShare s) \<Longrightarrow> contract (answers_ok ok) extra (share_Update lib cfg s) (\<lambda>_. True)"
    and "\<And>s cfg. ok (OShare s) \<Longrightarrow> contract (answers_ok ok) extra (share_Finalize lib cfg s) (\<lambda>_. True)"
    and "\<And>s pod c. ok (OShare s) \<Longrightarrow> update_may lib pod s c \<Longrightarrow> extra c \<Longrightarrow> keeps_ok ok c"
    and "\<And>s pod c. ok (OShare s) \<Longrightarrow> finalize_may lib pod s c \<Longrightarrow> extra c \<Longrightarrow> keeps_ok ok c"
  shows "contract (answers_ok ok) (keeps_ok ok) (Reconcile lib cfg nn) (\<lambda>_. True)"
proof -
  have "contract (answers_ok ok) (keeps_ok ok) (share_Update lib cfg s) (\<lambda>_. True)" if "ok (OShare s)" for s
    using assms(2) [OF that] kube_laws.share_Update_contract [OF assms(1) refl] assms(4) [OF that]
    by (rule contract_with_extra)
  moreover have "contract (answers_ok ok) (keeps_ok ok) (share_Finalize lib cfg s) (\<lambda>_. True)" if "ok (OShare s)" for s
    using assms(3) [OF that] share_Finalize_contract [OF refl] assms(5) [OF that] by (rule contract_with_extra)
  ultimately have "contract (answers_ok ok) (keeps_ok ok) (Process lib cfg nn) (\<lambda>_. True)"
    unfolding Process_def getSmbShareByName_def contract_andthen
    by (intro contract_read_ok) (auto simp: as_simps contract_simps)
  then show ?thesis
    unfolding Reconcile_def contract_andthen by (rule contract_mono) (auto simp: contract_simps Let_def)
qed

end
