(* ===== verification/Documents.thy ===== *)
theory Documents
  imports Storable ObjectContracts
begin

text \<open>
  The documents in the config maps, over whole passes: if what a pass reads is in order (the
  strings of custom resources are UTF-8, the config maps hold documents that can be stored
  and list no share twice), then so is everything it writes. Most stages write no config
  map, which the predicate \<open>calm\<close> checks along the program; the others get a contract.
\<close>

section \<open>Objects in order\<close>

definition good_doc :: "ConfigMap \<Rightarrow> bool" where
  "good_doc cm = (case getContainerConfig cm of Inl _ \<Rightarrow> False | Inr cc \<Rightarrow> storable cc \<and> sections_distinct cc)"

fun good_obj :: "kobj \<Rightarrow> bool" where
  "good_obj (OShare s) = utf8_share s"
| "good_obj (OSecurity sc) = (valid_utf8 (sec_Realm (ssc_Spec sc)) \<and> list_all (\<lambda>d. valid_utf8 (sd_Name d)) (sec_Domains (ssc_Spec sc)))"
| "good_obj (OCommon cc) = (case cc_CustomGlobalConfig (scc_Spec cc) of None \<Rightarrow> True | Some c \<Rightarrow> utf8_map (cg_Configs c))"
| "good_obj (OConfigMap cm) = good_doc cm"
| "good_obj _ = True"

abbreviation answers_good :: "call \<times> resp \<Rightarrow> bool" where
  "answers_good \<equiv> answers_ok good_obj"

abbreviation keeps_good :: "call \<Rightarrow> bool" where
  "keeps_good \<equiv> keeps_ok good_obj"

text \<open>The part of it that is about config maps.\<close>

fun doc_call :: "call \<Rightarrow> bool" where
  "doc_call (CCreate (OConfigMap cm)) = good_doc cm"
| "doc_call (CUpdate (OConfigMap cm)) = good_doc cm"
| "doc_call _ = True"

lemma good_doc_meta [simp]: "good_doc (cm\<lparr>cm_meta := m\<rparr>) = good_doc cm"
  by (simp add: good_doc_def getContainerConfig_def)

lemma good_doc_new [simp]: "good_doc (newDefaultConfigMap n ns)"
  by (simp add: good_doc_def newDefaultConfigMap_reads storable_New)

lemma good_doc_set:
  assumes "setContainerConfig cm cc = Some cm'" "storable cc" "sections_distinct cc"
  shows "good_doc cm'"
  using set_get_config(1) [OF assms(1,2)] assms(2,3) by (simp add: good_doc_def)

section \<open>Stages that write no config map\<close>

fun calm_call :: "call \<Rightarrow> bool" where
  "calm_call (CCreate x) = (kind_of x \<noteq> KConfigMap)"
| "calm_call (CUpdate x) = (kind_of x \<noteq> KConfigMap)"
| "calm_call _ = True"

definition calm :: "'a prog \<Rightarrow> bool" where
  "calm p = contract (\<lambda>_. True) calm_call p (\<lambda>_. True)"

named_theorems calm_intros \<open>programs that write no config map\<close>

lemma calm_doc: "calm p \<Longrightarrow> contract rely doc_call p (\<lambda>_. True)"
proof -
  assume "calm p"
  moreover have "calm_call c \<Longrightarrow> doc_call c" for c by (cases c rule: doc_call.cases) simp_all
  ultimately show ?thesis unfolding calm_def by (blast intro: contract_rely_mono contract_guar_mono)
qed

lemma calm_Ret [calm_intros]: "calm (Ret x)"
  by (simp add: calm_def)

lemma calm_andthen [calm_intros]: "calm p \<Longrightarrow> (\<And>x. calm (f x)) \<Longrightarrow> calm (andthen p f)"
  unfolding calm_def contract_andthen by (erule contract_mono) simp

lemma calm_on_ok [calm_intros]: "calm p \<Longrightarrow> (\<And>err. calm (e err)) \<Longrightarrow> (\<And>x. calm (f x)) \<Longrightarrow> calm (on_ok p e f)"
  unfolding on_ok_def by (rule calm_andthen) (auto split: sum.split)

lemma calm_eval [calm_intros]: "(\<And>v. calm (f v)) \<Longrightarrow> calm (eval x f)"
  by (simp add: calm_def contract_eval)

lemma calm_emit [calm_intros]: "calm (emit about t reason msg)"
  by (simp add: calm_def contract_emit)

lemma calm_write [calm_intros]: "calm_call c \<Longrightarrow> calm (api_write c)"
  by (simp add: calm_def contract_api_write)

lemma calm_get_as [calm_intros]: "calm (get_as k proj nn)"
  by (simp add: calm_def contract_get_as)

lemma calm_if [calm_intros]: "(b \<Longrightarrow> calm p) \<Longrightarrow> (\<not> b \<Longrightarrow> calm q) \<Longrightarrow> calm (if b then p else q)"
  by simp

lemma calm_existing [calm_intros]: "calm (existing k proj nn)"
  unfolding existing_def by (intro calm_intros) (auto split: sum.split intro!: calm_intros)

lemma calm_get_or_create [calm_intros]: "calm get \<Longrightarrow> calm mk \<Longrightarrow> calm (get_or_create get mk)"
  unfolding get_or_create_def by (auto intro!: calm_intros split: option.split)

lemma calm_get_or_create_retry [calm_intros]:
  "calm get \<Longrightarrow> kind_of (wrap want) \<noteq> KConfigMap \<Longrightarrow> calm (get_or_create_retry get wrap want)"
  unfolding get_or_create_retry_def by (auto intro!: calm_intros split: sum.split)

lemma calm_create_owned [calm_intros]: "(\<And>x. kind_of (wrap x) \<noteq> KConfigMap) \<Longrightarrow> calm (create_owned lib s with_meta wrap m)"
  unfolding create_owned_def by (auto intro!: calm_intros split: sum.split)

lemma calm_pass_step [calm_intros]: "calm p \<Longrightarrow> (\<And>x. calm (next_step x)) \<Longrightarrow> calm (pass_step p out next_step)"
  unfolding pass_step_def by (auto intro!: calm_intros)

lemma calm_created_step [calm_intros]:
  "calm p \<Longrightarrow> (\<And>x. calm (made x)) \<Longrightarrow> (\<And>x. calm (next_step x)) \<Longrightarrow> calm (created_step p made next_step)"
  unfolding created_step_def by (auto intro!: calm_intros)

lemma calm_changed_step [calm_intros]: "calm p \<Longrightarrow> calm q \<Longrightarrow> calm (changed_step p q)"
  unfolding changed_step_def by (auto intro!: calm_intros)

lemma calm_unless_yield [calm_intros]: "calm p \<Longrightarrow> calm q \<Longrightarrow> calm (unless_yield p out q)"
  unfolding unless_yield_def by (auto intro!: calm_intros)

lemma calm_claimOwnership [calm_intros]: "kind_of x \<noteq> KConfigMap \<Longrightarrow> calm (claimOwnership lib p x)"
  unfolding claimOwnership_def by (auto intro!: calm_intros simp: Let_def split: sum.split bool.split)

lemma calm_choose_owner [calm_intros]: "calm (choose_owner ns refs)"
  by (induction refs) (auto intro!: calm_intros simp: getSmbShareByName_def split: sum.split)

lemma calm_transferOwnership [calm_intros]: "kind_of x \<noteq> KConfigMap \<Longrightarrow> calm (transferOwnership lib x s)"
  unfolding transferOwnership_def by (auto intro!: calm_intros simp: Let_def split: sum.split option.split)

lemma calm_transfer_existing [calm_intros]:
  "(\<And>x. kind_of (wrap x) \<noteq> KConfigMap) \<Longrightarrow> calm get \<Longrightarrow> calm p \<Longrightarrow> calm (transfer_existing lib s wrap get p)"
  unfolding transfer_existing_def by (auto intro!: calm_intros split: option.split)

lemma calm_finalize_one [calm_intros]: "calm get \<Longrightarrow> calm p \<Longrightarrow> calm (finalize_one get wrap out p)"
  unfolding finalize_one_def by (auto intro!: calm_intros split: sum.split)

lemma calm_cluster_type [calm_intros]: "calm (IsOpenShiftCluster cfg)" "calm (updateClusterType cfg)"
  unfolding updateClusterType_def IsOpenShiftCluster_def resolveClusterTypeByPod_def getPod_def
  by (auto intro!: calm_intros)

lemma calm_openshift [calm_intros]: "calm (updateForOpenshift cfg s)" "calm (finalizeForOpenshift cfg s)"
  unfolding updateForOpenshift_def finalizeForOpenshift_def getOrCreateServiceAccountOf_def getOrCreateSCCRoleOf_def
    getOrCreateSCCRoleBindingOf_def getOrCreateMetricsRoleOf_def getOrCreateMetricsRoleBindingOf_def getServiceAccountOf_def
    getSCCRoleOf_def getSCCRoleBindingOf_def getMetricsRoleOf_def getMetricsRoleBindingOf_def getOrUpdateNamespaceOf_def
    getNamespace_def Let_def
  by (intro calm_intros; simp)+

lemma calm_steps [calm_intros]: "calm (addFinalizer lib s)" "calm (setServerGroup s)" "calm (updatePVC lib s)"
  unfolding addFinalizer_def setServerGroup_def updatePVC_def getOrCreatePvc_def getOrCreateGenericPVC_def getExistingPVC_def
  by (auto intro!: calm_intros split: sum.split)

lemma calm_resources [calm_intros]: "calm (update_resources lib cfg pl)"
  unfolding update_resources_def updateBackend_def updateClusteredState_def updateNonClusteredState_def updateSmbService_def
    updateMetricsService_def updateMetricsServiceMonitor_def getOrCreateMetricsService_def getOrCreateMetricsServiceMonitor_def
    getMetricsServiceOf_def getMetricsServiceMonitorOf_def getOrCreateService_def getOrCreateDeployment_def
    getOrCreateStatefulSet_def getOrCreateStatePVC_def getOrCreateGenericPVC_def getExistingPVC_def getExistingDeployment_def
    getExistingStatefulSet_def updateStatefulSetSize_def updateDeploymentSize_def created_event_def Let_def
  by (auto intro!: calm_intros split: sum.split)

lemma calm_finalize [calm_intros]: "calm (finalizeServerResources lib cfg s)" "calm (finalizeDataPVC lib s)"
  unfolding finalizeServerResources_def finalizeDataPVC_def getExistingPVC_def getExistingDeployment_def
    getExistingStatefulSet_def Let_def
  by (auto intro!: calm_intros)

section \<open>Stages that write one\<close>

lemma map_kmeta_ConfigMap [simp]: "map_kmeta f (OConfigMap cm) = OConfigMap (cm\<lparr>cm_meta := f (cm_meta cm)\<rparr>)"
  by (simp add: map_kmeta_def)

lemma getOrCreateConfigMap_good:
  "contract answers_good doc_call (getOrCreateConfigMap lib cfg p ns) (\<lambda>r. \<forall>x b. r = Inr (x, b) \<longrightarrow> good_doc x)"
  unfolding getOrCreateConfigMap_def Let_def get_or_create_def existing_def create_owned_def contract_on_ok contract_andthen
  by (intro contract_read_ok) (auto simp: contract_simps as_simps split: option.split sum.split)

lemma claimOwnership_good: "good_doc cm \<Longrightarrow> contract rely doc_call (claimOwnership lib p (OConfigMap cm)) (\<lambda>_. True)"
  unfolding claimOwnership_def by (auto simp: contract_simps Let_def split: sum.split bool.split)

lemma transferOwnership_good: "good_doc cm \<Longrightarrow> contract rely doc_call (transferOwnership lib (OConfigMap cm) s) (\<lambda>_. True)"
  unfolding transferOwnership_def
  by (auto simp: contract_simps Let_def split: sum.split option.split
      intro!: contract_mono [OF calm_doc [OF calm_choose_owner]])

lemma getShareInstance_good:
  assumes "utf8_share p"
  shows "contract answers_good doc_call (getShareInstance cfg p)
    (\<lambda>r. \<forall>i st pl. r = Inr i \<longrightarrow> New i st = Some pl \<longrightarrow> utf8_inputs pl \<and> pl_ConfigState pl = st)"
  unfolding getShareInstance_def getSecurityConfig_def getCommonConfig_def
  using assms
  by (auto simp: contract_simps as_simps New_def utf8_inputs_def typed_Inr)

lemma store_config_good:
  "storable cc \<Longrightarrow> sections_distinct cc \<Longrightarrow> contract rely doc_call (store_config cm cc (\<lambda>err. Ret (e err)) (Ret x)) (\<lambda>_. True)"
  unfolding store_config_def by (auto simp: contract_simps dest: good_doc_set)

lemma updateConfiguration_good:
  assumes "utf8_share p" "good_doc cm"
  shows "contract answers_good doc_call (updateConfiguration lib cfg cm p) (\<lambda>_. True)"
proof -
  obtain cc where cc: "getContainerConfig cm = Inr cc" "storable cc" "sections_distinct cc"
    using assms(2) by (auto simp: good_doc_def split: sum.splits)
  have check: "calm (check_group cfg p inst others)" for inst others
    unfolding check_group_def getSmbShareByName_def getShareInstance_def getSecurityConfig_def getCommonConfig_def
    by (auto intro!: calm_intros split: list.split sum.split)
  have updated: "storable cc' \<and> sections_distinct cc'"
    if "Update pl = Some (ch, cc')" "utf8_inputs pl" "pl_ConfigState pl = Some cc" for pl ch cc'
    using that cc update_steps_storable [of pl False cc ch cc'] update_steps_distinct [of pl False cc ch cc']
    by (simp add: Update_steps)
  show ?thesis
    unfolding updateConfiguration_def cc(1) sum.case contract_on_ok
    by (auto simp: contract_simps Let_def split: sum.split
        intro!: contract_mono [OF getShareInstance_good [OF assms(1)]] contract_mono [OF calm_doc [OF check]]
          contract_mono [OF store_config_good] dest: updated)
qed

lemma pruneConfiguration_good:
  assumes "utf8_share s" "good_doc cm"
  shows "contract rely doc_call (pruneConfiguration cfg cm s) (\<lambda>_. True)"
proof -
  obtain cc where cc: "getContainerConfig cm = Inr cc" "storable cc" "sections_distinct cc"
    using assms(2) by (auto simp: good_doc_def split: sum.splits)
  have pruned: "storable cc' \<and> sections_distinct cc'"
    if "Prune pl = Some (ch, cc')" "utf8_inputs pl" "pl_ConfigState pl = Some cc" for pl ch cc'
    using that cc prune_steps_storable [of pl False cc ch cc'] prune_steps_distinct [of pl False cc ch cc']
    by (simp add: Prune_steps)
  show ?thesis
    unfolding pruneConfiguration_def cc(1) sum.case
    using assms(1) by (auto simp: contract_simps New_def utf8_inputs_def dest!: pruned intro!: store_config_good)
qed

lemma updateConfigMap_good:
  "utf8_share p \<Longrightarrow> contract answers_good doc_call (updateConfigMap lib cfg p) (\<lambda>_. True)"
  unfolding updateConfigMap_def contract_on_ok
  by (rule contract_mono [OF getOrCreateConfigMap_good])
    (auto simp: contract_simps intro!: contract_mono [OF claimOwnership_good] contract_mono [OF updateConfiguration_good])

lemma finalizeConfigMap_good:
  "utf8_share s \<Longrightarrow> contract answers_good doc_call (finalizeConfigMap lib cfg s) (\<lambda>_. True)"
  unfolding finalizeConfigMap_def getConfigMap_def unless_yield_def changed_step_def contract_andthen
  by (rule contract_read_ok)
    (auto simp: contract_simps as_simps intro!: contract_mono [OF transferOwnership_good] contract_mono [OF pruneConfiguration_good])

section \<open>Whole passes\<close>

lemma same_share_utf8: "same_share s p \<Longrightarrow> utf8_share s \<Longrightarrow> utf8_share p"
  by (auto simp: same_share_def same_spec_def same_meta_def utf8_share_def split: option.splits)

lemma share_Finalize_good:
  assumes "utf8_share s"
  shows "contract answers_good doc_call (share_Finalize lib cfg s) (\<lambda>_. True)"
proof -
  have "calm (unless_yield (finalizeServerResources lib cfg s) (\<lambda>r. (r, cfg))
     (andthen (finalizeForOpenshift cfg s) (\<lambda>(r1, cfg).
      if Yield r1 then Ret (r1, cfg) else
      unless_yield (if shareNeedsPvc s then finalizeDataPVC lib s else Ret Done) (\<lambda>r. (r, cfg))
      (on_ok (api_write (CUpdate (OShare (remove_finalizer lib s))))
        (\<lambda>err. Ret (ErrResult err, cfg)) (\<lambda>_. Ret (Done, cfg))))))"
    by (auto intro!: calm_intros)
  from calm_doc [OF this] show ?thesis
    unfolding share_Finalize_def unless_yield_def [of "finalizeConfigMap lib cfg s"] contract_andthen
    by (intro contract_mono [OF finalizeConfigMap_good [OF assms]]) (simp add: contract_simps)
qed

lemma share_Update_good:
  assumes "utf8_share s"
  shows "contract answers_good doc_call (share_Update lib cfg s) (\<lambda>_. True)"
proof -
  have openshift: "contract answers_good doc_call (updateForOpenshift cfg s) (\<lambda>(r, p, c). utf8_share p)"
  proof (rule contract_guar_mono [OF contract_mono])
    show "contract answers_good (\<lambda>c. doc_call c \<and> update_may lib (nsname (oc_PodNamespace cfg) (oc_PodName cfg)) s c)
        (updateForOpenshift cfg s) (\<lambda>x. True \<and> (case x of (r, p, c) \<Rightarrow> same_share s p \<and> only_cluster_type cfg c))"
      by (intro contract_conj calm_doc calm_openshift
          contract_rely_mono [OF updateForOpenshift_contract [OF refl] answers_ok_honest])
  qed (use same_share_utf8 [OF _ assms] in auto)
  define go where "go p c planner = eval planner (\<lambda>pl.
     andthen (if shareNeedsPvc p then updatePVC lib p else Ret (p, Done)) (\<lambda>(s', r3).
     if Yield r3 then Ret (r3, c) else
     andthen (update_resources lib c (pl\<lparr>pl_SmbShare := s'\<rparr>)) (\<lambda>r. Ret (r, c))))" for p c planner
  have "calm (go p c planner)" for p c planner unfolding go_def by (auto intro!: calm_intros)
  note rest = calm_doc [OF this]
  show ?thesis
    unfolding share_Update_def go_def [symmetric] contract_on_ok
    by (rule contract_mono [OF calm_doc [OF calm_steps(1)]])
      (auto simp: contract_simps intro!: contract_mono [OF openshift] contract_mono [OF calm_doc [OF calm_steps(2)]]
          contract_mono [OF updateConfigMap_good] rest)
qed

text \<open>With what else is known of the calls, everything that is written is in order.\<close>

lemma update_keeps_good:
  assumes "utf8_share s" "update_may lib pod s c" "doc_call c"
  shows "keeps_good c"
proof (cases c)
  case (CCreate x)
  then show ?thesis using assms by (cases x) auto
next
  case (CUpdate x)
  then consider s' where "x = OShare s'" "share_write lib s s'" | "kind_of x = KNamespace"
    | "kind_of x \<in> {KDeployment, KStatefulSet, KService, KConfigMap}" using assms(2) by auto
  then show ?thesis
  proof cases
    case 1
    then have "same_share (s\<lparr>sh_meta := (sh_meta s)\<lparr>m_Finalizers := m_Finalizers (sh_meta s')\<rparr>\<rparr>) s'"
      by (auto simp: share_write_def same_share_def same_spec_def same_meta_def)
    then have "utf8_share s'" by (rule same_share_utf8) (use assms(1) in \<open>simp add: utf8_share_def\<close>)
    then show ?thesis using 1 CUpdate by simp
  qed (use assms(3) CUpdate in \<open>cases x; simp\<close>)+
next
  case (CStatusUpdate x)
  then obtain s' g where x: "x = OShare (set_group g s')" "same_share s s'" "requested_group s = Inr g" using assms(2) by auto
  have "valid_utf8 g"
    using x(3) assms(1) by (auto simp: requested_group_def utf8_share_def split: option.splits if_splits)
  then show ?thesis using x same_share_utf8 [OF x(2) assms(1)] CStatusUpdate by (simp add: set_group_def utf8_share_def)
qed simp_all

lemma finalize_keeps_good:
  assumes "utf8_share s" "finalize_may lib pod s c" "doc_call c"
  shows "keeps_good c"
proof (cases c)
  case (CUpdate x)
  then show ?thesis using assms by (cases x) (auto simp: remove_finalizer_def utf8_share_def)
qed (use assms in simp_all)

lemma Reconcile_good:
  assumes "kube_laws lib"
  shows "contract answers_good keeps_good (Reconcile lib cfg nn) (\<lambda>_. True)"
  using assms
  by (rule Reconcile_ok [where extra = doc_call])
    (auto intro: share_Update_good share_Finalize_good update_keeps_good finalize_keeps_good)

end
