(* ===== verification/SharesKept.thy ===== *)
theory SharesKept
  imports ObjectContracts ApiServer
begin

text \<open>
  What the operator leaves alone in a share, over passes of which each may have read the share at
  a different time: its identity, labels, owners and spec; the server group is assigned at
  most once. A share is compared with what was stored of it at the start.
\<close>

definition tied :: "SmbShare \<Rightarrow> SmbShare \<Rightarrow> bool" where
  "tied s0 s \<longleftrightarrow> same_spec s0 s \<and>
     m_Name (sh_meta s) = m_Name (sh_meta s0) \<and> m_Namespace (sh_meta s) = m_Namespace (sh_meta s0) \<and>
     m_UID (sh_meta s) = m_UID (sh_meta s0) \<and> m_Labels (sh_meta s) = m_Labels (sh_meta s0) \<and>
     m_OwnerReferences (sh_meta s) = m_OwnerReferences (sh_meta s0) \<and>
     (\<forall>k. k \<noteq> scc_annotation \<and> k \<noteq> serverBackend \<longrightarrow>
        mlookup (m_Annotations (sh_meta s)) k = mlookup (m_Annotations (sh_meta s0)) k) \<and>
     (sh_Status s = sh_Status s0 \<or>
      sst_ServerGroup (sh_Status s0) = '''' \<and> requested_group s0 = Inr (sst_ServerGroup (sh_Status s)))"

fun tied_obj :: "store \<Rightarrow> kobj \<Rightarrow> bool" where
  "tied_obj st0 (OShare s) = (\<exists>s0. st0 KShare (nsname_of (sh_meta s)) = Some (OShare s0) \<and> tied s0 s)"
| "tied_obj st0 _ = True"

lemma tied_obj_other [simp]: "kind_of x \<noteq> KShare \<Longrightarrow> tied_obj st0 x"
  by (cases x) simp_all

lemma tied_refl: "tied s s"
  by (simp add: tied_def same_spec_def)

lemma same_spec_trans:
  "same_spec s0 s \<Longrightarrow> same_spec s s' \<Longrightarrow> m_Name (sh_meta s) = m_Name (sh_meta s0) \<Longrightarrow> same_spec s0 s'"
  by (auto simp: same_spec_def)

lemma same_spec_requested_group:
  "same_spec s0 s \<Longrightarrow> m_Name (sh_meta s) = m_Name (sh_meta s0) \<Longrightarrow> requested_group s = requested_group s0"
proof -
  assume "same_spec s0 s" "m_Name (sh_meta s) = m_Name (sh_meta s0)"
  then have "sp_Scaling (sh_Spec s) = sp_Scaling (sh_Spec s0)" "m_Name (sh_meta s) = m_Name (sh_meta s0)"
    by (auto simp: same_spec_def)
  then show ?thesis by (simp only: requested_group_def)
qed

lemma tied_step:
  assumes "tied s0 s" "same_meta (sh_meta s) (sh_meta s')" "same_spec s s'" "sh_Status s' = sh_Status s"
  shows "tied s0 s'"
  using assms same_spec_trans [of s0 s s'] by (simp add: tied_def same_meta_def)

lemma tied_group:
  assumes "tied s0 s" "same_share s s'" "sst_ServerGroup (sh_Status s) = ''''" "requested_group s = Inr g"
  shows "tied s0 (set_group g s')"
proof -
  have "tied s0 s'" using assms(1,2) by (auto simp: same_share_def intro: tied_step)
  moreover have "sst_ServerGroup (sh_Status s0) = ''''" using assms(1,3) by (auto simp: tied_def)
  moreover have "requested_group s0 = Inr g"
    using assms(1,4) same_spec_requested_group [of s0 s] by (simp add: tied_def)
  ultimately show ?thesis by (simp add: tied_def set_group_def same_spec_def)
qed

lemma update_keeps_tied:
  assumes "tied_obj st0 (OShare s)" "update_may lib pod s c"
  shows "keeps_ok (tied_obj st0) c"
proof -
  obtain s0 where s0: "st0 KShare (nsname_of (sh_meta s)) = Some (OShare s0)" "tied s0 s" using assms(1) by auto
  have key: "nsname_of (sh_meta s') = nsname_of (sh_meta s)" if "same_meta (sh_meta s) (sh_meta s')" for s'
    using that by (simp add: same_meta_def nsname_of_def)
  show ?thesis
  proof (cases c)
    case (CCreate x)
    then show ?thesis using assms(2) by auto
  next
    case (CUpdate x)
    then consider s' where "x = OShare s'" "share_write lib s s'" | "kind_of x \<noteq> KShare" using assms(2) by auto
    then show ?thesis
    proof cases
      case 1
      then have "tied s0 s'" "nsname_of (sh_meta s') = nsname_of (sh_meta s)"
        using tied_step [OF s0(2), of s'] key [of s'] by (simp_all add: share_write_def)
      then show ?thesis using CUpdate s0(1) 1(1) by simp
    qed (use CUpdate in simp)
  next
    case (CStatusUpdate x)
    then obtain s' g where "x = OShare (set_group g s')" "same_share s s'" "sst_ServerGroup (sh_Status s) = ''''"
      "requested_group s = Inr g" using assms(2) by auto
    then show ?thesis
      using CStatusUpdate s0 key [of s'] tied_group [OF s0(2)] by (simp add: same_share_def set_group_def)
  qed simp_all
qed

lemma finalize_keeps_tied:
  assumes "tied_obj st0 (OShare s)" "finalize_may lib pod s c"
  shows "keeps_ok (tied_obj st0) c"
proof (cases c)
  case (CUpdate x)
  then consider "x = OShare (remove_finalizer lib s)" | "kind_of x \<noteq> KShare" using assms(2) by auto
  then show ?thesis
    using CUpdate assms(1) by cases (auto simp: remove_finalizer_def nsname_of_def tied_def same_spec_def)
qed (use assms(2) in auto)

lemma Reconcile_tied:
  "kube_laws lib \<Longrightarrow> contract (answers_ok (tied_obj st0)) (keeps_ok (tied_obj st0)) (Reconcile lib cfg nn) (\<lambda>_. True)"
  by (rule Reconcile_ok [where extra = "\<lambda>_. True"])
    (assumption | rule contract_True | erule update_keeps_tied finalize_keeps_tied)+

text \<open>A status update takes the status from one and everything else from the other.\<close>

lemma tied_with_status:
  assumes "tied_obj st0 x" "tied_obj st0 y" "kind_of x = kind_of y" "key_of x = key_of y"
  shows "tied_obj st0 (with_status_of x y)"
proof (cases x)
  case (OShare s)
  then obtain s' where "y = OShare s'" using assms(3) by (cases y) auto
  then show ?thesis
    using OShare assms by (auto simp: key_of_def tied_def same_spec_def)
qed (cases y; use assms in simp)+

end
