(* ===== verification/System.thy ===== *)
theory System
  imports Documents SharesKept SettledProps
begin

text \<open>
  The operator in its cluster as a state machine: any number of passes over any shares run at
  the same time, call by call, while users put and delete objects and calls fail or are lost.
  A state is the store and the rest of the program of every running pass. A locale proves once
  that an order of single objects which passes keep holds in all reachable states; it is
  interpreted for the documents of \<open>Documents\<close> and for the shares of \<open>SharesKept\<close>.
\<close>

section \<open>Steps\<close>

text \<open>
  How the server may answer a call. A write takes effect or not, and an error may be reported
  for one that did; an update may be the last of a share that is being deleted.
\<close>

inductive serve :: "store \<Rightarrow> call \<Rightarrow> resp \<Rightarrow> store \<Rightarrow> bool" where
  found: "st k nn = Some x \<Longrightarrow> serve st (CGet k nn) (Inr x) st"
| refused: "serve st c (Inl err) st"
| effect: "is_write c \<Longrightarrow> takes_effect c st st' \<Longrightarrow> serve st c r st'"
| gone: "serve st (CUpdate x) r (without x st)"
| noted: "serve st (CEvent about t reason msg) r st"

type_synonym pass = "(ctrl_Result \<times> gerror option \<times> OperatorConfig) prog"
type_synonym sys_state = "store \<times> (nat \<Rightarrow> pass option)"

text \<open>
  A pass is started for any name and with any operator configuration, makes a call, or ends; a
  panic ends the process and with it all passes. A user deletes an object, or puts one of
  those given by \<open>users\<close>.
\<close>

inductive sys_step :: "kube_lib \<Rightarrow> (kobj \<Rightarrow> bool) \<Rightarrow> sys_state \<Rightarrow> sys_state \<Rightarrow> bool" for lib users where
  starts: "run i = None \<Longrightarrow> sys_step lib users (st, run) (st, run(i \<mapsto> Reconcile lib cfg nn))"
| calls: "run i = Some (Do c k) \<Longrightarrow> serve st c r st' \<Longrightarrow> sys_step lib users (st, run) (st', run(i \<mapsto> k r))"
| ends: "run i = Some (Ret x) \<Longrightarrow> sys_step lib users (st, run) (st, run(i := None))"
| crashes: "run i = Some Panic \<Longrightarrow> sys_step lib users (st, run) (st, \<lambda>_. None)"
| user_puts: "users x \<Longrightarrow> sys_step lib users (st, run) (put x st, run)"
| user_deletes: "sys_step lib users (st, run) (without x st, run)"

abbreviation reaches :: "kube_lib \<Rightarrow> (kobj \<Rightarrow> bool) \<Rightarrow> sys_state \<Rightarrow> sys_state \<Rightarrow> bool" where
  "reaches lib users \<equiv> rtranclp (sys_step lib users)"

section \<open>Invariants of single objects\<close>

text \<open>Objects are filed under their own name and in order.\<close>

definition all_filed :: "(kobj \<Rightarrow> bool) \<Rightarrow> store \<Rightarrow> bool" where
  "all_filed ok st \<longleftrightarrow> (\<forall>k nn x. st k nn = Some x \<longrightarrow> kind_of x = k \<and> key_of x = nn \<and> ok x)"

lemma all_filedD: "all_filed ok st \<Longrightarrow> st k nn = Some x \<Longrightarrow> kind_of x = k \<and> key_of x = nn \<and> ok x"
  by (simp add: all_filed_def)

lemma all_filed_put: "all_filed ok st \<Longrightarrow> ok x \<Longrightarrow> all_filed ok (put x st)"
  by (simp add: all_filed_def put_def)

lemma all_filed_without: "all_filed ok st \<Longrightarrow> all_filed ok (without x st)"
  by (simp add: all_filed_def without_def)

text \<open>
  An order of objects that passes keep, and that survives what the server does to an object
  when it stores it: assigning a UID, and taking the status and the rest from different
  versions.
\<close>

locale object_invariant =
  fixes lib :: kube_lib and ok :: "kobj \<Rightarrow> bool"
  assumes pass: "contract (answers_ok ok) (keeps_ok ok) (Reconcile lib cfg nn) (\<lambda>_. True)"
    and uid: "kind_of x \<noteq> KShare \<Longrightarrow> ok x \<Longrightarrow> ok (with_uid u x)"
    and status: "ok x \<Longrightarrow> ok y \<Longrightarrow> kind_of x = kind_of y \<Longrightarrow> key_of x = key_of y \<Longrightarrow> ok (with_status_of x y)"
begin

definition in_order :: "sys_state \<Rightarrow> bool" where
  "in_order s \<longleftrightarrow> all_filed ok (fst s) \<and>
     (\<forall>i p. snd s i = Some p \<longrightarrow> contract (answers_ok ok) (keeps_ok ok) p (\<lambda>_. True))"

lemma serve_ok:
  assumes "serve st c r st'" "all_filed ok st" "keeps_ok ok c"
  shows "all_filed ok st' \<and> answers_ok ok (c, r)"
  using assms
proof (induction rule: serve.induct)
  case (found st k nn x)
  then show ?case using all_filedD [OF found.prems(1) found.hyps] by (simp add: key_of_def)
next
  case (effect c st st' r)
  note stored = all_filedD [OF effect.prems(1)]
  show ?case
    using effect
    by (cases c) (auto dest: stored split: option.splits
        intro!: all_filed_put uid status all_filed_without [unfolded without_def])
qed (auto simp: all_filed_without)

lemma step_in_order:
  assumes "sys_step lib users s s'" "\<And>x. users x \<Longrightarrow> ok x" "in_order s"
  shows "in_order s'"
  using assms
proof (induction rule: sys_step.induct)
  case (starts run i st cfg nn)
  then show ?case using pass by (simp add: in_order_def)
next
  case (calls run i c k st r st')
  then have "contract (answers_ok ok) (keeps_ok ok) (Do c k) (\<lambda>_. True)"
    unfolding in_order_def snd_conv by blast
  then have now: "keeps_ok ok c" "\<And>r. answers_ok ok (c, r) \<Longrightarrow> contract (answers_ok ok) (keeps_ok ok) (k r) (\<lambda>_. True)"
    by simp_all
  then show ?case using serve_ok [OF calls.hyps(2)] calls.prems(2) by (simp add: in_order_def)
qed (auto simp: in_order_def all_filed_put all_filed_without)

lemma reachable_filed:
  assumes "reaches lib users (st0, \<lambda>_. None) (st, run)" "\<And>x. users x \<Longrightarrow> ok x" "all_filed ok st0"
  shows "all_filed ok st"
proof -
  have "in_order s" if "reaches lib users (st0, \<lambda>_. None) s" for s
    using that by (induction rule: rtranclp_induct) (use assms(2,3) in \<open>auto simp: in_order_def [of "(st0, \<lambda>_. None)"] intro: step_in_order\<close>)
  from this [OF assms(1)] show ?thesis by (simp add: in_order_def)
qed

end

lemma good_invariant: "kube_laws lib \<Longrightarrow> object_invariant lib good_obj"
proof (unfold_locales, goal_cases)
  case (1 cfg nn)
  then show ?case by (rule Reconcile_good)
next
  case (2 x u)
  then show ?case by (cases x) (simp_all add: with_uid_def map_kmeta_def)
next
  case (3 x y)
  then show ?case by (cases x; cases y; simp add: utf8_share_def)
qed

lemma tied_invariant: "kube_laws lib \<Longrightarrow> object_invariant lib (tied_obj st0)"
  by unfold_locales (auto simp: with_uid_def map_kmeta_def Reconcile_tied tied_with_status)

interpretation documents: object_invariant std_lib good_obj
  by (rule good_invariant [OF std.kube_laws_axioms])

interpretation shares: object_invariant std_lib "tied_obj st0" for st0
  by (rule tied_invariant [OF std.kube_laws_axioms])

section \<open>Runs on the in-memory server\<close>

text \<open>The loop of \<open>SettledProps\<close> is one of the runs of this machine.\<close>

lemma mem_serve: "serve (mem_look w) c (fst (mem_api w c)) (mem_look (snd (mem_api w c)))"
proof (cases c)
  case (CGet k nn)
  then show ?thesis by (cases "mem_look w k nn") (auto intro: serve.intros)
next
  case (CCreate x)
  then show ?thesis
    by (cases "mem_look w (kind_of x) (key_of x)") (auto simp: Let_def mem_look_put intro!: serve.effect serve.refused)
next
  case (CUpdate x)
  then show ?thesis
    by (cases "mem_look w (kind_of x) (key_of x)")
      (auto simp: Let_def mem_look_put mem_look_drop intro!: serve.refused serve.gone serve.effect)
next
  case (CStatusUpdate x)
  then show ?thesis
    by (cases "mem_look w (kind_of x) (key_of x)") (auto simp: Let_def mem_look_put intro!: serve.effect serve.refused)
next
  case (CDelete x)
  then show ?thesis
    by (cases "mem_look w (kind_of x) (key_of x)") (auto simp: mem_look_drop without_def intro!: serve.effect serve.refused)
next
  case (CEvent a t q m)
  then show ?thesis by (auto intro: serve.noted)
qed

lemma run_reaches:
  "run_prog mem_api p w = (tr, Some x, w') \<Longrightarrow> reaches lib users (mem_look w, run(i \<mapsto> p)) (mem_look w', run(i \<mapsto> Ret x))"
proof (induction p arbitrary: w tr)
  case (Do c k)
  let ?r = "fst (mem_api w c)" and ?w1 = "snd (mem_api w c)"
  obtain tr1 where "run_prog mem_api (k ?r) ?w1 = (tr1, Some x, w')"
    using Do.prems by (auto simp: Let_def split: prod.splits)
  then have "reaches lib users (mem_look ?w1, run(i \<mapsto> k ?r)) (mem_look w', run(i \<mapsto> Ret x))" using Do.IH by blast
  moreover have "sys_step lib users (mem_look w, run(i \<mapsto> Do c k)) (mem_look ?w1, (run(i \<mapsto> Do c k))(i \<mapsto> k ?r))"
    by (rule sys_step.calls [OF _ mem_serve]) simp
  ultimately show ?case unfolding fun_upd_upd by (rule converse_rtranclp_into_rtranclp [rotated])
qed auto

lemma pass_reaches:
  assumes "exec mem_api (Reconcile lib cfg nn) w = (ws, Some x, w')"
  shows "reaches lib users (mem_look w, \<lambda>_. None) (mem_look w', \<lambda>_. None)"
proof -
  let ?run = "\<lambda>_ :: nat. None :: pass option"
  obtain tr where "run_prog mem_api (Reconcile lib cfg nn) w = (tr, Some x, w')"
    using assms by (auto simp: exec_def split: prod.splits)
  from run_reaches [OF this, of lib users ?run 0]
  have "reaches lib users (mem_look w, ?run(0 \<mapsto> Reconcile lib cfg nn)) (mem_look w', ?run(0 \<mapsto> Ret x))" .
  moreover have "sys_step lib users (mem_look w, ?run) (mem_look w, ?run(0 \<mapsto> Reconcile lib cfg nn))" by (rule sys_step.starts) simp
  moreover have "sys_step lib users (mem_look w', ?run(0 \<mapsto> Ret x)) (mem_look w', (?run(0 \<mapsto> Ret x))(0 := None))"
    by (rule sys_step.ends) simp
  ultimately show ?thesis by (simp add: converse_rtranclp_into_rtranclp rtranclp.rtrancl_into_rtrancl)
qed

lemma drive_reaches:
  "drive lib mem_api n cfg nn w = Some (passes, w') \<Longrightarrow> reaches lib users (mem_look w, \<lambda>_. None) (mem_look w', \<lambda>_. None)"
proof (induction n arbitrary: cfg w passes)
  case (Suc n)
  then obtain ws res cfg' w1 where pass: "exec mem_api (Reconcile lib cfg nn) w = (ws, Some (res, None, cfg'), w1)"
    and rest: "(if cr_Requeue res then map_option snd (drive lib mem_api n cfg' nn w1) else Some w1) = Some w'"
    by (auto split: prod.splits option.splits if_splits)
  have "reaches lib users (mem_look w1, \<lambda>_. None) (mem_look w', \<lambda>_. None)"
    using rest Suc.IH [of cfg' w1] by (auto split: if_splits)
  then show ?case using pass_reaches [OF pass] by (rule rtranclp_trans [rotated])
qed simp

section \<open>Properties\<close>

text \<open>
  C6. The configuration documents stay in order whatever happens: in every state that the cluster
  can reach, with any number of passes over any shares running at the same time and
  interleaved call by call, with calls that fail or take effect although they report an
  error, with crashes of the operator, and with users editing and deleting everything but
  breaking no document themselves, every config map holds a document that can be read and
  stored again, lists no share twice, and on which neither \<open>Update\<close> of a share with a claim
  nor \<open>Prune\<close> panics.
\<close>

theorem documents_stay_good:
  assumes "kube_laws lib" "reaches lib good_obj (st0, \<lambda>_. None) (st, run)" "all_filed good_obj st0" "st KConfigMap nn = Some (OConfigMap cm)"
  shows "\<exists>cc. getContainerConfig cm = Inr cc \<and> storable cc \<and> sections_distinct cc \<and>
    (\<forall>pl. Prune (pl\<lparr>pl_ConfigState := Some cc\<rparr>) \<noteq> None \<and>
      (has_pvc (pl_SmbShare pl) \<and> wf_customs pl \<longrightarrow> Update (pl\<lparr>pl_ConfigState := Some cc\<rparr>) \<noteq> None))"
proof -
  have "all_filed good_obj st"
    by (rule object_invariant.reachable_filed [OF good_invariant [OF assms(1)] assms(2) _ assms(3)])
  then have "good_doc cm" using assms(4) by (auto dest: all_filedD)
  then obtain cc where cc: "getContainerConfig cm = Inr cc" "storable cc" "sections_distinct cc"
    by (auto simp: good_doc_def split: sum.splits)
  then have wf: "wf_scc cc" by (simp add: storable_def)
  have "Prune (pl\<lparr>pl_ConfigState := Some cc\<rparr>) \<noteq> None" for pl
    using prune_steps_run [OF wf, of pl False] by (auto simp: Prune_again)
  moreover have "Update (pl\<lparr>pl_ConfigState := Some cc\<rparr>) \<noteq> None" if "has_pvc (pl_SmbShare pl)" "wf_customs pl" for pl
    using update_steps_run [OF wf that, of False] by (auto simp: Update_again)
  ultimately show ?thesis using cc by blast
qed

lemma new_store_good: "all_filed good_obj (mem_look new_store)"
proof -
  have "utf8_share new_share" "list_all valid_utf8 (sec_Realm (ssc_Spec demo_security) # List.map sd_Name (sec_Domains (ssc_Spec demo_security)))"
    by code_simp+
  then have "good_obj x" if "x \<in> set new_store" for x
    using that by (auto simp: new_store_def list_all_iff)
  then show ?thesis
    unfolding all_filed_def mem_look_def find_Some_iff by (auto intro: nth_mem)
qed

lemma in_place_config_map:
  assumes "in_place lib cfg st nn"
  obtains kk cm where "st KConfigMap kk = Some (OConfigMap cm)"
proof -
  obtain x where x: "st KShare nn = Some x" using assms by (cases "st KShare nn") (simp_all add: in_place_def)
  then obtain s where s: "st KShare nn = Some (OShare s)" using assms by (cases x) (simp_all add: in_place_def)
  then obtain y where y: "st KConfigMap (server_key s) = Some y"
    using assms by (cases "st KConfigMap (server_key s)") (simp_all add: in_place_def)
  then obtain cm where "st KConfigMap (server_key s) = Some (OConfigMap cm)"
    using assms s by (cases y) (simp_all add: in_place_def)
  then show thesis by (rule that)
qed

lemma new_store_driven:
  obtains passes w where "drive std_lib mem_api 12 plain_config (nsname ''ns1'' ''share1'') new_store = Some (passes, w)"
    "in_place std_lib plain_config (mem_look w) (nsname ''ns1'' ''share1'')"
proof -
  have "rank std_lib plain_config (mem_look new_store) (nsname ''ns1'' ''share1'') < 12"
    using rank_bound [of std_lib plain_config "mem_look new_store" "nsname ''ns1'' ''share1''"] by linarith
  from mem_cluster.drive_settles [OF new_store_in_scope this] show thesis using that by blast
qed

lemma documents_stay_good_witness:
  "\<exists>passes w kk cm cc. drive std_lib mem_api 12 plain_config (nsname ''ns1'' ''share1'') new_store = Some (passes, w) \<and>
     mem_look w KConfigMap kk = Some (OConfigMap cm) \<and> getContainerConfig cm = Inr cc \<and> storable cc \<and> sections_distinct cc"
proof -
  obtain passes w where run: "drive std_lib mem_api 12 plain_config (nsname ''ns1'' ''share1'') new_store = Some (passes, w)"
    and there: "in_place std_lib plain_config (mem_look w) (nsname ''ns1'' ''share1'')" by (rule new_store_driven)
  obtain kk cm where cm: "mem_look w KConfigMap kk = Some (OConfigMap cm)" using there by (rule in_place_config_map)
  show ?thesis using documents_stay_good [OF std.kube_laws_axioms drive_reaches [OF run] new_store_good cm] run cm by blast
qed

lemma all_filed_tied: "all_filed (\<lambda>_. True) st0 \<Longrightarrow> all_filed (tied_obj st0) st0"
proof -
  assume "all_filed (\<lambda>_. True) st0"
  note named = all_filedD [OF this]
  have "tied_obj st0 x" if "st0 k nn = Some x" for k nn x
    using that named [OF that] by (cases x) (auto simp: key_of_def intro: tied_refl)
  then show ?thesis unfolding all_filed_def using named by blast
qed

text \<open>
  C7. A share belongs to its user, however many passes work on it with whatever old versions of it:
  as long as users leave the identity, the spec, the labels, the owners and the status of
  shares alone (they may delete shares, mark them for deletion and change anything else), every share in a
  reachable state was there at the start, with the same identity, labels and owners, with the
  same spec but for the name of the claim, which is filled in once, and with the same
  server group, or with the one its spec asks for if it had none.
\<close>

theorem shares_stay_the_users:
  assumes "kube_laws lib" "reaches lib (tied_obj st0) (st0, \<lambda>_. None) (st, run)" "all_filed (\<lambda>_. True) st0"
    and "st KShare nn = Some (OShare s)"
  shows "\<exists>s0. st0 KShare nn = Some (OShare s0) \<and> same_spec s0 s \<and> m_UID (sh_meta s) = m_UID (sh_meta s0) \<and>
    m_Labels (sh_meta s) = m_Labels (sh_meta s0) \<and> m_OwnerReferences (sh_meta s) = m_OwnerReferences (sh_meta s0) \<and>
    (sst_ServerGroup (sh_Status s) = sst_ServerGroup (sh_Status s0) \<or>
     sst_ServerGroup (sh_Status s0) = '''' \<and> requested_group s0 = Inr (sst_ServerGroup (sh_Status s)))"
proof -
  have "all_filed (tied_obj st0) st"
    by (rule object_invariant.reachable_filed [OF tied_invariant [OF assms(1)] assms(2) _ all_filed_tied [OF assms(3)]])
  from all_filedD [OF this assms(4)] show ?thesis by (auto simp: tied_def key_of_def)
qed

lemma in_place_share:
  assumes "in_place lib cfg st nn"
  obtains s where "st KShare nn = Some (OShare s)" "sst_ServerGroup (sh_Status s) \<noteq> []"
proof -
  obtain x where x: "st KShare nn = Some x" using assms by (cases "st KShare nn") (simp_all add: in_place_def)
  then obtain s where "st KShare nn = Some (OShare s)" using assms by (cases x) (simp_all add: in_place_def)
  then show thesis using assms that by (simp add: in_place_def)
qed

lemma shares_stay_the_users_witness:
  "\<exists>passes w s. drive std_lib mem_api 12 plain_config (nsname ''ns1'' ''share1'') new_store = Some (passes, w) \<and>
     mem_look w KShare (nsname ''ns1'' ''share1'') = Some (OShare s) \<and> same_spec new_share s \<and> sst_ServerGroup (sh_Status s) = ''share1''"
proof -
  obtain passes w where run: "drive std_lib mem_api 12 plain_config (nsname ''ns1'' ''share1'') new_store = Some (passes, w)"
    and there: "in_place std_lib plain_config (mem_look w) (nsname ''ns1'' ''share1'')" by (rule new_store_driven)
  obtain s where s: "mem_look w KShare (nsname ''ns1'' ''share1'') = Some (OShare s)" "sst_ServerGroup (sh_Status s) \<noteq> []"
    using there by (rule in_place_share)
  have "all_filed (\<lambda>_. True) (mem_look new_store)" using new_store_good by (simp add: all_filed_def)
  from shares_stay_the_users [OF std.kube_laws_axioms drive_reaches [OF run] this s(1)]
  have "same_spec new_share s" "sst_ServerGroup (sh_Status s) = sst_ServerGroup (sh_Status new_share) \<or>
      requested_group new_share = Inr (sst_ServerGroup (sh_Status s))"
    by (auto simp: mem_look_def new_store_def key_of_def split: if_splits)
  moreover have "requested_group new_share = Inr ''share1''" "sst_ServerGroup (sh_Status new_share) = []" by code_simp+
  ultimately show ?thesis using run s by auto
qed

end
