(* ===== verification/Spec2Isabelle.thy ===== *)
theory Spec2Isabelle
  imports ConfigurationTheorems Controllers PodsProps JsonProps ConfigMaps PassProperties Storable ShareProps
    SettledProps TypedDocs FinalizerLast Released System
begin

text \<open>
  A verification development for the Samba operator (Go, \<open>src/\<close>), which runs Samba servers in
  Kubernetes for the SmbShare resources that users create.

  \<^bold>\<open>The program.\<close> \<open>main.go\<close> reads the operator's configuration (\<open>internal/conf\<close>), registers three
  reconcilers (\<open>controllers/\<close>) and starts the controller runtime. The runtime calls
  \<open>Reconcile\<close> with the name of an object that may need attention. For an SmbShare this is one
  pass of \<open>SmbShareManager.Process\<close> (\<open>internal/resources/smbshare.go\<close>): it reads the share and
  the configurations it names, assigns the share to a server group, and brings into being, one
  change per pass, the objects of that group: a config map, a volume claim, a deployment or
  stateful set, a service, and on OpenShift also access rules and metrics objects. What these
  objects contain is decided without any call to the cluster by the planner
  (\<open>internal/planner\<close>), the pod builders (\<open>pods.go\<close>, \<open>volumes.go\<close>) and the document format of the
  Samba containers (\<open>internal/smbcc\<close>). The shares of one group have their objects in common:
  each share adds its entry to the document in the config map, and takes it away and hands the
  objects over when it is deleted.

  \<^bold>\<open>Conventions.\<close> A Go struct is a record, a pointer an \<open>option\<close>, a map \<open>None\<close> (nil) or a list
  of entries in the order of the keys; strings are lists of bytes. \<open>None\<close> as a result is a
  run-time panic, \<open>Inl\<close> an error that is returned. Integers that the code converts are words
  of their width. A method that talks to the cluster is a program (\<open>prog\<close>, theory \<open>Effects\<close>): a
  tree of API calls whose branches are the possible answers, so that nothing about the server
  is built into the model. \<open>replay\<close> runs a program on a list of answers, \<open>run_prog\<close> and
  \<open>exec\<close> on a server.

  \<^bold>\<open>The model.\<close>
  \<^item> \<open>Prelude\<close>, \<open>GoPath\<close>: Go's maps, strings, decimal numbers and \<open>path.Join\<close>.
  \<^item> \<open>Api\<close>: the resources of \<open>api/v1alpha1\<close>. \<open>KubeObjects\<close>: the Kubernetes objects.
  \<^item> \<open>Conf\<close>, \<open>ConfSource\<close>: \<open>internal/conf\<close>, the configuration with its validation, and how it is
    gathered from defaults, files, environment and flags.
  \<^item> \<open>SmbCC\<close>: \<open>internal/smbcc\<close>, the configuration document. \<open>Json\<close>: what is used of
    \<open>encoding/json\<close>. \<open>ConfigMaps\<close>: \<open>configmap.go\<close>, the document as text in a config map.
  \<^item> \<open>Planner\<close>, \<open>Configuration\<close>, \<open>Compatible\<close>: \<open>internal/planner\<close>: names, paths, labels and
    container arguments; \<open>Update\<close> and \<open>Prune\<close> of the document, one definition per block of the
    Go functions; the check that shares may be grouped.
  \<^item> \<open>Volumes\<close>, \<open>Pods\<close>, \<open>Workloads\<close>: \<open>volumes.go\<close>, \<open>pods.go\<close>, \<open>deployments.go\<close>,
    \<open>statefulsets.go\<close>, \<open>services.go\<close> and the builders of \<open>metrics.go\<close>.
  \<^item> \<open>Effects\<close>, \<open>KubeLib\<close>: the calls of the client, results of stages and events (\<open>result.go\<close>,
    \<open>events.go\<close>), and the functions of the Kubernetes libraries as a parameter.
  \<^item> \<open>Getters\<close>, \<open>Ownership\<close>, \<open>Openshift\<close>, \<open>ShareManager\<close>: \<open>getters.go\<close>, \<open>ownership.go\<close>,
    \<open>openshift.go\<close>, \<open>smbshare.go\<close>, method by method; \<open>share_Update\<close>, \<open>share_Finalize\<close> and
    \<open>Process\<close> are the methods of those names.
  \<^item> \<open>Controllers\<close>: \<open>controllers/\<close> with the permissions and watches they declare, and \<open>main.go\<close>.

  \<^bold>\<open>What is proved.\<close>
  \<^item> The document (\<open>ConfigurationProps\<close>, \<open>ConfigurationTheorems\<close>): \<open>Update\<close> does not panic, settles
    in one step and says truly whether it changed anything; what it writes and what it leaves
    alone; \<open>Prune\<close> undoes it; ID ranges of domains are disjoint; the order in which Go visits a
    map does not matter. \<open>TypedDocs\<close> covers documents of any text, with the exact condition
    under which \<open>Update\<close> panics on one.
  \<^item> The text (\<open>JsonProps\<close>, \<open>ConfigMaps\<close>, \<open>Utf8Props\<close>, \<open>Storable\<close>): a document that is stored is
    read back unchanged, everything the planner writes can be stored, and the pass on the
    config map refines the one on the document.
  \<^item> The objects (\<open>Volumes\<close>, \<open>PodsProps\<close>, \<open>Workloads\<close>, \<open>Compatible\<close>, \<open>Ownership\<close>,
    \<open>ShareProps\<close>): pods are valid, join secrets stay where they are needed (and where they do
    not), selectors match labels, owner references and hand-over, replica numbers, paths, and
    what happens to shares that collide in a group.
  \<^item> One pass, whatever the server answers: \<open>Stages\<close> and \<open>ShareStages\<close> (at most one change, and
    nothing but events after it), \<open>Contracts\<close>, \<open>Permissions\<close> and \<open>PassProperties\<close> (namespace, owner
    references, permissions, the share's own fields, what a finalization may do), and
    \<open>FinalizerLast\<close> (what the answers must have shown before the finalizer is removed).
  \<^item> Repeated passes on a server that answers as documented: \<open>NextChange\<close> says what a pass is
    meant to do as a function of the stored objects, \<open>Convergence\<close> that it does it, \<open>Settling\<close>
    and \<open>SettledProps\<close> that the loop ends with everything in place; \<open>Deletion\<close> and \<open>Released\<close>
    the same for a share that is deleted, on OpenShift and elsewhere.
  \<^item> Many passes at once: \<open>System\<close> is a step relation in which passes over any shares interleave
    call by call, calls fail or report errors although they took effect, the operator crashes
    and users edit; the locale \<open>object_invariant\<close> carries what passes keep of single objects
    to all reachable states. \<open>Documents\<close> has the contract of a pass by which the documents in
    the config maps stay in order, \<open>SharesKept\<close> the one by which shares keep what belongs to
    the user; \<open>ObjectContracts\<close> is common to both.
  \<^item> The start: every configuration field comes from the first source that has it, and the
    manager is started only with a checked configuration and after the reconcilers.

  \<^bold>\<open>Parameters.\<close> Three things are not in the repository and are arguments of the model: the
  functions of the Kubernetes libraries (\<open>kube_lib\<close>, laws in locale \<open>kube_laws\<close>, interpreted on
  \<open>std_lib\<close>), viper and pflag (\<open>viper_lib\<close>, locale \<open>viper_laws\<close>, interpreted on \<open>std_viper_lib\<close>), and
  the API server (locale \<open>api_server\<close>, interpreted on the in-memory server \<open>mem_api\<close>; \<open>cluster\<close>
  joins it with \<open>kube_laws\<close>). The properties of a single pass and of \<open>System\<close> do not assume the
  server's laws. Three more locales are contracts within the model:
  \<open>config_step\<close>, which the blocks of \<open>Update\<close> and \<open>Prune\<close> meet, \<open>stage\<close>, which the stages of a
  pass meet, and \<open>object_invariant\<close>, which passes meet.

  \<^bold>\<open>Bounds.\<close> The JSON parser has fuel, one unit per byte and one more, which is enough since
  every call consumes a byte. \<open>drive\<close> repeats a pass a given number of times: every change of
  an update lowers \<open>rank\<close>, which is at most 11, so twelve passes end in one that changes
  nothing; a deletion has at most five changes pending (\<open>pending\<close>), and on OpenShift up to five
  more, for the objects of \<open>access_keys\<close>, so that eleven passes end in the one that removes the
  finalizer. Nothing else is bounded.

  \<^bold>\<open>Not modelled.\<close>
  \<^item> The generated deep copies (\<open>zz_generated.deepcopy.go\<close>): values of the model are immutable.
  \<^item> Logging, and the registration of Go types with a scheme in \<open>init\<close> functions: neither has an
    effect that other code of the repository sees.
  \<^item> The controller runtime: queueing, leader election, caches. \<open>SetupWithManager\<close> is modelled as
    the kinds it asks the runtime to watch; \<open>main_run\<close> takes the runtime's answers as an
    argument. That a result with \<open>Requeue\<close> leads to another pass is what \<open>drive\<close> stands for.
  \<^item> Kubernetes itself: garbage collection by owner references, optimistic locking, admission. A
    refused update is an error like any other; in \<open>System\<close> any call may fail.
  \<^item> The convergence theorems cover a share that is not clustered, alone in its group, on an
    existing claim and outside OpenShift (\<open>in_scope\<close>). The theorems on deletion cover clustered and
    other shares, grouped or not, on OpenShift and elsewhere, in the situations of \<open>leaving\<close>: the
    objects to hand over are not being deleted themselves and their owners can be read, the
    document in the config map can be read and stored and lists no share twice, the share's
    fields are UTF-8, and on OpenShift the access objects have no finalizers of others. The
    theorems on a single pass and on \<open>System\<close> do not have these restrictions unless they say so.
  \<^item> Of the libraries: \<open>encoding/json\<close> reuses the elements of a slice when a member is repeated and
    has a limit on the depth, \<open>strings.ToUpper\<close> knows all of Unicode where the model maps ASCII
    letters, and \<open>mapstructure\<close> joins the errors of several fields where the model returns the first.
  \<^item> That reads are served from a cache which may be behind: convergence and deletion are stated for
    reads that are current; in \<open>System\<close> reads may be stale.
  \<^item> Tests and their helpers.

  \<^bold>\<open>Where code and intent differ.\<close> Proved with the property named: a nil map in an edited
  document makes every pass panic (\<open>Update_panics_iff\<close>), as does grouping shares of which one has
  no claim (\<open>CheckCompatible_panics\<close>) and a namespace without labels (\<open>namespace_labels_update\<close>);
  a custom option that contradicts a field of its share is rewritten for ever
  (\<open>Update_reaches_fixpoint\<close>); shares collide by group name or by SMB name (\<open>group_name_collision\<close>,
  \<open>share_name_collision\<close>); clustered servers mount the join secrets
  (\<open>clustered_join_secrets_mounted\<close>); \<open>minClusterSize\<close> is cut to 32 bits and never lowered
  (\<open>replica_bounds\<close>); a path with \<open>..\<close> leaves the mount (\<open>share_path_below_mount\<close>); service monitors
  are created but not watched (\<open>update_creates_owned\<close>); the operator may create events but not patch
  them (\<open>rbac_grants_all_but_event_patch\<close>); deleting a share takes the service account from the other
  shares of its namespace (\<open>deletion_takes_shared_access\<close>), and a finalization takes a failed read of
  such an object for its absence (\<open>finalizer_removed_last\<close>).
\<close>

end
